(* ===== verification/Json.thy ===== *)
theory Json
  imports Js_Std
begin

text \<open>
  \<^verbatim>\<open>JSON.stringify\<close> and \<^verbatim>\<open>JSON.parse\<close>. A JSON number is an integer, the only kind the
  program writes; a text with a fraction, an exponent or a character above U+00FF is not
  parsed. The round trip \<open>json_round_trip\<close> is what the sealed ownership challenges rely on.
\<close>

section \<open>Values and printing\<close>

datatype json = JNull | JBool bool | JNum int | JStr string | JArr "json list" | JObj "(string \<times> json) list"

definition hex_digit :: "nat \<Rightarrow> char" where
  "hex_digit n = char_of (if n < 10 then 48 + n else 87 + n)"

definition json_escape :: "char \<Rightarrow> string" where
  "json_escape c =
     (if c = CHR 0x22 \<or> c = CHR 0x5C then [CHR 0x5C, c]
      else if c = CHR 0x08 then [CHR 0x5C, CHR ''b''] else if c = CHR 0x09 then [CHR 0x5C, CHR ''t'']
      else if c = CHR 0x0A then [CHR 0x5C, CHR ''n''] else if c = CHR 0x0C then [CHR 0x5C, CHR ''f'']
      else if c = CHR 0x0D then [CHR 0x5C, CHR ''r'']
      else if of_char c < (32 :: nat)
      then [CHR 0x5C, CHR ''u'', CHR ''0'', CHR ''0'', hex_digit (of_char c div 16), hex_digit (of_char c mod 16)]
      else [c])"

definition json_string :: "string \<Rightarrow> string" where
  "json_string s = [CHR 0x22] @ concat (map json_escape s) @ [CHR 0x22]"

fun stringify :: "json \<Rightarrow> string"
  and stringify_elems :: "json list \<Rightarrow> string"
  and stringify_members :: "(string \<times> json) list \<Rightarrow> string" where
  "stringify JNull = ''null''"
| "stringify (JBool b) = (if b then ''true'' else ''false'')"
| "stringify (JNum i) = show_int i"
| "stringify (JStr s) = json_string s"
| "stringify (JArr vs) = ''['' @ stringify_elems vs @ '']''"
| "stringify (JObj ms) = ''{'' @ stringify_members ms @ ''}''"
| "stringify_elems [] = []"
| "stringify_elems [v] = stringify v"
| "stringify_elems (v # w # vs) = stringify v @ '','' @ stringify_elems (w # vs)"
| "stringify_members [] = []"
| "stringify_members [(k, v)] = json_string k @ '':'' @ stringify v"
| "stringify_members ((k, v) # m # ms) = json_string k @ '':'' @ stringify v @ '','' @ stringify_members (m # ms)"

section \<open>Parsing\<close>

definition json_space :: "char \<Rightarrow> bool" where
  "json_space c = (c = CHR '' '' \<or> c = CHR 0x09 \<or> c = CHR 0x0A \<or> c = CHR 0x0D)"

definition skip_ws :: "string \<Rightarrow> string" where
  "skip_ws s = dropWhile json_space s"

definition hex_value :: "char \<Rightarrow> nat option" where
  "hex_value c =
     (let n = (of_char c :: nat) in
      if 48 \<le> n \<and> n \<le> 57 then Some (n - 48)
      else if 97 \<le> n \<and> n \<le> 102 then Some (n - 87)
      else if 65 \<le> n \<and> n \<le> 70 then Some (n - 55) else None)"

definition simple_escape :: "char \<Rightarrow> char option" where
  "simple_escape c =
     (if c = CHR 0x22 \<or> c = CHR 0x5C \<or> c = CHR ''/'' then Some c
      else if c = CHR ''b'' then Some (CHR 0x08) else if c = CHR ''t'' then Some (CHR 0x09)
      else if c = CHR ''n'' then Some (CHR 0x0A) else if c = CHR ''f'' then Some (CHR 0x0C)
      else if c = CHR ''r'' then Some (CHR 0x0D) else None)"

definition unicode_escape :: "string \<Rightarrow> char option" where
  "unicode_escape h =
     (case map hex_value h of
        [Some a, Some b, Some c, Some d] \<Rightarrow> if a = 0 \<and> b = 0 then Some (char_of (16 * c + d)) else None
      | _ \<Rightarrow> None)"

text \<open>One character of a string literal, and what is left of the text.\<close>

definition parse_char :: "string \<Rightarrow> (char \<times> string) option" where
  "parse_char s =
     (case s of
        [] \<Rightarrow> None
      | c # r \<Rightarrow>
          if c \<noteq> CHR 0x5C then (if of_char c < (32 :: nat) then None else Some (c, r))
          else (case r of
                  [] \<Rightarrow> None
                | x # r' \<Rightarrow>
                    if x = CHR ''u'' then map_option (\<lambda>y. (y, drop 4 r')) (unicode_escape (take 4 r'))
                    else map_option (\<lambda>y. (y, r')) (simple_escape x)))"

fun parse_chars :: "nat \<Rightarrow> string \<Rightarrow> (string \<times> string) option" where
  "parse_chars 0 s = None"
| "parse_chars (Suc n) s =
     (if s \<noteq> [] \<and> hd s = CHR 0x22 then Some ([], tl s)
      else case parse_char s of
             None \<Rightarrow> None
           | Some (c, r) \<Rightarrow> map_option (\<lambda>(cs, r'). (c # cs, r')) (parse_chars n r))"

text \<open>Digits without a leading zero; a fraction or an exponent is not parsed.\<close>

definition parse_nat :: "string \<Rightarrow> (int \<times> string) option" where
  "parse_nat s =
     (let ds = takeWhile is_digit s; r = dropWhile is_digit s in
      if ds = [] \<or> (hd ds = CHR ''0'' \<and> tl ds \<noteq> []) \<or> (r \<noteq> [] \<and> hd r \<in> {CHR ''.'', CHR ''e'', CHR ''E''}) then None
      else Some (digits_value ds, r))"

definition parse_number :: "string \<Rightarrow> (json \<times> string) option" where
  "parse_number s =
     (if s \<noteq> [] \<and> hd s = CHR ''-'' then map_option (\<lambda>(i, r). (JNum (- i), r)) (parse_nat (tl s))
      else map_option (\<lambda>(i, r). (JNum i, r)) (parse_nat s))"

definition parse_word :: "string \<Rightarrow> json \<Rightarrow> string \<Rightarrow> (json \<times> string) option" where
  "parse_word name v s = (if startsWith s name then Some (v, drop (length name) s) else None)"

text \<open>The fuel bounds the depth of the recursion; the length of the text is enough.\<close>

fun parse_value :: "nat \<Rightarrow> string \<Rightarrow> (json \<times> string) option"
  and parse_elems :: "nat \<Rightarrow> string \<Rightarrow> (json list \<times> string) option"
  and parse_members :: "nat \<Rightarrow> string \<Rightarrow> ((string \<times> json) list \<times> string) option" where
  "parse_value 0 s = None"
| "parse_value (Suc n) s =
     (let t = skip_ws s in
      case t of
        [] \<Rightarrow> None
      | c # r \<Rightarrow>
          if c = CHR ''n'' then parse_word ''null'' JNull t
          else if c = CHR ''t'' then parse_word ''true'' (JBool True) t
          else if c = CHR ''f'' then parse_word ''false'' (JBool False) t
          else if c = CHR 0x22 then map_option (\<lambda>(cs, r'). (JStr cs, r')) (parse_chars (length t) r)
          else if c = CHR ''['' then
            (if skip_ws r \<noteq> [] \<and> hd (skip_ws r) = CHR '']'' then Some (JArr [], tl (skip_ws r))
             else map_option (\<lambda>(vs, r'). (JArr vs, r')) (parse_elems n r))
          else if c = CHR ''{'' then
            (if skip_ws r \<noteq> [] \<and> hd (skip_ws r) = CHR ''}'' then Some (JObj [], tl (skip_ws r))
             else map_option (\<lambda>(ms, r'). (JObj ms, r')) (parse_members n r))
          else parse_number t)"
| "parse_elems 0 s = None"
| "parse_elems (Suc n) s =
     (case parse_value n s of
        None \<Rightarrow> None
      | Some (v, r) \<Rightarrow>
          (case skip_ws r of
             [] \<Rightarrow> None
           | c # r' \<Rightarrow> if c = CHR '','' then map_option (\<lambda>(vs, r''). (v # vs, r'')) (parse_elems n r')
                        else if c = CHR '']'' then Some ([v], r') else None))"
| "parse_members 0 s = None"
| "parse_members (Suc n) s =
     (let t = skip_ws s in
      if t = [] \<or> hd t \<noteq> CHR 0x22 then None
      else case parse_chars (length t) (tl t) of
             None \<Rightarrow> None
           | Some (k, r0) \<Rightarrow>
               let u = skip_ws r0 in
               if u = [] \<or> hd u \<noteq> CHR '':'' then None
               else case parse_value n (tl u) of
                      None \<Rightarrow> None
                    | Some (v, r) \<Rightarrow>
                        (case skip_ws r of
                           [] \<Rightarrow> None
                         | c # r' \<Rightarrow> if c = CHR '','' then map_option (\<lambda>(ms, r''). ((k, v) # ms, r'')) (parse_members n r')
                                      else if c = CHR ''}'' then Some ([(k, v)], r') else None))"

text \<open>\<^verbatim>\<open>JSON.parse(text)\<close>; \<open>None\<close> is the \<^verbatim>\<open>SyntaxError\<close>.\<close>

definition json_parse :: "string \<Rightarrow> json option" where
  "json_parse s = (case parse_value (Suc (length s)) s of
     Some (v, r) \<Rightarrow> if skip_ws r = [] then Some v else None
   | None \<Rightarrow> None)"

text \<open>\<^verbatim>\<open>value[name]\<close>: the last member of that name; \<open>None\<close> is \<^verbatim>\<open>undefined\<close>.\<close>

definition json_member :: "json \<Rightarrow> string \<Rightarrow> json option" where
  "json_member v name = (case v of JObj ms \<Rightarrow> map_of (rev ms) name | _ \<Rightarrow> None)"

section \<open>Numbers read back\<close>

lemma decimal_digit [simp]: "k < 10 \<Longrightarrow> is_digit (char_of (48 + k))" for k :: nat
  by (simp add: is_digit_def)

lemma decimal_zero: "k < 10 \<Longrightarrow> char_of (48 + k) = CHR ''0'' \<longleftrightarrow> k = 0" for k :: nat
proof -
  assume k: "k < 10"
  have "of_char (char_of (48 + k)) = 48 + k" using k by simp
  moreover have "of_char (CHR ''0'') = (48 :: nat)" by simp
  ultimately have "char_of (48 + k) = CHR ''0'' \<Longrightarrow> 48 + k = 48" by metis
  moreover have "char_of (of_char (CHR ''0'') :: nat) = CHR ''0''" by (rule char_of_char)
  ultimately show ?thesis by auto
qed

lemma is_digit_minus: "\<not> is_digit (CHR ''-'')"
  by (simp add: is_digit_def)

lemma show_nat_digits: "list_all is_digit (show_nat n)"
  by (induction n rule: show_nat.induct) (subst show_nat.simps, simp)

lemma show_nat_nonempty [simp]: "show_nat n \<noteq> []"
  by (subst show_nat.simps) simp

lemma show_nat_step: "10 \<le> n \<Longrightarrow> show_nat n = show_nat (n div 10) @ [char_of (48 + n mod 10)]"
  by (subst show_nat.simps) simp

lemma show_nat_one: "n < 10 \<Longrightarrow> show_nat n = [char_of (48 + n)]"
  by (subst show_nat.simps) simp

lemma digits_value_append: "digits_value (s @ [c]) = 10 * digits_value s + (int (of_char c) - 48)"
  by (simp add: digits_value_def)

lemma digits_value_show_nat: "digits_value (show_nat n) = int n"
proof (induction n rule: show_nat.induct)
  case (1 n)
  show ?case
  proof (cases "n < 10")
    case True
    then show ?thesis by (simp add: show_nat_one digits_value_def)
  next
    case False
    have "10 * int (n div 10) + int (n mod 10) = int n" by (metis mult_div_mod_eq of_nat_add of_nat_mult of_nat_numeral)
    then show ?thesis using 1 [OF False] False by (simp add: show_nat_step digits_value_append)
  qed
qed

lemma show_nat_head: "0 < n \<Longrightarrow> hd (show_nat n) \<noteq> CHR ''0''"
proof (induction n rule: show_nat.induct)
  case (1 n)
  show ?case
  proof (cases "n < 10")
    case True
    with 1 show ?thesis by (simp add: show_nat_one decimal_zero)
  next
    case False
    then have "0 < n div 10" by linarith
    with 1 False show ?thesis by (simp add: show_nat_step)
  qed
qed

lemma show_nat_canonical: "\<not> (hd (show_nat n) = CHR ''0'' \<and> tl (show_nat n) \<noteq> [])"
proof (cases "n = 0")
  case True
  then show ?thesis by (simp add: show_nat_one)
next
  case False
  then show ?thesis by (simp add: show_nat_head)
qed

text \<open>What follows a number in a text that was printed.\<close>

definition ends_number :: "string \<Rightarrow> bool" where
  "ends_number r \<longleftrightarrow> r = [] \<or> hd r \<in> {CHR '','', CHR '']'', CHR ''}''}"

lemma ends_number_not_digit: "ends_number (c # r) \<Longrightarrow> \<not> is_digit c \<and> c \<notin> {CHR ''.'', CHR ''e'', CHR ''E''}"
  by (auto simp: ends_number_def is_digit_def)

lemma parse_nat_show: "ends_number r \<Longrightarrow> parse_nat (show_nat n @ r) = Some (int n, r)"
proof -
  assume r: "ends_number r"
  have "takeWhile is_digit (show_nat n @ r) = show_nat n \<and> dropWhile is_digit (show_nat n @ r) = r"
    using show_nat_digits [of n] ends_number_not_digit r
    by (cases r) (auto simp: list_all_iff takeWhile_append dropWhile_append)
  moreover have "r \<noteq> [] \<Longrightarrow> hd r \<notin> {CHR ''.'', CHR ''e'', CHR ''E''}" using r ends_number_not_digit by (cases r) auto
  ultimately show ?thesis using show_nat_canonical [of n] by (auto simp: parse_nat_def Let_def digits_value_show_nat)
qed

lemma parse_number_show: "ends_number r \<Longrightarrow> parse_number (show_int i @ r) = Some (JNum i, r)"
proof -
  assume r: "ends_number r"
  have "is_digit (hd (show_nat n))" for n using show_nat_digits [of n] by (cases "show_nat n") auto
  then have "hd (show_nat n) \<noteq> CHR ''-''" for n by (metis is_digit_minus)
  with r show ?thesis by (simp add: parse_number_def show_int_def parse_nat_show)
qed

section \<open>Strings read back\<close>

lemma hex_value_digit: "n < 16 \<Longrightarrow> hex_value (hex_digit n) = Some n"
  by (simp add: hex_value_def hex_digit_def Let_def)

lemma hex_value_zero: "hex_value (CHR ''0'') = Some 0"
  by (simp add: hex_value_def)

lemma unicode_escape_control:
  "n < 256 \<Longrightarrow> unicode_escape [CHR ''0'', CHR ''0'', hex_digit (n div 16), hex_digit (n mod 16)] = Some (char_of n)" for n :: nat
  by (simp add: unicode_escape_def hex_value_zero hex_value_digit)

lemma parse_char_escape: "parse_char (json_escape c @ r) = Some (c, r)"
proof (cases "c \<in> {CHR 0x22, CHR 0x5C, CHR 0x08, CHR 0x09, CHR 0x0A, CHR 0x0C, CHR 0x0D}")
  case True
  then show ?thesis by (elim insertE emptyE) (simp_all add: json_escape_def parse_char_def simple_escape_def)
next
  case False
  then show ?thesis
  proof (cases "of_char c < (32 :: nat)")
    case True
    with False unicode_escape_control [of "of_char c"] show ?thesis by (simp add: json_escape_def parse_char_def)
  qed (simp add: json_escape_def parse_char_def)
qed

lemma json_escape_head: "\<exists>x xs. json_escape c = x # xs \<and> x \<noteq> CHR 0x22"
  by (simp add: json_escape_def)

lemma parse_chars_escape:
  "length s < n \<Longrightarrow> parse_chars n (concat (map json_escape s) @ CHR 0x22 # r) = Some (s, r)"
proof (induction s arbitrary: n)
  case Nil
  then show ?case by (cases n) simp_all
next
  case (Cons c s)
  then obtain m where n: "n = Suc m" "length s < m" by (cases n) auto
  obtain x xs where x: "json_escape c = x # xs" "x \<noteq> CHR 0x22" using json_escape_head by blast
  have "parse_chars n (concat (map json_escape (c # s)) @ CHR 0x22 # r) =
      (case parse_char (json_escape c @ concat (map json_escape s) @ CHR 0x22 # r) of None \<Rightarrow> None
       | Some (c, r) \<Rightarrow> map_option (\<lambda>(cs, r'). (c # cs, r')) (parse_chars m r))"
    using x by (simp add: n)
  with Cons.IH [OF n(2)] show ?case by (simp add: parse_char_escape)
qed

lemma escape_length: "length s \<le> length (concat (map json_escape s))"
proof (induction s)
  case (Cons c s)
  obtain x xs where "json_escape c = x # xs" using json_escape_head by blast
  with Cons show ?case by simp
qed simp

lemma escape_bound: "length (concat (map json_escape s)) \<le> 6 * length s"
proof (induction s)
  case (Cons c s)
  have "length (json_escape c) \<le> 6" by (simp add: json_escape_def)
  with Cons show ?case by simp
qed simp

lemma parse_chars_string:
  "length (concat (map json_escape s)) < n \<Longrightarrow> parse_chars n (concat (map json_escape s) @ CHR 0x22 # r) = Some (s, r)"
  using escape_length [of s] by (intro parse_chars_escape) linarith

section \<open>The round trip\<close>

lemma skip_ws_Cons [simp]: "\<not> json_space c \<Longrightarrow> skip_ws (c # s) = c # s"
  by (simp add: skip_ws_def)

lemma not_space [simp]:
  "\<not> json_space (CHR '','')" "\<not> json_space (CHR '':'')" "\<not> json_space (CHR ''['')" "\<not> json_space (CHR '']'')"
  "\<not> json_space (CHR ''{'')" "\<not> json_space (CHR ''}'')" "\<not> json_space (CHR 0x22)" "\<not> json_space (CHR ''n'')"
  "\<not> json_space (CHR ''t'')" "\<not> json_space (CHR ''f'')"
  by (simp_all add: json_space_def)

lemma show_int_head: "\<exists>c cs. show_int i = c # cs \<and> (c = CHR ''-'' \<or> is_digit c)"
proof -
  have "\<exists>c cs. show_nat n = c # cs \<and> is_digit c" for n
    using show_nat_digits [of n] by (cases "show_nat n") auto
  then show ?thesis by (fastforce simp: show_int_def)
qed

lemma number_char: "c = CHR ''-'' \<or> is_digit c \<Longrightarrow>
    \<not> json_space c \<and> c \<notin> {CHR ''n'', CHR ''t'', CHR ''f'', CHR 0x22, CHR ''['', CHR ''{'', CHR '']'', CHR ''}''}"
  by (auto simp: is_digit_def json_space_def)

lemma stringify_head: "\<exists>c cs. stringify v = c # cs \<and> \<not> json_space c \<and> c \<notin> {CHR '']'', CHR ''}''}"
proof (cases v)
  case (JNum i)
  obtain c cs where "show_int i = c # cs" "c = CHR ''-'' \<or> is_digit c" using show_int_head by blast
  with number_char [of c] JNum show ?thesis by simp
qed (simp_all add: json_string_def)

lemma stringify_elems_head:
  assumes "vs \<noteq> []"
  shows "\<exists>c cs. stringify_elems vs = c # cs \<and> \<not> json_space c \<and> c \<noteq> CHR '']''"
proof -
  obtain v ws where vs: "vs = v # ws" using assms by (cases vs) auto
  obtain c cs where "stringify v = c # cs" "\<not> json_space c" "c \<noteq> CHR '']''" using stringify_head [of v] by blast
  then show ?thesis by (cases ws) (simp_all add: vs)
qed

lemma stringify_members_head:
  assumes "ms \<noteq> []"
  shows "\<exists>cs. stringify_members ms = CHR 0x22 # cs"
proof -
  obtain k v ns where "ms = (k, v) # ns" using assms by (cases ms) auto
  then show ?thesis by (cases ns) (simp_all add: json_string_def)
qed

lemma parse_value_string:
  "parse_value (Suc n) (json_string s @ r) = Some (JStr s, r)"
  using parse_chars_string [of s "length (json_string s @ r)" r] by (simp add: json_string_def)

text \<open>Enough fuel for a value and for the lists inside it.\<close>

fun depth :: "json \<Rightarrow> nat" and depth_elems :: "json list \<Rightarrow> nat" and depth_members :: "(string \<times> json) list \<Rightarrow> nat" where
  "depth (JArr vs) = Suc (depth_elems vs)"
| "depth (JObj ms) = Suc (depth_members ms)"
| "depth v = 1"
| "depth_elems [] = 0"
| "depth_elems (v # vs) = Suc (depth v + depth_elems vs)"
| "depth_members [] = 0"
| "depth_members ((k, v) # ms) = Suc (depth v + depth_members ms)"

lemma ends_number_sep [simp]: "ends_number (CHR '','' # r)" "ends_number (CHR '']'' # r)" "ends_number (CHR ''}'' # r)"
  by (simp_all add: ends_number_def)

lemma parse_value_number: "ends_number r \<Longrightarrow> parse_value (Suc n) (show_int i @ r) = Some (JNum i, r)"
proof -
  assume r: "ends_number r"
  obtain c cs where c: "show_int i = c # cs" "c = CHR ''-'' \<or> is_digit c" using show_int_head by blast
  with number_char [of c] parse_number_show [OF r, of i] show ?thesis by simp
qed

text \<open>A list and an object around what is between their brackets, and the key of a member.\<close>

lemma parse_value_array:
  assumes "vs \<noteq> [] \<Longrightarrow> parse_elems m (stringify_elems vs @ CHR '']'' # r) = Some (vs, r)"
  shows "parse_value (Suc m) (stringify (JArr vs) @ r) = Some (JArr vs, r)"
proof (cases "vs = []")
  case False
  then obtain c cs where "stringify_elems vs = c # cs" "\<not> json_space c" "c \<noteq> CHR '']''"
    using stringify_elems_head by blast
  with assms False show ?thesis by simp
qed simp

lemma parse_value_object:
  assumes "ms \<noteq> [] \<Longrightarrow> parse_members m (stringify_members ms @ CHR ''}'' # r) = Some (ms, r)"
  shows "parse_value (Suc m) (stringify (JObj ms) @ r) = Some (JObj ms, r)"
proof (cases "ms = []")
  case False
  then obtain cs where "stringify_members ms = CHR 0x22 # cs" using stringify_members_head by blast
  with assms False show ?thesis by simp
qed simp

lemma parse_key: "parse_chars (length (json_string k @ t)) (concat (map json_escape k) @ CHR 0x22 # t) = Some (k, t)"
  by (rule parse_chars_string) (simp add: json_string_def)

lemma parse_value_stringify:
  "depth v \<le> n \<Longrightarrow> ends_number r \<Longrightarrow> parse_value n (stringify v @ r) = Some (v, r)"
  "vs \<noteq> [] \<Longrightarrow> depth_elems vs \<le> n \<Longrightarrow> parse_elems n (stringify_elems vs @ CHR '']'' # r) = Some (vs, r)"
  "ms \<noteq> [] \<Longrightarrow> depth_members ms \<le> n \<Longrightarrow> parse_members n (stringify_members ms @ CHR ''}'' # r) = Some (ms, r)"
proof (induction v and vs and ms arbitrary: n r and n r and n r rule: stringify_stringify_elems_stringify_members.induct)
  case 1
  then show ?case by (cases n) (simp_all add: parse_word_def)
next
  case (2 b)
  then show ?case by (cases n) (simp_all add: parse_word_def)
next
  case (3 i)
  then show ?case by (cases n) (simp_all del: parse_value.simps add: parse_value_number)
next
  case (4 s)
  then show ?case by (cases n) (simp_all del: parse_value.simps add: parse_value_string)
next
  case (5 vs)
  then obtain m where n: "n = Suc m" "depth_elems vs \<le> m" by (cases n) auto
  show ?case unfolding n(1) by (rule parse_value_array) (use 5(1) n(2) in blast)
next
  case (6 ms)
  then obtain m where n: "n = Suc m" "depth_members ms \<le> m" by (cases n) auto
  show ?case unfolding n(1) by (rule parse_value_object) (use 6(1) n(2) in blast)
next
  case (8 v)
  then obtain m where n: "n = Suc m" "depth v \<le> m" by (cases n) auto
  with 8(1) [OF n(2), of "CHR '']'' # r"] show ?case by simp
next
  case (9 v w vs)
  then obtain m where n: "n = Suc m" "depth v \<le> m" "depth_elems (w # vs) \<le> m" by (cases n) auto
  with 9(1) [OF n(2), of "CHR '','' # stringify_elems (w # vs) @ CHR '']'' # r"] 9(2) [OF _ n(3), of r] show ?case by simp
next
  case (11 k v)
  then obtain m where n: "n = Suc m" "depth v \<le> m" by (cases n) auto
  with parse_key [of k "CHR '':'' # stringify v @ CHR ''}'' # r"] 11(1) [OF n(2), of "CHR ''}'' # r"]
  show ?case by (simp add: json_string_def)
next
  case (12 k v m ms)
  then obtain i where n: "n = Suc i" "depth v \<le> i" "depth_members (m # ms) \<le> i" by (cases n) auto
  let ?t = "stringify_members (m # ms) @ CHR ''}'' # r"
  from n(1) parse_key [of k "CHR '':'' # stringify v @ CHR '','' # ?t"] 12(1) [OF n(2), of "CHR '','' # ?t"] 12(2) [OF _ n(3), of r]
  show ?case by (simp add: json_string_def)
qed simp_all

lemma depth_bound:
  "depth v \<le> length (stringify v)" "depth_elems vs \<le> Suc (length (stringify_elems vs))"
  "depth_members ms \<le> Suc (length (stringify_members ms))"
proof (induction v and vs and ms rule: stringify_stringify_elems_stringify_members.induct)
  case (3 i)
  obtain c cs where "show_int i = c # cs" using show_int_head by blast
  then show ?case by simp
qed (simp_all add: json_string_def)

lemma json_round_trip: "json_parse (stringify v) = Some v"
  using parse_value_stringify(1) [of v "Suc (length (stringify v))" "[]"] depth_bound(1) [of v]
  by (simp add: json_parse_def ends_number_def skip_ws_def del: parse_value.simps)

end
