(* ===== verification/Schema.thy ===== *)
theory Schema
  imports Json
begin

text \<open>
  The data model: the enums and tables of \<^verbatim>\<open>prisma/schema.prisma\<close> as
  datatypes and records, the jobs of the two BullMQ queues, and the errors the
  program throws. A nullable column is an \<open>option\<close>; \<^verbatim>\<open>BigInt\<close> is \<open>int\<close>,
  \<^verbatim>\<open>DateTime\<close> is milliseconds since the epoch, ids are strings. The record \<open>store\<close>
  collects the state the processes share: the PostgreSQL tables (lists of rows, in
  insertion order) and the jobs handed to the queues.
\<close>

section \<open>Enums\<close>

datatype transaction_status = PENDING | SUBMITTED | CONFIRMING | CONFIRMED | FAILED | EXPIRED

datatype role = ADMIN | USER | SERVICE

datatype custody_type = CUSTODIAL | EXTERNAL | LOCAL | KMS

datatype wallet_status = ACTIVE | SUSPENDED

datatype blockchain = EVM | BITCOIN | SOLANA

section \<open>Rows\<close>

record transaction =
  tx_id :: string
  tx_tenantId :: string
  tx_tokenId :: string
  tx_fromWalletId :: string
  tx_toWalletId :: string
  tx_txHash :: "string option"
  tx_amount :: int
  tx_nonce :: "int option"
  tx_gasUsed :: "int option"
  tx_blockNumber :: "int option"
  tx_status :: transaction_status
  tx_createdAt :: int
  tx_submittedAt :: "int option"
  tx_confirmationStartedAt :: "int option"
  tx_confirmedAt :: "int option"
  tx_failureReason :: "string option"
  tx_failedAt :: "int option"

record wallet =
  wa_id :: string
  wa_tenantId :: string
  wa_ownerId :: string
  wa_chainId :: int
  wa_address :: string
  wa_custodyType :: custody_type
  wa_status :: wallet_status
  wa_createdAt :: int

record wallet_custody_key =
  ck_id :: string
  ck_walletId :: string
  ck_encryptedKey :: string
  ck_kmsKeyId :: string

record token =
  tk_id :: string
  tk_name :: string
  tk_symbol :: string
  tk_contractAddress :: "string option"
  tk_blockchain :: blockchain
  tk_isActive :: bool
  tk_decimals :: int
  tk_lastProcessedBlock :: int
  tk_createdAt :: int

record token_event_cursor =
  cu_tokenId :: string
  cu_lastProcessedBlock :: int
  cu_lastProcessedLogIndex :: int
  cu_lastSuccessfulSync :: "int option"
  cu_lastFailedSync :: "int option"
  cu_failureCount :: int

record balance_snapshot =
  bs_id :: string
  bs_walletId :: string
  bs_tokenId :: string
  bs_balance :: int
  bs_blockNumber :: int

record token_transfer =
  tr_id :: string
  tr_tokenId :: string
  tr_from :: string
  tr_to :: string
  tr_amount :: int
  tr_transactionHash :: string
  tr_logIndex :: int
  tr_blockNumber :: int
  tr_createdAt :: int

text \<open>The payload of the one outbox event the program writes, \<^verbatim>\<open>transaction.confirmed\<close>.\<close>

record confirmed_payload =
  pl_transactionId :: string
  pl_tenantId :: string
  pl_tokenId :: string
  pl_txHash :: "string option"
  pl_blockNumber :: "string option"
  pl_amount :: string
  pl_confirmedAt :: "string option"

record outbox_event =
  ob_id :: string
  ob_aggregateId :: string
  ob_type :: string
  ob_payload :: confirmed_payload
  ob_published :: bool
  ob_publishedAt :: "int option"
  ob_createdAt :: int

record tenant =
  tn_id :: string
  tn_name :: string
  tn_createdAt :: int

record user =
  us_id :: string
  us_email :: string
  us_passwordHash :: string
  us_role :: role
  us_tenantId :: string
  us_createdAt :: int

record refresh_token =
  rt_id :: string
  rt_userId :: string
  rt_tokenHash :: string
  rt_createdAt :: int
  rt_expiresAt :: int
  rt_revokedAt :: "int option"

record api_key =
  ak_id :: string
  ak_tenantId :: string
  ak_keyHash :: string
  ak_keyPrefix :: string
  ak_name :: string
  ak_active :: bool
  ak_scopes :: "string list"
  ak_lastUsedAt :: "int option"
  ak_expiresAt :: "int option"
  ak_createdAt :: int
  ak_revokedAt :: "int option"

record audit_log =
  al_id :: string
  al_tenantId :: "string option"
  al_userId :: "string option"
  al_action :: string
  al_resource :: string
  al_resourceId :: "string option"
  al_metadata :: "json option"
  al_createdAt :: int

record idempotency_key =
  ik_id :: string
  ik_tenantId :: string
  ik_key :: string
  ik_requestHash :: string
  ik_transactionId :: "string option"
  ik_response :: "json option"
  ik_status :: string
  ik_createdAt :: int
  ik_expiresAt :: int

record scheduler_lease =
  ls_name :: string
  ls_ownerId :: string
  ls_expiresAt :: int

section \<open>Queue jobs\<close>

text \<open>
  What the program hands to BullMQ. The store keeps the requests in the order they were
  made; what BullMQ does with them (delivery, retries, ignoring a job id it already has)
  is its own code and not part of the model.
\<close>

record job_options =
  jo_jobId :: string
  jo_attempts :: nat
  jo_backoffDelay :: int
  jo_removeOnComplete :: bool
  jo_removeOnFail :: bool

record confirmation_job =
  cj_name :: string
  cj_transactionId :: string
  cj_tenantId :: string
  cj_options :: "job_options option"

record relay_job =
  rj_name :: string
  rj_outboxEventId :: string
  rj_aggregateId :: string
  rj_type :: string
  rj_payload :: confirmed_payload
  rj_jobId :: string

section \<open>The shared store\<close>

record store =
  transactions :: "transaction list"
  wallets :: "wallet list"
  custodyKeys :: "wallet_custody_key list"
  tokens :: "token list"
  cursors :: "token_event_cursor list"
  balances :: "balance_snapshot list"
  transfers :: "token_transfer list"
  outbox :: "outbox_event list"
  leases :: "scheduler_lease list"
  tenants :: "tenant list"
  users :: "user list"
  refreshTokens :: "refresh_token list"
  apiKeys :: "api_key list"
  auditLogs :: "audit_log list"
  idempotencyKeys :: "idempotency_key list"
  confirmQueue :: "confirmation_job list"
  relayQueue :: "relay_job list"

definition empty_store :: store where
  "empty_store = \<lparr> transactions = [], wallets = [], custodyKeys = [], tokens = [], cursors = [],
     balances = [], transfers = [], outbox = [], leases = [], tenants = [], users = [], refreshTokens = [],
     apiKeys = [], auditLogs = [], idempotencyKeys = [], confirmQueue = [], relayQueue = [] \<rparr>"

section \<open>Errors\<close>

text \<open>The Prisma error codes the sources name.\<close>

datatype db_error = P2002 | P2025

primrec db_error_code :: "db_error \<Rightarrow> string" where
  "db_error_code P2002 = ''P2002''"
| "db_error_code P2025 = ''P2025''"

text \<open>The subclasses of \<^verbatim>\<open>RpcError\<close>, each with its fixed \<^verbatim>\<open>retryable\<close> flag and \<^verbatim>\<open>reason\<close>.\<close>

datatype rpc_class =
  RpcTimeoutError | RpcNetworkError | RpcRateLimitError | RpcUnavailableError
| RpcRevertedError | RpcInvalidRequestError | RpcUnknownError

primrec retryable :: "rpc_class \<Rightarrow> bool" where
  "retryable RpcTimeoutError = True"
| "retryable RpcNetworkError = True"
| "retryable RpcRateLimitError = True"
| "retryable RpcUnavailableError = True"
| "retryable RpcRevertedError = False"
| "retryable RpcInvalidRequestError = False"
| "retryable RpcUnknownError = False"

primrec rpc_reason :: "rpc_class \<Rightarrow> string" where
  "rpc_reason RpcTimeoutError = ''timeout''"
| "rpc_reason RpcNetworkError = ''network''"
| "rpc_reason RpcRateLimitError = ''rate_limit''"
| "rpc_reason RpcUnavailableError = ''unavailable''"
| "rpc_reason RpcRevertedError = ''reverted''"
| "rpc_reason RpcInvalidRequestError = ''invalid_request''"
| "rpc_reason RpcUnknownError = ''unknown''"

text \<open>
  Everything a call can throw. \<open>Crashed\<close> stands for the process dying at that point:
  no \<^verbatim>\<open>catch\<close> sees it and no \<^verbatim>\<open>finally\<close> block runs.
\<close>

datatype exn =
    Crashed
  | PlainError string
  | NonError string
  | AppError int string string "(string \<times> string) list"
  | TransactionStateConflictError string transaction_status
  | InvalidTransactionTransitionError transaction_status transaction_status
  | TransactionPendingError string
  | PrismaKnownRequestError string string
  | RpcError rpc_class string
  | ZodError string
  | FastifyValidationError string

primrec status_name :: "transaction_status \<Rightarrow> string" where
  "status_name PENDING = ''PENDING''"
| "status_name SUBMITTED = ''SUBMITTED''"
| "status_name CONFIRMING = ''CONFIRMING''"
| "status_name CONFIRMED = ''CONFIRMED''"
| "status_name FAILED = ''FAILED''"
| "status_name EXPIRED = ''EXPIRED''"

primrec blockchain_name :: "blockchain \<Rightarrow> string" where
  "blockchain_name EVM = ''EVM''"
| "blockchain_name BITCOIN = ''BITCOIN''"
| "blockchain_name SOLANA = ''SOLANA''"

text \<open>\<^verbatim>\<open>error instanceof Error ? error.message : String(error)\<close>.\<close>

primrec exn_message :: "exn \<Rightarrow> string" where
  "exn_message Crashed = ''''"
| "exn_message (PlainError m) = m"
| "exn_message (NonError s) = s"
| "exn_message (AppError c k m d) = m"
| "exn_message (TransactionStateConflictError i s) =
     ''Transaction '' @ i @ '' is no longer in '' @ status_name s @ '' state''"
| "exn_message (InvalidTransactionTransitionError f t) =
     ''Invalid transaction state transition: '' @ status_name f @ '' -> '' @ status_name t"
| "exn_message (TransactionPendingError h) = ''Transaction '' @ h @ '' is still pending confirmation''"
| "exn_message (PrismaKnownRequestError c m) = m"
| "exn_message (RpcError k m) = m"
| "exn_message (ZodError m) = m"
| "exn_message (FastifyValidationError m) = m"

text \<open>The \<^verbatim>\<open>instanceof\<close> tests of the handlers.\<close>

definition is_state_conflict :: "exn \<Rightarrow> bool" where
  "is_state_conflict x = (case x of TransactionStateConflictError i s \<Rightarrow> True | _ \<Rightarrow> False)"

definition is_unique_violation :: "exn \<Rightarrow> bool" where
  "is_unique_violation x = (case x of PrismaKnownRequestError c m \<Rightarrow> c = ''P2002'' | _ \<Rightarrow> False)"

definition is_Error :: "exn \<Rightarrow> bool" where
  "is_Error x = (case x of NonError s \<Rightarrow> False | _ \<Rightarrow> True)"

text \<open>The factories of \<^verbatim>\<open>common/errors/errors.ts\<close> that the modelled services use.\<close>

definition walletNotFound :: "string option \<Rightarrow> exn" where
  "walletNotFound w = AppError 404 ''WALLET_NOT_FOUND'' ''Wallet not found''
     (case w of None \<Rightarrow> [] | Some i \<Rightarrow> if i = [] then [] else [(''walletId'', i)])"

definition walletNotCustodial :: "string option \<Rightarrow> exn" where
  "walletNotCustodial w = AppError 409 ''WALLET_NOT_CUSTODIAL'' ''Wallet not custodial''
     (case w of None \<Rightarrow> [] | Some i \<Rightarrow> if i = [] then [] else [(''walletId'', i)])"

definition tokenNotFound :: "string option \<Rightarrow> exn" where
  "tokenNotFound t = AppError 404 ''TOKEN_NOT_FOUND'' ''Token not found''
     (case t of None \<Rightarrow> [] | Some i \<Rightarrow> if i = [] then [] else [(''tokenId'', i)])"

definition unsupportedChain :: "int \<Rightarrow> exn" where
  "unsupportedChain c = AppError 400 ''UNSUPPORTED_CHAIN'' (''Unsupported chainId '' @ show_int c)
     [(''chainId'', show_int c)]"

definition unsupportedChainCapability :: "string \<Rightarrow> string \<Rightarrow> exn" where
  "unsupportedChainCapability capability chain =
     AppError 400 ''UNSUPPORTED_CHAIN_CAPABILITY'' (chain @ '' does not support '' @ capability)
       [(''capability'', capability), (''chain'', chain)]"

definition invalidAssetIdentifier :: "string \<Rightarrow> string \<Rightarrow> exn" where
  "invalidAssetIdentifier chain identifier =
     AppError 400 ''INVALID_ASSET_IDENTIFIER''
       ([CHR 0x27] @ identifier @ [CHR 0x27] @ '' is not a valid asset identifier for '' @ chain)
       [(''chain'', chain), (''identifier'', identifier)]"

definition walletTokenChainMismatch :: "int \<Rightarrow> string \<Rightarrow> exn" where
  "walletTokenChainMismatch walletChainId tokenBlockchain =
     AppError 400 ''WALLET_TOKEN_CHAIN_MISMATCH''
       (''Wallet (chainId '' @ show_int walletChainId @ '') is not on the same chain as the ''
          @ tokenBlockchain @ '' token'')
       [(''walletChainId'', show_int walletChainId), (''tokenBlockchain'', tokenBlockchain)]"

text \<open>The factories that no service calls; details are the members given, none of them when the argument is left out.\<close>

definition forbidden :: "string option \<Rightarrow> exn" where
  "forbidden m = AppError 403 ''FORBIDDEN'' (case m of None \<Rightarrow> ''Forbidden'' | Some x \<Rightarrow> x) []"

definition invalidSigner :: "string option \<Rightarrow> exn" where
  "invalidSigner m = AppError 403 ''FORBIDDEN'' (case m of None \<Rightarrow> ''Invalid signer'' | Some x \<Rightarrow> x) []"

definition validation_error :: "(string \<times> string) list \<Rightarrow> exn" where
  "validation_error details = AppError 400 ''VALIDATION_ERROR'' ''Validation failed'' details"

definition resourceNotFound :: "string \<Rightarrow> string option \<Rightarrow> exn" where
  "resourceNotFound resource i = AppError 404 (toUpperCase resource @ ''_NOT_FOUND'') (resource @ '' not found'')
     (case i of Some x \<Rightarrow> if x = [] then [] else [(''id'', x)] | None \<Rightarrow> [])"

definition transactionNotFound :: "string option \<Rightarrow> exn" where
  "transactionNotFound i = AppError 404 ''TRANSACTION_NOT_FOUND'' ''Transaction not found''
     (case i of Some x \<Rightarrow> if x = [] then [] else [(''transactionId'', x)] | None \<Rightarrow> [])"

definition tenantNotFound :: "string option \<Rightarrow> exn" where
  "tenantNotFound i = AppError 404 ''TENANT_NOT_FOUND'' ''Tenant not found''
     (case i of Some x \<Rightarrow> if x = [] then [] else [(''tenantId'', x)] | None \<Rightarrow> [])"

definition duplicate_error :: "string \<Rightarrow> (string \<times> string) list \<Rightarrow> exn" where
  "duplicate_error resource details = AppError 409 ''RESOURCE_ALREADY_EXISTS'' (resource @ '' already exists'') details"

definition invalidReference :: "(string \<times> string) list \<Rightarrow> exn" where
  "invalidReference details = AppError 400 ''INVALID_REFERENCE'' ''Invalid resource reference'' details"

definition blockchainError :: "string option \<Rightarrow> (string \<times> string) list \<Rightarrow> exn" where
  "blockchainError m details = AppError 502 ''BLOCKCHAIN_ERROR'' (case m of None \<Rightarrow> ''Blockchain operation failed'' | Some x \<Rightarrow> x) details"

definition internal_error :: "string option \<Rightarrow> exn" where
  "internal_error m = AppError 500 ''INTERNAL_ERROR'' (case m of None \<Rightarrow> ''Internal server error'' | Some x \<Rightarrow> x) []"

end
