(* ===== verification/Effects.thy ===== *)
theory Effects
  imports Schema
begin

text \<open>
  The prelude of the development: how an \<^verbatim>\<open>async\<close> method is modelled, and the
  reasoning the component theories share.

  A method is an \<open>'a eff\<close>: a function of an environment and a world that returns a
  value or the error it throws, and the world it leaves. The world holds the shared
  store and the process's own module-level state. Every \<^verbatim>\<open>await\<close> on a service outside
  the program (PostgreSQL, Redis, a chain node) is a numbered call, and the environment
  says, for each number,
  \<^item> what the other processes did to the store before the call took effect
    (\<open>env_interfere\<close>),
  \<^item> whether the service failed, before or after the request took effect, or the
    process died there (\<open>env_fault\<close>),
  \<^item> what the clock and the generator of ids returned (\<open>env_clock\<close>, \<open>env_uuid\<close>),
  \<^item> whether a timer that races the call fired first (\<open>env_timeout\<close>),
  and, for the process, the integer settings of its environment variables that are present (\<open>env_setting\<close>).
  A theorem for every environment is therefore a theorem for every crash point, every
  lost connection and every interleaving at the \<^verbatim>\<open>await\<close>s.

  The locale \<open>store_frame\<close> is the interface between a relation on stores (an invariant
  that is kept, a lifecycle that is respected) and the operations: it assumes only that
  the relation is a preorder, and gives one rule per construct of \<open>eff\<close>.
\<close>

section \<open>Environment and world\<close>

datatype fault = NoFault | FailBefore exn | FailAfter exn

record env =
  env_clock :: "nat \<Rightarrow> int"
  env_uuid :: "nat \<Rightarrow> string"
  env_fault :: "nat \<Rightarrow> fault"
  env_interfere :: "nat \<Rightarrow> store \<Rightarrow> store"
  env_timeout :: "nat \<Rightarrow> bool"
  env_dbMessage :: "db_error \<Rightarrow> string"
  env_setting :: "string \<Rightarrow> int option"

type_synonym metric = "string \<times> (string \<times> string) list"

record world =
  db :: store
  calls :: nat
  metrics :: "metric list"
  processingTokens :: "string list"
  learnedMaxBlockRange :: "int option"

type_synonym 'a eff = "env \<Rightarrow> world \<Rightarrow> (exn + 'a) \<times> world"

definition world_of :: "store \<Rightarrow> world" where
  "world_of d = \<lparr> db = d, calls = 0, metrics = [], processingTokens = [], learnedMaxBlockRange = None \<rparr>"

text \<open>An environment in which this process is alone and no service fails.\<close>

definition quiet :: "env \<Rightarrow> bool" where
  "quiet e \<longleftrightarrow> env_fault e = (\<lambda>_. NoFault) \<and> env_interfere e = (\<lambda>_ d. d) \<and> env_timeout e = (\<lambda>_. False)"

definition calm :: "(nat \<Rightarrow> int) \<Rightarrow> (nat \<Rightarrow> string) \<Rightarrow> env" where
  "calm clk ids = \<lparr> env_clock = clk, env_uuid = ids, env_fault = (\<lambda>_. NoFault),
     env_interfere = (\<lambda>_ d. d), env_timeout = (\<lambda>_. False), env_dbMessage = db_error_code,
     env_setting = (\<lambda>_. None) \<rparr>"

section \<open>Control flow\<close>

definition returnE :: "'a \<Rightarrow> 'a eff" where
  "returnE a = (\<lambda>e w. (Inr a, w))"

definition throwE :: "exn \<Rightarrow> 'a eff" where
  "throwE x = (\<lambda>e w. (Inl x, w))"

definition bindE :: "'a eff \<Rightarrow> ('a \<Rightarrow> 'b eff) \<Rightarrow> 'b eff" where
  "bindE m f = (\<lambda>e w. case m e w of (Inl x, w') \<Rightarrow> (Inl x, w') | (Inr a, w') \<Rightarrow> f a e w')"

text \<open>\<^verbatim>\<open>try { m } catch (x) { h x }\<close>: every error but the death of the process is caught.\<close>

definition catchE :: "'a eff \<Rightarrow> (exn \<Rightarrow> 'a eff) \<Rightarrow> 'a eff" where
  "catchE m h = (\<lambda>e w. case m e w of
       (Inl x, w') \<Rightarrow> (if x = Crashed then (Inl x, w') else h x e w')
     | (Inr a, w') \<Rightarrow> (Inr a, w'))"

text \<open>\<^verbatim>\<open>try { m } finally { f }\<close>: an error of \<^verbatim>\<open>f\<close> replaces the outcome of \<^verbatim>\<open>m\<close>.\<close>

definition finallyE :: "'a eff \<Rightarrow> unit eff \<Rightarrow> 'a eff" where
  "finallyE m f = (\<lambda>e w. case m e w of (r, w') \<Rightarrow>
       (if r = Inl Crashed then (r, w')
        else case f e w' of (Inl x, w'') \<Rightarrow> (Inl x, w'') | (Inr _, w'') \<Rightarrow> (r, w'')))"

text \<open>\<^verbatim>\<open>for (const x of xs) await f(x)\<close>.\<close>

fun forE :: "'a list \<Rightarrow> ('a \<Rightarrow> unit eff) \<Rightarrow> unit eff" where
  "forE [] f = returnE ()"
| "forE (x # xs) f = bindE (f x) (\<lambda>_. forE xs f)"

fun mapE :: "('a \<Rightarrow> 'b eff) \<Rightarrow> 'a list \<Rightarrow> 'b list eff" where
  "mapE f [] = returnE []"
| "mapE f (x # xs) = bindE (f x) (\<lambda>y. bindE (mapE f xs) (\<lambda>ys. returnE (y # ys)))"

section \<open>Effects\<close>

text \<open>\<^verbatim>\<open>new Date()\<close> and \<^verbatim>\<open>Date.now()\<close>.\<close>

definition getNow :: "int eff" where
  "getNow = (\<lambda>e w. (Inr (env_clock e (calls w)), w\<lparr>calls := Suc (calls w)\<rparr>))"

definition randomUUID :: "string eff" where
  "randomUUID = (\<lambda>e w. (Inr (env_uuid e (calls w)), w\<lparr>calls := Suc (calls w)\<rparr>))"

text \<open>The store as the next call finds it: after whatever the other processes did.\<close>

definition arrive :: "env \<Rightarrow> world \<Rightarrow> world" where
  "arrive e w = w\<lparr>calls := Suc (calls w), db := env_interfere e (calls w) (db w)\<rparr>"

text \<open>
  One request to a service that holds part of the store: one SQL statement, one queue
  command. It is atomic; it may be refused by a constraint; the connection may fail
  before or after it took effect.
\<close>

definition statement :: "(store \<Rightarrow> db_error + 'a \<times> store) \<Rightarrow> 'a eff" where
  "statement f = (\<lambda>e w. let w1 = arrive e w in
     case env_fault e (calls w) of
       FailBefore x \<Rightarrow> (Inl x, w1)
     | FailAfter x \<Rightarrow> (Inl x, case f (db w1) of Inl c \<Rightarrow> w1 | Inr (a, d) \<Rightarrow> w1\<lparr>db := d\<rparr>)
     | NoFault \<Rightarrow> (case f (db w1) of
           Inl c \<Rightarrow> (Inl (PrismaKnownRequestError (db_error_code c) (env_dbMessage e c)), w1)
         | Inr (a, d) \<Rightarrow> (Inr a, w1\<lparr>db := d\<rparr>)))"

definition query :: "(store \<Rightarrow> 'a) \<Rightarrow> 'a eff" where
  "query f = statement (\<lambda>d. Inr (f d, d))"

text \<open>
  A request to a chain node or to another library: its answer is a parameter, which may
  depend on the number of the call and so on the moment it is made. It does not touch
  the store.
\<close>

definition external :: "(nat \<Rightarrow> exn + 'a) \<Rightarrow> 'a eff" where
  "external g = (\<lambda>e w. (g (calls w), arrive e w))"

text \<open>
  \<^verbatim>\<open>prisma.$transaction(async (tx) => ...)\<close>: the statements of the body run as one
  atomic block on the state found at its start; an error rolls them back, and so may the
  commit.
\<close>

definition isolated :: "env \<Rightarrow> env" where
  "isolated e = e\<lparr>env_interfere := (\<lambda>_ d. d)\<rparr>"

definition db_transaction :: "'a eff \<Rightarrow> 'a eff" where
  "db_transaction m = (\<lambda>e w. let w1 = arrive e w in
     case m (isolated e) w1 of
       (Inl x, w2) \<Rightarrow> (Inl x, w2\<lparr>db := db w1\<rparr>)
     | (Inr a, w2) \<Rightarrow> (case env_fault e (calls w2) of
           NoFault \<Rightarrow> (Inr a, w2\<lparr>calls := Suc (calls w2)\<rparr>)
         | FailBefore x \<Rightarrow> (Inl x, w2\<lparr>calls := Suc (calls w2), db := db w1\<rparr>)
         | FailAfter x \<Rightarrow> (Inl x, w2\<lparr>calls := Suc (calls w2)\<rparr>)))"

text \<open>\<^verbatim>\<open>incrementMetric(counter, labels)\<close>, which never throws.\<close>

definition incrementMetric :: "string \<Rightarrow> (string \<times> string) list \<Rightarrow> unit eff" where
  "incrementMetric name labels = (\<lambda>e w. (Inr (), w\<lparr>metrics := metrics w @ [(name, labels)]\<rparr>))"

text \<open>\<^verbatim>\<open>gauge.set(labels, value)\<close> and \<^verbatim>\<open>counter.inc(n)\<close>: the record carries the value.\<close>

definition setGauge :: "string \<Rightarrow> (string \<times> string) list \<Rightarrow> int \<Rightarrow> unit eff" where
  "setGauge name labels x = incrementMetric name (labels @ [(''value'', show_int x)])"

definition incrementMetricBy :: "string \<Rightarrow> nat \<Rightarrow> unit eff" where
  "incrementMetricBy name n = incrementMetric name [(''value'', show_nat n)]"

section \<open>Evaluation under a quiet environment\<close>

named_theorems eff_simps "unfolding of the control flow of effects"
named_theorems keeps_intros "rules that follow the shape of an operation"

lemmas control_defs [eff_simps] = returnE_def throwE_def bindE_def catchE_def finallyE_def

lemma quiet_calm [simp]: "quiet (calm clk ids)"
  by (simp add: quiet_def calm_def)

lemma calm_fields [simp]:
  "env_clock (calm clk ids) = clk" "env_uuid (calm clk ids) = ids" "env_interfere (calm clk ids) = (\<lambda>_ d. d)"
  "env_setting (calm clk ids) = (\<lambda>_. None)"
  by (simp_all add: calm_def)

lemma world_of_simps [simp]:
  "db (world_of d) = d" "calls (world_of d) = 0" "metrics (world_of d) = []" "processingTokens (world_of d) = []"
  "learnedMaxBlockRange (world_of d) = None"
  by (simp_all add: world_of_def)

lemma quiet_isolated [simp]: "quiet e \<Longrightarrow> quiet (isolated e)"
  by (simp add: quiet_def isolated_def)

lemma isolated_fields [simp]:
  "env_clock (isolated e) = env_clock e" "env_uuid (isolated e) = env_uuid e"
  "env_fault (isolated e) = env_fault e" "env_interfere (isolated e) = (\<lambda>_ d. d)"
  "env_dbMessage (isolated e) = env_dbMessage e" "env_timeout (isolated e) = env_timeout e" "env_setting (isolated e) = env_setting e"
  "isolated (isolated e) = isolated e"
  by (simp_all add: isolated_def)

lemma quiet_isolated_eq: "quiet e \<Longrightarrow> isolated e = e"
  by (simp add: quiet_def isolated_def)

lemma arrive_quiet: "quiet e \<Longrightarrow> arrive e w = w\<lparr>calls := Suc (calls w)\<rparr>"
  by (simp add: arrive_def quiet_def)

lemma arrive_fields [simp]:
  "calls (arrive e w) = Suc (calls w)" "metrics (arrive e w) = metrics w"
  "processingTokens (arrive e w) = processingTokens w"
  "learnedMaxBlockRange (arrive e w) = learnedMaxBlockRange w"
  "db (arrive e w) = env_interfere e (calls w) (db w)"
  by (simp_all add: arrive_def)

lemma statement_quiet:
  "quiet e \<Longrightarrow> statement f e w = (case f (db w) of
      Inl c \<Rightarrow> (Inl (PrismaKnownRequestError (db_error_code c) (env_dbMessage e c)), w\<lparr>calls := Suc (calls w)\<rparr>)
    | Inr (a, d) \<Rightarrow> (Inr a, w\<lparr>calls := Suc (calls w), db := d\<rparr>))"
  by (auto simp: statement_def arrive_def quiet_def Let_def split: sum.splits)

lemma query_quiet: "quiet e \<Longrightarrow> query f e w = (Inr (f (db w)), w\<lparr>calls := Suc (calls w)\<rparr>)"
  by (simp add: query_def statement_quiet)

lemma external_quiet: "quiet e \<Longrightarrow> external g e w = (g (calls w), w\<lparr>calls := Suc (calls w)\<rparr>)"
  by (simp add: external_def arrive_quiet)

lemma db_transaction_quiet:
  "quiet e \<Longrightarrow> db_transaction m e w = (case m e (w\<lparr>calls := Suc (calls w)\<rparr>) of
      (Inl x, w2) \<Rightarrow> (Inl x, w2\<lparr>db := db w\<rparr>)
    | (Inr a, w2) \<Rightarrow> (Inr a, w2\<lparr>calls := Suc (calls w2)\<rparr>))"
  by (auto simp: db_transaction_def arrive_quiet quiet_isolated_eq Let_def split: prod.splits sum.splits)
    (simp add: quiet_def)

lemmas quiet_simps = statement_quiet query_quiet external_quiet db_transaction_quiet
  getNow_def randomUUID_def incrementMetric_def

section \<open>Successful runs\<close>

lemma bindE_Inr: "bindE m f e w = (Inr b, w') \<longleftrightarrow> (\<exists>a w1. m e w = (Inr a, w1) \<and> f a e w1 = (Inr b, w'))"
  by (auto simp: bindE_def split: prod.splits sum.splits)

lemma bindE_Inl: "bindE m f e w = (Inl x, w') \<longleftrightarrow>
    m e w = (Inl x, w') \<or> (\<exists>a w1. m e w = (Inr a, w1) \<and> f a e w1 = (Inl x, w'))"
  by (auto simp: bindE_def split: prod.splits sum.splits)

text \<open>An operation whose errors are logged and swallowed.\<close>

lemma swallowed: "catchE m (\<lambda>_. returnE c) e w = (Inl x, w') \<Longrightarrow> x = Crashed"
  by (auto simp: catchE_def returnE_def split: prod.splits sum.splits if_splits)

lemma returnE_Inr: "returnE a e w = (Inr b, w') \<longleftrightarrow> b = a \<and> w' = w"
  by (auto simp: returnE_def)

lemma returnE_Inl [simp]: "returnE a e w \<noteq> (Inl x, w')"
  by (simp add: returnE_def)

lemma throwE_Inr [simp]: "throwE x e w \<noteq> (Inr b, w')"
  by (simp add: throwE_def)

lemma getNow_Inr: "getNow e w = (Inr a, w') \<Longrightarrow> db w' = db w"
  by (auto simp: getNow_def)

lemma uuid_Inr: "randomUUID e w = (Inr a, w') \<Longrightarrow> db w' = db w"
  by (auto simp: randomUUID_def)

text \<open>Inside a transaction nobody else moves the store.\<close>

lemma statement_isolated:
  "statement f (isolated e) w = (Inr a, w') \<Longrightarrow> f (db w) = Inr (a, db w')"
  by (auto simp: statement_def Let_def arrive_def split: fault.splits sum.splits)

lemma query_isolated: "query f (isolated e) w = (Inr a, w') \<Longrightarrow> a = f (db w) \<and> db w' = db w"
  by (auto simp: query_def dest!: statement_isolated)

section \<open>What an operation returns\<close>

text \<open>Whatever the operation returns, when it returns, satisfies the predicate.\<close>

definition yields :: "('a \<Rightarrow> bool) \<Rightarrow> 'a eff \<Rightarrow> bool" where
  "yields Q m \<longleftrightarrow> (\<forall>e w a w'. m e w = (Inr a, w') \<longrightarrow> Q a)"

lemma yieldsD: "yields Q m \<Longrightarrow> m e w = (Inr a, w') \<Longrightarrow> Q a"
  by (auto simp: yields_def)

lemma yields_return: "Q a \<Longrightarrow> yields Q (returnE a)"
  by (simp add: yields_def returnE_def)

lemma yields_throw: "yields Q (throwE x)"
  by (simp add: yields_def throwE_def)

lemma yields_bind: "(\<And>a. yields Q (f a)) \<Longrightarrow> yields Q (bindE m f)"
  unfolding yields_def bindE_def by (fastforce split: prod.splits sum.splits)

lemma yields_if: "(b \<Longrightarrow> yields Q m) \<Longrightarrow> (\<not> b \<Longrightarrow> yields Q m') \<Longrightarrow> yields Q (if b then m else m')"
  by simp

lemma yields_case_option:
  "yields Q m \<Longrightarrow> (\<And>a. yields Q (f a)) \<Longrightarrow> yields Q (case x of None \<Rightarrow> m | Some a \<Rightarrow> f a)"
  by (cases x) simp_all

lemma yields_query: "(\<And>d. Q (f d)) \<Longrightarrow> yields Q (query f)"
  by (auto simp: yields_def query_def statement_def Let_def split: fault.splits)

lemmas yields_intros = yields_return yields_throw yields_bind yields_if yields_case_option

section \<open>Operations that only read\<close>

text \<open>The operation comes to an end, with a value or an error, and leaves the store as it was.\<close>

definition readonly :: "env \<Rightarrow> 'a eff \<Rightarrow> bool" where
  "readonly e m \<longleftrightarrow> (\<forall>w. fst (m e w) \<noteq> Inl Crashed \<and> db (snd (m e w)) = db w)"

lemma readonly_return: "readonly e (returnE a)"
  by (simp add: readonly_def returnE_def)

lemma readonly_throw: "x \<noteq> Crashed \<Longrightarrow> readonly e (throwE x)"
  by (simp add: readonly_def throwE_def)

lemma readonly_query: "quiet e \<Longrightarrow> readonly e (query f)"
  by (simp add: readonly_def query_quiet)

lemma readonly_external: "quiet e \<Longrightarrow> (\<And>n. g n \<noteq> Inl Crashed) \<Longrightarrow> readonly e (external g)"
  by (simp add: readonly_def external_quiet)

lemma readonly_bind: "readonly e m \<Longrightarrow> (\<And>a. readonly e (f a)) \<Longrightarrow> readonly e (bindE m f)"
  unfolding readonly_def bindE_def by (auto split: prod.splits sum.splits) (metis fst_conv snd_conv)+

lemma readonly_if: "(b \<Longrightarrow> readonly e m) \<Longrightarrow> (\<not> b \<Longrightarrow> readonly e m') \<Longrightarrow> readonly e (if b then m else m')"
  by simp

lemma readonly_case_option:
  "(x = None \<Longrightarrow> readonly e m) \<Longrightarrow> (\<And>a. x = Some a \<Longrightarrow> readonly e (f a)) \<Longrightarrow>
   readonly e (case x of None \<Rightarrow> m | Some a \<Rightarrow> f a)"
  by (cases x) simp_all

lemmas readonly_intros = readonly_return readonly_throw readonly_query readonly_bind readonly_if readonly_case_option

lemma readonly_caught:
  "readonly e m \<Longrightarrow> \<exists>r w'. catchE m (\<lambda>_. returnE c) e w = (Inr r, w') \<and> db w' = db w"
  unfolding readonly_def by (cases "m e w") (auto simp: catchE_def returnE_def split: sum.splits dest: spec [of _ w])

section \<open>What an operation keeps\<close>

text \<open>The operation relates the store it starts from to the one it leaves, whatever its outcome.\<close>

definition keeps :: "(store \<Rightarrow> store \<Rightarrow> bool) \<Rightarrow> env \<Rightarrow> 'a eff \<Rightarrow> bool" where
  "keeps R e m \<longleftrightarrow> (\<forall>w. R (db w) (db (snd (m e w))))"

text \<open>The other processes respect the relation too.\<close>

definition rely :: "(store \<Rightarrow> store \<Rightarrow> bool) \<Rightarrow> env \<Rightarrow> bool" where
  "rely R e \<longleftrightarrow> (\<forall>n d. R d (env_interfere e n d))"

text \<open>One statement, run to its end, stays within the relation.\<close>

definition safe_statement :: "(store \<Rightarrow> store \<Rightarrow> bool) \<Rightarrow> (store \<Rightarrow> db_error + 'a \<times> store) \<Rightarrow> bool" where
  "safe_statement R f \<longleftrightarrow> (\<forall>d a d'. f d = Inr (a, d') \<longrightarrow> R d d')"

lemma keepsI: "(\<And>w. R (db w) (db (snd (m e w)))) \<Longrightarrow> keeps R e m"
  by (simp add: keeps_def)

lemma keepsD: "keeps R e m \<Longrightarrow> m e w = (r, w') \<Longrightarrow> R (db w) (db w')"
  by (metis keeps_def snd_conv)

lemma keeps_snd: "keeps R e m \<Longrightarrow> R (db w) (db (snd (m e w)))"
  by (simp add: keeps_def)

lemma safe_statementI: "(\<And>d a d'. f d = Inr (a, d') \<Longrightarrow> R d d') \<Longrightarrow> safe_statement R f"
  by (simp add: safe_statement_def)

locale store_frame =
  fixes R :: "store \<Rightarrow> store \<Rightarrow> bool"
  assumes frame_refl: "R d d"
    and frame_trans: "R a b \<Longrightarrow> R b c \<Longrightarrow> R a c"
begin

lemma keeps_return [keeps_intros]: "keeps R e (returnE a)"
  by (simp add: keeps_def returnE_def frame_refl)

lemma keeps_throw [keeps_intros]: "keeps R e (throwE x)"
  by (simp add: keeps_def throwE_def frame_refl)

lemma keeps_bind [keeps_intros]:
  assumes m: "keeps R e m" and f: "\<And>a. keeps R e (f a)"
  shows "keeps R e (bindE m f)"
proof (rule keepsI)
  fix w :: world
  obtain r w' where r: "m e w = (r, w')" by fastforce
  with m have 1: "R (db w) (db w')" by (rule keepsD)
  show "R (db w) (db (snd (bindE m f e w)))"
  proof (cases r)
    case (Inl x)
    with r 1 show ?thesis by (simp add: bindE_def)
  next
    case (Inr a)
    from f have "R (db w') (db (snd (f a e w')))" by (rule keeps_snd)
    with 1 have "R (db w) (db (snd (f a e w')))" by (rule frame_trans)
    with r Inr show ?thesis by (simp add: bindE_def)
  qed
qed

text \<open>The rest of an operation may use what is known about the value it was given.\<close>

lemma keeps_bind_yields:
  assumes "keeps R e m" "yields Q m" "\<And>a. Q a \<Longrightarrow> keeps R e (f a)"
  shows "keeps R e (bindE m f)"
proof -
  have "keeps R e (if Q a then f a else throwE Crashed)" for a
    by (cases "Q a") (simp_all add: assms(3) keeps_throw)
  then have k: "keeps R e (bindE m (\<lambda>a. if Q a then f a else throwE Crashed))" by (rule keeps_bind [OF assms(1)])
  have "bindE m (\<lambda>a. if Q a then f a else throwE Crashed) e w = bindE m f e w" for w
    using yieldsD [OF assms(2)] by (auto simp: bindE_def split: prod.splits sum.splits)
  with k show ?thesis by (simp add: keeps_def)
qed

lemma keeps_catch [keeps_intros]:
  assumes m: "keeps R e m" and h: "\<And>x. keeps R e (h x)"
  shows "keeps R e (catchE m h)"
proof (rule keepsI)
  fix w :: world
  obtain r w' where r: "m e w = (r, w')" by fastforce
  with m have 1: "R (db w) (db w')" by (rule keepsD)
  have "R (db w') (db (snd (h x e w')))" for x using h by (rule keeps_snd)
  with 1 have "R (db w) (db (snd (h x e w')))" for x by (blast intro: frame_trans)
  with r 1 show "R (db w) (db (snd (catchE m h e w)))" by (auto simp: catchE_def split: sum.splits)
qed

lemma keeps_finally [keeps_intros]:
  assumes m: "keeps R e m" and f: "keeps R e f"
  shows "keeps R e (finallyE m f)"
proof (rule keepsI)
  fix w :: world
  obtain r w' where r: "m e w = (r, w')" by fastforce
  with m have 1: "R (db w) (db w')" by (rule keepsD)
  have "R (db w') (db (snd (f e w')))" using f by (rule keeps_snd)
  with 1 have "R (db w) (db (snd (f e w')))" by (rule frame_trans)
  with r 1 show "R (db w) (db (snd (finallyE m f e w)))"
    by (auto simp: finallyE_def split: sum.splits prod.splits)
qed

lemma keeps_if [keeps_intros]:
  "(b \<Longrightarrow> keeps R e m) \<Longrightarrow> (\<not> b \<Longrightarrow> keeps R e m') \<Longrightarrow> keeps R e (if b then m else m')"
  by simp

lemma keeps_case_option [keeps_intros]:
  "(x = None \<Longrightarrow> keeps R e m) \<Longrightarrow> (\<And>a. x = Some a \<Longrightarrow> keeps R e (f a)) \<Longrightarrow> keeps R e (case x of None \<Rightarrow> m | Some a \<Rightarrow> f a)"
  by (cases x) simp_all

lemma keeps_let [keeps_intros]: "(\<And>x. x = t \<Longrightarrow> keeps R e (f x)) \<Longrightarrow> keeps R e (let x = t in f x)"
  by (simp add: Let_def)

lemma keeps_for [keeps_intros]: "(\<And>x. keeps R e (f x)) \<Longrightarrow> keeps R e (forE xs f)"
  by (induction xs) (auto intro: keeps_return keeps_bind)

lemma keeps_map [keeps_intros]: "(\<And>x. keeps R e (f x)) \<Longrightarrow> keeps R e (mapE f xs)"
  by (induction xs) (auto intro: keeps_return keeps_bind)

lemma keeps_getNow [keeps_intros]: "keeps R e getNow"
  by (simp add: keeps_def getNow_def frame_refl)

lemma keeps_uuid [keeps_intros]: "keeps R e randomUUID"
  by (simp add: keeps_def randomUUID_def frame_refl)

lemma keeps_metric [keeps_intros]: "keeps R e (incrementMetric n l)"
  by (simp add: keeps_def incrementMetric_def frame_refl)

lemma keeps_gauge [keeps_intros]: "keeps R e (setGauge n l x)" "keeps R e (incrementMetricBy n k)"
  by (simp_all add: setGauge_def incrementMetricBy_def keeps_metric)

lemma keeps_statement:
  assumes "rely R e" "safe_statement R f"
  shows "keeps R e (statement f)"
proof (rule keepsI)
  fix w :: world
  let ?d = "env_interfere e (calls w) (db w)"
  have 1: "R (db w) ?d" using assms(1) by (simp add: rely_def)
  have "R (db w) d" if "f ?d = Inr (a, d)" for a d
    using that assms(2) 1 by (auto simp: safe_statement_def intro: frame_trans)
  with 1 show "R (db w) (db (snd (statement f e w)))"
    by (auto simp: statement_def Let_def split: fault.splits sum.splits)
qed

lemma safe_query: "safe_statement R (\<lambda>d. Inr (f d, d))"
  by (simp add: safe_statement_def frame_refl)

lemma keeps_query [keeps_intros]: "rely R e \<Longrightarrow> keeps R e (query f)"
  by (simp add: query_def keeps_statement safe_query)

lemma keeps_external [keeps_intros]: "rely R e \<Longrightarrow> keeps R e (external g)"
  by (simp add: keeps_def external_def rely_def)

lemma rely_isolated [keeps_intros]: "rely R (isolated e)"
  by (simp add: rely_def frame_refl)

text \<open>A transaction whose committed runs stay within the relation; an abandoned one leaves no trace.\<close>

lemma keeps_transaction:
  assumes rely: "rely R e"
    and commit: "\<And>w a w'. m (isolated e) w = (Inr a, w') \<Longrightarrow> R (db w) (db w')"
  shows "keeps R e (db_transaction m)"
proof (rule keepsI)
  fix w :: world
  obtain r w' where r: "m (isolated e) (arrive e w) = (r, w')" by fastforce
  have 1: "R (db w) (db (arrive e w))" using rely by (simp add: rely_def)
  moreover have "R (db w) (db w')" if "r = Inr a" for a
    using commit r that 1 by (blast intro: frame_trans)
  ultimately show "R (db w) (db (snd (db_transaction m e w)))"
    using r by (auto simp: db_transaction_def Let_def split: sum.splits fault.splits)
qed

lemma keeps_transaction_body:
  "rely R e \<Longrightarrow> keeps R (isolated e) m \<Longrightarrow> keeps R e (db_transaction m)"
  by (auto intro: keeps_transaction dest: keepsD)

end

text \<open>
  An operation started where \<open>S\<close> holds stays within the relation, and what it returns is
  related by \<open>Q\<close> to the store it leaves. A fact survives the interference before a
  statement when it is stable under the relation.
\<close>

definition stable :: "(store \<Rightarrow> store \<Rightarrow> bool) \<Rightarrow> (store \<Rightarrow> bool) \<Rightarrow> bool" where
  "stable R S \<longleftrightarrow> (\<forall>d d'. R d d' \<longrightarrow> S d \<longrightarrow> S d')"

definition ensures ::
  "(store \<Rightarrow> bool) \<Rightarrow> (store \<Rightarrow> store \<Rightarrow> bool) \<Rightarrow> env \<Rightarrow> 'a eff \<Rightarrow> ('a \<Rightarrow> store \<Rightarrow> bool) \<Rightarrow> bool" where
  "ensures S R e m Q \<longleftrightarrow> (\<forall>w. S (db w) \<longrightarrow>
     (case m e w of (r, w') \<Rightarrow> R (db w) (db w') \<and> (\<forall>a. r = Inr a \<longrightarrow> Q a (db w'))))"

lemma ensures_keeps: "ensures (\<lambda>_. True) R e m (\<lambda>_ _. True) \<longleftrightarrow> keeps R e m"
  by (simp add: ensures_def keeps_def case_prod_beta)

lemma ensuresD: "ensures S R e m Q \<Longrightarrow> S (db w) \<Longrightarrow> m e w = (Inr a, w') \<Longrightarrow> Q a (db w')"
  unfolding ensures_def by (metis (mono_tags, lifting) old.prod.case)

lemma ensures_mono: "ensures S R e m Q \<Longrightarrow> (\<And>a d. Q a d \<Longrightarrow> Q' a d) \<Longrightarrow> ensures S R e m Q'"
  unfolding ensures_def by (fastforce split: prod.splits)

context store_frame
begin

lemma ensures_frame: "keeps R e m \<Longrightarrow> stable R S \<Longrightarrow> ensures S R e m (\<lambda>_. S)"
  unfolding ensures_def stable_def keeps_def case_prod_beta by blast

lemma ensures_return: "(\<And>d. S d \<Longrightarrow> Q a d) \<Longrightarrow> ensures S R e (returnE a) Q"
  by (simp add: ensures_def returnE_def frame_refl)

lemma ensures_throw: "ensures S R e (throwE x) Q"
  by (simp add: ensures_def throwE_def frame_refl)

lemma ensures_pure: "(P \<Longrightarrow> ensures S R e m Q) \<Longrightarrow> ensures (\<lambda>d. S d \<and> P) R e m Q"
  by (simp add: ensures_def)

lemma ensures_case_option:
  "(x = None \<Longrightarrow> ensures S R e m Q) \<Longrightarrow> (\<And>a. x = Some a \<Longrightarrow> ensures S R e (f a) Q) \<Longrightarrow>
   ensures S R e (case x of None \<Rightarrow> m | Some a \<Rightarrow> f a) Q"
  by (cases x) simp_all

lemma ensures_if:
  "(b \<Longrightarrow> ensures S R e m Q) \<Longrightarrow> (\<not> b \<Longrightarrow> ensures S R e m' Q) \<Longrightarrow> ensures S R e (if b then m else m') Q"
  by simp

lemma ensures_bind:
  assumes m: "ensures S R e m T" and f: "\<And>a. ensures (T a) R e (f a) Q"
  shows "ensures S R e (bindE m f) Q"
  unfolding ensures_def
proof (intro allI impI)
  fix w :: world assume "S (db w)"
  obtain r w' where r: "m e w = (r, w')" by fastforce
  with m \<open>S (db w)\<close> have 1: "R (db w) (db w')" and T: "\<And>a. r = Inr a \<Longrightarrow> T a (db w')"
    unfolding ensures_def by fastforce+
  show "case bindE m f e w of (r, w') \<Rightarrow> R (db w) (db w') \<and> (\<forall>a. r = Inr a \<longrightarrow> Q a (db w'))"
  proof (cases r)
    case (Inl x)
    with r 1 show ?thesis by (simp add: bindE_def)
  next
    case (Inr a)
    obtain r2 w2 where f2: "f a e w' = (r2, w2)" by fastforce
    with f [of a] T [OF Inr] have "R (db w') (db w2)" "\<And>b. r2 = Inr b \<Longrightarrow> Q b (db w2)"
      unfolding ensures_def by fastforce+
    with r Inr f2 1 show ?thesis by (auto simp: bindE_def intro: frame_trans)
  qed
qed

lemma ensures_catch:
  assumes m: "ensures S R e m (\<lambda>_ _. True)" and h: "\<And>x. keeps R e (h x)"
  shows "ensures S R e (catchE m h) (\<lambda>_ _. True)"
  unfolding ensures_def
proof (intro allI impI)
  fix w :: world assume "S (db w)"
  obtain r w' where r: "m e w = (r, w')" by fastforce
  with m \<open>S (db w)\<close> have 1: "R (db w) (db w')" unfolding ensures_def by fastforce
  have "R (db w') (db (snd (h x e w')))" for x using h by (rule keeps_snd)
  with 1 have "R (db w) (db (snd (h x e w')))" for x by (blast intro: frame_trans)
  with r 1 show "case catchE m h e w of (r, w') \<Rightarrow> R (db w) (db w') \<and> (\<forall>a. r = Inr a \<longrightarrow> True)"
    by (cases r) (auto simp: catchE_def case_prod_beta)
qed

lemma ensures_statement:
  assumes "rely R e" "stable R S"
    and step: "\<And>d a d'. S d \<Longrightarrow> f d = Inr (a, d') \<Longrightarrow> R d d' \<and> Q a d'"
  shows "ensures S R e (statement f) Q"
  unfolding ensures_def
proof (intro allI impI)
  fix w :: world assume S: "S (db w)"
  let ?d = "env_interfere e (calls w) (db w)"
  have 1: "R (db w) ?d" using assms(1) by (simp add: rely_def)
  with S assms(2) have "S ?d" by (simp add: stable_def)
  then have "R (db w) d \<and> Q a d" if "f ?d = Inr (a, d)" for a d
    using step that 1 by (blast intro: frame_trans)
  with 1 show "case statement f e w of (r, w') \<Rightarrow> R (db w) (db w') \<and> (\<forall>a. r = Inr a \<longrightarrow> Q a (db w'))"
    by (auto simp: statement_def Let_def split: fault.splits sum.splits)
qed

lemma ensures_query:
  assumes "rely R e" "stable R S" "\<And>d. S d \<Longrightarrow> Q (f d) d"
  shows "ensures S R e (query f) Q"
  unfolding query_def using assms by (auto intro!: ensures_statement frame_refl)

end

text \<open>Relations of the form \<^emph>\<open>the invariant is kept\<close> are preorders, and so are conjunctions of preorders.\<close>

definition kept :: "(store \<Rightarrow> bool) \<Rightarrow> store \<Rightarrow> store \<Rightarrow> bool" where
  "kept I d d' \<longleftrightarrow> (I d \<longrightarrow> I d')"

interpretation kept: store_frame "kept I" for I
  by unfold_locales (auto simp: kept_def)

lemma store_frame_conj:
  "store_frame R \<Longrightarrow> store_frame S \<Longrightarrow> store_frame (\<lambda>d d'. R d d' \<and> S d d')"
  unfolding store_frame_def by blast

end
