(* ===== verification/Chains.thy ===== *)
theory Chains
  imports Effects
begin

text \<open>
  Which chain a wallet lives on, and when two spellings of an address are the same
  address: \<^verbatim>\<open>blockchain/chain-ids.ts\<close>, \<^verbatim>\<open>blockchain/evm/chain.ts\<close>,
  \<^verbatim>\<open>blockchain/wallet-address.ts\<close> and \<^verbatim>\<open>blockchain/token-identifier.ts\<close>. The
  configured EVM chain id is an argument \<open>evm\<close>, the value \<open>getEvmChainId\<close> returned at
  start-up; viem's \<^verbatim>\<open>isAddress\<close> and the \<^verbatim>\<open>PublicKey\<close> of the Solana library are parameters.
\<close>

section \<open>Chain ids\<close>

definition ANVIL_CHAIN_ID :: int where "ANVIL_CHAIN_ID = 31337"

definition BITCOIN_REGTEST_CHAIN_ID :: int where "BITCOIN_REGTEST_CHAIN_ID = 18444"

definition SOLANA_LOCALNET_CHAIN_ID :: int where "SOLANA_LOCALNET_CHAIN_ID = 900"

lemmas chain_id_defs = ANVIL_CHAIN_ID_def BITCOIN_REGTEST_CHAIN_ID_def SOLANA_LOCALNET_CHAIN_ID_def

definition RESERVED_CHAIN_IDS :: "int list" where
  "RESERVED_CHAIN_IDS = [BITCOIN_REGTEST_CHAIN_ID, SOLANA_LOCALNET_CHAIN_ID]"

text \<open>The regular expression \<^verbatim>\<open>/^[1-9]\d*$/\<close>.\<close>

definition positive_decimal :: "string \<Rightarrow> bool" where
  "positive_decimal s = (case s of [] \<Rightarrow> False | c # cs \<Rightarrow> is_digit c \<and> c \<noteq> CHR ''0'' \<and> list_all is_digit cs)"

text \<open>\<open>getEvmChainId\<close> on the value of the variable \<^verbatim>\<open>EVM_CHAIN_ID\<close>.\<close>

definition getEvmChainId :: "string option \<Rightarrow> exn + int" where
  "getEvmChainId var =
     (let raw = map_option trim var in
      case raw of
        None \<Rightarrow> Inr ANVIL_CHAIN_ID
      | Some s \<Rightarrow>
          if s = [] then Inr ANVIL_CHAIN_ID
          else if \<not> positive_decimal s \<or> digits_value s > MAX_SAFE_INTEGER then
            Inl (PlainError (''Invalid EVM_CHAIN_ID \"'' @ s @ ''\": expected a positive integer''))
          else if digits_value s \<in> set RESERVED_CHAIN_IDS then
            Inl (PlainError (''Invalid EVM_CHAIN_ID '' @ show_int (digits_value s)
              @ '': collides with a reserved non-EVM chain id''))
          else Inr (digits_value s))"

definition isEvmChainId :: "int \<Rightarrow> int \<Rightarrow> bool" where
  "isEvmChainId evm chainId = (chainId = evm)"

definition blockchainForChainId :: "int \<Rightarrow> int \<Rightarrow> blockchain option" where
  "blockchainForChainId evm chainId =
     (if isEvmChainId evm chainId then Some EVM
      else if chainId = BITCOIN_REGTEST_CHAIN_ID then Some BITCOIN
      else if chainId = SOLANA_LOCALNET_CHAIN_ID then Some SOLANA
      else None)"

section \<open>Wallet addresses\<close>

definition isCaseInsensitiveWalletAddress :: "int \<Rightarrow> int \<Rightarrow> string \<Rightarrow> bool" where
  "isCaseInsensitiveWalletAddress evm chainId address =
     (if isEvmChainId evm chainId then True
      else if chainId = BITCOIN_REGTEST_CHAIN_ID then startsWith (toLowerCase address) ''bcrt1''
      else False)"

definition normalizeWalletAddress :: "int \<Rightarrow> int \<Rightarrow> string \<Rightarrow> string" where
  "normalizeWalletAddress evm chainId address =
     (if isCaseInsensitiveWalletAddress evm chainId address then toLowerCase address else address)"

text \<open>\<^verbatim>\<open>/^bcrt1[ac-hj-np-z02-9]{8,87}$/i\<close> and \<^verbatim>\<open>/^[mn2][1-9A-HJ-NP-Za-km-z]{25,39}$/\<close>.\<close>

definition bech32_chars :: string where
  "bech32_chars = ''acdefghjklmnpqrstuvwxyz023456789''"

definition base58_chars :: string where
  "base58_chars = ''123456789ABCDEFGHJKLMNPQRSTUVWXYZabcdefghijkmnopqrstuvwxyz''"

definition bech32_regtest :: "string \<Rightarrow> bool" where
  "bech32_regtest address =
     (let a = toLowerCase address; rest = drop 5 a
      in startsWith a ''bcrt1'' \<and> 8 \<le> length rest \<and> length rest \<le> 87 \<and>
         list_all (\<lambda>c. c \<in> set bech32_chars) rest)"

definition base58_regtest :: "string \<Rightarrow> bool" where
  "base58_regtest address =
     (case address of [] \<Rightarrow> False
      | c # rest \<Rightarrow> c \<in> set ''mn2'' \<and> 25 \<le> length rest \<and> length rest \<le> 39 \<and>
          list_all (\<lambda>x. x \<in> set base58_chars) rest)"

definition isBitcoinRegtestAddress :: "string \<Rightarrow> bool" where
  "isBitcoinRegtestAddress address =
     (if address = [] then False else bech32_regtest address \<or> base58_regtest address)"

text \<open>\<open>publicKey\<close>: the result of \<^verbatim>\<open>PublicKey.isOnCurve(new PublicKey(a))\<close>, which throws on a malformed key.\<close>

definition isSolanaAddress :: "(string \<Rightarrow> exn + bool) \<Rightarrow> string \<Rightarrow> bool" where
  "isSolanaAddress publicKey address =
     (if address = [] then False else case publicKey address of Inl x \<Rightarrow> False | Inr b \<Rightarrow> b)"

definition isValidWalletAddress ::
  "(string \<Rightarrow> bool) \<Rightarrow> (string \<Rightarrow> exn + bool) \<Rightarrow> int \<Rightarrow> int \<Rightarrow> string \<Rightarrow> bool" where
  "isValidWalletAddress isEvmAddress publicKey evm chainId address =
     (if isEvmChainId evm chainId then isEvmAddress address
      else if chainId = BITCOIN_REGTEST_CHAIN_ID then isBitcoinRegtestAddress address
      else if chainId = SOLANA_LOCALNET_CHAIN_ID then isSolanaAddress publicKey address
      else False)"

section \<open>Token identifiers\<close>

definition isCaseInsensitiveAssetIdentifier :: "blockchain \<Rightarrow> bool" where
  "isCaseInsensitiveAssetIdentifier b = (b = EVM)"

definition normalizeContractAddress :: "blockchain \<Rightarrow> string \<Rightarrow> string" where
  "normalizeContractAddress b contractAddress =
     (if isCaseInsensitiveAssetIdentifier b then toLowerCase contractAddress else contractAddress)"

section \<open>Lemmas\<close>

lemma getEvmChainId_accepts:
  assumes "getEvmChainId var = Inr evm"
  shows "evm \<noteq> BITCOIN_REGTEST_CHAIN_ID" "evm \<noteq> SOLANA_LOCALNET_CHAIN_ID"
  using assms
  by (auto simp: getEvmChainId_def Let_def RESERVED_CHAIN_IDS_def chain_id_defs split: option.splits if_splits)

lemma digits_value_step:
  "foldl (\<lambda>n c. 10 * n + (int (of_char c) - 48)) a s \<ge> a" if "0 \<le> a" "list_all is_digit s"
  using that
proof (induction s arbitrary: a)
  case Nil
  then show ?case by simp
next
  case (Cons c s)
  then have "48 \<le> (of_char c :: nat)" by (simp add: is_digit_def Let_def)
  then have d: "0 \<le> int (of_char c) - 48" by simp
  have "10 * a + (int (of_char c) - 48) \<le> foldl (\<lambda>n c. 10 * n + (int (of_char c) - 48)) (10 * a + (int (of_char c) - 48)) s"
    using Cons.prems d by (intro Cons.IH) auto
  with Cons.prems d show ?case by simp
qed

lemma digits_value_nonneg: "list_all is_digit s \<Longrightarrow> 0 \<le> digits_value s"
  using digits_value_step [of 0 s] by (simp add: digits_value_def)

lemma positive_decimal_pos:
  assumes "positive_decimal s"
  shows "1 \<le> digits_value s"
proof -
  from assms obtain c cs where s: "s = c # cs" "is_digit c" "c \<noteq> CHR ''0''" "list_all is_digit cs"
    by (auto simp: positive_decimal_def split: list.splits)
  have "(of_char c :: nat) \<noteq> 48"
  proof
    assume "(of_char c :: nat) = 48"
    then have "of_char c = (of_char (CHR ''0'') :: nat)" by simp
    with s(3) show False by (simp only: of_char_eq_iff)
  qed
  with s(2) have "1 \<le> int (of_char c) - 48" by (simp add: is_digit_def Let_def)
  with digits_value_step [of "int (of_char c) - 48" cs] s(1,4) show ?thesis
    by (simp add: digits_value_def)
qed

lemma normalize_case_class:
  "isCaseInsensitiveWalletAddress evm c (normalizeWalletAddress evm c a) = isCaseInsensitiveWalletAddress evm c a"
  by (simp add: normalizeWalletAddress_def isCaseInsensitiveWalletAddress_def)

lemma normalize_idem: "normalizeWalletAddress evm c (normalizeWalletAddress evm c a) = normalizeWalletAddress evm c a"
  using normalize_case_class [of evm c a]
  by (auto simp: normalizeWalletAddress_def)

lemma bech32_toLowerCase: "bech32_regtest (toLowerCase a) = bech32_regtest a"
  by (simp add: bech32_regtest_def)

end
