(* ===== verification/Tables.thy ===== *)
theory Tables
  imports Effects "HOL-Library.Product_Lexorder"
begin

text \<open>
  The meaning of the Prisma queries the repositories write, on a table given as the list
  of its rows: \<^verbatim>\<open>findUnique\<close>/\<^verbatim>\<open>findFirst\<close>, \<^verbatim>\<open>findMany\<close> with \<^verbatim>\<open>orderBy\<close>,
  \<^verbatim>\<open>skip\<close> and \<^verbatim>\<open>take\<close>, \<^verbatim>\<open>updateMany\<close> and its count. Ordering is by a stable sort;
  SQL leaves the order of equal keys open, and no property below depends on it. The
  lemmas read a table as a partial function from keys to rows.
\<close>

section \<open>Queries\<close>

text \<open>The row with a given key: \<^verbatim>\<open>findUnique({ where: { key } })\<close>.\<close>

definition row :: "('r \<Rightarrow> 'k) \<Rightarrow> 'r list \<Rightarrow> 'k \<Rightarrow> 'r option" where
  "row key rs k = List.find (\<lambda>r. key r = k) rs"

text \<open>\<^verbatim>\<open>updateMany({ where, data })\<close>: the new rows and the number of rows matched.\<close>

definition update_rows :: "('r \<Rightarrow> bool) \<Rightarrow> ('r \<Rightarrow> 'r) \<Rightarrow> 'r list \<Rightarrow> 'r list" where
  "update_rows P f rs = map (\<lambda>r. if P r then f r else r) rs"

definition count_rows :: "('r \<Rightarrow> bool) \<Rightarrow> 'r list \<Rightarrow> nat" where
  "count_rows P rs = length (filter P rs)"

definition order_asc :: "('r \<Rightarrow> 'k::linorder) \<Rightarrow> 'r list \<Rightarrow> 'r list" where
  "order_asc k rs = sort_key k rs"

definition order_desc :: "('r \<Rightarrow> int) \<Rightarrow> 'r list \<Rightarrow> 'r list" where
  "order_desc k rs = sort_key (\<lambda>r. - k r) rs"

text \<open>PostgreSQL sorts nulls last in ascending order.\<close>

definition nulls_last :: "int option \<Rightarrow> bool \<times> int" where
  "nulls_last x = (case x of None \<Rightarrow> (True, 0) | Some i \<Rightarrow> (False, i))"

definition page_rows :: "int \<Rightarrow> int \<Rightarrow> 'r list \<Rightarrow> 'r list" where
  "page_rows page limit rs = take (nat limit) (drop (nat ((page - 1) * limit)) rs)"

text \<open>Primary and unique keys.\<close>

definition keyed :: "('r \<Rightarrow> 'k) \<Rightarrow> 'r list \<Rightarrow> bool" where
  "keyed key rs \<longleftrightarrow> distinct (map key rs)"

section \<open>Lemmas\<close>

lemma row_Nil [simp]: "row key [] k = None"
  by (simp add: row_def)

lemma row_Cons [simp]: "row key (r # rs) k = (if key r = k then Some r else row key rs k)"
  by (simp add: row_def)

lemma row_append: "row key (rs @ ss) k = (case row key rs k of None \<Rightarrow> row key ss k | Some r \<Rightarrow> Some r)"
  by (induction rs) auto

lemma row_SomeD: "row key rs k = Some r \<Longrightarrow> r \<in> set rs \<and> key r = k"
  by (induction rs) (auto split: if_splits)

lemma find_append: "List.find P (xs @ ys) = (case List.find P xs of None \<Rightarrow> List.find P ys | Some x \<Rightarrow> Some x)"
  by (induction xs) simp_all

lemma row_None_iff: "row key rs k = None \<longleftrightarrow> k \<notin> key ` set rs"
  by (induction rs) auto

lemma row_member: "keyed key rs \<Longrightarrow> r \<in> set rs \<Longrightarrow> row key rs (key r) = Some r"
  by (induction rs) (auto simp: keyed_def)

lemma row_update:
  assumes "\<And>r. P r \<Longrightarrow> key (f r) = key r"
  shows "row key (update_rows P f rs) k = map_option (\<lambda>r. if P r then f r else r) (row key rs k)"
  using assms by (induction rs) (auto simp: update_rows_def)

lemma keys_update: "(\<And>r. P r \<Longrightarrow> key (f r) = key r) \<Longrightarrow> map key (update_rows P f rs) = map key rs"
  by (induction rs) (auto simp: update_rows_def)

lemma keyed_update [simp]: "(\<And>r. P r \<Longrightarrow> key (f r) = key r) \<Longrightarrow> keyed key (update_rows P f rs) = keyed key rs"
  by (simp add: keyed_def keys_update)

text \<open>Replacing the row of one key.\<close>

lemma keyed_update_const: "key v = k \<Longrightarrow> keyed key (update_rows (\<lambda>r. key r = k) (\<lambda>_. v) rs) = keyed key rs"
  by (rule keyed_update) simp

lemma row_update_const:
  "key v = k \<Longrightarrow> row key (update_rows (\<lambda>r. key r = k) (\<lambda>_. v) rs) m =
     (if m = k then map_option (\<lambda>_. v) (row key rs k) else row key rs m)"
  by (induction rs) (auto simp: update_rows_def)

lemma keyed_append_one: "keyed key (rs @ [r]) \<longleftrightarrow> keyed key rs \<and> row key rs (key r) = None"
  by (auto simp: keyed_def row_None_iff)

lemma keyed_Nil [simp]: "keyed key []"
  by (simp add: keyed_def)

lemma row_filter_keyed:
  assumes "keyed key rs"
  shows "row key (filter P rs) k = (case row key rs k of None \<Rightarrow> None | Some r \<Rightarrow> if P r then Some r else None)"
  using assms
proof (induction rs)
  case Nil
  show ?case by simp
next
  case (Cons a rs)
  then have "key a \<notin> key ` set (filter P rs)" and IH: "row key (filter P rs) k =
      (case row key rs k of None \<Rightarrow> None | Some r \<Rightarrow> if P r then Some r else None)"
    by (auto simp: keyed_def)
  then have "row key (filter P rs) (key a) = None" by (simp add: row_None_iff)
  with IH show ?case by auto
qed

lemma filter_keyed:
  assumes "keyed key rs"
  shows "filter (\<lambda>r. key r = k \<and> Q r) rs = (case row key rs k of Some r \<Rightarrow> if Q r then [r] else [] | None \<Rightarrow> [])"
  using assms
proof (induction rs)
  case Nil
  show ?case by simp
next
  case (Cons a rs)
  then have IH: "filter (\<lambda>r. key r = k \<and> Q r) rs
      = (case row key rs k of Some r \<Rightarrow> if Q r then [r] else [] | None \<Rightarrow> [])"
    by (simp add: keyed_def)
  show ?case
  proof (cases "key a = k")
    case True
    with Cons.prems have "row key rs k = None" by (auto simp: keyed_def row_None_iff)
    with IH True show ?thesis by simp
  next
    case False
    with IH show ?thesis by simp
  qed
qed

lemma find_keyed:
  "keyed key rs \<Longrightarrow> List.find (\<lambda>r. key r = k \<and> Q r) rs =
     (case row key rs k of Some r \<Rightarrow> if Q r then Some r else None | None \<Rightarrow> None)"
proof (induction rs)
  case (Cons a rs)
  then have "row key rs (key a) = None" by (auto simp: keyed_def row_None_iff)
  with Cons show ?case by (auto simp: keyed_def)
qed simp

lemma count_keyed:
  "keyed key rs \<Longrightarrow>
     count_rows (\<lambda>r. key r = k \<and> Q r) rs = (case row key rs k of Some r \<Rightarrow> if Q r then 1 else 0 | None \<Rightarrow> 0)"
  by (simp add: count_rows_def filter_keyed split: option.splits)

lemma count_rows_pos: "0 < count_rows P rs \<longleftrightarrow> (\<exists>r \<in> set rs. P r)"
  by (auto simp: count_rows_def filter_empty_conv)

lemma count_rows_0: "count_rows P rs = 0 \<longleftrightarrow> (\<forall>r \<in> set rs. \<not> P r)"
  by (auto simp: count_rows_def filter_empty_conv)

lemma count_rows_update:
  "(\<And>r. P r \<Longrightarrow> Q (f r) = Q r) \<Longrightarrow> count_rows Q (update_rows P f rs) = count_rows Q rs"
  by (induction rs) (auto simp: count_rows_def update_rows_def)

lemma count_rows_append [simp]: "count_rows P (rs @ ss) = count_rows P rs + count_rows P ss"
  by (simp add: count_rows_def)

lemma count_rows_Nil [simp]: "count_rows P [] = 0"
  by (simp add: count_rows_def)

lemma count_rows_Cons [simp]: "count_rows P (r # rs) = (if P r then 1 else 0) + count_rows P rs"
  by (simp add: count_rows_def)

lemma update_rows_none: "count_rows P rs = 0 \<Longrightarrow> update_rows P f rs = rs"
  by (induction rs) (auto simp: count_rows_def update_rows_def split: if_splits)

lemma set_order_asc [simp]: "set (order_asc k rs) = set rs"
  by (simp add: order_asc_def)

lemma set_order_desc [simp]: "set (order_desc k rs) = set rs"
  by (simp add: order_desc_def)

lemma sorted_order_asc: "sorted (map k (order_asc k rs))"
  by (simp add: order_asc_def)

lemma in_set_takeD': "x \<in> set (take n xs) \<Longrightarrow> x \<in> set xs"
  by (rule in_set_takeD)

end
