(* ===== verification/Transaction_Machine.thy ===== *)
theory Transaction_Machine
  imports Effects
begin

text \<open>
  \<^verbatim>\<open>domain/transaction\<close>: the lifecycle of a transaction as an explicit state machine
  and the arithmetic of its confirmation timeout. The relation \<open>later_status\<close> is the
  specification the other components are held to: the reflexive transitive closure of
  the table of allowed transitions.
\<close>

section \<open>The state machine\<close>

primrec ALLOWED_TRANSITIONS :: "transaction_status \<Rightarrow> transaction_status list" where
  "ALLOWED_TRANSITIONS PENDING = [SUBMITTED, FAILED]"
| "ALLOWED_TRANSITIONS SUBMITTED = [CONFIRMING, EXPIRED]"
| "ALLOWED_TRANSITIONS CONFIRMING = [CONFIRMED, FAILED, EXPIRED]"
| "ALLOWED_TRANSITIONS CONFIRMED = []"
| "ALLOWED_TRANSITIONS FAILED = []"
| "ALLOWED_TRANSITIONS EXPIRED = []"

definition canTransition :: "transaction_status \<Rightarrow> transaction_status \<Rightarrow> bool" where
  "canTransition from to = (to \<in> set (ALLOWED_TRANSITIONS from))"

definition assertTransition :: "transaction_status \<Rightarrow> transaction_status \<Rightarrow> unit eff" where
  "assertTransition from to =
     (if \<not> canTransition from to then throwE (InvalidTransactionTransitionError from to) else returnE ())"

definition getAllowedTransitions :: "transaction_status \<Rightarrow> transaction_status list" where
  "getAllowedTransitions from = ALLOWED_TRANSITIONS from"

definition canExpire :: "transaction_status \<Rightarrow> bool" where
  "canExpire status = (status = SUBMITTED \<or> status = CONFIRMING)"

section \<open>Expiration\<close>

definition CONFIRMATION_TIMEOUT_MS :: int where
  "CONFIRMATION_TIMEOUT_MS = 5 * 60 * 1000"

definition isTransactionExpired :: "int \<Rightarrow> int \<Rightarrow> int \<Rightarrow> bool" where
  "isTransactionExpired submittedAt now timeoutMs = (now - submittedAt \<ge> timeoutMs)"

definition getTransactionExpirationTime :: "int \<Rightarrow> int \<Rightarrow> int" where
  "getTransactionExpirationTime submittedAt timeoutMs = submittedAt + timeoutMs"

section \<open>The specification: a status only ever moves forward\<close>

text \<open>The statuses from which the machine allows no step.\<close>

definition terminal_status :: "transaction_status \<Rightarrow> bool" where
  "terminal_status s \<longleftrightarrow> ALLOWED_TRANSITIONS s = []"

inductive later_status :: "transaction_status \<Rightarrow> transaction_status \<Rightarrow> bool" where
  same: "later_status s s"
| step: "later_status s t \<Longrightarrow> canTransition t u \<Longrightarrow> later_status s u"

text \<open>The distance of a status from the start, which every allowed transition increases.\<close>

primrec rank :: "transaction_status \<Rightarrow> nat" where
  "rank PENDING = 0"
| "rank SUBMITTED = 1"
| "rank CONFIRMING = 2"
| "rank CONFIRMED = 3"
| "rank FAILED = 3"
| "rank EXPIRED = 3"

lemma terminal_status_simps [simp]:
  "terminal_status CONFIRMED" "terminal_status FAILED" "terminal_status EXPIRED"
  "\<not> terminal_status PENDING" "\<not> terminal_status SUBMITTED" "\<not> terminal_status CONFIRMING"
  by (simp_all add: terminal_status_def)

lemma later_status_trans: "later_status s t \<Longrightarrow> later_status t u \<Longrightarrow> later_status s u"
  by (rotate_tac 1) (induction rule: later_status.induct, auto intro: later_status.step)

lemma later_status_single: "canTransition s t \<Longrightarrow> later_status s t"
  by (rule later_status.step [OF later_status.same])

lemma canTransition_rank: "canTransition s t \<Longrightarrow> rank s < rank t"
  by (cases s; cases t) (auto simp: canTransition_def)

lemma later_status_rank: "later_status s t \<Longrightarrow> s = t \<or> rank s < rank t"
  by (induction rule: later_status.induct) (auto dest: canTransition_rank)

lemma later_status_antisym: "later_status s t \<Longrightarrow> later_status t s \<Longrightarrow> s = t"
  using later_status_rank less_asym by metis

lemma terminal_later: "terminal_status s \<Longrightarrow> later_status s t \<Longrightarrow> t = s"
  by (rotate_tac 1) (induction rule: later_status.induct, auto simp: terminal_status_def canTransition_def)

text \<open>The closure of the table, computed.\<close>

lemma later_status_iff: "later_status s t \<longleftrightarrow> s = t \<or> rank s < rank t"
proof
  assume "later_status s t"
  then show "s = t \<or> rank s < rank t" by (rule later_status_rank)
next
  have steps: "later_status PENDING SUBMITTED" "later_status PENDING FAILED"
    "later_status SUBMITTED CONFIRMING" "later_status SUBMITTED EXPIRED"
    "later_status CONFIRMING CONFIRMED" "later_status CONFIRMING FAILED" "later_status CONFIRMING EXPIRED"
    by (simp_all add: later_status_single canTransition_def)
  assume "s = t \<or> rank s < rank t"
  then show "later_status s t"
    by (cases s; cases t) (use steps in \<open>auto intro: later_status.same later_status_trans\<close>)
qed

lemma assertTransition_ok: "canTransition s t \<Longrightarrow> assertTransition s t = returnE ()"
  by (simp add: assertTransition_def)

end
