(* ===== verification/Transaction_Repository.thy ===== *)
theory Transaction_Repository
  imports Tables Transaction_Machine
begin

text \<open>
  \<^verbatim>\<open>repositories/transaction.repository.ts\<close>. The two private methods
  \<open>transition\<close> and \<open>transitionFromAny\<close> are compare-and-set updates: the guard on the
  current status is part of the \<^verbatim>\<open>where\<close> of the update, and a count other than 1 is
  turned into an error. The locale \<open>transaction_frame\<close> states what the repository
  promises to a relation on stores; every operation of the system is later proved to
  stay within any such relation, whatever the faults and interleavings.
\<close>

section \<open>Statements on the Transaction table\<close>

definition tx_hashes :: "transaction list \<Rightarrow> string list" where
  "tx_hashes ts = concat (map (\<lambda>t. case tx_txHash t of None \<Rightarrow> [] | Some h \<Rightarrow> [h]) ts)"

definition tx_create :: "transaction \<Rightarrow> store \<Rightarrow> db_error + transaction \<times> store" where
  "tx_create t d =
     (let ts = transactions d @ [t]
      in if keyed tx_id ts \<and> distinct (tx_hashes ts) then Inr (t, d\<lparr>transactions := ts\<rparr>) else Inl P2002)"

definition tx_updateMany ::
  "(transaction \<Rightarrow> bool) \<Rightarrow> (transaction \<Rightarrow> transaction) \<Rightarrow> store \<Rightarrow> db_error + nat \<times> store" where
  "tx_updateMany P f d =
     (let ts = update_rows P f (transactions d)
      in if keyed tx_id ts \<and> distinct (tx_hashes ts) then Inr (count_rows P (transactions d), d\<lparr>transactions := ts\<rparr>)
         else Inl P2002)"

definition tx_findUnique :: "string \<Rightarrow> transaction option eff" where
  "tx_findUnique i = query (\<lambda>d. row tx_id (transactions d) i)"

definition tx_findUniqueOrThrow :: "string \<Rightarrow> transaction eff" where
  "tx_findUniqueOrThrow i = statement (\<lambda>d.
     case row tx_id (transactions d) i of None \<Rightarrow> Inl P2025 | Some t \<Rightarrow> Inr (t, d))"

text \<open>A row with the relations that \<^verbatim>\<open>include\<close> loads beside it.\<close>

record transaction_view =
  tv_row :: transaction
  tv_token :: "token option"
  tv_fromWallet :: "wallet option"
  tv_toWallet :: "wallet option"

definition view_of :: "store \<Rightarrow> transaction \<Rightarrow> transaction_view" where
  "view_of d t = \<lparr> tv_row = t, tv_token = row tk_id (tokens d) (tx_tokenId t),
     tv_fromWallet = row wa_id (wallets d) (tx_fromWalletId t),
     tv_toWallet = row wa_id (wallets d) (tx_toWalletId t) \<rparr>"

text \<open>Prisma refuses to return a row whose required relation is missing.\<close>

definition required :: "'a option \<Rightarrow> 'a eff" where
  "required x = (case x of None \<Rightarrow> throwE (PlainError ''Inconsistent query result'') | Some a \<Rightarrow> returnE a)"

section \<open>The repository\<close>

definition create :: "string \<Rightarrow> string \<Rightarrow> string \<Rightarrow> string \<Rightarrow> int \<Rightarrow> transaction_status \<Rightarrow> transaction eff" where
  "create tenantId tokenId fromWalletId toWalletId amount status =
     bindE randomUUID (\<lambda>i. bindE getNow (\<lambda>now.
       statement (tx_create \<lparr> tx_id = i, tx_tenantId = tenantId, tx_tokenId = tokenId,
         tx_fromWalletId = fromWalletId, tx_toWalletId = toWalletId, tx_txHash = None,
         tx_amount = amount, tx_nonce = None, tx_gasUsed = None, tx_blockNumber = None,
         tx_status = status, tx_createdAt = now, tx_submittedAt = None,
         tx_confirmationStartedAt = None, tx_confirmedAt = None, tx_failureReason = None,
         tx_failedAt = None \<rparr>)))"

definition transition ::
  "string \<Rightarrow> transaction_status \<Rightarrow> transaction_status \<Rightarrow> (transaction \<Rightarrow> transaction) \<Rightarrow> transaction eff" where
  "transition transactionId from to data =
     bindE (assertTransition from to) (\<lambda>_.
     bindE (statement (tx_updateMany (\<lambda>t. tx_id t = transactionId \<and> tx_status t = from)
              (\<lambda>t. data (t\<lparr>tx_status := to\<rparr>)))) (\<lambda>count.
     if count = 1 then tx_findUniqueOrThrow transactionId
     else bindE (tx_findUnique transactionId) (\<lambda>transaction.
       case transaction of
         None \<Rightarrow> throwE (PlainError (''Transaction '' @ transactionId @ '' not found''))
       | Some t \<Rightarrow> throwE (TransactionStateConflictError transactionId from))))"

definition transitionFromAny ::
  "string \<Rightarrow> transaction_status list \<Rightarrow> transaction_status \<Rightarrow> (transaction \<Rightarrow> transaction) \<Rightarrow> transaction eff" where
  "transitionFromAny transactionId from to data =
     bindE (forE from (\<lambda>source. assertTransition source to)) (\<lambda>_.
     bindE (statement (tx_updateMany (\<lambda>t. tx_id t = transactionId \<and> tx_status t \<in> set from)
              (\<lambda>t. data (t\<lparr>tx_status := to\<rparr>)))) (\<lambda>count.
     if count = 1 then tx_findUniqueOrThrow transactionId
     else bindE (tx_findUnique transactionId) (\<lambda>transaction.
       case transaction of
         None \<Rightarrow> throwE (PlainError (''Transaction '' @ transactionId @ '' not found''))
       | Some t \<Rightarrow> throwE (TransactionStateConflictError transactionId (tx_status t)))))"

definition markSubmitted :: "string \<Rightarrow> string \<Rightarrow> transaction eff" where
  "markSubmitted transactionId txHash =
     bindE getNow (\<lambda>now. transition transactionId PENDING SUBMITTED
       (\<lambda>t. t\<lparr>tx_txHash := Some txHash, tx_submittedAt := Some now\<rparr>))"

definition markConfirming :: "string \<Rightarrow> transaction eff" where
  "markConfirming transactionId =
     bindE getNow (\<lambda>now. transition transactionId SUBMITTED CONFIRMING
       (\<lambda>t. t\<lparr>tx_confirmationStartedAt := Some now\<rparr>))"

text \<open>\<^verbatim>\<open>findUnique({ where: { txHash } })\<close>.\<close>

definition findByHash :: "string \<Rightarrow> transaction option eff" where
  "findByHash txHash = query (\<lambda>d. row tx_txHash (transactions d) (Some txHash))"

definition confirm :: "string \<Rightarrow> int option \<Rightarrow> int option \<Rightarrow> transaction eff" where
  "confirm txHash blockNumber gasUsed =
     bindE (findByHash txHash) (\<lambda>transaction.
       case transaction of
         None \<Rightarrow> throwE (PlainError (''Transaction with hash '' @ txHash @ '' not found''))
       | Some t \<Rightarrow> bindE getNow (\<lambda>now. transition (tx_id t) CONFIRMING CONFIRMED
           (\<lambda>r. r\<lparr>tx_blockNumber := blockNumber, tx_gasUsed := gasUsed, tx_confirmedAt := Some now\<rparr>)))"

definition markFailed :: "string \<Rightarrow> string \<Rightarrow> transaction eff" where
  "markFailed i reason =
     bindE getNow (\<lambda>now. transitionFromAny i [PENDING, CONFIRMING] FAILED
       (\<lambda>t. t\<lparr>tx_failureReason := Some reason, tx_failedAt := Some now\<rparr>))"

definition expire :: "string \<Rightarrow> string \<Rightarrow> transaction eff" where
  "expire transactionId reason =
     bindE getNow (\<lambda>now. transition transactionId CONFIRMING EXPIRED
       (\<lambda>t. t\<lparr>tx_failureReason := Some reason, tx_failedAt := Some now\<rparr>))"

definition findPending :: "transaction list eff" where
  "findPending = query (\<lambda>d. filter (\<lambda>t. tx_status t = PENDING \<and> tx_txHash t \<noteq> None) (transactions d))"

definition countPending :: "nat eff" where
  "countPending = query (\<lambda>d. count_rows (\<lambda>t. tx_status t = PENDING) (transactions d))"

definition findById :: "string \<Rightarrow> string \<Rightarrow> transaction_view option eff" where
  "findById i tenantId = query (\<lambda>d.
     map_option (view_of d) (List.find (\<lambda>t. tx_id t = i \<and> tx_tenantId t = tenantId) (transactions d)))"

definition findAll :: "string \<Rightarrow> int \<Rightarrow> int \<Rightarrow> transaction_view list eff" where
  "findAll tenantId page limit = query (\<lambda>d.
     map (view_of d) (page_rows page limit
       (order_desc tx_createdAt (filter (\<lambda>t. tx_tenantId t = tenantId) (transactions d)))))"

definition findExpiredCandidates :: "int \<Rightarrow> nat \<Rightarrow> transaction list eff" where
  "findExpiredCandidates expirationBefore limit = query (\<lambda>d.
     take limit (order_asc (\<lambda>t. nulls_last (tx_confirmationStartedAt t))
       (filter (\<lambda>t. tx_status t = CONFIRMING \<and>
          (case tx_confirmationStartedAt t of None \<Rightarrow> False | Some s \<Rightarrow> s \<le> expirationBefore))
         (transactions d))))"

definition findSubmittedCandidates :: "nat \<Rightarrow> transaction list eff" where
  "findSubmittedCandidates limit = query (\<lambda>d.
     take limit (order_asc (\<lambda>t. nulls_last (tx_submittedAt t))
       (filter (\<lambda>t. tx_status t = SUBMITTED \<and> tx_txHash t \<noteq> None) (transactions d))))"

definition findOrphanedPendingCandidates :: "int \<Rightarrow> nat \<Rightarrow> transaction_view list eff" where
  "findOrphanedPendingCandidates olderThan limit = query (\<lambda>d.
     map (view_of d) (take limit (order_asc tx_createdAt
       (filter (\<lambda>t. tx_status t = PENDING \<and> tx_createdAt t \<le> olderThan) (transactions d)))))"

section \<open>What a row may become\<close>

text \<open>The terms of a transaction, which no operation changes.\<close>

definition same_terms :: "transaction \<Rightarrow> transaction \<Rightarrow> bool" where
  "same_terms t t' \<longleftrightarrow> tx_id t' = tx_id t \<and> tx_tenantId t' = tx_tenantId t \<and> tx_tokenId t' = tx_tokenId t \<and>
     tx_fromWalletId t' = tx_fromWalletId t \<and> tx_toWalletId t' = tx_toWalletId t \<and>
     tx_amount t' = tx_amount t \<and> tx_createdAt t' = tx_createdAt t"

text \<open>The columns a status requires to be filled in.\<close>

definition tx_wf :: "transaction \<Rightarrow> bool" where
  "tx_wf t \<longleftrightarrow>
     (tx_status t = PENDING \<longrightarrow> tx_txHash t = None) \<and>
     (tx_status t \<in> {SUBMITTED, CONFIRMING, CONFIRMED} \<longrightarrow> tx_txHash t \<noteq> None \<and> tx_submittedAt t \<noteq> None) \<and>
     (tx_status t \<in> {CONFIRMING, CONFIRMED} \<longrightarrow> tx_confirmationStartedAt t \<noteq> None) \<and>
     (tx_status t = CONFIRMED \<longrightarrow> tx_blockNumber t \<noteq> None \<and> tx_confirmedAt t \<noteq> None) \<and>
     (tx_status t \<in> {FAILED, EXPIRED} \<longrightarrow> tx_failureReason t \<noteq> None \<and> tx_failedAt t \<noteq> None)"

text \<open>A step of one row along the state machine, other than the confirmation.\<close>

definition legal_step :: "transaction \<Rightarrow> transaction \<Rightarrow> bool" where
  "legal_step t t' \<longleftrightarrow> same_terms t t' \<and> canTransition (tx_status t) (tx_status t') \<and>
     tx_status t' \<noteq> CONFIRMED \<and> (tx_status t' \<noteq> SUBMITTED \<longrightarrow> tx_txHash t' = tx_txHash t) \<and>
     (tx_wf t \<longrightarrow> tx_wf t')"

text \<open>The tables that the operations on transactions never write.\<close>

definition same_index :: "store \<Rightarrow> store \<Rightarrow> bool" where
  "same_index d d' \<longleftrightarrow> balances d' = balances d \<and> transfers d' = transfers d \<and> cursors d' = cursors d \<and>
     tokens d' = tokens d \<and> apiKeys d' = apiKeys d"

text \<open>
  The confirmation as it is committed: the one row with the id moves from CONFIRMING to
  CONFIRMED with its block number, and one event for it is appended to the outbox.
\<close>

definition confirmation_commit :: "store \<Rightarrow> store \<Rightarrow> bool" where
  "confirmation_commit d d' \<longleftrightarrow> (\<exists>t t' ev.
     row tx_id (transactions d) (tx_id t) = Some t \<and> tx_status t = CONFIRMING \<and>
     same_terms t t' \<and> tx_status t' = CONFIRMED \<and> tx_txHash t' = tx_txHash t \<and> (tx_wf t \<longrightarrow> tx_wf t') \<and>
     transactions d' = update_rows (\<lambda>r. tx_id r = tx_id t \<and> tx_status r = CONFIRMING) (\<lambda>_. t') (transactions d) \<and>
     count_rows (\<lambda>r. tx_id r = tx_id t \<and> tx_status r = CONFIRMING) (transactions d) = 1 \<and>
     outbox d' = outbox d @ [ev] \<and> ob_aggregateId ev = tx_id t \<and> ob_type ev = ''transaction.confirmed'' \<and>
     \<not> ob_published ev \<and> row ob_id (outbox d) (ob_id ev) = None \<and> relayQueue d' = relayQueue d \<and> same_index d d')"

locale transaction_frame = store_frame R for R :: "store \<Rightarrow> store \<Rightarrow> bool" +
  assumes frame_update: "(\<And>t. P t \<Longrightarrow> legal_step t (f t)) \<Longrightarrow> tx_updateMany P f d = Inr (n, d') \<Longrightarrow> R d d'"
    and frame_create: "tx_status t = PENDING \<Longrightarrow> tx_wf t \<Longrightarrow> tx_create t d = Inr (t', d') \<Longrightarrow> R d d'"
    and frame_confirm: "confirmation_commit d d' \<Longrightarrow> R d d'"
    and frame_elsewhere: "transactions d' = transactions d \<Longrightarrow> outbox d' = outbox d \<Longrightarrow>
      relayQueue d' = relayQueue d \<Longrightarrow> same_index d d' \<Longrightarrow> R d d'"
    and frame_token: "row tk_id (tokens d) (tk_id x) = None \<Longrightarrow> R d (d\<lparr>tokens := tokens d @ [x]\<rparr>)"
begin

lemma keeps_elsewhere:
  assumes "rely R e"
    and "\<And>d a d'. f d = Inr (a, d') \<Longrightarrow> transactions d' = transactions d \<and> outbox d' = outbox d \<and>
      relayQueue d' = relayQueue d \<and> same_index d d'"
  shows "keeps R e (statement f)"
  using assms by (auto intro!: keeps_statement safe_statementI frame_elsewhere)

lemma keeps_assert [keeps_intros]: "keeps R e (assertTransition s t)"
  by (auto simp: assertTransition_def intro: keeps_throw keeps_return)

lemma keeps_required [keeps_intros]: "keeps R e (required x)"
  by (auto simp: required_def intro!: keeps_intros)

lemma keeps_findUnique [keeps_intros]: "rely R e \<Longrightarrow> keeps R e (tx_findUnique i)"
  by (simp add: tx_findUnique_def keeps_query)

lemma keeps_findUniqueOrThrow [keeps_intros]: "rely R e \<Longrightarrow> keeps R e (tx_findUniqueOrThrow i)"
  unfolding tx_findUniqueOrThrow_def by (rule keeps_elsewhere) (auto simp: same_index_def split: option.splits)

lemma keeps_findByHash [keeps_intros]: "rely R e \<Longrightarrow> keeps R e (findByHash h)"
  by (simp add: findByHash_def keeps_query)

lemma keeps_findById [keeps_intros]: "rely R e \<Longrightarrow> keeps R e (findById i tn)"
  by (simp add: findById_def keeps_query)

lemma keeps_transition:
  assumes "rely R e" and legal: "\<And>t. tx_status t = from \<Longrightarrow> legal_step t (data (t\<lparr>tx_status := to\<rparr>))"
  shows "keeps R e (transition i from to data)"
  unfolding transition_def using assms(1)
  by (auto intro!: keeps_intros keeps_statement safe_statementI elim!: frame_update [rotated] legal)

lemma keeps_transitionFromAny:
  assumes "rely R e" and legal: "\<And>t. tx_status t \<in> set from \<Longrightarrow> legal_step t (data (t\<lparr>tx_status := to\<rparr>))"
  shows "keeps R e (transitionFromAny i from to data)"
  unfolding transitionFromAny_def using assms(1)
  by (auto intro!: keeps_intros keeps_statement safe_statementI elim!: frame_update [rotated] legal)

lemma keeps_create [keeps_intros]: "rely R e \<Longrightarrow> keeps R e (create tn tk fw tw a PENDING)"
  unfolding create_def
  by (intro keeps_intros keeps_statement safe_statementI)
    (auto elim!: frame_create [rotated 2] simp: tx_wf_def)

lemma keeps_markSubmitted [keeps_intros]: "rely R e \<Longrightarrow> keeps R e (markSubmitted i h)"
  unfolding markSubmitted_def
  by (intro keeps_intros keeps_transition)
    (auto simp: legal_step_def same_terms_def canTransition_def tx_wf_def)

lemma keeps_markConfirming [keeps_intros]: "rely R e \<Longrightarrow> keeps R e (markConfirming i)"
  unfolding markConfirming_def
  by (intro keeps_intros keeps_transition)
    (auto simp: legal_step_def same_terms_def canTransition_def tx_wf_def)

lemma keeps_markFailed [keeps_intros]: "rely R e \<Longrightarrow> keeps R e (markFailed i reason)"
  unfolding markFailed_def
  by (intro keeps_intros keeps_transitionFromAny)
    (auto simp: legal_step_def same_terms_def canTransition_def tx_wf_def)

lemma keeps_expire [keeps_intros]: "rely R e \<Longrightarrow> keeps R e (expire i reason)"
  unfolding expire_def
  by (intro keeps_intros keeps_transition)
    (auto simp: legal_step_def same_terms_def canTransition_def tx_wf_def)

end

end
