(* ===== verification/Wallets.thy ===== *)
theory Wallets
  imports Chains Transaction_Repository
begin

text \<open>
  Wallets and tokens as stored: \<^verbatim>\<open>repositories/wallet.repository.ts\<close>,
  \<^verbatim>\<open>repositories/token.repository.ts\<close> and \<^verbatim>\<open>services/wallet.service.ts\<close>. The
  key material itself never leaves the row of \<^verbatim>\<open>WalletCustodyKey\<close>.
\<close>

section \<open>Wallet repository\<close>

definition wallet_insert :: "wallet \<Rightarrow> wallet_custody_key list \<Rightarrow> store \<Rightarrow> db_error + wallet \<times> store" where
  "wallet_insert x keys d =
     (if keyed wa_id (wallets d @ [x]) \<and> keyed wa_address (wallets d @ [x]) \<and>
         keyed ck_walletId (custodyKeys d @ keys)
      then Inr (x, d\<lparr>wallets := wallets d @ [x], custodyKeys := custodyKeys d @ keys\<rparr>)
      else Inl P2002)"

definition wallet_create :: "int \<Rightarrow> string \<Rightarrow> string \<Rightarrow> int \<Rightarrow> string \<Rightarrow> wallet eff" where
  "wallet_create evm tenantId ownerId chainId address =
     bindE randomUUID (\<lambda>i. bindE getNow (\<lambda>now.
       statement (wallet_insert \<lparr> wa_id = i, wa_tenantId = tenantId, wa_ownerId = ownerId,
         wa_chainId = chainId, wa_address = normalizeWalletAddress evm chainId address,
         wa_custodyType = EXTERNAL, wa_status = ACTIVE, wa_createdAt = now \<rparr> [])))"

definition createCustodial ::
  "int \<Rightarrow> string \<Rightarrow> string \<Rightarrow> int \<Rightarrow> string \<Rightarrow> string \<Rightarrow> string \<Rightarrow> wallet eff" where
  "createCustodial evm tenantId ownerId chainId address encryptedKey kmsKeyId =
     bindE randomUUID (\<lambda>i. bindE randomUUID (\<lambda>k. bindE getNow (\<lambda>now.
       statement (wallet_insert \<lparr> wa_id = i, wa_tenantId = tenantId, wa_ownerId = ownerId,
         wa_chainId = chainId, wa_address = normalizeWalletAddress evm chainId address,
         wa_custodyType = CUSTODIAL, wa_status = ACTIVE, wa_createdAt = now \<rparr>
         [\<lparr> ck_id = k, ck_walletId = i, ck_encryptedKey = encryptedKey, ck_kmsKeyId = kmsKeyId \<rparr>]))))"

text \<open>The custody type and whether a key row exists.\<close>

definition findCustodyStatusById :: "string \<Rightarrow> (custody_type \<times> bool) option eff" where
  "findCustodyStatusById i = query (\<lambda>d.
     map_option (\<lambda>x. (wa_custodyType x, row ck_walletId (custodyKeys d) i \<noteq> None)) (row wa_id (wallets d) i))"

definition findByIdForTenant :: "string \<Rightarrow> string \<Rightarrow> wallet option eff" where
  "findByIdForTenant i tenantId = query (\<lambda>d. List.find (\<lambda>x. wa_id x = i \<and> wa_tenantId x = tenantId) (wallets d))"

definition findByIdForTenantWithCustody :: "string \<Rightarrow> string \<Rightarrow> (wallet \<times> wallet_custody_key option) option eff" where
  "findByIdForTenantWithCustody i tenantId = query (\<lambda>d.
     map_option (\<lambda>x. (x, row ck_walletId (custodyKeys d) (wa_id x)))
       (List.find (\<lambda>x. wa_id x = i \<and> wa_tenantId x = tenantId) (wallets d)))"

definition findByOwnerId :: "string \<Rightarrow> wallet list eff" where
  "findByOwnerId ownerId = query (\<lambda>d. filter (\<lambda>x. wa_ownerId x = ownerId) (wallets d))"

definition wallet_findById :: "string \<Rightarrow> wallet option eff" where
  "wallet_findById i = query (\<lambda>d. row wa_id (wallets d) i)"

definition findByAddress :: "int \<Rightarrow> int \<Rightarrow> string \<Rightarrow> wallet option eff" where
  "findByAddress evm chainId address =
     (if isCaseInsensitiveWalletAddress evm chainId address
      then query (\<lambda>d. List.find (\<lambda>x. toLowerCase (wa_address x) = toLowerCase address) (wallets d))
      else query (\<lambda>d. List.find (\<lambda>x. wa_address x = address) (wallets d)))"

section \<open>Token repository\<close>

definition token_create ::
  "string \<Rightarrow> string \<Rightarrow> string option \<Rightarrow> int option \<Rightarrow> blockchain option \<Rightarrow> token eff" where
  "token_create name symbol contractAddress decimals chain =
     (let b = (case chain of None \<Rightarrow> EVM | Some c \<Rightarrow> c) in
      bindE randomUUID (\<lambda>i. bindE getNow (\<lambda>now.
        statement (\<lambda>d.
          let x = \<lparr> tk_id = i, tk_name = name, tk_symbol = symbol,
                tk_contractAddress = (case contractAddress of None \<Rightarrow> None
                  | Some a \<Rightarrow> if a = [] then None else Some (normalizeContractAddress b a)),
                tk_blockchain = b, tk_isActive = True,
                tk_decimals = (case decimals of None \<Rightarrow> 6 | Some n \<Rightarrow> n),
                tk_lastProcessedBlock = 0, tk_createdAt = now \<rparr>
          in if row tk_id (tokens d) i = None \<and>
                (tk_contractAddress x = None \<or> row tk_contractAddress (tokens d) (tk_contractAddress x) = None)
             then Inr (x, d\<lparr>tokens := tokens d @ [x]\<rparr>) else Inl P2002))))"

definition findByContractAddress :: "string \<Rightarrow> blockchain \<Rightarrow> token option eff" where
  "findByContractAddress contractAddress b =
     (if b = EVM
      then query (\<lambda>d. List.find (\<lambda>x. map_option toLowerCase (tk_contractAddress x) = Some (toLowerCase (toLowerCase contractAddress))) (tokens d))
      else query (\<lambda>d. List.find (\<lambda>x. tk_contractAddress x = Some contractAddress) (tokens d)))"

definition token_findById :: "string \<Rightarrow> token option eff" where
  "token_findById i = query (\<lambda>d. row tk_id (tokens d) i)"

definition token_findAll :: "token list eff" where
  "token_findAll = query (\<lambda>d. order_desc tk_createdAt (filter tk_isActive (tokens d)))"

definition token_exists :: "string option \<Rightarrow> blockchain \<Rightarrow> bool eff" where
  "token_exists contractAddress b =
     (case contractAddress of
        Some a \<Rightarrow> if a = []
          then query (\<lambda>d. list_ex (\<lambda>x. tk_blockchain x = b \<and> tk_contractAddress x = None) (tokens d))
          else query (\<lambda>d. row tk_contractAddress (tokens d) (Some (normalizeContractAddress b a)) \<noteq> None)
      | None \<Rightarrow> query (\<lambda>d. list_ex (\<lambda>x. tk_blockchain x = b \<and> tk_contractAddress x = None) (tokens d)))"

text \<open>\<^verbatim>\<open>prisma.token.update\<close>: the row must exist, and the new row must keep the unique column unique.\<close>

definition token_update :: "string \<Rightarrow> (token \<Rightarrow> token) \<Rightarrow> store \<Rightarrow> db_error + token \<times> store" where
  "token_update i f d =
     (case row tk_id (tokens d) i of
        None \<Rightarrow> Inl P2025
      | Some x \<Rightarrow>
          if list_ex (\<lambda>y. tk_id y \<noteq> i \<and> tk_contractAddress y = tk_contractAddress (f x) \<and> tk_contractAddress y \<noteq> None) (tokens d)
          then Inl P2002
          else Inr (f x, d\<lparr>tokens := update_rows (\<lambda>y. tk_id y = i) f (tokens d)\<rparr>))"

definition updateContractAddress :: "string \<Rightarrow> string \<Rightarrow> token eff" where
  "updateContractAddress i contractAddress =
     statement (token_update i (\<lambda>x. x\<lparr>tk_contractAddress := Some contractAddress\<rparr>))"

definition updateCheckpoint :: "string \<Rightarrow> int \<Rightarrow> token eff" where
  "updateCheckpoint i blockNumber =
     statement (token_update i (\<lambda>x. x\<lparr>tk_lastProcessedBlock := blockNumber\<rparr>))"

section \<open>WalletService\<close>

record custody_status =
  cs_custodyType :: custody_type
  cs_hasCustodyKey :: bool

definition createWallet ::
  "(string \<Rightarrow> bool) \<Rightarrow> (string \<Rightarrow> exn + bool) \<Rightarrow> int \<Rightarrow> string \<Rightarrow> string \<Rightarrow> int \<Rightarrow> string \<Rightarrow> wallet eff" where
  "createWallet isEvmAddress publicKey evm tenantId ownerId chainId address =
     (if \<not> isValidWalletAddress isEvmAddress publicKey evm chainId address
      then throwE (AppError 400 ''INVALID_WALLET_ADDRESS'' ''Invalid wallet address'' [])
      else bindE (findByAddress evm chainId address) (\<lambda>existing.
        case existing of
          Some x \<Rightarrow> throwE (AppError 409 ''WALLET_ALREADY_EXISTS'' ''Wallet already registered'' [])
        | None \<Rightarrow> wallet_create evm tenantId ownerId chainId address))"

definition getWalletById :: "string \<Rightarrow> wallet option eff" where
  "getWalletById i = wallet_findById i"

definition getCustodyStatus :: "string \<Rightarrow> custody_status eff" where
  "getCustodyStatus walletId =
     bindE (findCustodyStatusById walletId) (\<lambda>x.
       case x of
         None \<Rightarrow> throwE (walletNotFound (Some walletId))
       | Some (ty, has) \<Rightarrow> returnE \<lparr> cs_custodyType = ty, cs_hasCustodyKey = has \<rparr>)"

definition getUserWallets :: "string \<Rightarrow> wallet list eff" where
  "getUserWallets userId = findByOwnerId userId"

definition getWallet :: "string \<Rightarrow> string \<Rightarrow> string \<Rightarrow> role \<Rightarrow> wallet eff" where
  "getWallet i userId tenantId r =
     bindE (wallet_findById i) (\<lambda>x.
       case x of
         None \<Rightarrow> throwE (AppError 404 ''WALLET_NOT_FOUND'' ''Wallet not found'' [])
       | Some wl \<Rightarrow>
           if wa_tenantId wl \<noteq> tenantId \<or> (wa_ownerId wl \<noteq> userId \<and> r \<noteq> ADMIN)
           then throwE (AppError 403 ''FORBIDDEN'' ''You do not have access to this wallet'' [])
           else returnE wl)"

section \<open>What these operations keep\<close>

context store_frame
begin

lemma keeps_wallet_queries [keeps_intros]:
  assumes "rely R e"
  shows "keeps R e (findCustodyStatusById i)" "keeps R e (findByIdForTenant i tn)"
    "keeps R e (findByIdForTenantWithCustody i tn)" "keeps R e (findByOwnerId ow)"
    "keeps R e (wallet_findById i)" "keeps R e (findByAddress evm c a)" "keeps R e (getWalletById i)"
    "keeps R e (findByContractAddress ca b)" "keeps R e (token_findById i)" "keeps R e token_findAll"
    "keeps R e (token_exists oa b)"
  using assms
  by (auto simp: findCustodyStatusById_def findByIdForTenant_def findByIdForTenantWithCustody_def
      findByOwnerId_def wallet_findById_def findByAddress_def getWalletById_def findByContractAddress_def
      token_findById_def token_findAll_def token_exists_def intro!: keeps_intros)

lemma keeps_getCustodyStatus [keeps_intros]: "rely R e \<Longrightarrow> keeps R e (getCustodyStatus i)"
  unfolding getCustodyStatus_def by (auto intro!: keeps_intros split: prod.split)

end

context transaction_frame
begin

lemma keeps_wallet_writes [keeps_intros]:
  assumes "rely R e"
  shows "keeps R e (wallet_create evm tn ow c a)" "keeps R e (createCustodial evm tn ow c a k m)"
  using assms unfolding wallet_create_def createCustodial_def
  by (auto intro!: keeps_intros keeps_elsewhere simp: wallet_insert_def same_index_def split: if_splits)

lemma keeps_token_create [keeps_intros]: "rely R e \<Longrightarrow> keeps R e (token_create n s oc dc b)"
  unfolding token_create_def
  by (auto intro!: keeps_intros keeps_statement safe_statementI frame_token simp: Let_def split: if_splits)

lemma keeps_createWallet [keeps_intros]: "rely R e \<Longrightarrow> keeps R e (createWallet va pk evm tn ow c a)"
  unfolding createWallet_def by (auto intro!: keeps_intros)

end

end
