(* ===== verification/Rpc.thy ===== *)
theory Rpc
  imports Effects
begin

text \<open>
  The RPC layer: the classification of provider errors
  (\<^verbatim>\<open>blockchain/rpc.classifier.ts\<close>, \<^verbatim>\<open>rpc.errors.ts\<close>), the retry loop
  (\<^verbatim>\<open>utils/retry.ts\<close>) and the executor that joins them
  (\<^verbatim>\<open>blockchain/rpc.executor.ts\<close>, \<^verbatim>\<open>rpc.instrumentation.ts\<close>). The reference for
  the loop is \<open>attempts\<close>, the outcomes it draws as a list.
\<close>

section \<open>Classification\<close>

definition contains_any :: "string \<Rightarrow> string list \<Rightarrow> bool" where
  "contains_any m ps = list_ex (includes_str m) ps"

definition classify_message :: "string \<Rightarrow> rpc_class" where
  "classify_message text =
     (let message = toLowerCase text in
      if contains_any message [''timeout'', ''timed out'', ''abort''] then RpcTimeoutError
      else if contains_any message [''network'', ''socket'', ''fetch failed'', ''failed to fetch'',
          ''econnreset'', ''econnrefused'', ''enetunreach'', ''ehostunreach''] then RpcNetworkError
      else if contains_any message [''429'', ''rate limit'', ''too many requests''] then RpcRateLimitError
      else if contains_any message [''503'', ''502'', ''504'', ''service unavailable'',
          ''temporarily unavailable''] then RpcUnavailableError
      else if contains_any message [''execution reverted'', ''reverted'', ''revert''] then RpcRevertedError
      else if contains_any message [''invalid params'', ''invalid argument'', ''invalid request'',
          ''parse error'', ''method not found''] then RpcInvalidRequestError
      else RpcUnknownError)"

definition is_RpcError :: "exn \<Rightarrow> bool" where
  "is_RpcError x = (case x of RpcError c m \<Rightarrow> True | _ \<Rightarrow> False)"

definition classifyRpcError :: "exn \<Rightarrow> exn" where
  "classifyRpcError error =
     (if is_RpcError error then error
      else if \<not> is_Error error then RpcError RpcUnknownError (exn_message error)
      else RpcError (classify_message (exn_message error)) (exn_message error))"

definition shouldRetry :: "exn \<Rightarrow> bool" where
  "shouldRetry error = (case error of RpcError c m \<Rightarrow> retryable c | _ \<Rightarrow> False)"

section \<open>The retry loop\<close>

text \<open>
  \<^verbatim>\<open>while (true)\<close>: the loop is left by the return of \<^verbatim>\<open>fn\<close> or by the rethrow once
  \<^verbatim>\<open>attempt >= options.retries\<close>, so \<open>retries - attempt\<close> decreases. \<^verbatim>\<open>sleep\<close> has no effect
  on the state; the delay is handed to \<^verbatim>\<open>onRetry\<close>.
\<close>

function retry_loop ::
  "'a eff \<Rightarrow> int \<Rightarrow> int \<Rightarrow> (exn \<Rightarrow> int \<Rightarrow> int \<Rightarrow> unit eff) \<Rightarrow> (exn \<Rightarrow> bool) \<Rightarrow> int \<Rightarrow> int \<Rightarrow> 'a eff" where
  "retry_loop fn retries factor onRetry should attempt delay =
     catchE fn (\<lambda>error.
       if \<not> should error \<or> attempt \<ge> retries then throwE error
       else bindE (onRetry error (attempt + 1) delay) (\<lambda>_.
              retry_loop fn retries factor onRetry should (attempt + 1) (delay * factor)))"
  by pat_completeness auto
termination
  by (relation "measure (\<lambda>(fn, retries, factor, onRetry, should, attempt, delay). nat (retries - attempt))") auto

declare retry_loop.simps [simp del]

definition retry ::
  "'a eff \<Rightarrow> int \<Rightarrow> int \<Rightarrow> int \<Rightarrow> (exn \<Rightarrow> int \<Rightarrow> int \<Rightarrow> unit eff) \<Rightarrow> (exn \<Rightarrow> bool) \<Rightarrow> 'a eff" where
  "retry fn retries delay factor onRetry should = retry_loop fn retries factor onRetry should 0 delay"

section \<open>The executor\<close>

text \<open>
  The settings of the process, \<^verbatim>\<open>Number(process.env.RPC_MAX_RETRIES ?? 3)\<close> and
  \<^verbatim>\<open>Number(process.env.RPC_RETRY_DELAY_MS ?? 500)\<close>: an integer where the variable is set, the
  default where it is not. A text that is no number gives \<^verbatim>\<open>NaN\<close>, which no attempt reaches:
  such a setting is outside the model.
\<close>

definition RPC_MAX_RETRIES :: "env \<Rightarrow> int" where
  "RPC_MAX_RETRIES e = (case env_setting e ''RPC_MAX_RETRIES'' of None \<Rightarrow> 3 | Some n \<Rightarrow> n)"

definition RPC_RETRY_DELAY_MS :: "env \<Rightarrow> int" where
  "RPC_RETRY_DELAY_MS e = (case env_setting e ''RPC_RETRY_DELAY_MS'' of None \<Rightarrow> 500 | Some n \<Rightarrow> n)"

definition recordRpcRetry :: "string \<Rightarrow> unit eff" where
  "recordRpcRetry m = incrementMetric ''blockchain_rpc_retries_total'' [(''method'', m)]"

definition recordRpcFailure :: "string \<Rightarrow> string \<Rightarrow> unit eff" where
  "recordRpcFailure m reason =
     incrementMetric ''blockchain_rpc_failures_total'' [(''method'', m), (''reason'', reason)]"

definition instrumentRpc :: "string \<Rightarrow> 'a eff \<Rightarrow> 'a eff" where
  "instrumentRpc m fn =
     catchE
       (bindE fn (\<lambda>result.
          bindE (incrementMetric ''blockchain_rpc_requests_total'' [(''method'', m), (''status'', ''success'')])
            (\<lambda>_. returnE result)))
       (\<lambda>error.
          bindE (incrementMetric ''blockchain_rpc_failures_total'' [(''method'', m), (''status'', ''error'')])
            (\<lambda>_. throwE error))"

text \<open>\<^verbatim>\<open>Promise.race\<close> of the request and a timer.\<close>

definition withTimeout :: "'a eff \<Rightarrow> 'a eff" where
  "withTimeout m = (\<lambda>e w.
     if env_timeout e (calls w) then (Inl (RpcError RpcTimeoutError ''RPC request timed out''), arrive e w)
     else m e w)"

definition executeRpc :: "string \<Rightarrow> 'a eff \<Rightarrow> 'a eff" where
  "executeRpc m fn =
     catchE
       (instrumentRpc m (\<lambda>e.
          retry (catchE (withTimeout fn) (\<lambda>error. throwE (classifyRpcError error)))
            (RPC_MAX_RETRIES e) (RPC_RETRY_DELAY_MS e) 2 (\<lambda>error attempt nextDelay. recordRpcRetry m) shouldRetry e))
       (\<lambda>error. case error of
          RpcError c text \<Rightarrow> bindE (recordRpcFailure m (rpc_reason c)) (\<lambda>_. throwE error)
        | _ \<Rightarrow> throwE error)"

section \<open>Reference: the outcomes the loop draws\<close>

text \<open>
  The outcomes of successive calls \<open>n, n+1, \<dots>\<close> as the loop reads them: up to the first that is
  not a retryable error, and at most one more than the retries left.
\<close>

fun attempts :: "(exn \<Rightarrow> bool) \<Rightarrow> (nat \<Rightarrow> exn + 'a) \<Rightarrow> nat \<Rightarrow> nat \<Rightarrow> (exn + 'a) list" where
  "attempts should g n 0 = [g n]"
| "attempts should g n (Suc k) =
     (case g n of
        Inr a \<Rightarrow> [Inr a]
      | Inl x \<Rightarrow> if x \<noteq> Crashed \<and> should x then Inl x # attempts should g (Suc n) k else [Inl x])"

lemma attempts_nonempty [simp]: "attempts should g n k \<noteq> []"
  by (cases k) (auto split: sum.splits)

lemma attempts_length: "length (attempts should g n k) \<le> Suc k"
  by (induction k arbitrary: n) (auto split: sum.splits)

lemma attempts_are_calls:
  "i < length (attempts should g n k) \<Longrightarrow> attempts should g n k ! i = g (n + i)"
proof (induction k arbitrary: n i)
  case 0
  then show ?case by simp
next
  case (Suc k)
  then show ?case by (cases i) (auto split: sum.splits if_splits)
qed

lemma attempts_butlast:
  "i < length (attempts should g n k) - 1 \<Longrightarrow> \<exists>x. g (n + i) = Inl x \<and> should x \<and> x \<noteq> Crashed"
proof (induction k arbitrary: n i)
  case 0
  then show ?case by simp
next
  case (Suc k)
  show ?case
  proof (cases i)
    case 0
    with Suc.prems show ?thesis by (auto split: sum.splits if_splits)
  next
    case (Suc j)
    with Suc.prems have "j < length (attempts should g (Suc n) k) - 1"
      by (auto split: sum.splits if_splits)
    from Suc.IH [OF this] Suc show ?thesis by simp
  qed
qed

lemma attempts_exhausted:
  "last (attempts should g n k) = Inl x \<Longrightarrow> x \<noteq> Crashed \<Longrightarrow> should x \<Longrightarrow> length (attempts should g n k) = Suc k"
  by (induction k arbitrary: n) (auto split: sum.splits if_splits)

text \<open>
  A loop whose request has one outcome per call returns the last of the outcomes drawn, makes
  exactly as many requests, and calls \<^verbatim>\<open>onRetry\<close> once before each request but the first.
\<close>

lemma retry_loop_outcomes:
  assumes fn: "\<And>w. \<exists>w'. fn e w = (out (calls w), w') \<and> calls w' = Suc (calls w) \<and> metrics w' = metrics w"
    and onRetry: "\<And>x i j w. onRetry x i j e w = (Inr (), w\<lparr>metrics := metrics w @ [c]\<rparr>)"
  shows "\<exists>w'. retry_loop fn retries factor onRetry should attempt delay e w = (last (attempts should out (calls w) (nat (retries - attempt))), w') \<and>
    calls w' = calls w + length (attempts should out (calls w) (nat (retries - attempt))) \<and>
    metrics w' = metrics w @ replicate (length (attempts should out (calls w) (nat (retries - attempt))) - 1) c"
proof (induction "nat (retries - attempt)" arbitrary: attempt delay w)
  case 0
  then have le: "retries \<le> attempt" and k: "nat (retries - attempt) = 0" by simp_all
  obtain w' where w': "fn e w = (out (calls w), w')" "calls w' = Suc (calls w)" "metrics w' = metrics w" using fn by blast
  have "retry_loop fn retries factor onRetry should attempt delay e w = (out (calls w), w')"
    using w'(1) le by (subst retry_loop.simps) (auto simp: catchE_def throwE_def split: sum.splits)
  with w' show ?case unfolding k by simp
next
  case (Suc k)
  then have k: "nat (retries - (attempt + 1)) = k" and lt: "attempt < retries" by linarith+
  obtain w1 where w1: "fn e w = (out (calls w), w1)" "calls w1 = Suc (calls w)" "metrics w1 = metrics w" using fn by blast
  show ?case
  proof (cases "\<exists>x. out (calls w) = Inl x \<and> x \<noteq> Crashed \<and> should x")
    case True
    then obtain x where x: "out (calls w) = Inl x" "x \<noteq> Crashed" "should x" by blast
    let ?w2 = "w1\<lparr>metrics := metrics w1 @ [c]\<rparr>"
    let ?os = "attempts should out (Suc (calls w)) k"
    have again: "retry_loop fn retries factor onRetry should attempt delay e w =
        retry_loop fn retries factor onRetry should (attempt + 1) (delay * factor) e ?w2"
      using w1(1) x lt by (subst retry_loop.simps) (simp add: catchE_def bindE_def onRetry)
    obtain w' where "retry_loop fn retries factor onRetry should (attempt + 1) (delay * factor) e ?w2 = (last ?os, w')"
      "calls w' = Suc (calls w) + length ?os" "metrics w' = metrics w @ c # replicate (length ?os - 1) c"
      using Suc.hyps(1) [of "attempt + 1" "delay * factor" ?w2] k w1(2,3) by auto
    moreover have "c # replicate (length ?os - 1) c = replicate (length ?os) c"
      by (metis Suc_diff_1 attempts_nonempty length_greater_0_conv replicate_Suc)
    ultimately show ?thesis using x again by (simp flip: Suc.hyps(2))
  next
    case False
    with w1 lt show ?thesis
      by (subst retry_loop.simps) (auto simp: catchE_def throwE_def simp flip: Suc.hyps(2) split: sum.splits)
  qed
qed

context store_frame
begin

lemma keeps_retry [keeps_intros]:
  assumes "keeps R e fn" "\<And>x i j. keeps R e (onRetry x i j)"
  shows "keeps R e (retry fn retries delay factor onRetry should)"
proof -
  have "keeps R e (retry_loop fn retries factor onRetry should attempt d)" for attempt d
  proof (induction "nat (retries - attempt)" arbitrary: attempt d rule: less_induct)
    case less
    then show ?case
      using assms by (subst retry_loop.simps) (auto intro!: keeps_intros)
  qed
  then show ?thesis by (simp add: retry_def)
qed

lemma keeps_withTimeout [keeps_intros]: "rely R e \<Longrightarrow> keeps R e m \<Longrightarrow> keeps R e (withTimeout m)"
  by (simp add: keeps_def withTimeout_def rely_def)

lemma keeps_request:
  assumes "rely R e" "keeps R e fn"
  shows "keeps R e (\<lambda>e. retry (catchE (withTimeout fn) (\<lambda>error. throwE (classifyRpcError error)))
    (RPC_MAX_RETRIES e) (RPC_RETRY_DELAY_MS e) 2 (\<lambda>error attempt nextDelay. recordRpcRetry m) shouldRetry e)"
proof -
  have "keeps R e (retry (catchE (withTimeout fn) (\<lambda>error. throwE (classifyRpcError error)))
    (RPC_MAX_RETRIES e) (RPC_RETRY_DELAY_MS e) 2 (\<lambda>error attempt nextDelay. recordRpcRetry m) shouldRetry)"
    unfolding recordRpcRetry_def using assms by (auto intro!: keeps_intros)
  then show ?thesis by (simp add: keeps_def)
qed

lemma keeps_executeRpc [keeps_intros]: "rely R e \<Longrightarrow> keeps R e fn \<Longrightarrow> keeps R e (executeRpc m fn)"
  unfolding executeRpc_def instrumentRpc_def recordRpcFailure_def
  by (intro keeps_catch keeps_bind keeps_request keeps_intros) (auto intro!: keeps_intros split: exn.split)

end

section \<open>Property\<close>

text \<open>The outcome of one attempt: the timer may fire first, and every error is classified.\<close>

definition rpc_outcome :: "env \<Rightarrow> (nat \<Rightarrow> exn + 'a) \<Rightarrow> nat \<Rightarrow> exn + 'a" where
  "rpc_outcome e g n =
     (if env_timeout e n then Inl (RpcError RpcTimeoutError ''RPC request timed out'')
      else case g n of Inl x \<Rightarrow> Inl (if x = Crashed then x else classifyRpcError x) | Inr a \<Rightarrow> Inr a)"

lemma shouldRetryE: "shouldRetry x \<Longrightarrow> \<exists>c m. x = RpcError c m \<and> retryable c"
  by (auto simp: shouldRetry_def split: exn.splits)

lemma exn_not_crashed: "RpcError c m \<noteq> Crashed"
  by simp

lemma shouldRetry_RpcError: "retryable c \<Longrightarrow> shouldRetry (RpcError c m)"
  by (simp add: shouldRetry_def)

abbreviation retry_sample :: "string \<Rightarrow> metric" where
  "retry_sample m \<equiv> (''blockchain_rpc_retries_total'', [(''method'', m)])"

text \<open>The attempts of one request, what they return and how many retries they report.\<close>

abbreviation rpc_tries :: "env \<Rightarrow> (nat \<Rightarrow> exn + 'a) \<Rightarrow> world \<Rightarrow> (exn + 'a) list" where
  "rpc_tries e g w \<equiv> attempts shouldRetry (rpc_outcome e g) (calls w) (nat (RPC_MAX_RETRIES e))"

lemma request_outcomes:
  "\<exists>w'. retry (catchE (withTimeout (external g)) (\<lambda>error. throwE (classifyRpcError error)))
       (RPC_MAX_RETRIES e) (RPC_RETRY_DELAY_MS e) 2 (\<lambda>error attempt nextDelay. recordRpcRetry m) shouldRetry e w = (last (rpc_tries e g w), w') \<and>
     calls w' = calls w + length (rpc_tries e g w) \<and>
     metrics w' = metrics w @ replicate (length (rpc_tries e g w) - 1) (retry_sample m)"
proof -
  let ?fn = "catchE (withTimeout (external g)) (\<lambda>error. throwE (classifyRpcError error))"
  have fn: "\<exists>w'. ?fn e v = (rpc_outcome e g (calls v), w') \<and> calls w' = Suc (calls v) \<and> metrics w' = metrics v" for v
    by (auto simp: catchE_def withTimeout_def external_def arrive_def throwE_def rpc_outcome_def classifyRpcError_def is_RpcError_def split: sum.split)
  show ?thesis
    using retry_loop_outcomes [where fn = ?fn and e = e and out = "rpc_outcome e g" and retries = "RPC_MAX_RETRIES e" and attempt = 0 and
        onRetry = "\<lambda>error attempt nextDelay. recordRpcRetry m" and c = "retry_sample m", OF fn, of 2 shouldRetry "RPC_RETRY_DELAY_MS e" w]
    by (simp add: retry_def recordRpcRetry_def incrementMetric_def)
qed

lemma executeRpc_outcomes:
  "\<exists>w'. executeRpc m (external g) e w = (last (rpc_tries e g w), w') \<and> calls w' = calls w + length (rpc_tries e g w)"
proof -
  obtain w1 where "retry (catchE (withTimeout (external g)) (\<lambda>error. throwE (classifyRpcError error)))
       (RPC_MAX_RETRIES e) (RPC_RETRY_DELAY_MS e) 2 (\<lambda>error attempt nextDelay. recordRpcRetry m) shouldRetry e w = (last (rpc_tries e g w), w1)"
    "calls w1 = calls w + length (rpc_tries e g w)" using request_outcomes by blast
  then show ?thesis
    by (cases "last (rpc_tries e g w)") (auto simp: executeRpc_def instrumentRpc_def recordRpcFailure_def catchE_def bindE_def throwE_def returnE_def
        incrementMetric_def split: exn.split)
qed

text \<open>
  C38: a request to a chain node is tried at most once more than \<^verbatim>\<open>RPC_MAX_RETRIES\<close> says, four times by
  default. In every environment whose setting is an integer, the result is that of the last attempt, there is
  at least one, every attempt before the last failed with an error of a retryable class (a timeout of the timer
  included), and the last failed so only when the attempts were used up: nothing else is tried again, and nothing
  that may be is given up early.
\<close>

theorem rpc_attempts:
  "\<exists>os w'. executeRpc m (external g) e w = (last os, w') \<and> calls w' = calls w + length os \<and>
     1 \<le> length os \<and> length os \<le> Suc (nat (RPC_MAX_RETRIES e)) \<and>
     (\<forall>i < length os. os ! i = rpc_outcome e g (calls w + i)) \<and>
     (\<forall>i < length os - 1. \<exists>c text. rpc_outcome e g (calls w + i) = Inl (RpcError c text) \<and> retryable c) \<and>
     (\<forall>c text. last os = Inl (RpcError c text) \<and> retryable c \<longrightarrow> length os = Suc (nat (RPC_MAX_RETRIES e)))"
proof -
  let ?os = "rpc_tries e g w"
  have "1 \<le> length ?os" by (simp add: Suc_le_eq)
  moreover have "length ?os \<le> Suc (nat (RPC_MAX_RETRIES e))" by (rule attempts_length)
  moreover have "\<forall>i < length ?os. ?os ! i = rpc_outcome e g (calls w + i)" by (simp add: attempts_are_calls)
  moreover have "\<forall>i < length ?os - 1. \<exists>c text. rpc_outcome e g (calls w + i) = Inl (RpcError c text) \<and> retryable c"
    using attempts_butlast shouldRetryE by metis
  moreover have "\<forall>c text. last ?os = Inl (RpcError c text) \<and> retryable c \<longrightarrow> length ?os = Suc (nat (RPC_MAX_RETRIES e))"
    using attempts_exhausted by (metis exn_not_crashed shouldRetry_RpcError)
  ultimately show ?thesis using executeRpc_outcomes [of m g e w] by blast
qed

theorem rpc_attempts_witness:
  "\<exists>os w'. executeRpc ''getBlockNumber'' (external (\<lambda>n. if n < 2 then Inl (PlainError ''timeout'') else Inr (90 :: int))) (calm (\<lambda>_. 0) (\<lambda>_. ''''))
     (world_of empty_store) = (last os, w') \<and> calls w' = length os \<and> 1 \<le> length os \<and> length os \<le> 4"
  using rpc_attempts [of "''getBlockNumber''" "\<lambda>n. if n < 2 then Inl (PlainError ''timeout'') else Inr (90 :: int)" "calm (\<lambda>_. 0) (\<lambda>_. '''')"
      "world_of empty_store"] by (auto simp: RPC_MAX_RETRIES_def)

end
