(* ===== verification/Adapters.thy ===== *)
theory Adapters
  imports Wallets Rpc
begin

text \<open>
  \<^verbatim>\<open>blockchain/blockchain-adapter.ts\<close>, the registry, and the three adapters. An adapter
  object is a record of its methods; an optional method is an \<open>option\<close>. What the
  adapters call outside the repository (viem, Bitcoin Core's RPC, the Solana library, the
  key service) is one record of functions per library, an argument of the adapter; each
  answer may depend on the number of the call. The locale \<open>chain_adapter\<close> is the
  interface the services rely on.
\<close>

section \<open>The interface\<close>

datatype confirmation_status = chain_pending | chain_confirmed | chain_failed

record blockchain_transaction =
  bt_txHash :: string
  bt_blockNumber :: "int option"
  bt_confirmations :: int
  bt_status :: confirmation_status
  bt_gasUsed :: "int option"
  bt_confirmationLevel :: "string option"

record transfer_order =
  to_tenantId :: string
  to_walletId :: string
  to_toAddress :: string
  to_amount :: int
  to_assetIdentifier :: "string option"

record balance_request =
  br_assetIdentifier :: "string option"
  br_walletAddress :: string
  br_blockNumber :: "int option"

record token_balance =
  tb_balance :: int
  tb_blockNumber :: int

record adapter =
  ad_chain :: string
  ad_canSign :: "custody_status \<Rightarrow> bool"
  ad_validateAssetIdentifier :: "string \<Rightarrow> bool"
  ad_submitTransfer :: "transfer_order \<Rightarrow> string eff"
  ad_getTransaction :: "string \<Rightarrow> blockchain_transaction eff"
  ad_mint :: "(string \<Rightarrow> string \<Rightarrow> int \<Rightarrow> string eff) option"
  ad_getTokenBalance :: "(balance_request \<Rightarrow> token_balance eff) option"
  ad_createCustodialWallet :: "(string \<times> string) eff option"
  ad_verifyOwnership :: "(string \<Rightarrow> string \<Rightarrow> string \<Rightarrow> bool eff) option"

text \<open>\<^verbatim>\<open>BlockchainAdapterRegistry.get\<close>.\<close>

definition registry_get :: "adapter list \<Rightarrow> string \<Rightarrow> adapter eff" where
  "registry_get adapters chain =
     (case List.find (\<lambda>candidate. ad_chain candidate = toUpperCase chain) adapters of
        None \<Rightarrow> throwE (PlainError (''No blockchain adapter registered for chain: '' @ chain))
      | Some a \<Rightarrow> returnE a)"

section \<open>Signing keys\<close>

text \<open>\<open>decryptWalletKey\<close> of the key service: ciphertext and key id to the secret.\<close>

type_synonym key_service = "nat \<Rightarrow> string \<Rightarrow> string \<Rightarrow> exn + string"

text \<open>
  \<^verbatim>\<open>SignerService.getWalletClientFor\<close> and \<^verbatim>\<open>SolanaSignerService.getKeypairFor\<close>, up to the
  decrypted secret that the chain library turns into a signer.
\<close>

definition signing_secret :: "key_service \<Rightarrow> string \<Rightarrow> string \<Rightarrow> string eff" where
  "signing_secret decrypt walletId tenantId =
     bindE (findByIdForTenantWithCustody walletId tenantId) (\<lambda>wallet.
       case wallet of
         None \<Rightarrow> throwE (walletNotFound None)
       | Some (x, key) \<Rightarrow>
           (case key of
              None \<Rightarrow> throwE (walletNotCustodial None)
            | Some k \<Rightarrow>
                if wa_custodyType x \<noteq> CUSTODIAL then throwE (walletNotCustodial None)
                else external (\<lambda>n. decrypt n (ck_encryptedKey k) (ck_kmsKeyId k))))"

abbreviation getKeypairFor :: "key_service \<Rightarrow> string \<Rightarrow> string \<Rightarrow> string eff" where
  "getKeypairFor \<equiv> signing_secret"

section \<open>EVM\<close>

record evm_receipt =
  er_success :: bool
  er_blockNumber :: int
  er_gasUsed :: int
  er_transactionHash :: string

record evm_client =
  ec_isAddress :: "string \<Rightarrow> bool"
  ec_transfer :: "nat \<Rightarrow> string \<Rightarrow> string \<Rightarrow> string \<Rightarrow> int \<Rightarrow> exn + string"
  ec_mint :: "nat \<Rightarrow> string \<Rightarrow> string \<Rightarrow> string \<Rightarrow> int \<Rightarrow> exn + string"
  ec_waitForReceipt :: "nat \<Rightarrow> string \<Rightarrow> exn + evm_receipt"
  ec_getTransactionReceipt :: "nat \<Rightarrow> string \<Rightarrow> exn + evm_receipt"
  ec_balanceOf :: "nat \<Rightarrow> string \<Rightarrow> string \<Rightarrow> int option \<Rightarrow> exn + int"
  ec_getBlockNumber :: "nat \<Rightarrow> exn + int"
  ec_verifyMessage :: "nat \<Rightarrow> string \<Rightarrow> string \<Rightarrow> string \<Rightarrow> exn + bool"
  ec_generatePrivateKey :: "nat \<Rightarrow> string"
  ec_addressOf :: "string \<Rightarrow> string"
  ec_minterKey :: "string option"

definition per_wallet_canSign :: "custody_status \<Rightarrow> bool" where
  "per_wallet_canSign wallet = (cs_custodyType wallet = CUSTODIAL \<and> cs_hasCustodyKey wallet)"

definition getWalletClient :: "string \<Rightarrow> string eff" where
  "getWalletClient privateKey = (if privateKey = [] then throwE (PlainError ''Private key required'') else returnE privateKey)"

definition nonempty :: "string option \<Rightarrow> bool" where
  "nonempty s = (case s of None \<Rightarrow> False | Some x \<Rightarrow> x \<noteq> [])"

definition evm_submitTransfer :: "evm_client \<Rightarrow> key_service \<Rightarrow> transfer_order \<Rightarrow> string eff" where
  "evm_submitTransfer c decrypt request =
     (if \<not> nonempty (to_assetIdentifier request)
      then throwE (PlainError ''EVM transfer requires an asset contract address'')
      else bindE (signing_secret decrypt (to_walletId request) (to_tenantId request)) (\<lambda>secret.
           bindE (getWalletClient secret) (\<lambda>key.
           external (\<lambda>n. ec_transfer c n key (the (to_assetIdentifier request)) (to_toAddress request) (to_amount request)))))"

definition evm_getTransaction :: "evm_client \<Rightarrow> string \<Rightarrow> blockchain_transaction eff" where
  "evm_getTransaction c txHash =
     bindE (executeRpc ''getTransactionReceipt'' (external (\<lambda>n. ec_getTransactionReceipt c n txHash))) (\<lambda>receipt.
       returnE \<lparr> bt_txHash = txHash, bt_blockNumber = Some (er_blockNumber receipt), bt_confirmations = 1,
         bt_status = (if er_success receipt then chain_confirmed else chain_failed),
         bt_gasUsed = Some (er_gasUsed receipt), bt_confirmationLevel = None \<rparr>)"

definition evm_getTokenBalance :: "evm_client \<Rightarrow> balance_request \<Rightarrow> token_balance eff" where
  "evm_getTokenBalance c request =
     (if \<not> nonempty (br_assetIdentifier request)
      then throwE (PlainError ''EVM token balance requires an asset contract address'')
      else bindE (external (\<lambda>n. ec_balanceOf c n (the (br_assetIdentifier request)) (br_walletAddress request) (br_blockNumber request)))
        (\<lambda>balance.
          case br_blockNumber request of
            Some b \<Rightarrow> returnE \<lparr> tb_balance = balance, tb_blockNumber = b \<rparr>
          | None \<Rightarrow> bindE (external (ec_getBlockNumber c)) (\<lambda>b. returnE \<lparr> tb_balance = balance, tb_blockNumber = b \<rparr>)))"

definition mint_service :: "evm_client \<Rightarrow> string \<Rightarrow> string \<Rightarrow> int \<Rightarrow> evm_receipt eff" where
  "mint_service c tokenAddress receiver amount =
     (if \<not> nonempty (ec_minterKey c)
      then throwE (PlainError ''PRIVATE_KEY is not configured - required to sign mint transactions'')
      else bindE (getWalletClient (the (ec_minterKey c))) (\<lambda>key.
           bindE (external (\<lambda>n. ec_mint c n key tokenAddress receiver amount)) (\<lambda>hash.
           external (\<lambda>n. ec_waitForReceipt c n hash))))"

definition evm_mint :: "evm_client \<Rightarrow> string \<Rightarrow> string \<Rightarrow> int \<Rightarrow> string eff" where
  "evm_mint c assetIdentifier toAddress amount =
     bindE (mint_service c assetIdentifier toAddress amount) (\<lambda>receipt. returnE (er_transactionHash receipt))"

definition evm_createCustodialWallet :: "evm_client \<Rightarrow> (string \<times> string) eff" where
  "evm_createCustodialWallet c =
     bindE (external (\<lambda>n. Inr (ec_generatePrivateKey c n))) (\<lambda>key. returnE (ec_addressOf c key, key))"

definition evm_verifyOwnership :: "evm_client \<Rightarrow> string \<Rightarrow> string \<Rightarrow> string \<Rightarrow> bool eff" where
  "evm_verifyOwnership c address message signature =
     catchE (external (\<lambda>n. ec_verifyMessage c n address message signature)) (\<lambda>x. returnE False)"

definition evm_adapter :: "evm_client \<Rightarrow> key_service \<Rightarrow> adapter" where
  "evm_adapter c decrypt = \<lparr> ad_chain = ''EVM'', ad_canSign = per_wallet_canSign,
     ad_validateAssetIdentifier = ec_isAddress c,
     ad_submitTransfer = evm_submitTransfer c decrypt, ad_getTransaction = evm_getTransaction c,
     ad_mint = Some (evm_mint c), ad_getTokenBalance = Some (evm_getTokenBalance c),
     ad_createCustodialWallet = Some (evm_createCustodialWallet c),
     ad_verifyOwnership = Some (evm_verifyOwnership c) \<rparr>"

section \<open>Bitcoin\<close>

text \<open>
  Bitcoin Core gives amounts as JSON numbers of BTC with at most eight decimal places; such
  a number is represented by its count of \<^verbatim>\<open>1e-8\<close> BTC, on which the fixed-point conversions
  \<^verbatim>\<open>toFixed(8)\<close>, multiplication by \<^verbatim>\<open>1e8\<close> and rounding are exact.
\<close>

datatype btc_number = Btc int | NotFinite

record bitcoin_tx =
  bx_confirmations :: "int option"
  bx_blockhash :: "string option"

record bitcoin_client =
  bc_getblockchaininfo :: "nat \<Rightarrow> exn + int"
  bc_listunspent :: "nat \<Rightarrow> string \<Rightarrow> exn + btc_number list"
  bc_sendtoaddress :: "nat \<Rightarrow> string \<Rightarrow> int \<Rightarrow> exn + string"
  bc_getrawtransaction :: "nat \<Rightarrow> string \<Rightarrow> exn + bitcoin_tx"
  bc_getblockheader :: "nat \<Rightarrow> string \<Rightarrow> exn + int"

definition btcToSatoshis :: "btc_number \<Rightarrow> exn + int" where
  "btcToSatoshis amount =
     (case amount of
        NotFinite \<Rightarrow> Inl (PlainError ''Bitcoin RPC returned an invalid BTC amount'')
      | Btc n \<Rightarrow> if n < 0 then Inl (PlainError ''Bitcoin RPC returned an invalid BTC amount'') else Inr n)"

definition satoshisToBtc :: "int \<Rightarrow> exn + int" where
  "satoshisToBtc amount =
     (if amount < 0 then Inl (PlainError ''Bitcoin transfer amount cannot be negative'')
      else if amount > 21000000 * 100000000 then Inl (PlainError ''Bitcoin transfer amount exceeds maximum supply'')
      else Inr amount)"

definition liftE :: "exn + 'a \<Rightarrow> 'a eff" where
  "liftE r = (case r of Inl x \<Rightarrow> throwE x | Inr a \<Rightarrow> returnE a)"

fun sum_utxos :: "btc_number list \<Rightarrow> int \<Rightarrow> exn + int" where
  "sum_utxos [] acc = Inr acc"
| "sum_utxos (u # us) acc = (case btcToSatoshis u of Inl x \<Rightarrow> Inl x | Inr n \<Rightarrow> sum_utxos us (acc + n))"

definition bitcoin_getTokenBalance :: "bitcoin_client \<Rightarrow> balance_request \<Rightarrow> token_balance eff" where
  "bitcoin_getTokenBalance c request =
     (if nonempty (br_assetIdentifier request)
      then throwE (PlainError ''Bitcoin balance reads support the native BTC asset only'')
      else bindE (external (bc_getblockchaininfo c)) (\<lambda>observedBlock.
        if (case br_blockNumber request of None \<Rightarrow> False | Some b \<Rightarrow> b > observedBlock)
        then throwE (PlainError (''Requested Bitcoin observation at height ''
               @ show_int (the (br_blockNumber request)) @ '' is ahead of chain tip '' @ show_int observedBlock))
        else bindE (external (\<lambda>n. bc_listunspent c n (br_walletAddress request))) (\<lambda>utxos.
             bindE (liftE (sum_utxos utxos 0)) (\<lambda>balance.
             returnE \<lparr> tb_balance = balance, tb_blockNumber = observedBlock \<rparr>))))"

definition bitcoin_submitTransfer :: "bitcoin_client \<Rightarrow> transfer_order \<Rightarrow> string eff" where
  "bitcoin_submitTransfer c request =
     bindE (liftE (satoshisToBtc (to_amount request))) (\<lambda>btc.
       external (\<lambda>n. bc_sendtoaddress c n (to_toAddress request) btc))"

definition bitcoin_getTransaction :: "bitcoin_client \<Rightarrow> string \<Rightarrow> blockchain_transaction eff" where
  "bitcoin_getTransaction c txHash =
     bindE (external (\<lambda>n. bc_getrawtransaction c n txHash)) (\<lambda>transaction.
       let confirmations = (case bx_confirmations transaction of None \<Rightarrow> 0 | Some k \<Rightarrow> k) in
       bindE (if confirmations > 0 \<and> nonempty (bx_blockhash transaction)
              then bindE (external (\<lambda>n. bc_getblockheader c n (the (bx_blockhash transaction)))) (\<lambda>h. returnE (Some h))
              else returnE None) (\<lambda>blockNumber.
       returnE \<lparr> bt_txHash = txHash, bt_blockNumber = blockNumber, bt_confirmations = confirmations,
         bt_status = (if confirmations > 0 then chain_confirmed else chain_pending),
         bt_gasUsed = None, bt_confirmationLevel = None \<rparr>))"

definition bitcoin_adapter :: "bitcoin_client \<Rightarrow> adapter" where
  "bitcoin_adapter c = \<lparr> ad_chain = ''BITCOIN'', ad_canSign = (\<lambda>_. True),
     ad_validateAssetIdentifier = (\<lambda>_. False),
     ad_submitTransfer = bitcoin_submitTransfer c, ad_getTransaction = bitcoin_getTransaction c,
     ad_mint = None, ad_getTokenBalance = Some (bitcoin_getTokenBalance c),
     ad_createCustodialWallet = None, ad_verifyOwnership = None \<rparr>"

section \<open>Solana\<close>

record signature_status =
  ss_slot :: int
  ss_confirmations :: "int option"
  ss_err :: bool
  ss_confirmationStatus :: "string option"

record solana_client =
  sc_publicKey :: "string \<Rightarrow> exn + unit"
  sc_getBalanceAndContext :: "nat \<Rightarrow> string \<Rightarrow> int option \<Rightarrow> exn + int \<times> int"
  sc_getLatestBlockhash :: "nat \<Rightarrow> exn + string"
  sc_sendTransfer :: "nat \<Rightarrow> string \<Rightarrow> string \<Rightarrow> string \<Rightarrow> int \<Rightarrow> exn + string"
  sc_getSignatureStatus :: "nat \<Rightarrow> string \<Rightarrow> exn + signature_status option"
  sc_computeUnits :: "nat \<Rightarrow> string \<Rightarrow> exn + int option"
  sc_generate :: "nat \<Rightarrow> string \<times> string"

definition toSafeSolanaSlot :: "int \<Rightarrow> exn + int" where
  "toSafeSolanaSlot blockNumber =
     (if blockNumber < 0 \<or> blockNumber > MAX_SAFE_INTEGER
      then Inl (PlainError ''Solana observation slot exceeds JavaScript safe integer range'')
      else Inr (Number_of_bigint blockNumber))"

definition solana_getTokenBalance :: "solana_client \<Rightarrow> balance_request \<Rightarrow> token_balance eff" where
  "solana_getTokenBalance c request =
     (if nonempty (br_assetIdentifier request)
      then throwE (PlainError ''Solana balance reads support the native SOL asset only'')
      else bindE (case br_blockNumber request of
                    None \<Rightarrow> returnE None
                  | Some b \<Rightarrow> bindE (liftE (toSafeSolanaSlot b)) (\<lambda>s. returnE (Some s))) (\<lambda>minContextSlot.
           bindE (liftE (sc_publicKey c (br_walletAddress request))) (\<lambda>_.
           bindE (external (\<lambda>n. sc_getBalanceAndContext c n (br_walletAddress request) minContextSlot)) (\<lambda>result.
           returnE \<lparr> tb_balance = fst result, tb_blockNumber = snd result \<rparr>))))"

definition solana_submitTransfer :: "solana_client \<Rightarrow> key_service \<Rightarrow> transfer_order \<Rightarrow> string eff" where
  "solana_submitTransfer c decrypt request =
     (if to_amount request < 0 then throwE (PlainError ''Solana transfer amount cannot be negative'')
      else bindE (getKeypairFor decrypt (to_walletId request) (to_tenantId request)) (\<lambda>secret.
           bindE (liftE (sc_publicKey c (to_toAddress request))) (\<lambda>_.
           bindE (external (sc_getLatestBlockhash c)) (\<lambda>blockhash.
           external (\<lambda>n. sc_sendTransfer c n secret blockhash (to_toAddress request) (to_amount request))))))"

definition solana_getTransaction :: "solana_client \<Rightarrow> string \<Rightarrow> blockchain_transaction eff" where
  "solana_getTransaction c txHash =
     bindE (external (\<lambda>n. sc_getSignatureStatus c n txHash)) (\<lambda>status.
       case status of
         None \<Rightarrow> returnE \<lparr> bt_txHash = txHash, bt_blockNumber = None, bt_confirmations = 0,
           bt_status = chain_pending, bt_gasUsed = None, bt_confirmationLevel = None \<rparr>
       | Some s \<Rightarrow>
           if ss_err s then returnE \<lparr> bt_txHash = txHash, bt_blockNumber = Some (ss_slot s),
             bt_confirmations = (case ss_confirmations s of None \<Rightarrow> 0 | Some k \<Rightarrow> k),
             bt_status = chain_failed, bt_gasUsed = None, bt_confirmationLevel = ss_confirmationStatus s \<rparr>
           else
             let isConfirmedOrFinalized =
                   (ss_confirmationStatus s = Some ''confirmed'' \<or> ss_confirmationStatus s = Some ''finalized'') in
             bindE (if isConfirmedOrFinalized then external (\<lambda>n. sc_computeUnits c n txHash) else returnE None) (\<lambda>gasUsed.
             returnE \<lparr> bt_txHash = txHash, bt_blockNumber = Some (ss_slot s),
               bt_confirmations = (case ss_confirmations s of None \<Rightarrow> 0 | Some k \<Rightarrow> k),
               bt_status = (if isConfirmedOrFinalized then chain_confirmed else chain_pending),
               bt_gasUsed = gasUsed, bt_confirmationLevel = ss_confirmationStatus s \<rparr>))"

definition solana_createCustodialWallet :: "solana_client \<Rightarrow> (string \<times> string) eff" where
  "solana_createCustodialWallet c = external (\<lambda>n. Inr (sc_generate c n))"

definition solana_adapter :: "solana_client \<Rightarrow> key_service \<Rightarrow> adapter" where
  "solana_adapter c decrypt = \<lparr> ad_chain = ''SOLANA'', ad_canSign = per_wallet_canSign,
     ad_validateAssetIdentifier = (\<lambda>_. False),
     ad_submitTransfer = solana_submitTransfer c decrypt, ad_getTransaction = solana_getTransaction c,
     ad_mint = None, ad_getTokenBalance = Some (solana_getTokenBalance c),
     ad_createCustodialWallet = Some (solana_createCustodialWallet c), ad_verifyOwnership = None \<rparr>"

text \<open>\<^verbatim>\<open>blockchain-adapters.ts\<close>.\<close>

definition blockchainAdapterRegistry ::
  "evm_client \<Rightarrow> bitcoin_client \<Rightarrow> solana_client \<Rightarrow> key_service \<Rightarrow> adapter list" where
  "blockchainAdapterRegistry ec bc sc decrypt =
     [evm_adapter ec decrypt, bitcoin_adapter bc, solana_adapter sc decrypt]"

section \<open>What the services rely on\<close>

text \<open>An adapter asks the chain and the wallet tables; it writes nothing, and answers about the hash it was asked for.\<close>

locale chain_adapter =
  fixes a :: adapter
  assumes submit_keeps: "store_frame R \<Longrightarrow> rely R e \<Longrightarrow> keeps R e (ad_submitTransfer a q)"
    and get_keeps: "store_frame R \<Longrightarrow> rely R e \<Longrightarrow> keeps R e (ad_getTransaction a h)"
    and balance_keeps: "store_frame R \<Longrightarrow> rely R e \<Longrightarrow> ad_getTokenBalance a = Some f \<Longrightarrow> keeps R e (f b)"
    and mint_keeps: "store_frame R \<Longrightarrow> rely R e \<Longrightarrow> ad_mint a = Some m \<Longrightarrow> keeps R e (m x y z)"
    and create_keeps: "store_frame R \<Longrightarrow> rely R e \<Longrightarrow> ad_createCustodialWallet a = Some k \<Longrightarrow> keeps R e k"
    and verify_keeps: "store_frame R \<Longrightarrow> rely R e \<Longrightarrow> ad_verifyOwnership a = Some v \<Longrightarrow> keeps R e (v x s t)"
    and get_answer: "yields (\<lambda>bt. bt_txHash bt = h \<and> (bt_status bt = chain_failed \<longrightarrow> bt_blockNumber bt \<noteq> None))
      (ad_getTransaction a h)"

context store_frame
begin

lemma keeps_lift [keeps_intros]: "keeps R e (liftE r)"
  by (auto simp: liftE_def intro: keeps_throw keeps_return split: sum.split)

lemma keeps_signing_secret [keeps_intros]: "rely R e \<Longrightarrow> keeps R e (signing_secret k i tn)"
  unfolding signing_secret_def by (auto intro!: keeps_intros split: prod.split)

lemma keeps_getWalletClient [keeps_intros]: "keeps R e (getWalletClient k)"
  unfolding getWalletClient_def by (intro keeps_intros)

lemma keeps_registry_get [keeps_intros]: "keeps R e (registry_get as c)"
  unfolding registry_get_def by (intro keeps_intros)

end

lemmas evm_defs = evm_submitTransfer_def evm_getTransaction_def evm_getTokenBalance_def mint_service_def
  evm_mint_def evm_createCustodialWallet_def evm_verifyOwnership_def

lemmas bitcoin_defs = bitcoin_submitTransfer_def bitcoin_getTransaction_def bitcoin_getTokenBalance_def

lemmas solana_defs = solana_submitTransfer_def solana_getTransaction_def solana_getTokenBalance_def
  solana_createCustodialWallet_def

lemmas adapter_frame = store_frame.keeps_bind store_frame.keeps_if store_frame.keeps_throw store_frame.keeps_return
  store_frame.keeps_external store_frame.keeps_signing_secret store_frame.keeps_getWalletClient
  store_frame.keeps_executeRpc store_frame.keeps_case_option store_frame.keeps_catch store_frame.keeps_lift

interpretation evm: chain_adapter "evm_adapter c decrypt" for c decrypt
  by unfold_locales (auto simp: evm_adapter_def evm_defs intro!: adapter_frame yields_intros)

interpretation btc: chain_adapter "bitcoin_adapter c" for c
  by unfold_locales (auto simp: bitcoin_adapter_def bitcoin_defs Let_def intro!: adapter_frame yields_intros
      split: if_splits)

interpretation sol: chain_adapter "solana_adapter c decrypt" for c decrypt
  by unfold_locales (auto simp: solana_adapter_def solana_defs Let_def intro!: adapter_frame yields_intros)

lemma registry_adapters: "a \<in> set (blockchainAdapterRegistry ec bc sc k) \<Longrightarrow> chain_adapter a"
  by (auto simp: blockchainAdapterRegistry_def intro: evm.chain_adapter_axioms btc.chain_adapter_axioms
      sol.chain_adapter_axioms)

lemma registry_get_Inr: "registry_get as c e w = (Inr a, w') \<Longrightarrow> a \<in> set as \<and> ad_chain a = toUpperCase c"
  by (auto simp: registry_get_def returnE_def throwE_def find_Some_iff split: option.splits)

lemma registry_get_known:
  "registry_get (blockchainAdapterRegistry ec bc sc k) (blockchain_name b) =
     returnE (case b of EVM \<Rightarrow> evm_adapter ec k | BITCOIN \<Rightarrow> bitcoin_adapter bc | SOLANA \<Rightarrow> solana_adapter sc k)"
  by (cases b) (simp_all add: registry_get_def blockchainAdapterRegistry_def evm_adapter_def bitcoin_adapter_def
      solana_adapter_def toUpperCase_def upper_char_def Let_def)

end
