(* ===== verification/Base64url.thy ===== *)
theory Base64url
  imports Js_Std
begin

text \<open>
  \<^verbatim>\<open>Buffer\<close>s as lists of bytes: the UTF-8 encoding of a string, the encodings
  \<^verbatim>\<open>base64url\<close> and \<^verbatim>\<open>hex\<close>. The decoder of Node accepts the characters of both base64
  alphabets and skips every other one.
\<close>

type_synonym bytes = "nat list"

definition bytes_ok :: "bytes \<Rightarrow> bool" where
  "bytes_ok bs \<longleftrightarrow> (\<forall>b \<in> set bs. b < 256)"

section \<open>UTF-8\<close>

text \<open>The characters of the model are those up to U+00FF, of one or two bytes.\<close>

definition utf8_char :: "char \<Rightarrow> bytes" where
  "utf8_char c = (let n = of_char c in if n < 128 then [n] else [192 + n div 64, 128 + n mod 64])"

definition utf8 :: "string \<Rightarrow> bytes" where
  "utf8 s = concat (map utf8_char s)"

text \<open>\<^verbatim>\<open>buffer.toString('utf8')\<close>, for the texts the model has.\<close>

fun utf8_decode :: "bytes \<Rightarrow> string option" where
  "utf8_decode [] = Some []"
| "utf8_decode (b # bs) =
     (if b < 128 then map_option (\<lambda>s. char_of b # s) (utf8_decode bs)
      else (case bs of
              [] \<Rightarrow> None
            | c # cs \<Rightarrow> if (b = 194 \<or> b = 195) \<and> 128 \<le> c \<and> c < 192
                then map_option (\<lambda>s. char_of ((b - 192) * 64 + (c - 128)) # s) (utf8_decode cs) else None))"

lemma utf8_decode_char: "utf8_decode (utf8_char c @ bs) = map_option (\<lambda>s. c # s) (utf8_decode bs)"
proof (cases "of_char c < (128 :: nat)")
  case True
  then show ?thesis by (simp add: utf8_char_def)
next
  case False
  let ?n = "of_char c :: nat"
  have "?n < 256" by simp
  then have "?n div 64 = 2 \<or> ?n div 64 = 3" using False by linarith
  moreover have "?n div 64 * 64 + ?n mod 64 = ?n" by simp
  ultimately show ?thesis using False by (auto simp: utf8_char_def Let_def simp flip: of_char_eq_iff)
qed

lemma utf8_round_trip: "utf8_decode (utf8 s) = Some s"
  by (induction s) (simp_all add: utf8_def utf8_decode_char)

lemma utf8_ok: "bytes_ok (utf8 s)"
proof -
  have "b < 256" if "b \<in> set (utf8_char c)" for b c
  proof -
    have "(of_char c :: nat) < 256" by simp
    then have "(of_char c :: nat) div 64 < 4" by linarith
    then show ?thesis using that by (auto simp: utf8_char_def Let_def split: if_splits)
  qed
  then show ?thesis by (auto simp: bytes_ok_def utf8_def)
qed

section \<open>base64url\<close>

definition sextet_char :: "nat \<Rightarrow> char" where
  "sextet_char n = char_of (if n < 26 then 65 + n else if n < 52 then 71 + n else if n < 62 then n - 4
     else if n = 62 then 45 else 95)"

definition char_sextet :: "char \<Rightarrow> nat option" where
  "char_sextet c =
     (let n = (of_char c :: nat) in
      if 65 \<le> n \<and> n \<le> 90 then Some (n - 65) else if 97 \<le> n \<and> n \<le> 122 then Some (n - 71)
      else if 48 \<le> n \<and> n \<le> 57 then Some (n + 4)
      else if n = 45 \<or> n = 43 then Some 62 else if n = 95 \<or> n = 47 then Some 63 else None)"

fun sextets :: "bytes \<Rightarrow> nat list" where
  "sextets [] = []"
| "sextets [a] = [a div 4, a mod 4 * 16]"
| "sextets [a, b] = [a div 4, a mod 4 * 16 + b div 16, b mod 16 * 4]"
| "sextets (a # b # c # bs) = a div 4 # (a mod 4 * 16 + b div 16) # (b mod 16 * 4 + c div 64) # c mod 64 # sextets bs"

fun octets :: "nat list \<Rightarrow> bytes" where
  "octets (p # q # r # s # rest) = (p * 4 + q div 16) # (q mod 16 * 16 + r div 4) # (r mod 4 * 64 + s) # octets rest"
| "octets [p, q, r] = [p * 4 + q div 16, q mod 16 * 16 + r div 4]"
| "octets [p, q] = [p * 4 + q div 16]"
| "octets _ = []"

text \<open>\<^verbatim>\<open>buffer.toString('base64url')\<close> and \<^verbatim>\<open>Buffer.from(text, 'base64url')\<close>.\<close>

definition base64url :: "bytes \<Rightarrow> string" where
  "base64url bs = map sextet_char (sextets bs)"

definition from_base64url :: "string \<Rightarrow> bytes" where
  "from_base64url s = octets (List.map_filter char_sextet s)"

lemma sextets_bound: "bytes_ok bs \<Longrightarrow> q \<in> set (sextets bs) \<Longrightarrow> q < 64"
  by (induction bs rule: sextets.induct) (auto simp: bytes_ok_def less_mult_imp_div_less)

lemma octets_sextets: "bytes_ok bs \<Longrightarrow> octets (sextets bs) = bs"
proof (induction bs rule: sextets.induct)
  case (4 a b c bs)
  have "a div 4 * 4 + (a mod 4 * 16 + b div 16) div 16 = a" "(a mod 4 * 16 + b div 16) mod 16 * 16 + (b mod 16 * 4 + c div 64) div 4 = b"
    "(b mod 16 * 4 + c div 64) mod 4 * 64 + c mod 64 = c"
    using "4.prems" by (auto simp: bytes_ok_def)
  with 4 show ?case by (simp add: bytes_ok_def)
qed (auto simp: bytes_ok_def)

lemma char_sextet_char: "q < 64 \<Longrightarrow> char_sextet (sextet_char q) = Some q"
  by (simp add: char_sextet_def sextet_char_def Let_def) linarith

lemma map_filter_sextets: "\<forall>q \<in> set qs. q < 64 \<Longrightarrow> List.map_filter char_sextet (map sextet_char qs) = qs"
  by (induction qs) (simp_all add: List.map_filter_simps char_sextet_char)

lemma base64url_round_trip: "bytes_ok bs \<Longrightarrow> from_base64url (base64url bs) = bs"
  by (simp add: from_base64url_def base64url_def map_filter_sextets sextets_bound octets_sextets)

lemma length_sextets: "length (sextets bs) \<le> 2 * length bs"
  by (induction bs rule: sextets.induct) simp_all

lemma length_base64url: "length (base64url bs) \<le> 2 * length bs"
  by (simp add: base64url_def length_sextets)

lemma length_utf8: "length (utf8 s) \<le> 2 * length s"
proof -
  have c: "length (utf8_char c) \<le> 2" for c by (simp add: utf8_char_def Let_def)
  show ?thesis
  proof (induction s)
    case (Cons x s)
    have "length (utf8 (x # s)) = length (utf8_char x) + length (utf8 s)" by (simp add: utf8_def)
    with c [of x] Cons show ?case by simp
  qed (simp add: utf8_def)
qed

lemma base64url_alphabet: "bytes_ok bs \<Longrightarrow> c \<in> set (base64url bs) \<Longrightarrow> c \<noteq> CHR ''.''"
proof -
  have "sextet_char q \<noteq> CHR ''.''" if "q < 64" for q
    using char_sextet_char [OF that] by (auto simp: char_sextet_def)
  then show "bytes_ok bs \<Longrightarrow> c \<in> set (base64url bs) \<Longrightarrow> c \<noteq> CHR ''.''"
    using sextets_bound by (auto simp: base64url_def)
qed

section \<open>Hexadecimal\<close>

definition hex_char :: "nat \<Rightarrow> char" where
  "hex_char n = char_of (if n < 10 then 48 + n else 87 + n)"

text \<open>\<^verbatim>\<open>buffer.toString('hex')\<close>.\<close>

definition to_hex :: "bytes \<Rightarrow> string" where
  "to_hex bs = concat (map (\<lambda>b. [hex_char (b div 16), hex_char (b mod 16)]) bs)"

definition hex_nibble :: "char \<Rightarrow> nat option" where
  "hex_nibble c =
     (let n = (of_char c :: nat) in
      if 48 \<le> n \<and> n \<le> 57 then Some (n - 48) else if 97 \<le> n \<and> n \<le> 102 then Some (n - 87)
      else if 65 \<le> n \<and> n \<le> 70 then Some (n - 55) else None)"

text \<open>\<^verbatim>\<open>Buffer.from(text, 'hex')\<close>: decoding stops at the first pair that is not hexadecimal.\<close>

fun from_hex :: "string \<Rightarrow> bytes" where
  "from_hex (c # d # s) = (case (hex_nibble c, hex_nibble d) of
     (Some p, Some q) \<Rightarrow> (16 * p + q) # from_hex s | _ \<Rightarrow> [])"
| "from_hex _ = []"

lemma hex_nibble_char: "n < 16 \<Longrightarrow> hex_nibble (hex_char n) = Some n"
  by (simp add: hex_nibble_def hex_char_def Let_def)

lemma hex_round_trip: "bytes_ok bs \<Longrightarrow> from_hex (to_hex bs) = bs"
  by (induction bs) (simp_all add: bytes_ok_def to_hex_def hex_nibble_char less_mult_imp_div_less)

lemma length_to_hex [simp]: "length (to_hex bs) = 2 * length bs"
  by (induction bs) (simp_all add: to_hex_def)

end
