(* ===== verification/Identity.thy ===== *)
theory Identity
  imports Transaction_Repository Base64url
begin

text \<open>
  Tenants, users, API keys, tokens and the audit trail:
  \<^verbatim>\<open>repositories/tenant|user|api-key|refresh-token|audit-log.repository.ts\<close>,
  \<^verbatim>\<open>services/tenant|auth|audit-log.service.ts\<close>, \<^verbatim>\<open>auth/jwt|password|api-key.service.ts\<close>,
  \<^verbatim>\<open>utils/crypto.hash.ts\<close>. The functions of \<^verbatim>\<open>node:crypto\<close>, bcrypt and the JWT library are
  the fields of a record \<open>crypto_lib\<close>; a function whose answer depends on randomness or on the
  clock takes the number of the call.
\<close>

section \<open>Libraries\<close>

record jwt_payload =
  jp_id :: string
  jp_email :: string
  jp_role :: role
  jp_tenantId :: string
  jp_jti :: "string option"

record crypto_lib =
  cl_sha256 :: "string \<Rightarrow> string"
  cl_hmac :: "bytes \<Rightarrow> string \<Rightarrow> bytes"
  cl_randomBytes :: "nat \<Rightarrow> nat \<Rightarrow> bytes"
  cl_bcryptHash :: "nat \<Rightarrow> string \<Rightarrow> int \<Rightarrow> string"
  cl_bcryptCompare :: "string \<Rightarrow> string \<Rightarrow> bool"
  cl_jwtSign :: "nat \<Rightarrow> jwt_payload \<Rightarrow> string \<Rightarrow> string"
  cl_jwtVerify :: "nat \<Rightarrow> string \<Rightarrow> exn + jwt_payload"

text \<open>A call into a library that answers at once: nothing else happens meanwhile.\<close>

definition library :: "(nat \<Rightarrow> exn + 'a) \<Rightarrow> 'a eff" where
  "library g = (\<lambda>e w. (g (calls w), w\<lparr>calls := Suc (calls w)\<rparr>))"

definition randomBytes :: "crypto_lib \<Rightarrow> nat \<Rightarrow> bytes eff" where
  "randomBytes c k = library (\<lambda>n. Inr (cl_randomBytes c n k))"

text \<open>The digest of \<^verbatim>\<open>createHash('sha256')\<close> in hexadecimal.\<close>

definition hashToken :: "crypto_lib \<Rightarrow> string \<Rightarrow> string" where
  "hashToken c token = cl_sha256 c token"

definition SALT_ROUNDS :: int where "SALT_ROUNDS = 12"

definition hashPassword :: "crypto_lib \<Rightarrow> string \<Rightarrow> string eff" where
  "hashPassword c password = external (\<lambda>n. Inr (cl_bcryptHash c n password SALT_ROUNDS))"

definition verifyPassword :: "crypto_lib \<Rightarrow> string \<Rightarrow> string \<Rightarrow> bool eff" where
  "verifyPassword c password passwordHash = external (\<lambda>n. Inr (cl_bcryptCompare c password passwordHash))"

section \<open>Audit log\<close>

record audit_entry =
  ae_tenantId :: "string option"
  ae_userId :: "string option"
  ae_action :: string
  ae_resource :: string
  ae_resourceId :: "string option"
  ae_metadata :: "json option"

definition audit_create :: "audit_entry \<Rightarrow> audit_log eff" where
  "audit_create entry =
     bindE randomUUID (\<lambda>i. bindE getNow (\<lambda>now. statement (\<lambda>d.
       let x = \<lparr> al_id = i, al_tenantId = ae_tenantId entry, al_userId = ae_userId entry, al_action = ae_action entry,
             al_resource = ae_resource entry, al_resourceId = ae_resourceId entry, al_metadata = ae_metadata entry,
             al_createdAt = now \<rparr>
       in if row al_id (auditLogs d) i = None then Inr (x, d\<lparr>auditLogs := auditLogs d @ [x]\<rparr>) else Inl P2002)))"

definition audit_listByTenant :: "string \<Rightarrow> int \<Rightarrow> int \<Rightarrow> audit_log list eff" where
  "audit_listByTenant tenantId page limit = query (\<lambda>d.
     page_rows page limit (order_desc al_createdAt (filter (\<lambda>x. al_tenantId x = Some tenantId) (auditLogs d))))"

definition audit_record :: "audit_entry \<Rightarrow> unit eff" where
  "audit_record entry = catchE (bindE (audit_create entry) (\<lambda>_. returnE ())) (\<lambda>error. returnE ())"

definition listForTenant :: "string \<Rightarrow> int \<Rightarrow> int \<Rightarrow> audit_log list eff" where
  "listForTenant tenantId page limit = audit_listByTenant tenantId page limit"

section \<open>API keys\<close>

definition KEY_PREFIX_LENGTH :: nat where "KEY_PREFIX_LENGTH = 8"

definition apiKey_insert :: "api_key \<Rightarrow> store \<Rightarrow> db_error + api_key \<times> store" where
  "apiKey_insert k d =
     (if row ak_id (apiKeys d) (ak_id k) = None \<and> row ak_keyHash (apiKeys d) (ak_keyHash k) = None
      then Inr (k, d\<lparr>apiKeys := apiKeys d @ [k]\<rparr>) else Inl P2002)"

definition apiKey_create ::
  "string \<Rightarrow> string \<Rightarrow> string \<Rightarrow> string \<Rightarrow> string list \<Rightarrow> int option \<Rightarrow> api_key eff" where
  "apiKey_create tenantId keyHash keyPrefix name scopes expiresAt =
     bindE randomUUID (\<lambda>i. bindE getNow (\<lambda>now. statement (apiKey_insert
       \<lparr> ak_id = i, ak_tenantId = tenantId, ak_keyHash = keyHash, ak_keyPrefix = keyPrefix, ak_name = name,
         ak_active = True, ak_scopes = scopes, ak_lastUsedAt = None, ak_expiresAt = expiresAt, ak_createdAt = now,
         ak_revokedAt = None \<rparr>)))"

definition usable :: "int \<Rightarrow> api_key \<Rightarrow> bool" where
  "usable now k = (ak_active k \<and> ak_revokedAt k = None \<and> (case ak_expiresAt k of None \<Rightarrow> True | Some t \<Rightarrow> t > now))"

text \<open>Each candidate with its tenant, which the foreign key guarantees to exist.\<close>

definition findActiveByPrefix :: "string \<Rightarrow> (api_key \<times> tenant) list eff" where
  "findActiveByPrefix keyPrefix =
     bindE getNow (\<lambda>now. query (\<lambda>d.
       List.map_filter (\<lambda>k. map_option (\<lambda>t. (k, t)) (row tn_id (tenants d) (ak_tenantId k)))
         (filter (\<lambda>k. ak_keyPrefix k = keyPrefix \<and> usable now k) (apiKeys d))))"

definition touchLastUsed :: "string \<Rightarrow> api_key eff" where
  "touchLastUsed i =
     bindE getNow (\<lambda>now. statement (\<lambda>d.
       case row ak_id (apiKeys d) i of
         None \<Rightarrow> Inl P2025
       | Some k \<Rightarrow> Inr (k\<lparr>ak_lastUsedAt := Some now\<rparr>,
           d\<lparr>apiKeys := update_rows (\<lambda>k. ak_id k = i) (\<lambda>k. k\<lparr>ak_lastUsedAt := Some now\<rparr>) (apiKeys d)\<rparr>)))"

definition listByTenant :: "string \<Rightarrow> api_key list eff" where
  "listByTenant tenantId = query (\<lambda>d. order_desc ak_createdAt (filter (\<lambda>k. ak_tenantId k = tenantId) (apiKeys d)))"

definition apiKey_findByIdForTenant :: "string \<Rightarrow> string \<Rightarrow> api_key option eff" where
  "apiKey_findByIdForTenant tenantId i = query (\<lambda>d. List.find (\<lambda>k. ak_id k = i \<and> ak_tenantId k = tenantId) (apiKeys d))"

definition revoke :: "string \<Rightarrow> string \<Rightarrow> bool eff" where
  "revoke tenantId i =
     bindE getNow (\<lambda>now. statement (\<lambda>d.
       let P = (\<lambda>k. ak_id k = i \<and> ak_tenantId k = tenantId \<and> ak_revokedAt k = None) in
       Inr (count_rows P (apiKeys d) = 1,
         d\<lparr>apiKeys := update_rows P (\<lambda>k. k\<lparr>ak_active := False, ak_revokedAt := Some now\<rparr>) (apiKeys d)\<rparr>)))"

record created_key =
  kc_id :: string
  kc_apiKey :: string
  kc_keyPrefix :: string
  kc_name :: string
  kc_scopes :: "string list"
  kc_expiresAt :: "int option"
  kc_createdAt :: int

definition generateRawKey :: "crypto_lib \<Rightarrow> string eff" where
  "generateRawKey c = bindE (randomBytes c 32) (\<lambda>bs. returnE (''tenant_'' @ to_hex bs))"

definition createKey :: "crypto_lib \<Rightarrow> string \<Rightarrow> string \<Rightarrow> string list option \<Rightarrow> int option \<Rightarrow> created_key eff" where
  "createKey c tenantId name scopes expiresAt =
     bindE (generateRawKey c) (\<lambda>rawKey.
     bindE (apiKey_create tenantId (hashToken c rawKey) (take KEY_PREFIX_LENGTH rawKey) name
        (case scopes of None \<Rightarrow> [''*''] | Some ss \<Rightarrow> if length ss > 0 then ss else [''*'']) expiresAt) (\<lambda>k.
     bindE (audit_record \<lparr> ae_tenantId = Some tenantId, ae_userId = None, ae_action = ''api_key.created'',
        ae_resource = ''ApiKey'', ae_resourceId = Some (ak_id k),
        ae_metadata = Some (JObj [(''name'', JStr (ak_name k)), (''scopes'', JArr (map JStr (ak_scopes k)))]) \<rparr>) (\<lambda>_.
     returnE \<lparr> kc_id = ak_id k, kc_apiKey = rawKey, kc_keyPrefix = ak_keyPrefix k, kc_name = ak_name k,
       kc_scopes = ak_scopes k, kc_expiresAt = ak_expiresAt k, kc_createdAt = ak_createdAt k \<rparr>)))"

definition invalidTenantKey :: exn where
  "invalidTenantKey = AppError 401 ''INVALID_TENANT_KEY'' ''Invalid tenant API key'' []"

definition verifyKey :: "crypto_lib \<Rightarrow> string \<Rightarrow> (tenant \<times> api_key) eff" where
  "verifyKey c rawKey =
     (if rawKey = [] \<or> length rawKey < KEY_PREFIX_LENGTH then throwE invalidTenantKey
      else (let keyPrefix = take KEY_PREFIX_LENGTH rawKey; presentedHash = from_hex (hashToken c rawKey) in
        bindE (findActiveByPrefix keyPrefix) (\<lambda>candidates.
        case List.find (\<lambda>(k, t). length (from_hex (ak_keyHash k)) = length presentedHash \<and>
               from_hex (ak_keyHash k) = presentedHash) candidates of
          None \<Rightarrow> throwE invalidTenantKey
        | Some (k, t) \<Rightarrow> bindE (touchLastUsed (ak_id k)) (\<lambda>_. returnE (t, k)))))"

text \<open>What is listed of a key: neither the key nor its hash.\<close>

record listed_key =
  kl_id :: string
  kl_keyPrefix :: string
  kl_name :: string
  kl_scopes :: "string list"
  kl_active :: bool
  kl_lastUsedAt :: "int option"
  kl_expiresAt :: "int option"
  kl_createdAt :: int
  kl_revokedAt :: "int option"

definition listKeys :: "string \<Rightarrow> listed_key list eff" where
  "listKeys tenantId =
     bindE (listByTenant tenantId) (\<lambda>keys.
     returnE (map (\<lambda>k. \<lparr> kl_id = ak_id k, kl_keyPrefix = ak_keyPrefix k, kl_name = ak_name k, kl_scopes = ak_scopes k,
       kl_active = ak_active k, kl_lastUsedAt = ak_lastUsedAt k, kl_expiresAt = ak_expiresAt k,
       kl_createdAt = ak_createdAt k, kl_revokedAt = ak_revokedAt k \<rparr>) keys))"

definition revokeKey :: "string \<Rightarrow> string \<Rightarrow> string eff" where
  "revokeKey tenantId keyId =
     bindE (apiKey_findByIdForTenant tenantId keyId) (\<lambda>existing.
     case existing of
       None \<Rightarrow> throwE (AppError 404 ''API_KEY_NOT_FOUND'' ''API key not found'' [])
     | Some k \<Rightarrow>
         bindE (revoke tenantId keyId) (\<lambda>revoked.
         if \<not> revoked then throwE (AppError 409 ''API_KEY_ALREADY_REVOKED'' ''API key already revoked'' [])
         else bindE (audit_record \<lparr> ae_tenantId = Some tenantId, ae_userId = None, ae_action = ''api_key.revoked'',
                ae_resource = ''ApiKey'', ae_resourceId = Some keyId, ae_metadata = None \<rparr>) (\<lambda>_. returnE keyId)))"

section \<open>Tenants\<close>

text \<open>The nested write is one database transaction: the tenant and its default key, or neither.\<close>

definition tenant_create :: "crypto_lib \<Rightarrow> string \<Rightarrow> string \<Rightarrow> (tenant \<times> api_key) eff" where
  "tenant_create c name apiKey =
     bindE randomUUID (\<lambda>i. bindE randomUUID (\<lambda>ki. bindE getNow (\<lambda>now. statement (\<lambda>d.
       let t = \<lparr> tn_id = i, tn_name = name, tn_createdAt = now \<rparr>;
           k = \<lparr> ak_id = ki, ak_tenantId = i, ak_keyHash = hashToken c apiKey, ak_keyPrefix = take 8 apiKey,
             ak_name = ''default'', ak_active = True, ak_scopes = [''*''], ak_lastUsedAt = None, ak_expiresAt = None,
             ak_createdAt = now, ak_revokedAt = None \<rparr>
       in if row tn_id (tenants d) i = None \<and> row tn_name (tenants d) name = None
          then (case apiKey_insert k (d\<lparr>tenants := tenants d @ [t]\<rparr>) of
                  Inl x \<Rightarrow> Inl x | Inr (k', d') \<Rightarrow> Inr ((t, k'), d'))
          else Inl P2002))))"

definition tenant_findById :: "string \<Rightarrow> tenant option eff" where
  "tenant_findById i = query (\<lambda>d. row tn_id (tenants d) i)"

text \<open>The tenant with its keys, and the raw key, which is returned here only.\<close>

definition createTenant :: "crypto_lib \<Rightarrow> string \<Rightarrow> ((tenant \<times> api_key) \<times> string) eff" where
  "createTenant c name =
     bindE (randomBytes c 32) (\<lambda>bs.
     let apiKey = ''tenant_'' @ to_hex bs in
     bindE (tenant_create c name apiKey) (\<lambda>(t, k).
     bindE (audit_record \<lparr> ae_tenantId = Some (tn_id t), ae_userId = None, ae_action = ''tenant.created'', ae_resource = ''Tenant'',
        ae_resourceId = Some (tn_id t), ae_metadata = Some (JObj [(''name'', JStr name)]) \<rparr>) (\<lambda>_.
     returnE ((t, k), apiKey))))"

section \<open>Users and tokens\<close>

definition findUserByEmail :: "string \<Rightarrow> user option eff" where
  "findUserByEmail email = query (\<lambda>d. row us_email (users d) email)"

definition findUserById :: "string \<Rightarrow> user option eff" where
  "findUserById i = query (\<lambda>d. row us_id (users d) i)"

text \<open>\<^verbatim>\<open>connect\<close> requires the tenant to exist.\<close>

definition createUser :: "string \<Rightarrow> string \<Rightarrow> role \<Rightarrow> string \<Rightarrow> user eff" where
  "createUser email passwordHash r tenantId =
     bindE randomUUID (\<lambda>i. bindE getNow (\<lambda>now. statement (\<lambda>d.
       let u = \<lparr> us_id = i, us_email = email, us_passwordHash = passwordHash, us_role = r, us_tenantId = tenantId,
             us_createdAt = now \<rparr>
       in if row tn_id (tenants d) tenantId = None then Inl P2025
          else if row us_id (users d) i = None \<and> row us_email (users d) email = None
          then Inr (u, d\<lparr>users := users d @ [u]\<rparr>) else Inl P2002)))"

definition refreshToken_create :: "crypto_lib \<Rightarrow> string \<Rightarrow> string \<Rightarrow> int \<Rightarrow> refresh_token eff" where
  "refreshToken_create c userId token expiresAt =
     bindE randomUUID (\<lambda>i. bindE getNow (\<lambda>now. statement (\<lambda>d.
       let r = \<lparr> rt_id = i, rt_userId = userId, rt_tokenHash = hashToken c token, rt_createdAt = now,
             rt_expiresAt = expiresAt, rt_revokedAt = None \<rparr>
       in if row rt_id (refreshTokens d) i = None \<and> row rt_tokenHash (refreshTokens d) (hashToken c token) = None
          then Inr (r, d\<lparr>refreshTokens := refreshTokens d @ [r]\<rparr>) else Inl P2002)))"

definition findByToken :: "crypto_lib \<Rightarrow> string \<Rightarrow> refresh_token option eff" where
  "findByToken c token = query (\<lambda>d. row rt_tokenHash (refreshTokens d) (hashToken c token))"

definition deleteByToken :: "crypto_lib \<Rightarrow> string \<Rightarrow> refresh_token eff" where
  "deleteByToken c token = statement (\<lambda>d.
     case row rt_tokenHash (refreshTokens d) (hashToken c token) of
       None \<Rightarrow> Inl P2025
     | Some r \<Rightarrow> Inr (r, d\<lparr>refreshTokens := filter (\<lambda>x. rt_tokenHash x \<noteq> hashToken c token) (refreshTokens d)\<rparr>))"

text \<open>The two lifetimes of \<^verbatim>\<open>config/env.ts\<close>.\<close>

record token_lifetimes =
  JWT_ACCESS_EXPIRES :: string
  JWT_REFRESH_EXPIRES :: string

definition createAccessToken :: "crypto_lib \<Rightarrow> token_lifetimes \<Rightarrow> jwt_payload \<Rightarrow> string eff" where
  "createAccessToken c lt payload = library (\<lambda>n. Inr (cl_jwtSign c n payload (JWT_ACCESS_EXPIRES lt)))"

definition createRefreshToken :: "crypto_lib \<Rightarrow> token_lifetimes \<Rightarrow> jwt_payload \<Rightarrow> string eff" where
  "createRefreshToken c lt payload =
     bindE randomUUID (\<lambda>jti. library (\<lambda>n. Inr (cl_jwtSign c n (payload\<lparr>jp_jti := Some jti\<rparr>) (JWT_REFRESH_EXPIRES lt))))"

definition verifyToken :: "crypto_lib \<Rightarrow> string \<Rightarrow> jwt_payload eff" where
  "verifyToken c token = library (\<lambda>n. cl_jwtVerify c n token)"

text \<open>The units of \<^verbatim>\<open>/^(\d+)([smhd])$/\<close>; the number is one a double represents.\<close>

definition unit_ms :: "char \<Rightarrow> int option" where
  "unit_ms u = (if u = CHR ''s'' then Some 1000 else if u = CHR ''m'' then Some 60000
     else if u = CHR ''h'' then Some 3600000 else if u = CHR ''d'' then Some 86400000 else None)"

definition expiry_ms :: "string \<Rightarrow> int option" where
  "expiry_ms s =
     (if length s < 2 \<or> \<not> list_all is_digit (butlast s) then None
      else map_option (\<lambda>m. Number_of_bigint (digits_value (butlast s)) * m) (unit_ms (last s)))"

definition getRefreshTokenExpiry :: "token_lifetimes \<Rightarrow> int eff" where
  "getRefreshTokenExpiry lt =
     bindE getNow (\<lambda>now.
     case expiry_ms (JWT_REFRESH_EXPIRES lt) of
       None \<Rightarrow> throwE (PlainError (''Invalid JWT_REFRESH_EXPIRES format: '' @ JWT_REFRESH_EXPIRES lt))
     | Some ms \<Rightarrow> returnE (now + ms))"

section \<open>AuthService\<close>

definition unauthorized :: "string \<Rightarrow> exn" where
  "unauthorized message = AppError 401 ''UNAUTHORIZED'' message []"

definition invalidCredentials :: "string \<Rightarrow> exn" where
  "invalidCredentials message = AppError 401 ''INVALID_CREDENTIALS'' message []"

definition invalidToken :: "string \<Rightarrow> exn" where
  "invalidToken message = AppError 401 ''FORBIDDEN'' message []"

definition auth_register :: "crypto_lib \<Rightarrow> string \<Rightarrow> string \<Rightarrow> string \<Rightarrow> user eff" where
  "auth_register c email password tenantId =
     bindE (hashPassword c password) (\<lambda>passwordHash.
     bindE (createUser email passwordHash USER tenantId) (\<lambda>u.
     bindE (audit_record \<lparr> ae_tenantId = Some tenantId, ae_userId = Some (us_id u), ae_action = ''user.registered'',
        ae_resource = ''User'', ae_resourceId = Some (us_id u),
        ae_metadata = Some (JObj [(''email'', JStr (us_email u))]) \<rparr>) (\<lambda>_.
     returnE u)))"

record login_result =
  lr_accessToken :: string
  lr_refreshToken :: string
  lr_expiresIn :: int

definition payload_of :: "user \<Rightarrow> jwt_payload" where
  "payload_of u = \<lparr> jp_id = us_id u, jp_email = us_email u, jp_role = us_role u, jp_tenantId = us_tenantId u, jp_jti = None \<rparr>"

definition login :: "crypto_lib \<Rightarrow> token_lifetimes \<Rightarrow> string \<Rightarrow> string \<Rightarrow> login_result eff" where
  "login c lt email password =
     bindE (findUserByEmail email) (\<lambda>found.
     case found of
       None \<Rightarrow>
         bindE (audit_record \<lparr> ae_tenantId = None, ae_userId = None, ae_action = ''auth.login.failed'', ae_resource = ''User'',
            ae_resourceId = None,
            ae_metadata = Some (JObj [(''email'', JStr email), (''reason'', JStr ''user_not_found'')]) \<rparr>) (\<lambda>_.
         throwE (invalidCredentials ''Invalid email or password''))
     | Some u \<Rightarrow>
         bindE (verifyPassword c password (us_passwordHash u)) (\<lambda>valid.
         if \<not> valid then
           bindE (audit_record \<lparr> ae_tenantId = Some (us_tenantId u), ae_userId = Some (us_id u), ae_action = ''auth.login.failed'',
              ae_resource = ''User'', ae_resourceId = Some (us_id u),
              ae_metadata = Some (JObj [(''reason'', JStr ''invalid_password'')]) \<rparr>) (\<lambda>_.
           throwE (invalidCredentials ''Invalid email or password''))
         else
           bindE (audit_record \<lparr> ae_tenantId = Some (us_tenantId u), ae_userId = Some (us_id u), ae_action = ''auth.login.succeeded'',
              ae_resource = ''User'', ae_resourceId = Some (us_id u), ae_metadata = None \<rparr>) (\<lambda>_.
           bindE (createAccessToken c lt (payload_of u)) (\<lambda>accessToken.
           bindE (createRefreshToken c lt (payload_of u)) (\<lambda>refreshToken.
           bindE (getRefreshTokenExpiry lt) (\<lambda>expiresAt.
           bindE (refreshToken_create c (us_id u) refreshToken expiresAt) (\<lambda>_.
           returnE \<lparr> lr_accessToken = accessToken, lr_refreshToken = refreshToken, lr_expiresIn = 900 \<rparr>)))))))"

definition refresh :: "crypto_lib \<Rightarrow> token_lifetimes \<Rightarrow> string \<Rightarrow> (string \<times> int) eff" where
  "refresh c lt token =
     bindE (verifyToken c token) (\<lambda>payload.
     bindE (findByToken c token) (\<lambda>found.
     case found of
       None \<Rightarrow> throwE (invalidToken ''Invalid refresh token'')
     | Some r \<Rightarrow>
         bindE getNow (\<lambda>now.
         if rt_expiresAt r < now then throwE (invalidToken ''Refresh token expired'')
         else bindE (createAccessToken c lt (payload\<lparr>jp_jti := None\<rparr>)) (\<lambda>accessToken. returnE (accessToken, 900)))))"

section \<open>What the operations keep of the API keys\<close>

text \<open>A digest as the hash function returns it.\<close>

definition is_digest :: "string \<Rightarrow> bool" where
  "is_digest h \<longleftrightarrow> (\<exists>bs. bytes_ok bs \<and> h = to_hex bs)"

definition sha256_hex :: "crypto_lib \<Rightarrow> bool" where
  "sha256_hex c \<longleftrightarrow> (\<forall>s. is_digest (cl_sha256 c s))"

lemma is_digest_inject: "is_digest h \<Longrightarrow> is_digest h' \<Longrightarrow> from_hex h = from_hex h' \<longleftrightarrow> h = h'"
  by (auto simp: is_digest_def hex_round_trip)

definition keys_ok :: "store \<Rightarrow> bool" where
  "keys_ok d \<longleftrightarrow> keyed ak_id (apiKeys d) \<and> keyed ak_keyHash (apiKeys d) \<and> (\<forall>k \<in> set (apiKeys d). is_digest (ak_keyHash k))"

text \<open>No key disappears or changes its hash or tenant, and a revocation is final.\<close>

definition key_kept :: "api_key \<Rightarrow> api_key \<Rightarrow> bool" where
  "key_kept k k' \<longleftrightarrow> ak_keyHash k' = ak_keyHash k \<and> ak_tenantId k' = ak_tenantId k \<and>
     (ak_revokedAt k \<noteq> None \<longrightarrow> ak_revokedAt k' = ak_revokedAt k)"

definition key_order :: "store \<Rightarrow> store \<Rightarrow> bool" where
  "key_order d d' \<longleftrightarrow> (keys_ok d \<longrightarrow> keys_ok d' \<and>
     (\<forall>i k. row ak_id (apiKeys d) i = Some k \<longrightarrow> (\<exists>k'. row ak_id (apiKeys d') i = Some k' \<and> key_kept k k')))"

text \<open>A write to the tables of keys and tenants; digests are what the hash function makes of a key.\<close>

definition key_step :: "crypto_lib \<Rightarrow> store \<Rightarrow> store \<Rightarrow> bool" where
  "key_step c d d' \<longleftrightarrow> (\<exists>ks ts. d' = d\<lparr>apiKeys := ks, tenants := ts\<rparr>) \<and> (sha256_hex c \<longrightarrow> key_order d d')"

lemma key_order_same: "apiKeys d' = apiKeys d \<Longrightarrow> key_order d d'"
  by (simp add: key_order_def keys_ok_def key_kept_def)

lemma key_order_trans: "key_order a b \<Longrightarrow> key_order b c \<Longrightarrow> key_order a c"
  unfolding key_order_def key_kept_def by (metis (no_types, lifting))

lemma key_step_insert:
  assumes "apiKey_insert k (d\<lparr>tenants := ts\<rparr>) = Inr (k', d')" "ak_keyHash k = hashToken c raw"
  shows "key_step c d d'"
proof -
  from assms(1) have d': "d' = d\<lparr>apiKeys := apiKeys d @ [k], tenants := ts\<rparr>" "row ak_id (apiKeys d) (ak_id k) = None"
    "row ak_keyHash (apiKeys d) (ak_keyHash k) = None"
    by (auto simp: apiKey_insert_def split: if_splits)
  moreover have "sha256_hex c \<Longrightarrow> is_digest (ak_keyHash k)" using assms(2) by (simp add: sha256_hex_def hashToken_def)
  ultimately have "sha256_hex c \<longrightarrow> key_order d d'"
    by (auto simp: key_order_def keys_ok_def keyed_append_one row_append key_kept_def)
  with d'(1) show ?thesis unfolding key_step_def by blast
qed

lemma key_order_update:
  assumes "\<And>k. P k \<Longrightarrow> ak_id (f k) = ak_id k \<and> key_kept k (f k)"
  shows "key_order d (d\<lparr>apiKeys := update_rows P f (apiKeys d)\<rparr>)"
proof -
  let ?d = "d\<lparr>apiKeys := update_rows P f (apiKeys d)\<rparr>"
  have i: "row ak_id (apiKeys ?d) i = map_option (\<lambda>k. if P k then f k else k) (row ak_id (apiKeys d) i)" for i
    using assms by (simp add: row_update)
  have h: "\<And>k. P k \<Longrightarrow> ak_keyHash (f k) = ak_keyHash k" using assms by (simp add: key_kept_def)
  have "keys_ok d \<Longrightarrow> keys_ok ?d" using assms h by (auto simp: keys_ok_def) (auto simp: update_rows_def)
  moreover have "key_kept k k" for k by (simp add: key_kept_def)
  ultimately show ?thesis using i assms by (auto simp: key_order_def)
qed

lemma key_step_update:
  assumes "\<And>k. P k \<Longrightarrow> ak_id (f k) = ak_id k \<and> key_kept k (f k)"
  shows "key_step c d (d\<lparr>apiKeys := update_rows P f (apiKeys d)\<rparr>)"
proof -
  have "\<exists>ks ts. d\<lparr>apiKeys := update_rows P f (apiKeys d)\<rparr> = d\<lparr>apiKeys := ks, tenants := ts\<rparr>"
    by (rule exI [of _ "update_rows P f (apiKeys d)"], rule exI [of _ "tenants d"]) simp
  with key_order_update [OF assms] show ?thesis by (simp add: key_step_def)
qed

locale key_frame = store_frame R for R :: "store \<Rightarrow> store \<Rightarrow> bool" +
  fixes c :: crypto_lib
  assumes frame_key: "key_step c d d' \<Longrightarrow> R d d'"
begin

lemma keeps_library [keeps_intros]: "keeps R e (library g)"
  by (simp add: keeps_def library_def frame_refl)

lemma keeps_randomBytes [keeps_intros]: "keeps R e (randomBytes c' k)"
  unfolding randomBytes_def by (rule keeps_library)

lemma keeps_apiKey_create [keeps_intros]:
  assumes "rely R e"
  shows "keeps R e (apiKey_create tn (hashToken c raw) p nm sc x)"
proof -
  have "R d d'" if "apiKey_insert k d = Inr (k', d')" "ak_keyHash k = hashToken c raw" for k d k' d'
    by (rule frame_key, rule key_step_insert [where ts = "tenants d"]) (use that in simp_all)
  then show ?thesis
    unfolding apiKey_create_def by (intro keeps_intros keeps_statement safe_statementI assms) auto
qed

lemma keeps_tenant_create [keeps_intros]:
  assumes "rely R e"
  shows "keeps R e (tenant_create c nm raw)"
proof -
  have "R d d'" if "apiKey_insert k (d\<lparr>tenants := ts\<rparr>) = Inr (k', d')" "ak_keyHash k = hashToken c raw" for k d k' d' ts
    using that by (intro frame_key key_step_insert)
  then show ?thesis
    unfolding tenant_create_def
    by (intro keeps_intros keeps_statement safe_statementI assms) (auto simp: Let_def split: if_splits sum.splits)
qed

lemma keeps_key_updates [keeps_intros]:
  assumes "rely R e"
  shows "keeps R e (touchLastUsed i)" "keeps R e (revoke tn i)"
  unfolding touchLastUsed_def revoke_def
  by (intro keeps_intros keeps_statement safe_statementI assms;
      auto simp: Let_def key_kept_def intro!: frame_key key_step_update split: option.splits)+

end

text \<open>Relations that allow all writes of this theory.\<close>

locale identity_frame = transaction_frame R + key_frame R c for R :: "store \<Rightarrow> store \<Rightarrow> bool" and c
begin

lemma keeps_identity_writes [keeps_intros]:
  assumes "rely R e"
  shows "keeps R e (audit_record entry)" "keeps R e (createUser em ph r tn)" "keeps R e (refreshToken_create c' u t x)"
    "keeps R e (deleteByToken c' t)"
  using assms unfolding audit_record_def audit_create_def createUser_def refreshToken_create_def deleteByToken_def
  by (auto intro!: keeps_intros keeps_elsewhere simp: Let_def same_index_def split: if_splits option.splits)

lemma keeps_createKey:
  assumes "rely R e"
  shows "keeps R e (createKey c tn nm sc x)"
  unfolding createKey_def generateRawKey_def by (intro keeps_intros assms)

lemma keeps_key_operations:
  assumes "rely R e"
  shows "keeps R e (verifyKey c' raw)" "keeps R e (revokeKey tn i)" "keeps R e (listKeys tn)"
  using assms unfolding verifyKey_def findActiveByPrefix_def revokeKey_def apiKey_findByIdForTenant_def listKeys_def listByTenant_def
  by (auto intro!: keeps_intros split: option.split prod.split simp: Let_def)

lemma keeps_accounts:
  assumes "rely R e"
  shows "keeps R e (auth_register c' em pw tn)" "keeps R e (login c' lt em pw)" "keeps R e (refresh c' lt t)"
  using assms unfolding auth_register_def hashPassword_def login_def findUserByEmail_def verifyPassword_def createAccessToken_def
    createRefreshToken_def getRefreshTokenExpiry_def refresh_def verifyToken_def findByToken_def
  by (auto intro!: keeps_intros)

lemma keeps_createTenant:
  assumes "rely R e"
  shows "keeps R e (createTenant c nm)"
  using assms unfolding createTenant_def by (auto intro!: keeps_intros split: prod.split)

lemma keeps_listForTenant: "rely R e \<Longrightarrow> keeps R e (listForTenant tn p l)"
  unfolding listForTenant_def audit_listByTenant_def by (intro keeps_intros)

end

section \<open>Keys in the rest of the program\<close>

interpretation ko: transaction_frame key_order
  by unfold_locales
    (auto simp: tx_updateMany_def tx_create_def confirmation_commit_def same_index_def Let_def
      intro: key_order_same key_order_trans split: if_splits)

lemma key_identity_frame: "sha256_hex c \<Longrightarrow> identity_frame key_order c"
  by unfold_locales (simp add: key_step_def)

end
