(* ===== verification/Wallet_Ownership.thy ===== *)
theory Wallet_Ownership
  imports Adapters Identity
begin

text \<open>
  \<^verbatim>\<open>services/wallet-ownership.service.ts\<close>: the stateless challenge that proves control of
  an address. A challenge is the base64url text of the JSON of its claims, a dot, and the
  base64url text of a MAC; HMAC-SHA256 is the parameter \<open>cl_hmac\<close>.
\<close>

section \<open>Strings\<close>

text \<open>\<^verbatim>\<open>text.split(separator)\<close> for a separator of one character.\<close>

fun split_at_char :: "char \<Rightarrow> string \<Rightarrow> string list" where
  "split_at_char s [] = [[]]"
| "split_at_char s (c # cs) =
     (if c = s then [] # split_at_char s cs
      else case split_at_char s cs of [] \<Rightarrow> [[c]] | p # ps \<Rightarrow> (c # p) # ps)"

lemma split_at_char_nonempty [simp]: "split_at_char s t \<noteq> []"
  by (cases t) (auto split: list.splits)

lemma split_at_char_none: "s \<notin> set p \<Longrightarrow> split_at_char s p = [p]"
  by (induction p) auto

lemma split_at_char_append: "s \<notin> set p \<Longrightarrow> split_at_char s (p @ s # q) = p # split_at_char s q"
  by (induction p) auto

lemma split_at_char_two: "split_at_char s t = [p, q] \<Longrightarrow> t = p @ s # q"
proof (induction t arbitrary: p)
  case (Cons c cs)
  show ?case
  proof (cases "c = s")
    case True
    have "t = q" if "split_at_char s t = [q]" for t
      using that by (induction t arbitrary: q) (auto split: if_splits list.splits)
    with True Cons.prems show ?thesis by simp
  next
    case False
    then obtain p' where "split_at_char s cs = [p', q]" "p = c # p'"
      using Cons.prems by (auto split: list.splits)
    with Cons.IH show ?thesis by simp
  qed
qed simp

section \<open>Claims and messages\<close>

definition CHALLENGE_VERSION :: int where "CHALLENGE_VERSION = 1"

definition CHALLENGE_TTL_MS :: int where "CHALLENGE_TTL_MS = 5 * 60 * 1000"

definition MAX_CHALLENGE_LENGTH :: nat where "MAX_CHALLENGE_LENGTH = 2048"

definition KEY_LABEL :: string where "KEY_LABEL = ''wallet-ownership-challenge:v1''"

record challenge_claims =
  cc_v :: int
  cc_tid :: string
  cc_uid :: string
  cc_cid :: int
  cc_addr :: string
  cc_nonce :: string
  cc_iat :: int
  cc_exp :: int

record ownership_subject =
  os_tenantId :: string
  os_userId :: string
  os_chainId :: int
  os_address :: string

record issued_challenge =
  ic_message :: string
  ic_challenge :: string
  ic_expiresAt :: string

definition ownershipProofRequired :: exn where
  "ownershipProofRequired = AppError 400 ''OWNERSHIP_PROOF_REQUIRED''
     ''Proof of wallet ownership is required: request a challenge, sign it with the wallet, and send challenge and signature'' []"

definition invalidOwnershipChallenge :: exn where
  "invalidOwnershipChallenge = AppError 400 ''INVALID_OWNERSHIP_CHALLENGE'' ''Ownership challenge is invalid or has expired'' []"

definition invalidOwnershipSignature :: exn where
  "invalidOwnershipSignature = AppError 403 ''INVALID_OWNERSHIP_SIGNATURE'' ''Signature does not prove control of this address'' []"

definition isOwnershipProofRequired :: "(string \<Rightarrow> string option) \<Rightarrow> exn + bool" where
  "isOwnershipProofRequired vars =
     (case vars ''REQUIRE_WALLET_OWNERSHIP_PROOF'' of
        None \<Rightarrow> Inr False
      | Some v \<Rightarrow>
          (let raw = toLowerCase (trim v) in
           if raw = [] \<or> raw = ''false'' \<or> raw = ''0'' then Inr False
           else if raw = ''true'' \<or> raw = ''1'' then Inr True
           else Inl (PlainError (''Invalid REQUIRE_WALLET_OWNERSHIP_PROOF '' @ [CHR 0x22] @ v @ [CHR 0x22]
                  @ '': expected true or false''))))"

fun join_lines :: "string list \<Rightarrow> string" where
  "join_lines [] = []"
| "join_lines [l] = l"
| "join_lines (l # ls) = l @ [CHR 0x0A] @ join_lines ls"

definition buildOwnershipMessage :: "challenge_claims \<Rightarrow> string" where
  "buildOwnershipMessage claims = join_lines
     [''Link this wallet to the Blockchain Transaction Simulator.'',
      '''',
      ''Address: '' @ cc_addr claims,
      ''Chain ID: '' @ show_int (cc_cid claims),
      ''Nonce: '' @ cc_nonce claims,
      ''Issued At: '' @ toISOString (cc_iat claims),
      ''Expires At: '' @ toISOString (cc_exp claims),
      '''',
      ''Signing only proves you control this address. It sends no transaction and costs no gas.'']"

section \<open>Sealing\<close>

definition challenge_key :: "crypto_lib \<Rightarrow> string \<Rightarrow> bytes" where
  "challenge_key c secret = cl_hmac c (utf8 secret) KEY_LABEL"

definition mac :: "crypto_lib \<Rightarrow> string \<Rightarrow> string \<Rightarrow> bytes" where
  "mac c secret payload = cl_hmac c (challenge_key c secret) payload"

definition claims_json :: "challenge_claims \<Rightarrow> json" where
  "claims_json k = JObj [(''v'', JNum (cc_v k)), (''tid'', JStr (cc_tid k)), (''uid'', JStr (cc_uid k)), (''cid'', JNum (cc_cid k)),
     (''addr'', JStr (cc_addr k)), (''nonce'', JStr (cc_nonce k)), (''iat'', JNum (cc_iat k)), (''exp'', JNum (cc_exp k))]"

definition seal :: "crypto_lib \<Rightarrow> string \<Rightarrow> challenge_claims \<Rightarrow> string" where
  "seal c secret claims =
     (let payload = base64url (utf8 (stringify (claims_json claims)))
      in payload @ ''.'' @ base64url (mac c secret payload))"

text \<open>The type tests on the parsed value; \<open>None\<close> is a value that is not well formed.\<close>

definition well_formed_claims :: "json \<Rightarrow> challenge_claims option" where
  "well_formed_claims v =
     (case (json_member v ''v'', json_member v ''tid'', json_member v ''uid'', json_member v ''cid'', json_member v ''addr'',
            json_member v ''nonce'', json_member v ''iat'', json_member v ''exp'') of
        (Some (JNum ver), Some (JStr tid), Some (JStr uid), Some (JNum cid), Some (JStr addr), Some (JStr nonce),
         Some (JNum iat), Some (JNum exp)) \<Rightarrow>
          if ver = CHALLENGE_VERSION
          then Some \<lparr> cc_v = ver, cc_tid = tid, cc_uid = uid, cc_cid = cid, cc_addr = addr, cc_nonce = nonce, cc_iat = iat, cc_exp = exp \<rparr>
          else None
      | _ \<Rightarrow> None)"

text \<open>
  A payload whose bytes are no UTF-8 is an invalid challenge; Node replaces the bad bytes and goes on, but such a payload
  is never sealed, and one that is not sealed fails at the MAC.
\<close>

definition open_challenge :: "crypto_lib \<Rightarrow> string \<Rightarrow> string \<Rightarrow> challenge_claims eff" where
  "open_challenge c secret token =
     (if length token > MAX_CHALLENGE_LENGTH then throwE invalidOwnershipChallenge
      else case split_at_char (CHR ''.'') token of
        [payload, presentedMac] \<Rightarrow>
          (let expected = mac c secret payload; presented = from_base64url presentedMac in
           if length presented \<noteq> length expected \<or> presented \<noteq> expected then throwE invalidOwnershipChallenge
           else case (case utf8_decode (from_base64url payload) of None \<Rightarrow> None | Some text \<Rightarrow> json_parse text) of
             None \<Rightarrow> throwE invalidOwnershipChallenge
           | Some v \<Rightarrow>
               if v = JNull then throwE (PlainError (''Cannot read properties of null (reading '' @ [CHR 0x27] @ ''v'' @ [CHR 0x27] @ '')''))
               else case well_formed_claims v of
                 None \<Rightarrow> throwE invalidOwnershipChallenge
               | Some claims \<Rightarrow>
                   bindE getNow (\<lambda>now.
                   if cc_exp claims \<le> now then throwE invalidOwnershipChallenge else returnE claims))
      | _ \<Rightarrow> throwE invalidOwnershipChallenge)"

section \<open>WalletOwnershipService\<close>

definition issueChallenge ::
  "crypto_lib \<Rightarrow> string \<Rightarrow> (string \<Rightarrow> bool) \<Rightarrow> (string \<Rightarrow> exn + bool) \<Rightarrow> int \<Rightarrow> adapter list \<Rightarrow> ownership_subject \<Rightarrow> issued_challenge eff" where
  "issueChallenge c secret isEvmAddress publicKey evm registry subject =
     (case blockchainForChainId evm (os_chainId subject) of
        None \<Rightarrow> throwE (unsupportedChain (os_chainId subject))
      | Some b \<Rightarrow>
          bindE (registry_get registry (blockchain_name b)) (\<lambda>adapter.
          if ad_verifyOwnership adapter = None
          then throwE (unsupportedChainCapability ''ownership verification'' (blockchain_name b))
          else if \<not> isValidWalletAddress isEvmAddress publicKey evm (os_chainId subject) (os_address subject)
          then throwE (AppError 400 ''INVALID_WALLET_ADDRESS'' ''Invalid wallet address'' [])
          else bindE getNow (\<lambda>issuedAt.
            bindE (randomBytes c 16) (\<lambda>nonce.
            let claims = \<lparr> cc_v = CHALLENGE_VERSION, cc_tid = os_tenantId subject, cc_uid = os_userId subject,
                  cc_cid = os_chainId subject, cc_addr = normalizeWalletAddress evm (os_chainId subject) (os_address subject),
                  cc_nonce = to_hex nonce, cc_iat = issuedAt, cc_exp = issuedAt + CHALLENGE_TTL_MS \<rparr>
            in returnE \<lparr> ic_message = buildOwnershipMessage claims, ic_challenge = seal c secret claims,
                 ic_expiresAt = toISOString (cc_exp claims) \<rparr>))))"

definition assertOwnership ::
  "crypto_lib \<Rightarrow> string \<Rightarrow> (string \<Rightarrow> string option) \<Rightarrow> int \<Rightarrow> adapter list \<Rightarrow> ownership_subject \<Rightarrow>
   string option \<Rightarrow> string option \<Rightarrow> unit eff" where
  "assertOwnership c secret vars evm registry subject challenge signature =
     (case blockchainForChainId evm (os_chainId subject) of
        None \<Rightarrow> returnE ()
      | Some b \<Rightarrow>
          bindE (liftE (isOwnershipProofRequired vars)) (\<lambda>needed.
          let proofGiven = (challenge \<noteq> None \<and> signature \<noteq> None) in
          if \<not> needed \<and> \<not> proofGiven then returnE ()
          else bindE (registry_get registry (blockchain_name b)) (\<lambda>adapter.
            case ad_verifyOwnership adapter of
              None \<Rightarrow> throwE (unsupportedChainCapability ''ownership verification'' (blockchain_name b))
            | Some verify \<Rightarrow>
                if \<not> proofGiven then throwE ownershipProofRequired
                else bindE (open_challenge c secret (the challenge)) (\<lambda>claims.
                  if \<not> (cc_tid claims = os_tenantId subject \<and> cc_uid claims = os_userId subject \<and>
                         cc_cid claims = os_chainId subject \<and>
                         cc_addr claims = normalizeWalletAddress evm (os_chainId subject) (os_address subject))
                  then throwE invalidOwnershipChallenge
                  else bindE (verify (cc_addr claims) (buildOwnershipMessage claims) (the signature)) (\<lambda>proven.
                    if \<not> proven then throwE invalidOwnershipSignature else returnE ())))))"

section \<open>What is sealed is what is opened\<close>

lemma well_formed_claims_json: "cc_v k = CHALLENGE_VERSION \<Longrightarrow> well_formed_claims (claims_json k) = Some k"
  by (simp add: well_formed_claims_def claims_json_def json_member_def)

lemma open_seal:
  assumes "\<And>k m. bytes_ok (cl_hmac c k m)" "length (seal c secret k) \<le> MAX_CHALLENGE_LENGTH" "cc_v k = CHALLENGE_VERSION"
    and "env_clock e (calls w) < cc_exp k"
  shows "open_challenge c secret (seal c secret k) e w = (Inr k, w\<lparr>calls := Suc (calls w)\<rparr>)"
proof -
  let ?p = "base64url (utf8 (stringify (claims_json k)))" and ?m = "base64url (mac c secret (base64url (utf8 (stringify (claims_json k)))))"
  have ok: "bytes_ok (mac c secret ?p)" using assms(1) by (simp add: mac_def)
  have nodot: "CHR ''.'' \<notin> set ?p" "CHR ''.'' \<notin> set ?m"
    using base64url_alphabet [OF utf8_ok] base64url_alphabet [OF ok] by blast+
  then have "split_at_char (CHR ''.'') (seal c secret k) = [?p, ?m]"
    by (simp add: seal_def Let_def split_at_char_append split_at_char_none)
  moreover have "claims_json k \<noteq> JNull" by (simp add: claims_json_def)
  ultimately show ?thesis
    using assms(2-4) ok
    by (simp add: open_challenge_def base64url_round_trip utf8_ok utf8_round_trip json_round_trip well_formed_claims_json
        eff_simps getNow_def Let_def)
qed

lemma open_challenge_Inr:
  assumes "open_challenge c secret token e w = (Inr k, w')"
  obtains payload presented v source where "token = payload @ ''.'' @ presented" "from_base64url presented = mac c secret payload"
    "utf8_decode (from_base64url payload) = Some source" "json_parse source = Some v" "well_formed_claims v = Some k"
    "env_clock e (calls w) < cc_exp k" "w' = w\<lparr>calls := Suc (calls w)\<rparr>"
proof -
  from assms obtain payload presented v source where s: "split_at_char (CHR ''.'') token = [payload, presented]"
    "from_base64url presented = mac c secret payload" "utf8_decode (from_base64url payload) = Some source" "json_parse source = Some v"
    "well_formed_claims v = Some k" "env_clock e (calls w) < cc_exp k" "w' = w\<lparr>calls := Suc (calls w)\<rparr>"
    by (auto simp: open_challenge_def throwE_def eff_simps getNow_def Let_def split: list.splits if_splits option.splits)
  with split_at_char_two [OF s(1)] show thesis using that by simp
qed

lemma length_seal: "length (seal c secret k) \<le> 4 * length (stringify (claims_json k)) + 2 * length (mac c secret
    (base64url (utf8 (stringify (claims_json k))))) + 1"
  using length_base64url [of "utf8 (stringify (claims_json k))"] length_utf8 [of "stringify (claims_json k)"]
    length_base64url [of "mac c secret (base64url (utf8 (stringify (claims_json k))))"]
  by (simp add: seal_def Let_def)

end
