(* ===== verification/Idempotency.thy ===== *)
theory Idempotency
  imports Identity
begin

text \<open>
  Request-level idempotency: \<^verbatim>\<open>repositories/idempotency-key.repository.ts\<close>,
  \<^verbatim>\<open>services/idempotency.service.ts\<close> and \<^verbatim>\<open>api/middleware/idempotency.guard.ts\<close>. The
  handler that is guarded is a parameter: no route of the program calls the guard. What is shown is that of two
  requests with the same key at most one runs its handler, whatever the interleaving, the failures and the crashes; it
  is the unique constraint on tenant and key that sees to it when both have found the key unused.
\<close>

section \<open>Repository and service\<close>

definition ik_unique :: "idempotency_key \<Rightarrow> string \<times> string" where
  "ik_unique k = (ik_tenantId k, ik_key k)"

definition idem_findByKey :: "string \<Rightarrow> string \<Rightarrow> idempotency_key option eff" where
  "idem_findByKey tenantId key = query (\<lambda>d. row ik_unique (idempotencyKeys d) (tenantId, key))"

definition idem_create :: "string \<Rightarrow> string \<Rightarrow> string \<Rightarrow> string \<Rightarrow> int \<Rightarrow> idempotency_key eff" where
  "idem_create tenantId key requestHash status expiresAt =
     bindE randomUUID (\<lambda>i. bindE getNow (\<lambda>now. statement (\<lambda>d.
       let k = \<lparr> ik_id = i, ik_tenantId = tenantId, ik_key = key, ik_requestHash = requestHash, ik_transactionId = None,
             ik_response = None, ik_status = status, ik_createdAt = now, ik_expiresAt = expiresAt \<rparr>
       in if row ik_id (idempotencyKeys d) i = None \<and> row ik_unique (idempotencyKeys d) (tenantId, key) = None
          then Inr (k, d\<lparr>idempotencyKeys := idempotencyKeys d @ [k]\<rparr>) else Inl P2002)))"

text \<open>\<^verbatim>\<open>prisma.idempotencyKey.update\<close>: the row must exist and the transaction id stay unique.\<close>

definition idem_update :: "string \<Rightarrow> (idempotency_key \<Rightarrow> idempotency_key) \<Rightarrow> store \<Rightarrow> db_error + idempotency_key \<times> store" where
  "idem_update i f d =
     (case row ik_id (idempotencyKeys d) i of
        None \<Rightarrow> Inl P2025
      | Some k \<Rightarrow>
          if list_ex (\<lambda>y. ik_id y \<noteq> i \<and> ik_transactionId y = ik_transactionId (f k) \<and> ik_transactionId y \<noteq> None) (idempotencyKeys d)
          then Inl P2002
          else Inr (f k, d\<lparr>idempotencyKeys := update_rows (\<lambda>y. ik_id y = i) f (idempotencyKeys d)\<rparr>))"

definition idem_markCompleted :: "string \<Rightarrow> string \<Rightarrow> json \<Rightarrow> idempotency_key eff" where
  "idem_markCompleted i transactionId response =
     statement (idem_update i (\<lambda>k. k\<lparr>ik_transactionId := Some transactionId, ik_response := Some response, ik_status := ''COMPLETED''\<rparr>))"

definition idem_markFailed :: "string \<Rightarrow> json option \<Rightarrow> idempotency_key eff" where
  "idem_markFailed i response =
     statement (idem_update i (\<lambda>k. case response of
       None \<Rightarrow> k\<lparr>ik_status := ''FAILED''\<rparr>
     | Some v \<Rightarrow> k\<lparr>ik_response := Some v, ik_status := ''FAILED''\<rparr>))"

definition hashRequest :: "crypto_lib \<Rightarrow> string \<Rightarrow> string \<Rightarrow> string \<Rightarrow> string \<Rightarrow> string" where
  "hashRequest c tokenId fromWalletId toWalletId amount =
     cl_sha256 c (stringify (JObj [(''amount'', JStr amount), (''fromWalletId'', JStr fromWalletId),
       (''toWalletId'', JStr toWalletId), (''tokenId'', JStr tokenId)]))"

definition idem_acquire :: "string \<Rightarrow> string \<Rightarrow> string \<Rightarrow> int \<Rightarrow> idempotency_key eff" where
  "idem_acquire tenantId key requestHash ttlMs =
     bindE getNow (\<lambda>now. idem_create tenantId key requestHash ''PROCESSING'' (now + ttlMs))"

section \<open>The guard\<close>

definition DEFAULT_TTL_MS :: int where "DEFAULT_TTL_MS = 24 * 60 * 60 * 1000"

text \<open>After the key is acquired: the handler, and what becomes of the key.\<close>

definition guarded :: "idempotency_key \<Rightarrow> (string \<times> json) eff \<Rightarrow> (json \<times> bool) eff" where
  "guarded acquired handler =
     catchE
       (bindE handler (\<lambda>(transactionId, response).
        bindE (idem_markCompleted (ik_id acquired) transactionId response) (\<lambda>_.
        returnE (response, False))))
       (\<lambda>error.
          bindE (idem_markFailed (ik_id acquired) (Some (JObj [(''error'', JStr (exn_message error))]))) (\<lambda>_.
          throwE error))"

definition withIdempotency ::
  "string \<Rightarrow> string option \<Rightarrow> string \<Rightarrow> int option \<Rightarrow> (string \<times> json) eff \<Rightarrow> (json \<times> bool) eff" where
  "withIdempotency tenantId idempotencyKey requestHash ttlMs handler =
     (let ttl = (case ttlMs of None \<Rightarrow> DEFAULT_TTL_MS | Some t \<Rightarrow> t) in
      case idempotencyKey of
        None \<Rightarrow> bindE handler (\<lambda>(transactionId, response). returnE (response, False))
      | Some key \<Rightarrow>
          if key = [] then bindE handler (\<lambda>(transactionId, response). returnE (response, False))
          else bindE (idem_findByKey tenantId key) (\<lambda>existing.
            case existing of
              Some k \<Rightarrow>
                if ik_requestHash k \<noteq> requestHash
                then throwE (AppError 409 ''IDEMPOTENCY_KEY_REUSED''
                       ''This idempotency key was already used with a different request payload'' [])
                else if ik_status k = ''COMPLETED''
                then returnE (case ik_response k of None \<Rightarrow> JNull | Some v \<Rightarrow> v, True)
                else if ik_status k = ''PROCESSING''
                then throwE (AppError 409 ''IDEMPOTENCY_KEY_IN_PROGRESS''
                       ''A request with this idempotency key is already being processed'' [])
                else throwE (AppError 409 ''IDEMPOTENCY_KEY_FAILED''
                       ''A previous request with this idempotency key failed; use a new key to retry'' [])
            | None \<Rightarrow>
                bindE (idem_acquire tenantId key requestHash ttl) (\<lambda>acquired. guarded acquired handler)))"

section \<open>A key once used stays with the request that used it\<close>

text \<open>
  What every operation of the program does to the keys: a key that is in the table stays there, with its
  request and its id. The id is drawn by the request that inserted the row.
\<close>

definition idem_order :: "store \<Rightarrow> store \<Rightarrow> bool" where
  "idem_order d d' \<longleftrightarrow> (\<forall>u k. row ik_unique (idempotencyKeys d) u = Some k \<longrightarrow>
     (\<exists>k'. row ik_unique (idempotencyKeys d') u = Some k' \<and> ik_id k' = ik_id k \<and> ik_requestHash k' = ik_requestHash k))"

lemma idem_orderD: "idem_order d d' \<Longrightarrow> row ik_unique (idempotencyKeys d) u = Some k \<Longrightarrow>
    \<exists>k'. row ik_unique (idempotencyKeys d') u = Some k' \<and> ik_id k' = ik_id k \<and> ik_requestHash k' = ik_requestHash k"
  unfolding idem_order_def by blast

interpretation im: store_frame idem_order
proof unfold_locales
  fix a b c assume ab: "idem_order a b" and bc: "idem_order b c"
  show "idem_order a c"
    unfolding idem_order_def
  proof (intro allI impI)
    fix u k assume "row ik_unique (idempotencyKeys a) u = Some k"
    with ab obtain k1 where "row ik_unique (idempotencyKeys b) u = Some k1" "ik_id k1 = ik_id k" "ik_requestHash k1 = ik_requestHash k"
      using idem_orderD by blast
    with bc show "\<exists>k'. row ik_unique (idempotencyKeys c) u = Some k' \<and> ik_id k' = ik_id k \<and> ik_requestHash k' = ik_requestHash k"
      using idem_orderD by fastforce
  qed
qed (simp add: idem_order_def)

definition used :: "string \<Rightarrow> string \<Rightarrow> store \<Rightarrow> bool" where
  "used tenantId key d \<longleftrightarrow> row ik_unique (idempotencyKeys d) (tenantId, key) \<noteq> None"

text \<open>The row of the key is the one with this id.\<close>

definition held_by :: "string \<Rightarrow> string \<Rightarrow> string \<Rightarrow> store \<Rightarrow> bool" where
  "held_by tenantId key i d \<longleftrightarrow> map_option ik_id (row ik_unique (idempotencyKeys d) (tenantId, key)) = Some i"

lemma stable_held_by: "stable idem_order (held_by tn key i)"
  unfolding stable_def held_by_def using idem_orderD by fastforce

lemma held_by_later: "idem_order d d' \<Longrightarrow> held_by tn key i d \<Longrightarrow> held_by tn key i d'"
  using stable_held_by unfolding stable_def by blast

lemma held_by_one: "held_by tn key i d \<Longrightarrow> held_by tn key j d \<Longrightarrow> i = j"
  by (auto simp: held_by_def)

lemma idem_update_order:
  assumes "idem_update i f d = Inr (k, d')"
    and "\<And>k. ik_unique (f k) = ik_unique k \<and> ik_id (f k) = ik_id k \<and> ik_requestHash (f k) = ik_requestHash k"
  shows "idem_order d d'"
proof -
  have "row ik_unique (idempotencyKeys d') u = map_option (\<lambda>y. if ik_id y = i then f y else y) (row ik_unique (idempotencyKeys d) u)" for u
    using assms by (auto simp: idem_update_def row_update split: option.splits if_splits)
  with assms(2) show ?thesis by (auto simp: idem_order_def)
qed

lemma keeps_marks:
  assumes "rely idem_order e"
  shows "keeps idem_order e (idem_markCompleted i t v)" "keeps idem_order e (idem_markFailed i r)"
  unfolding idem_markCompleted_def idem_markFailed_def
  by (intro im.keeps_statement assms safe_statementI; erule idem_update_order; auto simp: ik_unique_def split: option.split)+

lemma keeps_guarded:
  assumes "rely idem_order e" "keeps idem_order e handler"
  shows "keeps idem_order e (guarded acquired handler)"
  unfolding guarded_def
  by (intro im.keeps_catch im.keeps_bind keeps_marks im.keeps_throw assms) (auto intro!: im.keeps_bind im.keeps_return keeps_marks assms split: prod.split)

text \<open>
  The key that a request acquires is its own: the row of the key carries an id that this request drew. The
  insert refuses a key that is taken, so it is not another row that was there first.
\<close>

lemma acquire_holds:
  assumes "rely idem_order e"
  shows "ensures (\<lambda>_. True) idem_order e (idem_acquire tn key rh t) (\<lambda>k d. held_by tn key (ik_id k) d \<and> (\<exists>n. ik_id k = env_uuid e n))"
proof -
  have st: "stable idem_order (\<lambda>_. b)" for b by (simp add: stable_def)
  have id: "ensures (\<lambda>_. True) idem_order e randomUUID (\<lambda>i d. \<exists>n. i = env_uuid e n)"
    by (auto simp: ensures_def randomUUID_def idem_order_def)
  show ?thesis
    unfolding idem_acquire_def idem_create_def
    by (intro im.ensures_bind [OF im.ensures_frame [OF im.keeps_getNow st]] im.ensures_bind [OF id] im.ensures_statement assms st)
      (auto simp: Let_def held_by_def idem_order_def row_append ik_unique_def split: if_splits option.splits)
qed

lemma keeps_withIdempotency:
  assumes "rely idem_order e" "keeps idem_order e handler"
  shows "keeps idem_order e (withIdempotency tn key rh ttl handler)"
proof -
  have "keeps idem_order e (idem_acquire tn k rh t)" for k t
    using acquire_holds [OF assms(1), of tn k rh t] unfolding ensures_keeps [symmetric] by (rule ensures_mono) simp
  then show ?thesis
    unfolding withIdempotency_def Let_def idem_findByKey_def
    by (auto intro!: im.keeps_bind im.keeps_return im.keeps_throw im.keeps_query keeps_guarded assms split: option.split prod.split)
qed

text \<open>A request that may reach its handler holds the key under an id of its own.\<close>

lemma reached_handler_holds:
  assumes e: "rely idem_order e" and h: "keeps idem_order e h" and key: "key \<noteq> []"
    and differs: "withIdempotency tn (Some key) rh ttl h0 e w \<noteq> withIdempotency tn (Some key) rh ttl h1 e w"
  obtains n where "held_by tn key (env_uuid e n) (db (snd (withIdempotency tn (Some key) rh ttl h e w)))"
proof -
  let ?t = "case ttl of None \<Rightarrow> DEFAULT_TTL_MS | Some t \<Rightarrow> t"
  obtain r w1 where f: "idem_findByKey tn key e w = (r, w1)" by fastforce
  have unfold: "withIdempotency tn (Some key) rh ttl h' e w =
      (case r of Inl x \<Rightarrow> (Inl x, w1) | Inr (Some k) \<Rightarrow> withIdempotency tn (Some key) rh ttl h0 e w
       | Inr None \<Rightarrow> bindE (idem_acquire tn key rh ?t) (\<lambda>acquired. guarded acquired h') e w1)" for h'
    using key f by (auto simp: withIdempotency_def Let_def bindE_def split: sum.splits option.splits)
  have r: "r = Inr None" using differs unfold [of h0] unfold [of h1] by (auto split: sum.splits option.splits)
  obtain ra w2 where a: "idem_acquire tn key rh ?t e w1 = (ra, w2)" by fastforce
  have run: "withIdempotency tn (Some key) rh ttl h' e w = (case ra of Inl x \<Rightarrow> (Inl x, w2) | Inr k \<Rightarrow> guarded k h' e w2)" for h'
    using unfold [of h'] r a by (simp add: bindE_def)
  obtain k where k: "ra = Inr k" using differs run [of h0] run [of h1] by (cases ra) auto
  obtain n where n: "held_by tn key (env_uuid e n) (db w2)"
    using ensuresD [OF acquire_holds [OF e, of tn key rh ?t] _ a [unfolded k]] by auto
  have "idem_order (db w2) (db (snd (guarded k h e w2)))" using keeps_guarded [OF e h] by (rule keeps_snd)
  from held_by_later [OF this n] show ?thesis using run [of h] k by (intro that) simp
qed

section \<open>Properties\<close>

text \<open>
  C24: a handler runs at most once per idempotency key, also when the requests race. Two requests of a tenant
  with the same key run concurrently against the same database: each in any environment, so that the other one
  and further processes may act before any of its statements, also between its look-up of the key and its insert,
  and statements may fail; and there is a later store of the database that both have led to. The requests draw different
  ids, and the handlers and the other processes do not remove keys. Then at least one of the requests never
  reaches its handler: what it does is the same whatever handler it is given. And each request does to the keys
  only what is assumed here of the other processes.
\<close>

theorem idempotent_at_most_once:
  assumes "rely idem_order e1" "rely idem_order e2" "keeps idem_order e1 h1" "keeps idem_order e2 h2" "key \<noteq> []"
    and ids: "\<And>m n. env_uuid e1 m \<noteq> env_uuid e2 n"
    and run1: "withIdempotency tn (Some key) rh1 ttl1 h1 e1 w1 = (r1, w1')" and run2: "withIdempotency tn (Some key) rh2 ttl2 h2 e2 w2 = (r2, w2')"
    and later: "idem_order (db w1') d" "idem_order (db w2') d"
  shows "((\<forall>h h'. withIdempotency tn (Some key) rh1 ttl1 h e1 w1 = withIdempotency tn (Some key) rh1 ttl1 h' e1 w1) \<or>
      (\<forall>h h'. withIdempotency tn (Some key) rh2 ttl2 h e2 w2 = withIdempotency tn (Some key) rh2 ttl2 h' e2 w2)) \<and>
    idem_order (db w1) (db w1') \<and> idem_order (db w2) (db w2')"
proof (intro conjI disjCI allI)
  fix h h'
  assume "\<not> (\<forall>h h'. withIdempotency tn (Some key) rh2 ttl2 h e2 w2 = withIdempotency tn (Some key) rh2 ttl2 h' e2 w2)"
  then obtain n where n: "held_by tn key (env_uuid e2 n) (db w2')"
    using reached_handler_holds [OF assms(2,4,5)] run2 by (metis snd_conv)
  show "withIdempotency tn (Some key) rh1 ttl1 h e1 w1 = withIdempotency tn (Some key) rh1 ttl1 h' e1 w1"
  proof (rule ccontr)
    assume "withIdempotency tn (Some key) rh1 ttl1 h e1 w1 \<noteq> withIdempotency tn (Some key) rh1 ttl1 h' e1 w1"
    then obtain m where "held_by tn key (env_uuid e1 m) (db w1')"
      using reached_handler_holds [OF assms(1,3,5)] run1 by (metis snd_conv)
    from held_by_one [OF held_by_later [OF later(1) this] held_by_later [OF later(2) n]] ids show False by blast
  qed
next
  show "idem_order (db w1) (db w1')" using keeps_snd [OF keeps_withIdempotency [OF assms(1,3)]] run1 by (metis snd_conv)
  show "idem_order (db w2) (db w2')" using keeps_snd [OF keeps_withIdempotency [OF assms(2,4)]] run2 by (metis snd_conv)
qed

definition key_env :: env where
  "key_env = calm (\<lambda>n. int n) show_nat"

lemma key_env_quiet: "quiet key_env" "rely idem_order key_env"
  by (simp_all add: key_env_def rely_def im.frame_refl)

lemmas guard_eval = withIdempotency_def guarded_def idem_findByKey_def idem_acquire_def idem_create_def idem_markCompleted_def
  idem_update_def eff_simps quiet_simps Let_def ik_unique_def update_rows_def

text \<open>
  A request whose rival, a request with the same key, runs from its start to its end between its look-up of the
  key and its insert, which is its fifth call.
\<close>

definition rival_run :: "store \<Rightarrow> (exn + json \<times> bool) \<times> world" where
  "rival_run d = withIdempotency ''acme'' (Some ''k'') ''hash'' None (returnE (''tx-1'', JNull)) key_env (world_of d)"

definition racing_env :: env where
  "racing_env = (calm (\<lambda>n. int n) (\<lambda>n. CHR ''r'' # show_nat n))\<lparr>env_interfere := (\<lambda>n d. if n = 4 then db (snd (rival_run d)) else d)\<rparr>"

lemma racing_env_rely: "rely idem_order racing_env"
  using keeps_snd [OF keeps_withIdempotency [OF key_env_quiet(2) im.keeps_return]]
  by (auto simp: rely_def racing_env_def rival_run_def im.frame_refl) (metis world_of_simps(1))

lemma rival_takes_key: "row ik_unique (idempotencyKeys (db (snd (rival_run empty_store)))) (''acme'', ''k'') \<noteq> None"
  using key_env_quiet(1) by (simp add: rival_run_def guard_eval empty_store_def)

lemma show_nat_no_letter: "CHR ''r'' # s \<noteq> show_nat n"
  using show_nat_digits [of n] by (cases "show_nat n") (auto simp: is_digit_def)

lemma racing_fields:
  "env_fault racing_env = (\<lambda>_. NoFault)" "env_interfere racing_env = (\<lambda>n d. if n = 4 then db (snd (rival_run d)) else d)"
  "env_uuid racing_env m \<noteq> env_uuid key_env n"
  by (simp_all add: racing_env_def key_env_def calm_def show_nat_no_letter)

lemma racing_loses:
  "\<exists>w'. withIdempotency ''acme'' (Some ''k'') ''hash'' None h racing_env (world_of empty_store) =
       (Inl (PrismaKnownRequestError (db_error_code P2002) (env_dbMessage racing_env P2002)), w') \<and> db w' = db (snd (rival_run empty_store))"
  using rival_takes_key by (auto simp: withIdempotency_def idem_findByKey_def idem_acquire_def idem_create_def query_def statement_def
      arrive_def bindE_def getNow_def randomUUID_def racing_fields Let_def ik_unique_def empty_store_def)

theorem idempotent_at_most_once_witness:
  "fst (rival_run empty_store) = Inr (JNull, False) \<and>
     (\<forall>h h'. withIdempotency ''acme'' (Some ''k'') ''hash'' None h racing_env (world_of empty_store) =
       withIdempotency ''acme'' (Some ''k'') ''hash'' None h' racing_env (world_of empty_store))"
proof -
  let ?rival = "\<lambda>h. withIdempotency ''acme'' (Some ''k'') ''hash'' None h key_env (world_of empty_store)"
  let ?run = "\<lambda>h. withIdempotency ''acme'' (Some ''k'') ''hash'' None h racing_env (world_of empty_store)"
  have rival: "fst (?rival (returnE (''tx-1'', v))) = Inr (v, False)" for v
    using key_env_quiet(1) by (simp add: guard_eval empty_store_def)
  then have "?rival (returnE (''tx-1'', JNull)) \<noteq> ?rival (returnE (''tx-1'', JBool True))"
    by (metis Inr_inject json.distinct(1) prod.inject)
  then have reached: "\<not> (\<forall>h h'. ?rival h = ?rival h')" by blast
  have taken: "db (snd (?run (returnE (''tx-2'', JNull)))) = db (snd (rival_run empty_store))"
    using racing_loses [of "returnE (''tx-2'', JNull)"] by auto
  obtain r1 w1' r2 w2' where runs: "?run (returnE (''tx-2'', JNull)) = (r1, w1')" "?rival (returnE (''tx-1'', JNull)) = (r2, w2')"
    by fastforce
  have "idem_order (db w1') (db w1')" "idem_order (db w2') (db w1')"
    using taken runs by (simp_all add: rival_run_def im.frame_refl)
  from idempotent_at_most_once [OF racing_env_rely key_env_quiet(2) im.keeps_return im.keeps_return _ racing_fields(3) runs this]
  show ?thesis using reached rival by (auto simp: rival_run_def)
qed

text \<open>
  C25: a request that is repeated gets the first answer. When nothing fails, the first request with
  a new key runs its handler and returns its response; a repetition with the same key and the same
  request returns the same response, marked as replayed, without running any handler and without
  changing the store; and one with the same key for a different request is refused.
\<close>

theorem idempotent_replay:
  assumes "quiet e" "key \<noteq> []" "\<not> used tn key (db w)" "rh' \<noteq> rh"
    and "\<And>n. row ik_id (idempotencyKeys (db w)) (env_uuid e n) = None"
    and "\<And>k. k \<in> set (idempotencyKeys (db w)) \<Longrightarrow> ik_transactionId k \<noteq> Some t"
    and "\<And>w. \<exists>w'. h e w = (Inr (t, v), w') \<and> idempotencyKeys (db w') = idempotencyKeys (db w)"
  shows "\<exists>w'. withIdempotency tn (Some key) rh ttl h e w = (Inr (v, False), w') \<and>
    (\<forall>h'. fst (withIdempotency tn (Some key) rh ttl h' e w') = Inr (v, True) \<and>
      db (snd (withIdempotency tn (Some key) rh ttl h' e w')) = db w' \<and>
      (\<exists>m. fst (withIdempotency tn (Some key) rh' ttl h' e w') = Inl (AppError 409 ''IDEMPOTENCY_KEY_REUSED'' m [])))"
proof -
  let ?ttl = "case ttl of None \<Rightarrow> DEFAULT_TTL_MS | Some t \<Rightarrow> t"
  have q: "quiet e" by fact
  have new: "row ik_unique (idempotencyKeys (db w)) (tn, key) = None" using assms(3) by (simp add: used_def)
  define k where "k = \<lparr> ik_id = env_uuid e (Suc (Suc (calls w))), ik_tenantId = tn, ik_key = key, ik_requestHash = rh,
    ik_transactionId = None, ik_response = None, ik_status = ''PROCESSING'', ik_createdAt = env_clock e (Suc (Suc (Suc (calls w)))),
    ik_expiresAt = env_clock e (Suc (calls w)) + ?ttl \<rparr>"
  define w1 where "w1 = w\<lparr>calls := calls w + 5, db := (db w)\<lparr>idempotencyKeys := idempotencyKeys (db w) @ [k]\<rparr>\<rparr>"
  have acquired: "withIdempotency tn (Some key) rh ttl h e w = guarded k h e w1"
    using q assms(2,5) new by (simp add: withIdempotency_def idem_findByKey_def idem_acquire_def idem_create_def eff_simps quiet_simps
        Let_def k_def w1_def eval_nat_numeral)
  obtain w2 where w2: "h e w1 = (Inr (t, v), w2)" "idempotencyKeys (db w2) = idempotencyKeys (db w) @ [k]"
    using assms(7) [of w1] by (auto simp: w1_def)
  define k' where "k' = k\<lparr>ik_transactionId := Some t, ik_response := Some v, ik_status := ''COMPLETED''\<rparr>"
  have "row ik_id (idempotencyKeys (db w)) (ik_id k) = None" using assms(5) by (simp add: k_def)
  then have up: "update_rows (\<lambda>y. ik_id y = ik_id k) (\<lambda>k. k\<lparr>ik_transactionId := Some t, ik_response := Some v,
      ik_status := ''COMPLETED''\<rparr>) (idempotencyKeys (db w) @ [k]) = idempotencyKeys (db w) @ [k']"
    by (auto simp: update_rows_def k'_def row_None_iff image_iff intro!: map_idI)
  have r: "row ik_id (idempotencyKeys (db w) @ [k]) (ik_id k) = Some k"
    using \<open>row ik_id (idempotencyKeys (db w)) (ik_id k) = None\<close> by (simp add: row_append)
  have nodup: "\<not> list_ex (\<lambda>y. ik_id y \<noteq> ik_id k \<and> ik_transactionId y = Some t \<and> ik_transactionId y \<noteq> None) (idempotencyKeys (db w) @ [k])"
    using assms(6) by (auto simp: list_ex_iff)
  define w3 where "w3 = w2\<lparr>calls := Suc (calls w2), db := (db w2)\<lparr>idempotencyKeys := idempotencyKeys (db w) @ [k']\<rparr>\<rparr>"
  have first: "withIdempotency tn (Some key) rh ttl h e w = (Inr (v, False), w3)"
    unfolding acquired guarded_def using q w2 up r nodup
    by (simp add: eff_simps idem_markCompleted_def statement_quiet idem_update_def w3_def)
  have "row ik_unique (idempotencyKeys (db w3)) (tn, key) = Some k'"
    using new by (simp add: w3_def row_append k'_def k_def ik_unique_def)
  then have again: "withIdempotency tn (Some key) x ttl h' e w3 =
      (if x = rh then Inr (v, True) else Inl (AppError 409 ''IDEMPOTENCY_KEY_REUSED''
         ''This idempotency key was already used with a different request payload'' []), w3\<lparr>calls := Suc (calls w3)\<rparr>)" for h' x
    using q assms(2) by (simp add: withIdempotency_def idem_findByKey_def eff_simps query_quiet Let_def k'_def k_def)
  show ?thesis by (rule exI [of _ w3]) (simp add: first again assms(4))
qed

theorem idempotent_replay_witness:
  "\<exists>w'. withIdempotency ''acme'' (Some ''k'') ''hash'' None (returnE (''tx-1'', JNum 7)) key_env (world_of empty_store) = (Inr (JNum 7, False), w') \<and>
    fst (withIdempotency ''acme'' (Some ''k'') ''hash'' None (throwE Crashed) key_env w') = Inr (JNum 7, True)"
proof -
  have "\<exists>w'. returnE (''tx-1'', JNum 7) key_env w = (Inr (''tx-1'', JNum 7), w') \<and> idempotencyKeys (db w') = idempotencyKeys (db w)" for w
    by (simp add: returnE_def)
  from idempotent_replay [OF key_env_quiet(1), where tn = "''acme''" and key = "''k''" and rh = "''hash''" and rh' = "''other''"
      and ttl = None and t = "''tx-1''" and v = "JNum 7" and h = "returnE (''tx-1'', JNum 7)" and w = "world_of empty_store"] this
  show ?thesis by (simp add: used_def empty_store_def) blast
qed

end
