(* ===== verification/Lifecycle.thy ===== *)
theory Lifecycle
  imports Transaction_Repository
begin

text \<open>
  Three specifications of the ledger, each a relation on stores for which the contract
  \<open>transaction_frame\<close> of the repository is discharged here:
  \<^item> \<open>lifecycle\<close>: no transaction disappears, its terms never change, its status only
    moves along the state machine, its hash is fixed once it is submitted, and a terminal
    row never changes again;
  \<^item> \<open>ledger_ok\<close>: ids and hashes are unique and every row has the columns its status
    requires;
  \<^item> \<open>outbox_ok\<close>: a transaction has exactly one \<^verbatim>\<open>transaction.confirmed\<close> event if it is
    CONFIRMED, and none otherwise.
\<close>

section \<open>The specifications\<close>

definition advances :: "transaction \<Rightarrow> transaction \<Rightarrow> bool" where
  "advances t t' \<longleftrightarrow> same_terms t t' \<and> later_status (tx_status t) (tx_status t') \<and>
     (tx_status t \<noteq> PENDING \<longrightarrow> tx_txHash t' = tx_txHash t) \<and>
     (terminal_status (tx_status t) \<longrightarrow> t' = t)"

definition lifecycle :: "store \<Rightarrow> store \<Rightarrow> bool" where
  "lifecycle d d' \<longleftrightarrow> (\<forall>i t. row tx_id (transactions d) i = Some t \<longrightarrow>
     (\<exists>t'. row tx_id (transactions d') i = Some t' \<and> advances t t'))"

definition ledger_ok :: "store \<Rightarrow> bool" where
  "ledger_ok d \<longleftrightarrow> keyed tx_id (transactions d) \<and> distinct (tx_hashes (transactions d)) \<and>
     (\<forall>t \<in> set (transactions d). tx_wf t)"

definition confirmed_events :: "store \<Rightarrow> string \<Rightarrow> nat" where
  "confirmed_events d i =
     count_rows (\<lambda>ev. ob_aggregateId ev = i \<and> ob_type ev = ''transaction.confirmed'') (outbox d)"

definition is_confirmed :: "store \<Rightarrow> string \<Rightarrow> bool" where
  "is_confirmed d i \<longleftrightarrow> (case row tx_id (transactions d) i of None \<Rightarrow> False | Some t \<Rightarrow> tx_status t = CONFIRMED)"

definition outbox_ok :: "store \<Rightarrow> bool" where
  "outbox_ok d \<longleftrightarrow> (\<forall>i. confirmed_events d i = (if is_confirmed d i then 1 else 0))"

section \<open>The relations on rows are preorders\<close>

lemma same_terms_refl [simp]: "same_terms t t"
  by (simp add: same_terms_def)

lemma same_terms_trans: "same_terms a b \<Longrightarrow> same_terms b c \<Longrightarrow> same_terms a c"
  by (simp add: same_terms_def)

lemma advances_refl [simp]: "advances t t"
  by (simp add: advances_def later_status.same)

lemma later_not_pending: "later_status s t \<Longrightarrow> s \<noteq> PENDING \<Longrightarrow> t \<noteq> PENDING"
  by (auto simp: later_status_iff)

lemma advances_trans: "advances a b \<Longrightarrow> advances b c \<Longrightarrow> advances a c"
  unfolding advances_def
  by (auto intro: same_terms_trans later_status_trans dest: later_not_pending)

lemma legal_step_advances: "legal_step t t' \<Longrightarrow> advances t t'"
  by (cases "tx_status t") (auto simp: legal_step_def advances_def canTransition_def terminal_status_def
      intro: later_status_single [unfolded canTransition_def])

lemma legal_step_id: "legal_step t t' \<Longrightarrow> tx_id t' = tx_id t"
  by (simp add: legal_step_def same_terms_def)

lemma legal_step_confirmed: "legal_step t t' \<Longrightarrow> tx_status t \<noteq> CONFIRMED \<and> tx_status t' \<noteq> CONFIRMED"
  by (auto simp: legal_step_def canTransition_def)

lemma confirm_advances:
  "same_terms t t' \<Longrightarrow> tx_status t = CONFIRMING \<Longrightarrow> tx_status t' = CONFIRMED \<Longrightarrow> tx_txHash t' = tx_txHash t \<Longrightarrow>
   advances t t'"
  by (simp add: advances_def later_status_iff)

section \<open>The effect of the statements on rows\<close>

lemma tx_updateMany_rows:
  assumes "tx_updateMany P f d = Inr (n, d')" and "\<And>t. P t \<Longrightarrow> tx_id (f t) = tx_id t"
  shows "row tx_id (transactions d') i = map_option (\<lambda>t. if P t then f t else t) (row tx_id (transactions d) i)"
    and "outbox d' = outbox d" and "n = count_rows P (transactions d)"
    and "transactions d' = update_rows P f (transactions d)" and "distinct (tx_hashes (transactions d'))"
    and "keyed tx_id (transactions d)"
  using assms by (auto simp: tx_updateMany_def Let_def row_update split: if_splits)

lemma tx_create_rows:
  assumes "tx_create t d = Inr (t', d')"
  shows "row tx_id (transactions d') i =
      (case row tx_id (transactions d) i of None \<Rightarrow> if tx_id t = i then Some t else None | Some r \<Rightarrow> Some r)"
    and "outbox d' = outbox d" and "row tx_id (transactions d) (tx_id t) = None" and "t' = t"
    and "transactions d' = transactions d @ [t]"
    and "keyed tx_id (transactions d')" and "distinct (tx_hashes (transactions d'))"
  using assms by (auto simp: tx_create_def Let_def row_append keyed_append_one split: if_splits option.splits)

lemma commit_rows:
  assumes "confirmation_commit d d'"
  obtains t t' where "row tx_id (transactions d) (tx_id t) = Some t" "tx_status t = CONFIRMING"
    "advances t t'" "tx_status t' = CONFIRMED" "tx_wf t \<longrightarrow> tx_wf t'" "tx_txHash t' = tx_txHash t"
    "\<And>i. row tx_id (transactions d') i = (if i = tx_id t then Some t' else row tx_id (transactions d) i)"
    "\<And>i. confirmed_events d' i = confirmed_events d i + (if i = tx_id t then 1 else 0)"
    "transactions d' = update_rows (\<lambda>r. tx_id r = tx_id t \<and> tx_status r = CONFIRMING) (\<lambda>_. t') (transactions d)"
    "count_rows (\<lambda>r. tx_id r = tx_id t \<and> tx_status r = CONFIRMING) (transactions d) = 1"
proof -
  from assms obtain t t' ev where c:
    "row tx_id (transactions d) (tx_id t) = Some t" "tx_status t = CONFIRMING" "same_terms t t'"
    "tx_status t' = CONFIRMED" "tx_txHash t' = tx_txHash t" "tx_wf t \<longrightarrow> tx_wf t'"
    "transactions d' = update_rows (\<lambda>r. tx_id r = tx_id t \<and> tx_status r = CONFIRMING) (\<lambda>_. t') (transactions d)"
    "count_rows (\<lambda>r. tx_id r = tx_id t \<and> tx_status r = CONFIRMING) (transactions d) = 1"
    "outbox d' = outbox d @ [ev]" "ob_aggregateId ev = tx_id t" "ob_type ev = ''transaction.confirmed''"
    unfolding confirmation_commit_def by blast
  have id': "tx_id t' = tx_id t" using c(3) by (simp add: same_terms_def)
  have rows: "row tx_id (transactions d') i = (if i = tx_id t then Some t' else row tx_id (transactions d) i)" for i
  proof -
    have "row tx_id (transactions d') i =
        map_option (\<lambda>r. if tx_id r = tx_id t \<and> tx_status r = CONFIRMING then t' else r) (row tx_id (transactions d) i)"
      unfolding c(7) by (rule row_update) (simp add: id')
    with c(1,2) show ?thesis by (cases "row tx_id (transactions d) i") (auto dest: row_SomeD)
  qed
  have evs: "confirmed_events d' i = confirmed_events d i + (if i = tx_id t then 1 else 0)" for i
    using c(9-11) by (simp add: confirmed_events_def)
  show thesis
    by (rule that [OF c(1,2) confirm_advances [OF c(3,2,4,5)] c(4,6,5) rows evs c(7,8)])
qed

section \<open>The contract holds for the three specifications\<close>

lemma tx_hashes_same:
  "(\<And>r. P r \<Longrightarrow> tx_txHash (f r) = tx_txHash r) \<Longrightarrow> tx_hashes (update_rows P f rs) = tx_hashes rs"
  by (induction rs) (auto simp: tx_hashes_def update_rows_def)

lemma tx_hashes_update_one:
  assumes "row tx_id rs i = Some t" "tx_txHash t' = tx_txHash t" "tx_status t = CONFIRMING"
    and "count_rows (\<lambda>r. tx_id r = i \<and> tx_status r = CONFIRMING) rs = 1"
  shows "tx_hashes (update_rows (\<lambda>r. tx_id r = i \<and> tx_status r = CONFIRMING) (\<lambda>_. t') rs) = tx_hashes rs"
  using assms
proof (induction rs)
  case Nil
  then show ?case by simp
next
  case (Cons a rs)
  show ?case
  proof (cases "tx_id a = i")
    case True
    with Cons.prems have "a = t" and "count_rows (\<lambda>r. tx_id r = i \<and> tx_status r = CONFIRMING) rs = 0"
      by auto
    then have "update_rows (\<lambda>r. tx_id r = i \<and> tx_status r = CONFIRMING) (\<lambda>_. t') rs = rs"
      by (rule_tac update_rows_none)
    with True \<open>a = t\<close> Cons.prems(2,3) show ?thesis by (simp add: tx_hashes_def update_rows_def)
  next
    case False
    with Cons show ?thesis by (simp add: tx_hashes_def update_rows_def)
  qed
qed

interpretation lc: transaction_frame lifecycle
proof unfold_locales
  fix d show "lifecycle d d" by (simp add: lifecycle_def)
next
  fix a b c assume "lifecycle a b" "lifecycle b c"
  then show "lifecycle a c" unfolding lifecycle_def by (blast intro: advances_trans)
next
  fix P f d n d'
  assume legal: "\<And>t. P t \<Longrightarrow> legal_step t (f t)" and u: "tx_updateMany P f d = Inr (n, d')"
  have "advances t (if P t then f t else t)" for t using legal legal_step_advances by simp
  then show "lifecycle d d'"
    using tx_updateMany_rows(1) [OF u] legal legal_step_id by (simp add: lifecycle_def)
next
  fix t d t' d' assume "tx_create t d = Inr (t', d')"
  from tx_create_rows(1) [OF this] show "lifecycle d d'" by (simp add: lifecycle_def)
next
  fix d d' assume "confirmation_commit d d'"
  then show "lifecycle d d'"
    by (rule commit_rows) (simp add: lifecycle_def)
next
  fix d d' :: store assume "transactions d' = transactions d"
  then show "lifecycle d d'" by (simp add: lifecycle_def)
qed (simp add: lifecycle_def)

interpretation ok: transaction_frame "kept ledger_ok"
proof unfold_locales
  fix P f d n d'
  assume legal: "\<And>t. P t \<Longrightarrow> legal_step t (f t)" and u: "tx_updateMany P f d = Inr (n, d')"
  have ids: "\<And>t. P t \<Longrightarrow> tx_id (f t) = tx_id t" using legal legal_step_id by simp
  have "\<And>t. tx_wf t \<Longrightarrow> P t \<Longrightarrow> tx_wf (f t)" using legal by (simp add: legal_step_def)
  moreover have "keyed tx_id (transactions d') = keyed tx_id (transactions d)"
    using tx_updateMany_rows(4) [OF u ids] ids by simp
  ultimately show "kept ledger_ok d d'"
    using tx_updateMany_rows(4,5) [OF u ids] by (auto simp: kept_def ledger_ok_def) (auto simp: update_rows_def)
next
  fix t d t' d' assume "tx_wf t" and c: "tx_create t d = Inr (t', d')"
  with tx_create_rows(5-7) [OF c] show "kept ledger_ok d d'" by (simp add: kept_def ledger_ok_def)
next
  fix d d' assume "confirmation_commit d d'"
  then show "kept ledger_ok d d'"
  proof (rule commit_rows)
    fix t t'
    assume a: "row tx_id (transactions d) (tx_id t) = Some t" "tx_status t = CONFIRMING" "advances t t'"
      "tx_wf t \<longrightarrow> tx_wf t'" "tx_txHash t' = tx_txHash t"
      "transactions d' = update_rows (\<lambda>r. tx_id r = tx_id t \<and> tx_status r = CONFIRMING) (\<lambda>_. t') (transactions d)"
      "count_rows (\<lambda>r. tx_id r = tx_id t \<and> tx_status r = CONFIRMING) (transactions d) = 1"
    have "t \<in> set (transactions d)" using a(1) by (auto dest: row_SomeD)
    moreover have "tx_id t' = tx_id t" using a(3) by (simp add: advances_def same_terms_def)
    moreover have "tx_hashes (transactions d') = tx_hashes (transactions d)"
      unfolding a(6) by (rule tx_hashes_update_one [OF a(1,5,2,7)])
    moreover from \<open>tx_id t' = tx_id t\<close> have "keyed tx_id (transactions d') = keyed tx_id (transactions d)"
      unfolding a(6) by (subst keyed_update) auto
    ultimately show "kept ledger_ok d d'"
      using a(4) by (auto simp: kept_def ledger_ok_def a(6)) (auto simp: update_rows_def)
  qed
next
  fix d d' :: store assume "transactions d' = transactions d"
  then show "kept ledger_ok d d'" by (simp add: kept_def ledger_ok_def)
qed (simp add: kept_def ledger_ok_def)

interpretation ob: transaction_frame "kept outbox_ok"
proof unfold_locales
  fix P f d n d'
  assume legal: "\<And>t. P t \<Longrightarrow> legal_step t (f t)" and u: "tx_updateMany P f d = Inr (n, d')"
  have ids: "\<And>t. P t \<Longrightarrow> tx_id (f t) = tx_id t" using legal legal_step_id by simp
  have "is_confirmed d' i = is_confirmed d i" for i
    using legal_step_confirmed [OF legal]
    by (auto simp: is_confirmed_def tx_updateMany_rows(1) [OF u ids] split: option.splits)
  then show "kept outbox_ok d d'"
    using tx_updateMany_rows(2) [OF u ids] by (simp add: kept_def outbox_ok_def confirmed_events_def)
next
  fix t d t' d' assume "tx_status t = PENDING" and c: "tx_create t d = Inr (t', d')"
  then have "is_confirmed d' i = is_confirmed d i" for i
    by (auto simp: is_confirmed_def tx_create_rows(1) [OF c] split: option.splits)
  then show "kept outbox_ok d d'"
    using tx_create_rows(2) [OF c] by (simp add: kept_def outbox_ok_def confirmed_events_def)
next
  fix d d' assume "confirmation_commit d d'"
  then show "kept outbox_ok d d'"
    by (rule commit_rows) (auto simp: kept_def outbox_ok_def is_confirmed_def split: option.splits)
next
  fix d d' :: store
  assume "transactions d' = transactions d" "outbox d' = outbox d"
  then show "kept outbox_ok d d'" by (simp add: kept_def outbox_ok_def is_confirmed_def confirmed_events_def)
qed (simp add: kept_def outbox_ok_def is_confirmed_def confirmed_events_def)

end
