(* ===== verification/Outbox.thy ===== *)
theory Outbox
  imports Lifecycle
begin

text \<open>
  The transactional outbox: \<^verbatim>\<open>repositories/outbox-event.repository.ts\<close> and
  \<^verbatim>\<open>services/outbox-event.service.ts\<close>. The relay reads a batch of unpublished events,
  hands one job per event to the queue and only then marks the events published. Its
  specification \<open>relay_order\<close> says that events are never altered or lost, and that an
  event marked published has its job in the queue; it is a further instance of the
  contract of the transaction repository.
\<close>

section \<open>Operations\<close>

definition createInTransaction :: "string \<Rightarrow> string \<Rightarrow> confirmed_payload \<Rightarrow> outbox_event eff" where
  "createInTransaction aggregateId type payload =
     bindE randomUUID (\<lambda>i. bindE getNow (\<lambda>now. statement (\<lambda>d.
       let ev = \<lparr> ob_id = i, ob_aggregateId = aggregateId, ob_type = type, ob_payload = payload,
             ob_published = False, ob_publishedAt = None, ob_createdAt = now \<rparr>
       in if row ob_id (outbox d) i = None then Inr (ev, d\<lparr>outbox := outbox d @ [ev]\<rparr>) else Inl P2002)))"

definition claimUnpublished :: "nat \<Rightarrow> outbox_event list eff" where
  "claimUnpublished limit = query (\<lambda>d.
     take limit (order_asc ob_createdAt (filter (\<lambda>ev. \<not> ob_published ev) (outbox d))))"

definition markPublished :: "string list \<Rightarrow> unit eff" where
  "markPublished ids =
     (if ids = [] then returnE ()
      else bindE getNow (\<lambda>now. statement (\<lambda>d.
        Inr ((), d\<lparr>outbox := update_rows (\<lambda>ev. ob_id ev \<in> set ids)
          (\<lambda>ev. ev\<lparr>ob_published := True, ob_publishedAt := Some now\<rparr>) (outbox d)\<rparr>))))"

definition relay_job_of :: "outbox_event \<Rightarrow> relay_job" where
  "relay_job_of event = \<lparr> rj_name = ob_type event, rj_outboxEventId = ob_id event,
     rj_aggregateId = ob_aggregateId event, rj_type = ob_type event, rj_payload = ob_payload event,
     rj_jobId = ob_id event \<rparr>"

definition addBulk :: "relay_job list \<Rightarrow> unit eff" where
  "addBulk jobs = statement (\<lambda>d. Inr ((), d\<lparr>relayQueue := relayQueue d @ jobs\<rparr>))"

definition relay :: "nat \<Rightarrow> nat eff" where
  "relay limit =
     bindE (claimUnpublished limit) (\<lambda>events.
       if events = [] then returnE 0
       else bindE (addBulk (map relay_job_of events)) (\<lambda>_.
            let publishedIds = map ob_id events in
            bindE (markPublished publishedIds) (\<lambda>_. returnE (length publishedIds))))"

section \<open>Specification\<close>

definition relay_ok :: "store \<Rightarrow> bool" where
  "relay_ok d \<longleftrightarrow> keyed ob_id (outbox d) \<and>
     (\<forall>ev \<in> set (outbox d). ob_published ev \<longrightarrow> relay_job_of ev \<in> set (relayQueue d))"

definition relay_order :: "store \<Rightarrow> store \<Rightarrow> bool" where
  "relay_order d d' \<longleftrightarrow> (relay_ok d \<longrightarrow> relay_ok d' \<and>
     set (relayQueue d) \<subseteq> set (relayQueue d') \<and>
     (\<forall>i ev. row ob_id (outbox d) i = Some ev \<longrightarrow>
        (\<exists>ev'. row ob_id (outbox d') i = Some ev' \<and> relay_job_of ev' = relay_job_of ev \<and>
           (ob_published ev \<longrightarrow> ob_published ev'))))"

lemma relay_job_of_id: "relay_job_of ev = relay_job_of ev' \<Longrightarrow> ob_id ev = ob_id ev'"
  by (simp add: relay_job_of_def)

lemma relay_job_of_published [simp]:
  "relay_job_of (ev\<lparr>ob_published := b, ob_publishedAt := t\<rparr>) = relay_job_of ev"
  by (simp add: relay_job_of_def)

lemma relay_order_same: "outbox d' = outbox d \<Longrightarrow> relayQueue d' = relayQueue d \<Longrightarrow> relay_order d d'"
  by (simp add: relay_order_def relay_ok_def)

text \<open>A new event is unpublished and has an id of its own.\<close>

lemma relay_order_append:
  assumes "outbox d' = outbox d @ [ev]" "\<not> ob_published ev" "row ob_id (outbox d) (ob_id ev) = None"
    "relayQueue d' = relayQueue d"
  shows "relay_order d d'"
  using assms by (auto simp: relay_order_def relay_ok_def keyed_append_one row_append)

interpretation rl: transaction_frame relay_order
proof unfold_locales
  fix d show "relay_order d d" by (simp add: relay_order_def)
next
  fix a b c assume "relay_order a b" "relay_order b c"
  then show "relay_order a c" unfolding relay_order_def by (metis subset_trans)
next
  fix P f d n d' assume "tx_updateMany P f d = Inr (n, d')"
  then show "relay_order d d'"
    by (auto simp: tx_updateMany_def Let_def intro: relay_order_same split: if_splits)
next
  fix t d t' d' assume "tx_create t d = Inr (t', d')"
  then show "relay_order d d'"
    by (auto simp: tx_create_def Let_def intro: relay_order_same split: if_splits)
next
  fix d d' assume "confirmation_commit d d'"
  then show "relay_order d d'" by (auto simp: confirmation_commit_def intro: relay_order_append)
next
  fix d d' :: store
  assume "outbox d' = outbox d" "relayQueue d' = relayQueue d"
  then show "relay_order d d'" by (rule relay_order_same)
qed (simp add: relay_order_same)

section \<open>The relay keeps the order\<close>

text \<open>The events read, and after the enqueue also their jobs, are there to stay.\<close>

definition claimed :: "outbox_event list \<Rightarrow> store \<Rightarrow> bool" where
  "claimed events d \<longleftrightarrow> relay_ok d \<and> (\<forall>ev \<in> set events.
     \<exists>ev'. row ob_id (outbox d) (ob_id ev) = Some ev' \<and> relay_job_of ev' = relay_job_of ev)"

definition enqueued :: "outbox_event list \<Rightarrow> store \<Rightarrow> bool" where
  "enqueued events d \<longleftrightarrow> claimed events d \<and> relay_job_of ` set events \<subseteq> set (relayQueue d)"

lemma stable_relay_ok: "stable relay_order relay_ok"
  by (simp add: stable_def relay_order_def)

lemma stable_claimed: "stable relay_order (claimed events)"
  unfolding stable_def claimed_def relay_order_def by metis

lemma stable_enqueued: "stable relay_order (enqueued events)"
  using stable_claimed [of events] unfolding stable_def enqueued_def claimed_def relay_order_def by blast

lemma relay_orderI: "ensures relay_ok relay_order e m Q \<Longrightarrow> keeps relay_order e m"
  unfolding ensures_def keeps_def case_prod_beta relay_order_def by blast

lemma claimUnpublished_claims: "rely relay_order e \<Longrightarrow> ensures relay_ok relay_order e (claimUnpublished n) claimed"
  unfolding claimUnpublished_def
  by (rule rl.ensures_query [OF _ stable_relay_ok])
    (auto simp: claimed_def relay_ok_def row_member dest!: in_set_takeD')

lemma addBulk_enqueues:
  assumes "rely relay_order e"
  shows "ensures (claimed events) relay_order e (addBulk (map relay_job_of events)) (\<lambda>_. enqueued events)"
  unfolding addBulk_def
  by (rule rl.ensures_statement [OF assms stable_claimed])
    (auto simp: enqueued_def claimed_def relay_order_def relay_ok_def)

text \<open>Marking enqueued events published is within the order.\<close>

lemma mark_enqueued:
  assumes q: "enqueued events d"
    and d': "d' = d\<lparr>outbox := update_rows (\<lambda>ev. ob_id ev \<in> set (map ob_id events))
      (\<lambda>ev. ev\<lparr>ob_published := True, ob_publishedAt := Some now\<rparr>) (outbox d)\<rparr>"
  shows "relay_order d d'"
proof -
  let ?P = "\<lambda>ev. ob_id ev \<in> set (map ob_id events)"
  let ?f = "\<lambda>ev. ev\<lparr>ob_published := True, ob_publishedAt := Some now\<rparr>"
  have ok: "relay_ok d" using q by (simp add: enqueued_def claimed_def)
  then have ku: "keyed ob_id (outbox d)" by (simp add: relay_ok_def)
  have job: "relay_job_of ev \<in> set (relayQueue d)" if "ev \<in> set (outbox d)" "?P ev" for ev
  proof -
    from that(2) obtain cl where cl: "cl \<in> set events" "ob_id cl = ob_id ev" by auto
    with q obtain ev' where "row ob_id (outbox d) (ob_id ev) = Some ev'" "relay_job_of ev' = relay_job_of cl"
      by (auto simp: enqueued_def claimed_def)
    with row_member [OF ku that(1)] q cl(1) show ?thesis by (auto simp: enqueued_def)
  qed
  have row': "row ob_id (outbox d') i = map_option (\<lambda>ev. if ?P ev then ?f ev else ev) (row ob_id (outbox d) i)" for i
    unfolding d' by (simp add: row_update)
  have "relay_ok d'"
    using ok job by (auto simp: relay_ok_def d') (auto simp: update_rows_def)
  then show ?thesis unfolding relay_order_def row' by (auto simp: d')
qed

lemma markPublished_ordered:
  assumes "rely relay_order e"
  shows "ensures (enqueued events) relay_order e (markPublished (map ob_id events)) (\<lambda>_ _. True)"
  unfolding markPublished_def
  by (intro rl.ensures_if rl.ensures_return rl.ensures_bind
      [OF rl.ensures_frame [OF rl.keeps_getNow stable_enqueued]]
      rl.ensures_statement [OF assms stable_enqueued])
    (auto intro: mark_enqueued)

lemma keeps_relay_order: "rely relay_order e \<Longrightarrow> keeps relay_order e (relay n)"
  unfolding relay_def Let_def
  by (intro relay_orderI rl.ensures_bind [OF claimUnpublished_claims] rl.ensures_if rl.ensures_return
      rl.ensures_bind [OF addBulk_enqueues] rl.ensures_bind [OF markPublished_ordered]) auto

section \<open>The relay and the other specifications\<close>

text \<open>
  The relay leaves the transactions alone and changes only the publication columns of
  events.
\<close>

definition events_of :: "store \<Rightarrow> (string \<times> string) list" where
  "events_of d = map (\<lambda>ev. (ob_aggregateId ev, ob_type ev)) (outbox d)"

lemma confirmed_events_of:
  "confirmed_events d i = length (filter (\<lambda>(a, t). a = i \<and> t = ''transaction.confirmed'') (events_of d))"
  by (simp add: confirmed_events_def count_rows_def events_of_def filter_map comp_def)

context store_frame
begin

lemma keeps_relay_if:
  assumes "rely R e"
    and pub: "\<And>d d'. transactions d' = transactions d \<Longrightarrow> events_of d' = events_of d \<Longrightarrow> R d d'"
  shows "keeps R e (relay n)"
proof -
  have "events_of (d\<lparr>outbox := update_rows P (\<lambda>ev. ev\<lparr>ob_published := True, ob_publishedAt := Some now\<rparr>) (outbox d)\<rparr>)
      = events_of d" for P now d
    by (simp add: events_of_def update_rows_def)
  then show ?thesis
    using assms(1) unfolding relay_def claimUnpublished_def addBulk_def markPublished_def
    by (intro keeps_intros keeps_statement safe_statementI) (auto intro!: pub simp: events_of_def)
qed

end

lemma keeps_relay_lifecycle: "rely lifecycle e \<Longrightarrow> keeps lifecycle e (relay n)"
  by (rule lc.keeps_relay_if) (simp_all add: lifecycle_def)

lemma keeps_relay_ledger_ok: "rely (kept ledger_ok) e \<Longrightarrow> keeps (kept ledger_ok) e (relay n)"
  by (rule kept.keeps_relay_if) (simp_all add: kept_def ledger_ok_def)

lemma keeps_relay_outbox_ok: "rely (kept outbox_ok) e \<Longrightarrow> keeps (kept outbox_ok) e (relay n)"
  by (rule kept.keeps_relay_if) (simp_all add: kept_def outbox_ok_def confirmed_events_of is_confirmed_def)

section \<open>The relay in a quiet environment\<close>

lemma relay_quiet:
  fixes n :: nat
  assumes q: "quiet e"
  defines "evs \<equiv> \<lambda>d. take n (order_asc ob_createdAt (filter (\<lambda>ev. \<not> ob_published ev) (outbox d)))"
  shows "fst (relay n e w) = Inr (length (evs (db w)))"
    and "relayQueue (db (snd (relay n e w))) = relayQueue (db w) @ map relay_job_of (evs (db w))"
  using q by (auto simp: relay_def claimUnpublished_def addBulk_def markPublished_def evs_def
      eff_simps quiet_simps Let_def)

end
