(* ===== verification/Transfer_Service.thy ===== *)
theory Transfer_Service
  imports Adapters Outbox
begin

text \<open>
  Creating a transfer: \<^verbatim>\<open>services/ledger.service.ts\<close>, \<^verbatim>\<open>token.service.ts\<close>,
  \<^verbatim>\<open>transaction.service.ts\<close>, \<^verbatim>\<open>custodial-wallet.service.ts\<close>,
  \<^verbatim>\<open>token-contract-address.ts\<close> and \<^verbatim>\<open>transfer.service.ts\<close>. The adapters come in as
  the registry's list; every operation is shown to stay within any relation for which
  the contract of the repository holds.
\<close>

section \<open>LedgerService\<close>

definition createPending :: "string \<Rightarrow> string \<Rightarrow> string \<Rightarrow> string \<Rightarrow> int \<Rightarrow> transaction eff" where
  "createPending tenantId tokenId fromWalletId toWalletId amount =
     bindE (create tenantId tokenId fromWalletId toWalletId amount PENDING) (\<lambda>transaction.
     bindE (incrementMetric ''transactions_created_total''
              [(''tenantId'', tx_tenantId transaction), (''tokenId'', tx_tokenId transaction)]) (\<lambda>_.
     returnE transaction))"

definition ledger_markSubmitted :: "string \<Rightarrow> string \<Rightarrow> transaction eff" where
  "ledger_markSubmitted i txHash = markSubmitted i txHash"

definition ledger_confirm :: "string \<Rightarrow> int \<Rightarrow> int \<Rightarrow> transaction eff" where
  "ledger_confirm txHash blockNumber gasUsed =
     confirm txHash (Some (Number_of_bigint blockNumber)) (Some gasUsed)"

definition ledger_markFailed :: "string \<Rightarrow> string \<Rightarrow> transaction eff" where
  "ledger_markFailed i reason = markFailed i reason"

section \<open>TokenService\<close>

definition requireContractAddress :: "string option \<Rightarrow> string eff" where
  "requireContractAddress contractAddress =
     (if \<not> nonempty contractAddress
      then throwE (PlainError ''Token contract address is required for EVM token operations'')
      else returnE (the contractAddress))"

definition registerToken ::
  "adapter list \<Rightarrow> string \<Rightarrow> string \<Rightarrow> string option \<Rightarrow> int \<Rightarrow> blockchain \<Rightarrow> token eff" where
  "registerToken registry name symbol contractAddress decimals chain =
     bindE (registry_get registry (blockchain_name chain)) (\<lambda>adapter.
     bindE (if chain = EVM
            then (if \<not> nonempty contractAddress \<or> \<not> ad_validateAssetIdentifier adapter (the contractAddress)
                  then throwE (invalidAssetIdentifier (blockchain_name chain)
                         (case contractAddress of None \<Rightarrow> '''' | Some a \<Rightarrow> a))
                  else returnE ())
            else (case contractAddress of
                    Some a \<Rightarrow> throwE (invalidAssetIdentifier (blockchain_name chain) a)
                  | None \<Rightarrow> returnE ())) (\<lambda>_.
     bindE (token_exists contractAddress chain) (\<lambda>already.
     if already then throwE (PlainError ''Token already registered'')
     else token_create name symbol contractAddress (Some decimals) (Some chain))))"

definition getTokens :: "token list eff" where
  "getTokens = token_findAll"

definition getToken :: "string \<Rightarrow> token eff" where
  "getToken i = bindE (token_findById i) (\<lambda>token.
     case token of None \<Rightarrow> throwE (tokenNotFound (Some i)) | Some t \<Rightarrow> returnE t)"

definition mintToken :: "adapter list \<Rightarrow> string \<Rightarrow> string \<Rightarrow> int \<Rightarrow> string eff" where
  "mintToken registry tokenId receiver amount =
     bindE (getToken tokenId) (\<lambda>token.
     bindE (registry_get registry (blockchain_name (tk_blockchain token))) (\<lambda>adapter.
     case ad_mint adapter of
       None \<Rightarrow> throwE (unsupportedChainCapability ''mint'' (blockchain_name (tk_blockchain token)))
     | Some mint \<Rightarrow> bindE (requireContractAddress (tk_contractAddress token)) (\<lambda>a. mint a receiver amount)))"

section \<open>TransactionService and CustodialWalletService\<close>

definition getById :: "string \<Rightarrow> string \<Rightarrow> transaction_view option eff" where
  "getById i tenantId = findById i tenantId"

definition list_transactions :: "string \<Rightarrow> int \<Rightarrow> int \<Rightarrow> transaction_view list eff" where
  "list_transactions tenantId page limit = findAll tenantId page limit"

text \<open>The envelope encryption and the configured key id are parameters.\<close>

definition createCustodialWallet ::
  "int \<Rightarrow> adapter list \<Rightarrow> (exn + string) \<Rightarrow> (nat \<Rightarrow> string \<Rightarrow> string \<Rightarrow> exn + string) \<Rightarrow>
   string \<Rightarrow> string \<Rightarrow> int \<Rightarrow> wallet eff" where
  "createCustodialWallet evm registry getWalletKmsKeyId encryptWalletKey tenantId ownerId chainId =
     (case blockchainForChainId evm chainId of
        None \<Rightarrow> throwE (unsupportedChain chainId)
      | Some chain \<Rightarrow>
          bindE (registry_get registry (blockchain_name chain)) (\<lambda>adapter.
          case ad_createCustodialWallet adapter of
            None \<Rightarrow> throwE (unsupportedChainCapability ''custodial wallet creation'' (blockchain_name chain))
          | Some generate \<Rightarrow>
              bindE (liftE getWalletKmsKeyId) (\<lambda>kmsKeyId.
              bindE generate (\<lambda>(address, secret).
              bindE (external (\<lambda>n. encryptWalletKey n secret kmsKeyId)) (\<lambda>encryptedKey.
              createCustodial evm tenantId ownerId chainId address encryptedKey kmsKeyId)))))"

section \<open>TransferService\<close>

record transfer_request =
  rq_tenantId :: string
  rq_userId :: string
  rq_tokenId :: string
  rq_fromWalletId :: string
  rq_toWalletId :: string
  rq_amount :: int

definition CONFIRM_TRANSACTION :: string where
  "CONFIRM_TRANSACTION = ''confirm-transaction''"

definition confirmQueue_add :: "confirmation_job \<Rightarrow> unit eff" where
  "confirmQueue_add job = statement (\<lambda>d. Inr ((), d\<lparr>confirmQueue := confirmQueue d @ [job]\<rparr>))"

text \<open>
  The \<^verbatim>\<open>try\<close> block: \<open>createPending\<close> is the only call that runs before \<^verbatim>\<open>transactionId\<close> is
  set, so the handler that marks the row failed guards everything after it.
\<close>

definition submit_created ::
  "adapter \<Rightarrow> token \<Rightarrow> wallet \<Rightarrow> wallet \<Rightarrow> transfer_request \<Rightarrow> transaction \<Rightarrow> transaction eff" where
  "submit_created adapter token fromWallet toWallet request transaction =
     bindE (ad_submitTransfer adapter \<lparr> to_tenantId = rq_tenantId request, to_walletId = wa_id fromWallet,
              to_toAddress = wa_address toWallet, to_amount = rq_amount request,
              to_assetIdentifier = tk_contractAddress token \<rparr>) (\<lambda>hash.
     bindE (incrementMetric ''transactions_submitted_total''
              [(''tenantId'', tx_tenantId transaction), (''tokenId'', tx_tokenId transaction)]) (\<lambda>_.
     bindE (ledger_markSubmitted (tx_id transaction) hash) (\<lambda>submitted.
     bindE (confirmQueue_add \<lparr> cj_name = CONFIRM_TRANSACTION, cj_transactionId = tx_id submitted,
              cj_tenantId = tx_tenantId submitted, cj_options = None \<rparr>) (\<lambda>_.
     returnE submitted))))"

definition transfer :: "adapter list \<Rightarrow> transfer_request \<Rightarrow> transaction eff" where
  "transfer registry request =
     bindE (getToken (rq_tokenId request)) (\<lambda>token.
     bindE (getWalletById (rq_fromWalletId request)) (\<lambda>from.
     case from of
       None \<Rightarrow> throwE (walletNotFound None)
     | Some fromWallet \<Rightarrow>
       if wa_tenantId fromWallet \<noteq> rq_tenantId request \<or> wa_ownerId fromWallet \<noteq> rq_userId request
       then throwE (walletNotFound None)
       else
     bindE (getWalletById (rq_toWalletId request)) (\<lambda>to.
     case to of
       None \<Rightarrow> throwE (walletNotFound None)
     | Some toWallet \<Rightarrow>
     bindE (registry_get registry (blockchain_name (tk_blockchain token))) (\<lambda>adapter.
     bindE (getCustodyStatus (wa_id fromWallet)) (\<lambda>custody.
     if \<not> ad_canSign adapter custody then throwE (walletNotCustodial (Some (wa_id fromWallet)))
     else
     bindE (createPending (rq_tenantId request) (rq_tokenId request) (wa_id fromWallet) (wa_id toWallet)
              (rq_amount request)) (\<lambda>transaction.
     catchE (submit_created adapter token fromWallet toWallet request transaction)
       (\<lambda>error. ledger_markFailed (tx_id transaction) (exn_message error))))))))"

section \<open>What these operations keep\<close>

definition sound_registry :: "adapter list \<Rightarrow> bool" where
  "sound_registry registry \<longleftrightarrow> (\<forall>a \<in> set registry. chain_adapter a)"

lemma program_registry_sound: "sound_registry (blockchainAdapterRegistry ec bc sc k)"
  unfolding sound_registry_def using registry_adapters by blast

context transaction_frame
begin

text \<open>The adapter a lookup returns is one of the registry's, so its laws apply to the rest.\<close>

lemma keeps_with_adapter:
  assumes "sound_registry registry" "\<And>a. chain_adapter a \<Longrightarrow> keeps R e (f a)"
  shows "keeps R e (bindE (registry_get registry c) f)"
proof (rule keepsI)
  fix w :: world
  show "R (db w) (db (snd (bindE (registry_get registry c) f e w)))"
  proof (cases "registry_get registry c e w")
    case (Pair r w')
    have w': "w' = w" using Pair by (auto simp: registry_get_def eff_simps split: option.splits)
    show ?thesis
    proof (cases r)
      case (Inl x)
      with Pair w' show ?thesis by (simp add: bindE_def frame_refl)
    next
      case (Inr a)
      with Pair have "a \<in> set registry" using registry_get_Inr by blast
      with assms have "keeps R e (f a)" by (simp add: sound_registry_def)
      with Pair Inr w' show ?thesis by (simp add: bindE_def keeps_def)
    qed
  qed
qed

lemma keeps_createPending [keeps_intros]: "rely R e \<Longrightarrow> keeps R e (createPending tn tk f t a)"
  unfolding createPending_def by (intro keeps_intros)

lemma keeps_confirmQueue_add [keeps_intros]: "rely R e \<Longrightarrow> keeps R e (confirmQueue_add j)"
  unfolding confirmQueue_add_def by (rule keeps_elsewhere) (auto simp: same_index_def)

lemma keeps_getToken [keeps_intros]: "rely R e \<Longrightarrow> keeps R e (getToken i)"
  unfolding getToken_def by (intro keeps_intros)

lemma keeps_requireContractAddress [keeps_intros]: "keeps R e (requireContractAddress c)"
  unfolding requireContractAddress_def by (intro keeps_intros)

lemma keeps_registerToken:
  "rely R e \<Longrightarrow> keeps R e (registerToken registry n s c dec b)"
  unfolding registerToken_def by (intro keeps_intros)

lemma keeps_mintToken:
  assumes "sound_registry registry" "rely R e"
  shows "keeps R e (mintToken registry i r a)"
  unfolding mintToken_def using assms
  by (auto intro!: keeps_intros keeps_with_adapter intro: chain_adapter.mint_keeps [OF _ store_frame_axioms])

lemma keeps_createCustodialWallet:
  assumes "sound_registry registry" "rely R e"
  shows "keeps R e (createCustodialWallet evm registry kms enc tn ow c)"
  unfolding createCustodialWallet_def using assms
  by (auto intro!: keeps_intros keeps_with_adapter intro: chain_adapter.create_keeps [OF _ store_frame_axioms]
      split: prod.split)

lemma keeps_submit_created:
  assumes "chain_adapter adapter" "rely R e"
  shows "keeps R e (submit_created adapter tk f t rq tx)"
  unfolding submit_created_def ledger_markSubmitted_def using assms
  by (auto intro!: keeps_intros chain_adapter.submit_keeps [OF _ store_frame_axioms])

lemma keeps_transfer:
  assumes "sound_registry registry" "rely R e"
  shows "keeps R e (transfer registry rq)"
  unfolding transfer_def ledger_markFailed_def using assms
  by (auto intro!: keeps_intros keeps_with_adapter keeps_submit_created split: option.split)

end

end
