(* ===== verification/Confirmation.thy ===== *)
theory Confirmation
  imports Transfer_Service
begin

text \<open>
  \<^verbatim>\<open>workers/confirmation.processor.ts\<close> and the job handler of
  \<^verbatim>\<open>workers/confirmation.queue.worker.ts\<close>: one delivery of a confirmation job. The
  central lemma is that the block inside \<^verbatim>\<open>prisma.$transaction\<close> commits nothing but a
  \<open>confirmation_commit\<close>, so the whole processor stays within every relation for which
  the contract of the repository holds.
\<close>

section \<open>The processor\<close>

definition isTerminal :: "transaction_status \<Rightarrow> bool" where
  "isTerminal status = (status = CONFIRMED \<or> status = FAILED \<or> status = EXPIRED)"

definition tx_labels :: "transaction \<Rightarrow> (string \<times> string) list" where
  "tx_labels t = [(''tenantId'', tx_tenantId t), (''tokenId'', tx_tokenId t)]"

text \<open>\<^verbatim>\<open>repo.findById\<close> followed by the check for a missing row.\<close>

definition reload :: "transaction \<Rightarrow> transaction eff" where
  "reload tx = bindE (findById (tx_id tx) (tx_tenantId tx)) (\<lambda>current.
     case current of
       None \<Rightarrow> throwE (PlainError (''Transaction '' @ tx_id tx @ '' not found''))
     | Some v \<Rightarrow> returnE (tv_row v))"

definition handleStaleConfirmation :: "transaction \<Rightarrow> exn \<Rightarrow> bool eff" where
  "handleStaleConfirmation tx error =
     bindE (reload tx) (\<lambda>current.
       if isTerminal (tx_status current) then returnE False
       else if tx_status current = CONFIRMING then returnE True
       else throwE error)"

definition claimConfirmation :: "transaction \<Rightarrow> bool eff" where
  "claimConfirmation tx =
     catchE (bindE (markConfirming (tx_id tx)) (\<lambda>_. returnE True))
       (\<lambda>error. if \<not> is_state_conflict error then throwE error else handleStaleConfirmation tx error)"

definition confirmed_payload_of :: "transaction \<Rightarrow> confirmed_payload" where
  "confirmed_payload_of confirmed = \<lparr> pl_transactionId = tx_id confirmed,
     pl_tenantId = tx_tenantId confirmed, pl_tokenId = tx_tokenId confirmed,
     pl_txHash = tx_txHash confirmed, pl_blockNumber = map_option show_int (tx_blockNumber confirmed),
     pl_amount = show_int (tx_amount confirmed),
     pl_confirmedAt = map_option toISOString (tx_confirmedAt confirmed) \<rparr>"

definition confirmation_body :: "string \<Rightarrow> blockchain_transaction \<Rightarrow> unit eff" where
  "confirmation_body txHash blockchainTransaction =
     (case bt_blockNumber blockchainTransaction of
        None \<Rightarrow> throwE (PlainError (''Confirmed transaction '' @ txHash @ '' has no block number''))
      | Some blockNumber \<Rightarrow>
          bindE (confirm txHash (Some (Number_of_bigint blockNumber)) (bt_gasUsed blockchainTransaction)) (\<lambda>confirmed.
          bindE (createInTransaction (tx_id confirmed) ''transaction.confirmed'' (confirmed_payload_of confirmed)) (\<lambda>_.
          returnE ())))"

definition persistConfirmation :: "transaction \<Rightarrow> string \<Rightarrow> blockchain_transaction \<Rightarrow> unit eff" where
  "persistConfirmation tx txHash blockchainTransaction =
     catchE (db_transaction (confirmation_body txHash blockchainTransaction))
       (\<lambda>error.
          if \<not> is_state_conflict error then throwE error
          else bindE (reload tx) (\<lambda>current.
            if isTerminal (tx_status current) then returnE () else throwE error))"

definition handleSuccessfulTransaction :: "transaction \<Rightarrow> string \<Rightarrow> blockchain_transaction \<Rightarrow> unit eff" where
  "handleSuccessfulTransaction tx txHash blockchainTransaction =
     bindE (claimConfirmation tx) (\<lambda>claimed.
       if \<not> claimed then returnE ()
       else bindE (persistConfirmation tx txHash blockchainTransaction) (\<lambda>_.
            incrementMetric ''transactions_confirmed_total'' (tx_labels tx)))"

definition markTransactionFailed :: "transaction \<Rightarrow> bool eff" where
  "markTransactionFailed tx =
     catchE (bindE (markFailed (tx_id tx) ''FAILED'') (\<lambda>_. returnE True))
       (\<lambda>error.
          if \<not> is_state_conflict error then throwE error
          else bindE (reload tx) (\<lambda>current.
            if isTerminal (tx_status current) then returnE False else throwE error))"

definition handleRevertedTransaction :: "transaction \<Rightarrow> unit eff" where
  "handleRevertedTransaction tx =
     bindE (markTransactionFailed tx) (\<lambda>failed.
       if \<not> failed then returnE ()
       else incrementMetric ''transactions_reverted_total'' (tx_labels tx))"

text \<open>Errors that mean \<^emph>\<open>not there yet\<close>.\<close>

definition not_visible_yet :: "exn \<Rightarrow> bool" where
  "not_visible_yet error =
     ((case error of TransactionPendingError h \<Rightarrow> True | _ \<Rightarrow> False) \<or>
      is_Error error \<and> (includes_str (exn_message error) ''could not be found'' \<or>
        includes_str (exn_message error) ''No such mempool or blockchain transaction''))"

definition handleConfirmationError :: "transaction \<Rightarrow> exn \<Rightarrow> unit eff" where
  "handleConfirmationError tx error =
     (if not_visible_yet error then throwE error
      else bindE (incrementMetric ''transactions_failed_total'' (tx_labels tx @ [(''status'', ''CONFIRMATION_ERROR'')]))
             (\<lambda>_. throwE error))"

definition getBlockchainTransaction :: "adapter list \<Rightarrow> transaction_view \<Rightarrow> string \<Rightarrow> blockchain_transaction eff" where
  "getBlockchainTransaction registry tx txHash =
     bindE (required (tv_token tx)) (\<lambda>token.
     bindE (registry_get registry (blockchain_name (tk_blockchain token))) (\<lambda>adapter.
       ad_getTransaction adapter txHash))"

definition confirmTransaction :: "adapter list \<Rightarrow> transaction_view \<Rightarrow> string \<Rightarrow> unit eff" where
  "confirmTransaction registry tx txHash =
     catchE
       (bindE (getBlockchainTransaction registry tx txHash) (\<lambda>blockchainTransaction.
          case bt_status blockchainTransaction of
            chain_confirmed \<Rightarrow> handleSuccessfulTransaction (tv_row tx) txHash blockchainTransaction
          | chain_failed \<Rightarrow> handleRevertedTransaction (tv_row tx)
          | chain_pending \<Rightarrow> throwE (TransactionPendingError txHash)))
       (handleConfirmationError (tv_row tx))"

definition processTransaction :: "adapter list \<Rightarrow> string \<Rightarrow> string \<Rightarrow> unit eff" where
  "processTransaction registry transactionId tenantId =
     bindE (findById transactionId tenantId) (\<lambda>transaction.
       case transaction of
         None \<Rightarrow> throwE (PlainError (''Transaction '' @ transactionId @ '' not found''))
       | Some tx \<Rightarrow>
           if \<not> nonempty (tx_txHash (tv_row tx)) then returnE ()
           else confirmTransaction registry tx (the (tx_txHash (tv_row tx))))"

section \<open>What the transaction block commits\<close>

lemma transition_isolated:
  assumes "transition i from to data (isolated e) w = (Inr t', w')"
    and "\<And>t. tx_id (data (t\<lparr>tx_status := to\<rparr>)) = tx_id t"
  obtains t where "row tx_id (transactions (db w)) i = Some t" "tx_status t = from" "canTransition from to"
    "t' = data (t\<lparr>tx_status := to\<rparr>)"
    "db w' = (db w)\<lparr>transactions := update_rows (\<lambda>r. tx_id r = i \<and> tx_status r = from) (\<lambda>_. t') (transactions (db w))\<rparr>"
    "count_rows (\<lambda>r. tx_id r = i \<and> tx_status r = from) (transactions (db w)) = 1"
proof -
  let ?P = "\<lambda>r. tx_id r = i \<and> tx_status r = from"
  let ?f = "\<lambda>t. data (t\<lparr>tx_status := to\<rparr>)"
  from assms(1) have can: "canTransition from to"
    by (auto simp: transition_def assertTransition_def bindE_Inr split: if_splits)
  from assms(1) can obtain n w1 where u: "statement (tx_updateMany ?P ?f) (isolated e) w = (Inr n, w1)"
    and rest: "(if n = 1 then tx_findUniqueOrThrow i
       else bindE (tx_findUnique i) (\<lambda>transaction. case transaction of
           None \<Rightarrow> throwE (PlainError (''Transaction '' @ i @ '' not found''))
         | Some t \<Rightarrow> throwE (TransactionStateConflictError i from))) (isolated e) w1 = (Inr t', w')"
    unfolding transition_def assertTransition_ok [OF can] bindE_Inr returnE_Inr by blast
  have n: "n = 1" using rest by (auto simp: bindE_Inr split: if_splits option.splits)
  have up: "tx_updateMany ?P ?f (db w) = Inr (n, db w1)" using u by (rule statement_isolated)
  note rows = tx_updateMany_rows [OF up assms(2)]
  have w': "row tx_id (transactions (db w1)) i = Some t'" "db w' = db w1"
    using rest n by (auto simp: tx_findUniqueOrThrow_def dest!: statement_isolated split: option.splits)
  have "count_rows ?P (transactions (db w)) = 1" using rows(3) n by simp
  with count_keyed [OF rows(6), of i "\<lambda>t. tx_status t = from"]
  obtain t where t: "row tx_id (transactions (db w)) i = Some t" "tx_status t = from"
    by (auto split: option.splits if_splits)
  have t': "t' = ?f t" using w'(1) rows(1) [of i] t row_SomeD [OF t(1)] by simp
  have "update_rows ?P ?f (transactions (db w)) = update_rows ?P (\<lambda>_. t') (transactions (db w))"
    using row_member [OF rows(6)] t by (auto simp: update_rows_def t')
  then have "db w' = (db w)\<lparr>transactions := update_rows ?P (\<lambda>_. t') (transactions (db w))\<rparr>"
    using up w'(2) by (auto simp: tx_updateMany_def Let_def split: if_splits)
  with that t can t' \<open>count_rows ?P (transactions (db w)) = 1\<close> show thesis by blast
qed

lemma confirmation_body_commits:
  assumes "confirmation_body h bt (isolated e) w = (Inr u, w')"
  shows "confirmation_commit (db w) (db w')"
proof -
  from assms obtain bn c w1 ev where
    cf: "confirm h (Some bn) (bt_gasUsed bt) (isolated e) w = (Inr c, w1)" and
    cr: "createInTransaction (tx_id c) ''transaction.confirmed'' (confirmed_payload_of c) (isolated e) w1 = (Inr ev, w')"
    by (auto simp: confirmation_body_def bindE_Inr returnE_Inr split: option.splits)
  from cf obtain t0 w2 now w3 where f: "findByHash h (isolated e) w = (Inr (Some t0), w2)"
    and n: "getNow (isolated e) w2 = (Inr now, w3)"
    and tr: "transition (tx_id t0) CONFIRMING CONFIRMED
       (\<lambda>r. r\<lparr>tx_blockNumber := Some bn, tx_gasUsed := bt_gasUsed bt, tx_confirmedAt := Some now\<rparr>) (isolated e) w3 = (Inr c, w1)"
    by (auto simp: confirm_def bindE_Inr split: option.splits)
  have w3: "db w3 = db w"
    using query_isolated [OF f [unfolded findByHash_def]] getNow_Inr [OF n] by simp
  from tr obtain t where t: "row tx_id (transactions (db w)) (tx_id t0) = Some t" "tx_status t = CONFIRMING"
    "c = t\<lparr>tx_status := CONFIRMED, tx_blockNumber := Some bn, tx_gasUsed := bt_gasUsed bt, tx_confirmedAt := Some now\<rparr>"
    "db w1 = (db w)\<lparr>transactions := update_rows (\<lambda>r. tx_id r = tx_id t0 \<and> tx_status r = CONFIRMING) (\<lambda>_. c) (transactions (db w))\<rparr>"
    "count_rows (\<lambda>r. tx_id r = tx_id t0 \<and> tx_status r = CONFIRMING) (transactions (db w)) = 1"
    by (rule transition_isolated) (auto simp: w3)
  have id: "tx_id t = tx_id t0" using t(1) by (auto dest: row_SomeD)
  have ids: "tx_id c = tx_id t0" using t(3) id by simp
  from cr obtain i ct where ev: "ev = \<lparr> ob_id = i, ob_aggregateId = tx_id c, ob_type = ''transaction.confirmed'',
       ob_payload = confirmed_payload_of c, ob_published = False, ob_publishedAt = None, ob_createdAt = ct \<rparr>"
    "row ob_id (outbox (db w1)) i = None" "db w' = (db w1)\<lparr>outbox := outbox (db w1) @ [ev]\<rparr>"
    by (auto simp: createInTransaction_def bindE_Inr Let_def
        dest!: statement_isolated uuid_Inr getNow_Inr split: if_splits)
  show ?thesis
    unfolding confirmation_commit_def
    by (rule exI [of _ t], rule exI [of _ c], rule exI [of _ ev])
      (use t ev ids in \<open>auto simp: id same_terms_def tx_wf_def same_index_def\<close>)
qed

context transaction_frame
begin

lemma keeps_reload [keeps_intros]: "rely R e \<Longrightarrow> keeps R e (reload tx)"
  unfolding reload_def by (intro keeps_intros)

lemma keeps_persistConfirmation [keeps_intros]:
  assumes "rely R e"
  shows "keeps R e (persistConfirmation tx h bt)"
  unfolding persistConfirmation_def
  by (intro keeps_intros keeps_transaction assms frame_confirm) (rule confirmation_body_commits)

lemma keeps_claimConfirmation [keeps_intros]: "rely R e \<Longrightarrow> keeps R e (claimConfirmation tx)"
  unfolding claimConfirmation_def handleStaleConfirmation_def by (intro keeps_intros)

lemma keeps_handlers [keeps_intros]:
  assumes "rely R e"
  shows "keeps R e (handleSuccessfulTransaction tx h bt)" "keeps R e (handleRevertedTransaction tx)"
    "keeps R e (handleConfirmationError tx x)"
  unfolding handleSuccessfulTransaction_def handleRevertedTransaction_def markTransactionFailed_def
    handleConfirmationError_def
  using assms by (intro keeps_intros; assumption)+

lemma keeps_processTransaction:
  assumes "sound_registry registry" "rely R e"
  shows "keeps R e (processTransaction registry i tn)"
  unfolding processTransaction_def confirmTransaction_def getBlockchainTransaction_def using assms
  by (auto intro!: keeps_intros keeps_with_adapter intro: chain_adapter.get_keeps [OF _ store_frame_axioms]
      split: confirmation_status.split)

end

end
