(* ===== verification/Recovery.thy ===== *)
theory Recovery
  imports Confirmation
begin

text \<open>
  The background processors that finish what a request or a worker left behind:
  \<^verbatim>\<open>workers/expiration.processor.ts\<close>, \<^verbatim>\<open>submission-recovery.processor.ts\<close> and
  \<^verbatim>\<open>pending-recovery.processor.ts\<close>, with the two repositories the last one reads
  (\<^verbatim>\<open>transfer.repository.ts\<close>, \<^verbatim>\<open>token-event-cursor.repository.ts\<close>).
\<close>

section \<open>Transfer and cursor repositories\<close>

definition transfer_create ::
  "string \<Rightarrow> string \<Rightarrow> string \<Rightarrow> int \<Rightarrow> string \<Rightarrow> int \<Rightarrow> int \<Rightarrow> token_transfer eff" where
  "transfer_create tokenId from to amount transactionHash logIndex blockNumber =
     bindE randomUUID (\<lambda>i. bindE getNow (\<lambda>now. statement (\<lambda>d.
       case List.find (\<lambda>r. tr_transactionHash r = transactionHash \<and> tr_logIndex r = logIndex) (transfers d) of
         Some r \<Rightarrow> Inr (r, d)
       | None \<Rightarrow>
           let r = \<lparr> tr_id = i, tr_tokenId = tokenId, tr_from = from, tr_to = to, tr_amount = amount,
                 tr_transactionHash = transactionHash, tr_logIndex = logIndex, tr_blockNumber = blockNumber,
                 tr_createdAt = now \<rparr>
           in Inr (r, d\<lparr>transfers := transfers d @ [r]\<rparr>))))"

definition findByTransactionHashAndLogIndex :: "string \<Rightarrow> int \<Rightarrow> token_transfer option eff" where
  "findByTransactionHashAndLogIndex transactionHash logIndex = query (\<lambda>d.
     List.find (\<lambda>r. tr_transactionHash r = transactionHash \<and> tr_logIndex r = logIndex) (transfers d))"

definition findMatchingTransfer ::
  "string \<Rightarrow> string \<Rightarrow> string \<Rightarrow> int \<Rightarrow> int \<Rightarrow> token_transfer option eff" where
  "findMatchingTransfer tokenId from to amount notBefore = query (\<lambda>d.
     case order_asc tr_createdAt (filter (\<lambda>r. tr_tokenId r = tokenId \<and> tr_from r = from \<and> tr_to r = to \<and>
            tr_amount r = amount \<and> tr_createdAt r \<ge> notBefore) (transfers d)) of
       [] \<Rightarrow> None
     | r # rs \<Rightarrow> Some r)"

definition cursor_getOrCreate :: "string \<Rightarrow> token_event_cursor eff" where
  "cursor_getOrCreate tokenId = statement (\<lambda>d.
     case row cu_tokenId (cursors d) tokenId of
       Some c \<Rightarrow> Inr (c, d)
     | None \<Rightarrow>
         let c = \<lparr> cu_tokenId = tokenId, cu_lastProcessedBlock = 0, cu_lastProcessedLogIndex = 0,
               cu_lastSuccessfulSync = None, cu_lastFailedSync = None, cu_failureCount = 0 \<rparr>
         in Inr (c, d\<lparr>cursors := cursors d @ [c]\<rparr>))"

definition cursor_update ::
  "string \<Rightarrow> (token_event_cursor \<Rightarrow> token_event_cursor) \<Rightarrow> store \<Rightarrow> db_error + token_event_cursor \<times> store" where
  "cursor_update tokenId f d =
     (case row cu_tokenId (cursors d) tokenId of
        None \<Rightarrow> Inl P2025
      | Some c \<Rightarrow> Inr (f c, d\<lparr>cursors := update_rows (\<lambda>r. cu_tokenId r = tokenId) f (cursors d)\<rparr>))"

definition markSuccess :: "string \<Rightarrow> int \<Rightarrow> token_event_cursor eff" where
  "markSuccess tokenId blockNumber =
     bindE getNow (\<lambda>now. statement (cursor_update tokenId
       (\<lambda>c. c\<lparr>cu_lastProcessedBlock := blockNumber, cu_lastSuccessfulSync := Some now, cu_failureCount := 0\<rparr>)))"

definition markFailure :: "string \<Rightarrow> token_event_cursor eff" where
  "markFailure tokenId =
     bindE getNow (\<lambda>now. statement (cursor_update tokenId
       (\<lambda>c. c\<lparr>cu_lastFailedSync := Some now, cu_failureCount := cu_failureCount c + 1\<rparr>)))"

definition updateCursor :: "string \<Rightarrow> int \<Rightarrow> int \<Rightarrow> token_event_cursor eff" where
  "updateCursor tokenId blockNumber logIndex = statement (cursor_update tokenId
     (\<lambda>c. c\<lparr>cu_lastProcessedBlock := blockNumber, cu_lastProcessedLogIndex := logIndex\<rparr>))"

definition findByTokenId :: "string \<Rightarrow> token_event_cursor option eff" where
  "findByTokenId tokenId = query (\<lambda>d. row cu_tokenId (cursors d) tokenId)"

section \<open>ExpirationProcessor\<close>

definition expire_one :: "transaction \<Rightarrow> unit eff" where
  "expire_one t =
     catchE (bindE (expire (tx_id t) ''Transaction confirmation timeout exceeded'') (\<lambda>_. returnE ()))
       (\<lambda>error. if is_state_conflict error then returnE () else throwE error)"

definition processExpiredTransactions :: "int \<Rightarrow> nat eff" where
  "processExpiredTransactions expirationBefore =
     bindE (findExpiredCandidates expirationBefore 100) (\<lambda>ts.
     bindE (forE ts expire_one) (\<lambda>_. returnE (length ts)))"

section \<open>SubmissionRecoveryProcessor\<close>

definition recovery_job :: "transaction \<Rightarrow> confirmation_job" where
  "recovery_job t = \<lparr> cj_name = CONFIRM_TRANSACTION, cj_transactionId = tx_id t, cj_tenantId = tx_tenantId t,
     cj_options = Some \<lparr> jo_jobId = ''confirm-'' @ tx_id t, jo_attempts = 5, jo_backoffDelay = 5000,
       jo_removeOnComplete = True, jo_removeOnFail = False \<rparr> \<rparr>"

definition processSubmittedTransactions :: "unit eff" where
  "processSubmittedTransactions =
     bindE (findSubmittedCandidates 100) (\<lambda>ts.
       forE ts (\<lambda>t. catchE (confirmQueue_add (recovery_job t)) (\<lambda>error. returnE ())))"

section \<open>PendingRecoveryProcessor\<close>

definition isEventListenerHealthy :: "int \<Rightarrow> string \<Rightarrow> bool eff" where
  "isEventListenerHealthy listenerStalenessMs tokenId =
     bindE (findByTokenId tokenId) (\<lambda>cursor.
       case cursor of
         None \<Rightarrow> returnE False
       | Some c \<Rightarrow>
           (case cu_lastSuccessfulSync c of
              None \<Rightarrow> returnE False
            | Some s \<Rightarrow> bindE getNow (\<lambda>now. returnE (now - s \<le> listenerStalenessMs))))"

definition adopt :: "transaction \<Rightarrow> string \<Rightarrow> unit eff" where
  "adopt t txHash =
     bindE (markSubmitted (tx_id t) txHash) (\<lambda>_. confirmQueue_add (recovery_job t))"

definition fail_orphan :: "transaction \<Rightarrow> unit eff" where
  "fail_orphan t =
     bindE (markFailed (tx_id t)
       ''Orphaned in PENDING: no matching on-chain transfer found after the recovery window. Likely a process crash before submission completed.'')
       (\<lambda>_. returnE ())"

definition recoverOne :: "int \<Rightarrow> int \<Rightarrow> transaction_view \<Rightarrow> unit eff" where
  "recoverOne failAfterMs listenerStalenessMs v =
     (let t = tv_row v in
      catchE
        (bindE (required (tv_fromWallet v)) (\<lambda>fromWallet.
         bindE (required (tv_toWallet v)) (\<lambda>toWallet.
         bindE (findMatchingTransfer (tx_tokenId t) (wa_address fromWallet) (wa_address toWallet)
                  (tx_amount t) (tx_createdAt t)) (\<lambda>match.
         case match of
           Some r \<Rightarrow> adopt t (tr_transactionHash r)
         | None \<Rightarrow>
             bindE getNow (\<lambda>now.
             if now - tx_createdAt t < failAfterMs then returnE ()
             else bindE (isEventListenerHealthy listenerStalenessMs (tx_tokenId t)) (\<lambda>healthy.
               if \<not> healthy then returnE () else fail_orphan t))))))
        (\<lambda>error. returnE ()))"

definition processOrphanedPending :: "int \<Rightarrow> int \<Rightarrow> int \<Rightarrow> unit eff" where
  "processOrphanedPending graceMs failAfterMs listenerStalenessMs =
     bindE getNow (\<lambda>now.
     bindE (findOrphanedPendingCandidates (now - graceMs) 100) (\<lambda>candidates.
       forE candidates (recoverOne failAfterMs listenerStalenessMs)))"

section \<open>What the processors keep\<close>

context transaction_frame
begin

lemma keeps_transfer_cursor [keeps_intros]:
  assumes "rely R e"
  shows "keeps R e (findMatchingTransfer tk f t a nb)" "keeps R e (findByTokenId tk)"
  using assms unfolding findMatchingTransfer_def findByTokenId_def by (auto intro!: keeps_intros)

lemma keeps_processExpired: "rely R e \<Longrightarrow> keeps R e (processExpiredTransactions b)"
  unfolding processExpiredTransactions_def expire_one_def findExpiredCandidates_def by (intro keeps_intros)

lemma keeps_processSubmitted: "rely R e \<Longrightarrow> keeps R e processSubmittedTransactions"
  unfolding processSubmittedTransactions_def findSubmittedCandidates_def by (intro keeps_intros)

lemma keeps_processOrphaned: "rely R e \<Longrightarrow> keeps R e (processOrphanedPending g f l)"
  unfolding processOrphanedPending_def recoverOne_def adopt_def fail_orphan_def isEventListenerHealthy_def
    findOrphanedPendingCandidates_def Let_def
  by (intro keeps_intros)

end

end
