(* ===== verification/Ledger_Runs.thy ===== *)
theory Ledger_Runs
  imports Recovery
begin

text \<open>
  What the operations on transactions do when nothing disturbs them: one rule per branch
  of the compare-and-set updates, and from these the exact outcome of a delivery of a
  confirmation job, of an expiration pass, of a recovery pass and of a transfer.
\<close>

section \<open>Replacing one transaction\<close>

definition put_tx :: "transaction \<Rightarrow> store \<Rightarrow> store" where
  "put_tx t d = d\<lparr>transactions := update_rows (\<lambda>r. tx_id r = tx_id t) (\<lambda>_. t) (transactions d)\<rparr>"

lemma put_tx_row:
  "row tx_id (transactions (put_tx t d)) i =
     (if i = tx_id t then map_option (\<lambda>_. t) (row tx_id (transactions d) i) else row tx_id (transactions d) i)"
  by (simp add: put_tx_def row_update_const)

lemma put_tx_fields [simp]:
  "outbox (put_tx t d) = outbox d" "relayQueue (put_tx t d) = relayQueue d" "confirmQueue (put_tx t d) = confirmQueue d"
  "wallets (put_tx t d) = wallets d" "tokens (put_tx t d) = tokens d" "transfers (put_tx t d) = transfers d"
  "cursors (put_tx t d) = cursors d" "custodyKeys (put_tx t d) = custodyKeys d" "leases (put_tx t d) = leases d"
  "balances (put_tx t d) = balances d"
  by (simp_all add: put_tx_def)

lemma put_tx_keyed [simp]: "keyed tx_id (transactions (put_tx t d)) = keyed tx_id (transactions d)"
  by (simp add: put_tx_def keyed_update_const)

lemma put_tx_put [simp]: "tx_id t = tx_id t' \<Longrightarrow> put_tx t (put_tx t' d) = put_tx t d"
  by (simp add: put_tx_def update_rows_def)

lemma update_is_put:
  assumes "keyed tx_id (transactions d)" "row tx_id (transactions d) i = Some t" "Q t" "tx_id (f t) = i"
  shows "update_rows (\<lambda>r. tx_id r = i \<and> Q r) f (transactions d) = transactions (put_tx (f t) d)"
proof -
  have "r = t" if "r \<in> set (transactions d)" "tx_id r = i" for r
    using row_member [OF assms(1) that(1)] assms(2) that(2) by simp
  then have "map (\<lambda>r. if tx_id r = i \<and> Q r then f r else r) (transactions d) =
      map (\<lambda>r. if tx_id r = i then f t else r) (transactions d)"
    using assms(3) by (intro map_cong) auto
  with assms(4) show ?thesis by (simp add: put_tx_def update_rows_def)
qed

lemma put_tx_eq: "d\<lparr>transactions := transactions (put_tx t d)\<rparr> = put_tx t d"
  by (simp add: put_tx_def)

lemma update_none:
  assumes "keyed tx_id (transactions d)" "\<And>t. row tx_id (transactions d) i = Some t \<Longrightarrow> \<not> Q t"
  shows "update_rows (\<lambda>r. tx_id r = i \<and> Q r) f (transactions d) = transactions d"
    and "count_rows (\<lambda>r. tx_id r = i \<and> Q r) (transactions d) = 0"
  using assms by (auto intro!: update_rows_none simp: count_keyed split: option.splits)

lemma tx_hashes_map: "(\<And>r. r \<in> set rs \<Longrightarrow> tx_txHash (f r) = tx_txHash r) \<Longrightarrow> tx_hashes (map f rs) = tx_hashes rs"
  by (induction rs) (simp_all add: tx_hashes_def)

lemma put_tx_hashes:
  assumes "keyed tx_id (transactions d)" "row tx_id (transactions d) (tx_id t') = Some t" "tx_txHash t' = tx_txHash t"
  shows "tx_hashes (transactions (put_tx t' d)) = tx_hashes (transactions d)"
proof -
  have "r = t" if "r \<in> set (transactions d)" "tx_id r = tx_id t'" for r
    using row_member [OF assms(1) that(1)] assms(2) that(2) by simp
  with assms(3) show ?thesis by (auto simp: put_tx_def update_rows_def intro!: tx_hashes_map)
qed

lemma tx_hashes_mem: "h \<in> set (tx_hashes rs) \<longleftrightarrow> (\<exists>r \<in> set rs. tx_txHash r = Some h)"
  by (induction rs) (auto simp: tx_hashes_def split: option.splits)

lemma row_by_hash:
  "distinct (tx_hashes rs) \<Longrightarrow> t \<in> set rs \<Longrightarrow> tx_txHash t = Some h \<Longrightarrow> row tx_txHash rs (Some h) = Some t"
proof (induction rs)
  case (Cons a rs)
  have "h \<in> set (tx_hashes rs)" if "t \<in> set rs" using that Cons.prems(3) by (auto simp: tx_hashes_mem)
  with Cons show ?case by (cases "tx_txHash a") (auto simp: tx_hashes_def)
qed simp

text \<open>A hash that no row has may be given to a row that has none.\<close>

lemma put_tx_new_hash:
  assumes "ledger_ok d" "row tx_id (transactions d) (tx_id t') = Some t" "tx_txHash t = None" "tx_txHash t' = Some h"
    and "\<And>r. r \<in> set (transactions d) \<Longrightarrow> tx_txHash r \<noteq> Some h"
  shows "distinct (tx_hashes (transactions (put_tx t' d)))"
proof -
  obtain us vs where split: "transactions d = us @ t # vs"
    using row_SomeD [OF assms(2)] by (meson split_list)
  have id: "tx_id t = tx_id t'" using assms(2) by (auto dest: row_SomeD)
  have ku: "keyed tx_id (us @ t # vs)" and dh: "distinct (tx_hashes (us @ t # vs))"
    using assms(1) split by (simp_all add: ledger_ok_def)
  have "\<forall>r \<in> set us \<union> set vs. tx_id r \<noteq> tx_id t'" using ku id by (simp add: keyed_def) (metis Un_iff image_eqI)
  then have "transactions (put_tx t' d) = us @ t' # vs"
    by (auto simp: put_tx_def split update_rows_def id intro!: map_idI)
  moreover have "h \<notin> set (tx_hashes rs)" if "set rs \<subseteq> set (transactions d)" for rs
    using assms(5) that by (auto simp: tx_hashes_mem)
  then have "h \<notin> set (tx_hashes us)" "h \<notin> set (tx_hashes vs)" using split by auto
  ultimately show ?thesis using dh assms(3,4) by (auto simp: tx_hashes_def)
qed

section \<open>The compare-and-set updates\<close>

text \<open>
  The two outcomes of an update guarded by the current status: the row has a status the guard
  admits and is replaced, or nothing happens.
\<close>

lemma updateMany_done:
  assumes "keyed tx_id (transactions d)" "row tx_id (transactions d) i = Some t" "Q t" "tx_id (f t) = i"
    and "distinct (tx_hashes (transactions (put_tx (f t) d)))"
  shows "tx_updateMany (\<lambda>r. tx_id r = i \<and> Q r) f d = Inr (1, put_tx (f t) d)"
  using assms update_is_put [of d i t Q f] by (simp add: tx_updateMany_def Let_def put_tx_eq count_keyed)

lemma updateMany_none:
  assumes "ledger_ok d" "\<And>t. row tx_id (transactions d) i = Some t \<Longrightarrow> \<not> Q t"
  shows "tx_updateMany (\<lambda>r. tx_id r = i \<and> Q r) f d = Inr (0, d)"
  using update_none [of d i Q] assms by (simp add: tx_updateMany_def ledger_ok_def)

lemma transition_done:
  assumes "quiet e" "ledger_ok (db w)" "row tx_id (transactions (db w)) i = Some t" "tx_status t = from"
    and "canTransition from to" "tx_id (data (t\<lparr>tx_status := to\<rparr>)) = i"
    and "distinct (tx_hashes (transactions (put_tx (data (t\<lparr>tx_status := to\<rparr>)) (db w))))"
  shows "transition i from to data e w = (Inr (data (t\<lparr>tx_status := to\<rparr>)),
    w\<lparr>calls := Suc (Suc (calls w)), db := put_tx (data (t\<lparr>tx_status := to\<rparr>)) (db w)\<rparr>)"
  using assms updateMany_done [of "db w" i t "\<lambda>r. tx_status r = from" "\<lambda>r. data (r\<lparr>tx_status := to\<rparr>)"]
  by (simp add: transition_def assertTransition_ok tx_findUniqueOrThrow_def eff_simps quiet_simps put_tx_row ledger_ok_def)

lemma transition_conflict:
  assumes "quiet e" "ledger_ok (db w)" "row tx_id (transactions (db w)) i = Some t" "tx_status t \<noteq> from"
    and "canTransition from to"
  shows "transition i from to data e w = (Inl (TransactionStateConflictError i from), w\<lparr>calls := Suc (Suc (calls w))\<rparr>)"
  using assms updateMany_none [of "db w" i "\<lambda>r. tx_status r = from" "\<lambda>r. data (r\<lparr>tx_status := to\<rparr>)"]
  by (simp add: transition_def assertTransition_ok tx_findUnique_def eff_simps quiet_simps)

lemma transitionFromAny_done:
  assumes "quiet e" "ledger_ok (db w)" "row tx_id (transactions (db w)) i = Some t" "tx_status t \<in> set from"
    and "forE from (\<lambda>s. assertTransition s to) = returnE ()" "tx_id (data (t\<lparr>tx_status := to\<rparr>)) = i"
    and "distinct (tx_hashes (transactions (put_tx (data (t\<lparr>tx_status := to\<rparr>)) (db w))))"
  shows "transitionFromAny i from to data e w = (Inr (data (t\<lparr>tx_status := to\<rparr>)),
    w\<lparr>calls := Suc (Suc (calls w)), db := put_tx (data (t\<lparr>tx_status := to\<rparr>)) (db w)\<rparr>)"
  using assms updateMany_done [of "db w" i t "\<lambda>r. tx_status r \<in> set from" "\<lambda>r. data (r\<lparr>tx_status := to\<rparr>)"]
  by (simp add: transitionFromAny_def tx_findUniqueOrThrow_def eff_simps quiet_simps put_tx_row ledger_ok_def)

lemma transitionFromAny_conflict:
  assumes "quiet e" "ledger_ok (db w)" "row tx_id (transactions (db w)) i = Some t" "tx_status t \<notin> set from"
    and "forE from (\<lambda>s. assertTransition s to) = returnE ()"
  shows "transitionFromAny i from to data e w =
    (Inl (TransactionStateConflictError i (tx_status t)), w\<lparr>calls := Suc (Suc (calls w))\<rparr>)"
  using assms updateMany_none [of "db w" i "\<lambda>r. tx_status r \<in> set from" "\<lambda>r. data (r\<lparr>tx_status := to\<rparr>)"]
  by (simp add: transitionFromAny_def tx_findUnique_def eff_simps quiet_simps)

lemma markFailed_sources: "forE [PENDING, CONFIRMING] (\<lambda>s. assertTransition s FAILED) = returnE ()"
  by (rule ext)+ (simp add: assertTransition_def canTransition_def eff_simps)

section \<open>The operations of the repository\<close>

lemma ledger_ok_put:
  assumes "ledger_ok d" "row tx_id (transactions d) (tx_id t') = Some t" "tx_txHash t' = tx_txHash t" "tx_wf t'"
  shows "ledger_ok (put_tx t' d)"
proof -
  have "tx_hashes (transactions (put_tx t' d)) = tx_hashes (transactions d)"
    using assms(1-3) by (intro put_tx_hashes) (simp_all add: ledger_ok_def)
  moreover have "\<forall>r \<in> set (transactions (put_tx t' d)). tx_wf r"
    using assms(1,4) by (auto simp: put_tx_def update_rows_def ledger_ok_def)
  ultimately show ?thesis using assms(1) by (simp add: ledger_ok_def)
qed

lemma ledger_row: "ledger_ok d \<Longrightarrow> row tx_id (transactions d) i = Some t \<Longrightarrow> tx_wf t \<and> tx_id t = i \<and> t \<in> set (transactions d)"
  by (auto simp: ledger_ok_def dest!: row_SomeD)

lemma markConfirming_done:
  assumes "quiet e" "ledger_ok (db w)" "row tx_id (transactions (db w)) i = Some t" "tx_status t = SUBMITTED"
  defines "t' \<equiv> t\<lparr>tx_status := CONFIRMING, tx_confirmationStartedAt := Some (env_clock e (calls w))\<rparr>"
  shows "markConfirming i e w = (Inr t', w\<lparr>calls := calls w + 3, db := put_tx t' (db w)\<rparr>)"
    and "ledger_ok (put_tx t' (db w))" and "row tx_id (transactions (put_tx t' (db w))) i = Some t'"
proof -
  have t: "tx_wf t" "tx_id t = i" "t \<in> set (transactions (db w))" using ledger_row [OF assms(2,3)] by auto
  show ok: "ledger_ok (put_tx t' (db w))"
    using assms(2,3,4) t by (intro ledger_ok_put) (auto simp: t'_def tx_wf_def)
  show "row tx_id (transactions (put_tx t' (db w))) i = Some t'"
    using assms(3) t by (simp add: put_tx_row t'_def)
  show "markConfirming i e w = (Inr t', w\<lparr>calls := calls w + 3, db := put_tx t' (db w)\<rparr>)"
    using assms(1-4) t ok transition_done [of e "w\<lparr>calls := Suc (calls w)\<rparr>" i t SUBMITTED CONFIRMING
        "\<lambda>r. r\<lparr>tx_confirmationStartedAt := Some (env_clock e (calls w))\<rparr>"]
    by (simp add: markConfirming_def eff_simps getNow_def canTransition_def t'_def ledger_ok_def eval_nat_numeral)
qed

lemma markConfirming_conflict:
  assumes "quiet e" "ledger_ok (db w)" "row tx_id (transactions (db w)) i = Some t" "tx_status t \<noteq> SUBMITTED"
  shows "markConfirming i e w = (Inl (TransactionStateConflictError i SUBMITTED), w\<lparr>calls := calls w + 3\<rparr>)"
  using assms transition_conflict [of e "w\<lparr>calls := Suc (calls w)\<rparr>" i t SUBMITTED CONFIRMING]
  by (simp add: markConfirming_def eff_simps getNow_def canTransition_def eval_nat_numeral)

lemma markFailed_done:
  fixes reason :: string
  assumes "quiet e" "ledger_ok (db w)" "row tx_id (transactions (db w)) i = Some t" "tx_status t = PENDING \<or> tx_status t = CONFIRMING"
  defines "t' \<equiv> t\<lparr>tx_status := FAILED, tx_failureReason := Some reason, tx_failedAt := Some (env_clock e (calls w))\<rparr>"
  shows "markFailed i reason e w = (Inr t', w\<lparr>calls := calls w + 3, db := put_tx t' (db w)\<rparr>)"
    and "ledger_ok (put_tx t' (db w))" and "row tx_id (transactions (put_tx t' (db w))) i = Some t'"
proof -
  have t: "tx_wf t" "tx_id t = i" using ledger_row [OF assms(2,3)] by auto
  show ok: "ledger_ok (put_tx t' (db w))"
    using assms(2,3,4) t by (intro ledger_ok_put) (auto simp: t'_def tx_wf_def)
  show "row tx_id (transactions (put_tx t' (db w))) i = Some t'"
    using assms(3) t by (simp add: put_tx_row t'_def)
  show "markFailed i reason e w = (Inr t', w\<lparr>calls := calls w + 3, db := put_tx t' (db w)\<rparr>)"
    using assms(1-4) t ok markFailed_sources transitionFromAny_done [of e "w\<lparr>calls := Suc (calls w)\<rparr>" i t "[PENDING, CONFIRMING]" FAILED
        "\<lambda>r. r\<lparr>tx_failureReason := Some reason, tx_failedAt := Some (env_clock e (calls w))\<rparr>"]
    by (simp add: markFailed_def eff_simps getNow_def t'_def ledger_ok_def eval_nat_numeral)
qed

lemma markFailed_conflict:
  assumes "quiet e" "ledger_ok (db w)" "row tx_id (transactions (db w)) i = Some t"
    and "tx_status t \<noteq> PENDING" "tx_status t \<noteq> CONFIRMING"
  shows "markFailed i reason e w = (Inl (TransactionStateConflictError i (tx_status t)), w\<lparr>calls := calls w + 3\<rparr>)"
  using assms markFailed_sources transitionFromAny_conflict [of e "w\<lparr>calls := Suc (calls w)\<rparr>" i t "[PENDING, CONFIRMING]" FAILED]
  by (simp add: markFailed_def eff_simps getNow_def eval_nat_numeral)

lemma markSubmitted_done:
  assumes "quiet e" "ledger_ok (db w)" "row tx_id (transactions (db w)) i = Some t" "tx_status t = PENDING"
    and "tx_txHash t = None" "\<And>r. r \<in> set (transactions (db w)) \<Longrightarrow> tx_txHash r \<noteq> Some h"
  defines "t' \<equiv> t\<lparr>tx_status := SUBMITTED, tx_txHash := Some h, tx_submittedAt := Some (env_clock e (calls w))\<rparr>"
  shows "markSubmitted i h e w = (Inr t', w\<lparr>calls := calls w + 3, db := put_tx t' (db w)\<rparr>)"
    and "row tx_id (transactions (put_tx t' (db w))) i = Some t'"
proof -
  have t: "tx_wf t" "tx_id t = i" using ledger_row [OF assms(2,3)] by auto
  show "row tx_id (transactions (put_tx t' (db w))) i = Some t'"
    using assms(3) t by (simp add: put_tx_row t'_def)
  have "distinct (tx_hashes (transactions (put_tx t' (db w))))"
    using assms(2,3,5,6) t by (intro put_tx_new_hash [where t = t and h = h]) (auto simp: t'_def)
  then show "markSubmitted i h e w = (Inr t', w\<lparr>calls := calls w + 3, db := put_tx t' (db w)\<rparr>)"
    using assms(1-4) t transition_done [of e "w\<lparr>calls := Suc (calls w)\<rparr>" i t PENDING SUBMITTED
        "\<lambda>r. r\<lparr>tx_txHash := Some h, tx_submittedAt := Some (env_clock e (calls w))\<rparr>"]
    by (simp add: markSubmitted_def eff_simps getNow_def canTransition_def t'_def eval_nat_numeral)
qed

lemma expire_done:
  fixes reason :: string
  assumes "quiet e" "ledger_ok (db w)" "row tx_id (transactions (db w)) i = Some t" "tx_status t = CONFIRMING"
  defines "t' \<equiv> t\<lparr>tx_status := EXPIRED, tx_failureReason := Some reason, tx_failedAt := Some (env_clock e (calls w))\<rparr>"
  shows "expire i reason e w = (Inr t', w\<lparr>calls := calls w + 3, db := put_tx t' (db w)\<rparr>)"
    and "ledger_ok (put_tx t' (db w))" and "row tx_id (transactions (put_tx t' (db w))) i = Some t'"
proof -
  have t: "tx_wf t" "tx_id t = i" using ledger_row [OF assms(2,3)] by auto
  show ok: "ledger_ok (put_tx t' (db w))"
    using assms(2,3,4) t by (intro ledger_ok_put) (auto simp: t'_def tx_wf_def)
  show "row tx_id (transactions (put_tx t' (db w))) i = Some t'"
    using assms(3) t by (simp add: put_tx_row t'_def)
  show "expire i reason e w = (Inr t', w\<lparr>calls := calls w + 3, db := put_tx t' (db w)\<rparr>)"
    using assms(1-4) t ok transition_done [of e "w\<lparr>calls := Suc (calls w)\<rparr>" i t CONFIRMING EXPIRED
        "\<lambda>r. r\<lparr>tx_failureReason := Some reason, tx_failedAt := Some (env_clock e (calls w))\<rparr>"]
    by (simp add: expire_def eff_simps getNow_def canTransition_def t'_def ledger_ok_def eval_nat_numeral)
qed

section \<open>A delivery of a confirmation job\<close>

text \<open>The call has the outcome and leaves the store and the failure counter alone.\<close>

definition failures :: "world \<Rightarrow> nat" where
  "failures w = length (filter (\<lambda>m. fst m = ''transactions_failed_total'') (metrics w))"

definition answers :: "env \<Rightarrow> 'a eff \<Rightarrow> exn + 'a \<Rightarrow> bool" where
  "answers e m r \<longleftrightarrow> (\<forall>w. \<exists>w'. m e w = (r, w') \<and> db w' = db w \<and> failures w' = failures w)"

text \<open>The job's transaction, its token and the adapter of the token's chain.\<close>

definition delivered :: "adapter list \<Rightarrow> store \<Rightarrow> string \<Rightarrow> string \<Rightarrow> transaction \<Rightarrow> string \<Rightarrow> adapter \<Rightarrow> bool" where
  "delivered registry d i tn t h a \<longleftrightarrow> ledger_ok d \<and> row tx_id (transactions d) i = Some t \<and> tx_tenantId t = tn \<and>
     tx_txHash t = Some h \<and> h \<noteq> [] \<and>
     (\<exists>tk. row tk_id (tokens d) (tx_tokenId t) = Some tk \<and>
        List.find (\<lambda>b. ad_chain b = toUpperCase (blockchain_name (tk_blockchain tk))) registry = Some a)"

lemma findById_quiet:
  assumes "quiet e" "ledger_ok (db w)" "row tx_id (transactions (db w)) i = Some t" "tx_tenantId t = tn"
  shows "findById i tn e w = (Inr (Some (view_of (db w) t)), w\<lparr>calls := Suc (calls w)\<rparr>)"
  using assms find_keyed [of tx_id "transactions (db w)" i "\<lambda>t. tx_tenantId t = tn"]
  by (simp add: findById_def query_quiet ledger_ok_def)

lemma reload_quiet:
  assumes "quiet e" "ledger_ok (db w)" "row tx_id (transactions (db w)) (tx_id t0) = Some t" "tx_tenantId t = tx_tenantId t0"
  shows "reload t0 e w = (Inr t, w\<lparr>calls := Suc (calls w)\<rparr>)"
  using findById_quiet [OF assms] by (simp add: reload_def eff_simps view_of_def)

text \<open>The job asks the chain and goes on with the answer.\<close>

lemma processTransaction_asks:
  assumes "quiet e" "delivered registry (db w) i tn t h a" "answers e (ad_getTransaction a h) (Inr bt)"
  obtains w1 where "db w1 = db w" "failures w1 = failures w"
    "processTransaction registry i tn e w =
       catchE (case bt_status bt of
            chain_confirmed \<Rightarrow> handleSuccessfulTransaction t h bt
          | chain_failed \<Rightarrow> handleRevertedTransaction t
          | chain_pending \<Rightarrow> throwE (TransactionPendingError h)) (handleConfirmationError t) e w1"
proof -
  from assms(2) obtain tk where d: "ledger_ok (db w)" "row tx_id (transactions (db w)) i = Some t" "tx_tenantId t = tn"
    "tx_txHash t = Some h" "h \<noteq> []" "row tk_id (tokens (db w)) (tx_tokenId t) = Some tk"
    "List.find (\<lambda>b. ad_chain b = toUpperCase (blockchain_name (tk_blockchain tk))) registry = Some a"
    by (auto simp: delivered_def)
  from assms(3) obtain w1 where w1: "ad_getTransaction a h e (w\<lparr>calls := Suc (calls w)\<rparr>) = (Inr bt, w1)"
    "db w1 = db w" "failures w1 = failures w"
    unfolding answers_def by (metis (no_types, lifting) failures_def world.select_convs(1,3) world.surjective world.update_convs(2))
  have "processTransaction registry i tn e w = confirmTransaction registry (view_of (db w) t) h e (w\<lparr>calls := Suc (calls w)\<rparr>)"
    using findById_quiet [OF assms(1) d(1-3)] d(4,5) by (simp add: processTransaction_def bindE_def nonempty_def view_of_def)
  also have "\<dots> = catchE (case bt_status bt of
            chain_confirmed \<Rightarrow> handleSuccessfulTransaction t h bt
          | chain_failed \<Rightarrow> handleRevertedTransaction t
          | chain_pending \<Rightarrow> throwE (TransactionPendingError h)) (handleConfirmationError t) e w1"
    using w1(1) d(6,7)
    by (cases "bt_status bt") (simp_all add: confirmTransaction_def getBlockchainTransaction_def required_def registry_get_def view_of_def
        catchE_def bindE_def returnE_def)
  finally show thesis using that w1(2,3) by blast
qed

lemma claimConfirmation_submitted:
  assumes "quiet e" "ledger_ok (db w)" "row tx_id (transactions (db w)) (tx_id t) = Some t" "tx_status t = SUBMITTED"
  shows "claimConfirmation t e w = (Inr True, w\<lparr>calls := calls w + 3,
    db := put_tx (t\<lparr>tx_status := CONFIRMING, tx_confirmationStartedAt := Some (env_clock e (calls w))\<rparr>) (db w)\<rparr>)"
  using markConfirming_done(1) [OF assms] by (simp add: claimConfirmation_def eff_simps)

lemma claimConfirmation_stale:
  assumes "quiet e" "ledger_ok (db w)" "row tx_id (transactions (db w)) (tx_id t0) = Some t" "tx_tenantId t = tx_tenantId t0"
    and "tx_status t \<noteq> SUBMITTED" "tx_status t \<noteq> PENDING"
  shows "claimConfirmation t0 e w = (Inr (tx_status t = CONFIRMING), w\<lparr>calls := calls w + 4\<rparr>)"
  using markConfirming_conflict [OF assms(1-3,5)] reload_quiet [of e "w\<lparr>calls := calls w + 3\<rparr>" t0 t] assms
  by (cases "tx_status t")
    (simp_all add: claimConfirmation_def handleStaleConfirmation_def is_state_conflict_def isTerminal_def eff_simps
      eval_nat_numeral)

text \<open>The confirmed row and its event.\<close>

definition confirmed_row :: "transaction \<Rightarrow> int \<Rightarrow> int option \<Rightarrow> int \<Rightarrow> transaction" where
  "confirmed_row t b g now = t\<lparr>tx_status := CONFIRMED, tx_blockNumber := Some b, tx_gasUsed := g, tx_confirmedAt := Some now\<rparr>"

definition confirmed_event :: "string \<Rightarrow> transaction \<Rightarrow> int \<Rightarrow> outbox_event" where
  "confirmed_event i t now = \<lparr> ob_id = i, ob_aggregateId = tx_id t, ob_type = ''transaction.confirmed'',
     ob_payload = confirmed_payload_of t, ob_published = False, ob_publishedAt = None, ob_createdAt = now \<rparr>"

lemma confirmation_body_done:
  assumes "quiet e" "ledger_ok (db w)" "row tx_id (transactions (db w)) i = Some t" "tx_status t = CONFIRMING"
    and "tx_txHash t = Some h" "bt_blockNumber bt = Some b" "\<And>n. row ob_id (outbox (db w)) (env_uuid e n) = None"
  defines "t' \<equiv> confirmed_row t (Number_of_bigint b) (bt_gasUsed bt) (env_clock e (Suc (calls w)))"
  shows "confirmation_body h bt e w = (Inr (), w\<lparr>calls := calls w + 7, db := (put_tx t' (db w))\<lparr>outbox := outbox (db w) @
      [confirmed_event (env_uuid e (calls w + 4)) t' (env_clock e (calls w + 5))]\<rparr>\<rparr>)"
proof -
  have t: "tx_wf t" "tx_id t = i" "t \<in> set (transactions (db w))" using ledger_row [OF assms(2,3)] by auto
  have "row tx_txHash (transactions (db w)) (Some h) = Some t"
    using assms(2,5) t by (intro row_by_hash) (simp_all add: ledger_ok_def)
  moreover have "transition i CONFIRMING CONFIRMED (\<lambda>r. r\<lparr>tx_blockNumber := Some (Number_of_bigint b), tx_gasUsed := bt_gasUsed bt,
      tx_confirmedAt := Some (env_clock e (Suc (calls w)))\<rparr>) e (w\<lparr>calls := Suc (Suc (calls w))\<rparr>) =
      (Inr t', w\<lparr>calls := Suc (Suc (Suc (Suc (calls w)))), db := put_tx t' (db w)\<rparr>)"
    using transition_done [of e "w\<lparr>calls := Suc (Suc (calls w))\<rparr>" i t CONFIRMING CONFIRMED
        "\<lambda>r. r\<lparr>tx_blockNumber := Some (Number_of_bigint b), tx_gasUsed := bt_gasUsed bt,
          tx_confirmedAt := Some (env_clock e (Suc (calls w)))\<rparr>"]
      assms(1-4) t put_tx_hashes [of "db w" t' t]
    by (simp add: canTransition_def t'_def confirmed_row_def ledger_ok_def)
  ultimately show ?thesis
    using assms(1,6,7) t
    by (simp add: confirmation_body_def confirm_def findByHash_def createInTransaction_def eff_simps quiet_simps Let_def
        confirmed_event_def eval_nat_numeral)
qed

lemma persistConfirmation_done:
  assumes "quiet e" "ledger_ok (db w)" "row tx_id (transactions (db w)) i = Some t" "tx_status t = CONFIRMING"
    and "tx_txHash t = Some h" "bt_blockNumber bt = Some b" "\<And>n. row ob_id (outbox (db w)) (env_uuid e n) = None"
  shows "\<exists>now eid ct w'. persistConfirmation t0 h bt e w = (Inr (), w') \<and> db w' = (put_tx
      (confirmed_row t (Number_of_bigint b) (bt_gasUsed bt) now) (db w))\<lparr>outbox := outbox (db w) @
      [confirmed_event eid (confirmed_row t (Number_of_bigint b) (bt_gasUsed bt) now) ct]\<rparr>"
proof -
  let ?w = "w\<lparr>calls := Suc (calls w)\<rparr>"
  have "\<exists>now eid ct w'. confirmation_body h bt e ?w = (Inr (), w') \<and> db w' = (put_tx
      (confirmed_row t (Number_of_bigint b) (bt_gasUsed bt) now) (db w))\<lparr>outbox := outbox (db w) @
      [confirmed_event eid (confirmed_row t (Number_of_bigint b) (bt_gasUsed bt) now) ct]\<rparr>"
    using confirmation_body_done [of e ?w i t h bt b] assms by (simp del: add_Suc) blast
  then show ?thesis
    using assms(1) by (fastforce simp: persistConfirmation_def catchE_def db_transaction_quiet)
qed

text \<open>The chain confirms and the transaction is waiting for it, claimed already or not.\<close>

lemma handleSuccessful_done:
  assumes "quiet e" "ledger_ok (db w)" "row tx_id (transactions (db w)) (tx_id t) = Some t"
    and "tx_status t = SUBMITTED \<or> tx_status t = CONFIRMING" "tx_txHash t = Some h" "bt_blockNumber bt = Some b"
    and "\<And>n. row ob_id (outbox (db w)) (env_uuid e n) = None"
  shows "\<exists>w' t' eid ct. handleSuccessfulTransaction t h bt e w = (Inr (), w') \<and>
    db w' = (put_tx t' (db w))\<lparr>outbox := outbox (db w) @ [confirmed_event eid t' ct]\<rparr> \<and>
    same_terms t t' \<and> tx_txHash t' = Some h \<and> tx_status t' = CONFIRMED \<and> tx_blockNumber t' = Some (Number_of_bigint b) \<and>
    tx_gasUsed t' = bt_gasUsed bt \<and> tx_wf t'"
proof -
  have wf: "tx_wf t" using ledger_row [OF assms(2,3)] by blast
  show ?thesis
  proof (cases "tx_status t = SUBMITTED")
  case True
  define t1 where "t1 = t\<lparr>tx_status := CONFIRMING, tx_confirmationStartedAt := Some (env_clock e (calls w))\<rparr>"
  define w1 where "w1 = w\<lparr>calls := calls w + 3, db := put_tx t1 (db w)\<rparr>"
  note m = markConfirming_done [OF assms(1,2,3) True, folded t1_def]
  have c: "claimConfirmation t e w = (Inr True, w1)"
    using claimConfirmation_submitted [OF assms(1-3) True] by (simp add: t1_def w1_def)
  obtain now eid ct w2 where p: "persistConfirmation t h bt e w1 = (Inr (), w2)" "db w2 = (put_tx
      (confirmed_row t1 (Number_of_bigint b) (bt_gasUsed bt) now) (db w1))\<lparr>outbox := outbox (db w1) @
      [confirmed_event eid (confirmed_row t1 (Number_of_bigint b) (bt_gasUsed bt) now) ct]\<rparr>"
    using persistConfirmation_done [of e w1 "tx_id t" t1 h bt b t] assms m(2,3) by (auto simp: w1_def t1_def)
  let ?t' = "confirmed_row t1 (Number_of_bigint b) (bt_gasUsed bt) now"
  have "put_tx ?t' (put_tx t1 (db w)) = put_tx ?t' (db w)"
    by (rule put_tx_put) (simp add: confirmed_row_def t1_def)
  with c p assms(5) show ?thesis
    by (intro exI [of _ "snd (handleSuccessfulTransaction t h bt e w)"] exI [of _ ?t'] exI [of _ eid] exI [of _ ct])
      (simp add: handleSuccessfulTransaction_def eff_simps incrementMetric_def w1_def,
       use wf in \<open>simp add: confirmed_row_def t1_def same_terms_def tx_wf_def True\<close>)
next
  case False
  then have st: "tx_status t = CONFIRMING" using assms(4) by simp
  define w1 where "w1 = w\<lparr>calls := calls w + 4\<rparr>"
  have c: "claimConfirmation t e w = (Inr True, w1)"
    using claimConfirmation_stale [OF assms(1-3) refl] st by (simp add: w1_def)
  obtain now eid ct w2 where p: "persistConfirmation t h bt e w1 = (Inr (), w2)" "db w2 = (put_tx
      (confirmed_row t (Number_of_bigint b) (bt_gasUsed bt) now) (db w1))\<lparr>outbox := outbox (db w1) @
      [confirmed_event eid (confirmed_row t (Number_of_bigint b) (bt_gasUsed bt) now) ct]\<rparr>"
    using persistConfirmation_done [of e w1 "tx_id t" t h bt b t] assms st by (auto simp: w1_def)
  with c assms(5) show ?thesis
    by (intro exI [of _ "snd (handleSuccessfulTransaction t h bt e w)"] exI [of _ "confirmed_row t (Number_of_bigint b) (bt_gasUsed bt) now"]
        exI [of _ eid] exI [of _ ct])
      (simp add: handleSuccessfulTransaction_def eff_simps incrementMetric_def w1_def,
       use wf in \<open>simp add: confirmed_row_def same_terms_def tx_wf_def st\<close>)
  qed
qed

text \<open>The transaction is settled already: the delivery changes nothing.\<close>

lemma handleSuccessful_settled:
  assumes "quiet e" "ledger_ok (db w)" "row tx_id (transactions (db w)) (tx_id t) = Some t" "terminal_status (tx_status t)"
  shows "handleSuccessfulTransaction t h bt e w = (Inr (), w\<lparr>calls := calls w + 4\<rparr>)"
  using claimConfirmation_stale [OF assms(1-3) refl] assms(4)
  by (cases "tx_status t") (simp_all add: handleSuccessfulTransaction_def eff_simps)

lemma handleReverted_done:
  assumes "quiet e" "ledger_ok (db w)" "row tx_id (transactions (db w)) (tx_id t) = Some t" "tx_status t = CONFIRMING"
  shows "\<exists>w'. handleRevertedTransaction t e w = (Inr (), w') \<and> db w' = put_tx (t\<lparr>tx_status := FAILED,
     tx_failureReason := Some ''FAILED'', tx_failedAt := Some (env_clock e (calls w))\<rparr>) (db w)"
  using markFailed_done(1) [OF assms(1-3), of "''FAILED''"] assms(4)
  by (simp add: handleRevertedTransaction_def markTransactionFailed_def eff_simps incrementMetric_def)

lemma handleReverted_settled:
  assumes "quiet e" "ledger_ok (db w)" "row tx_id (transactions (db w)) (tx_id t) = Some t" "terminal_status (tx_status t)"
  shows "handleRevertedTransaction t e w = (Inr (), w\<lparr>calls := calls w + 4\<rparr>)"
  using markFailed_conflict [OF assms(1-3), of "''FAILED''"] reload_quiet [of e "w\<lparr>calls := calls w + 3\<rparr>" t t] assms
  by (cases "tx_status t") (simp_all add: handleRevertedTransaction_def markTransactionFailed_def is_state_conflict_def
      isTerminal_def eff_simps eval_nat_numeral)

text \<open>A reverted receipt of a transaction that is only SUBMITTED.\<close>

lemma handleReverted_submitted:
  assumes "quiet e" "ledger_ok (db w)" "row tx_id (transactions (db w)) (tx_id t) = Some t" "tx_status t = SUBMITTED"
  shows "handleRevertedTransaction t e w =
    (Inl (TransactionStateConflictError (tx_id t) SUBMITTED), w\<lparr>calls := calls w + 4\<rparr>)"
  using markFailed_conflict [OF assms(1-3), of "''FAILED''"] reload_quiet [of e "w\<lparr>calls := calls w + 3\<rparr>" t t] assms
  by (simp add: handleRevertedTransaction_def markTransactionFailed_def is_state_conflict_def
      isTerminal_def eff_simps eval_nat_numeral)

end
