(* ===== verification/Sample_Ledger.thy ===== *)
theory Sample_Ledger
  imports Ledger_Runs
begin

text \<open>
  A concrete ledger on which the properties are exercised: one token, a custodial and an
  external wallet, and one transaction; an EVM node that has a receipt for every hash, or
  none, a Bitcoin node and a Solana node.
\<close>

section \<open>The rows, the node and the environment\<close>

definition sample_tx :: "transaction_status \<Rightarrow> transaction" where
  "sample_tx s = \<lparr> tx_id = ''tx-1'', tx_tenantId = ''acme'', tx_tokenId = ''musdt'', tx_fromWalletId = ''wallet-1'',
     tx_toWalletId = ''wallet-2'', tx_txHash = (if s = PENDING then None else Some ''0xfeed''), tx_amount = 250,
     tx_nonce = None, tx_gasUsed = None,
     tx_blockNumber = (if s = CONFIRMED then Some 90 else None), tx_status = s, tx_createdAt = 1000,
     tx_submittedAt = (if s = PENDING then None else Some 2000),
     tx_confirmationStartedAt = (if s \<in> {CONFIRMING, CONFIRMED, EXPIRED} then Some 3000 else None),
     tx_confirmedAt = (if s = CONFIRMED then Some 4000 else None),
     tx_failureReason = (if s \<in> {FAILED, EXPIRED} then Some ''FAILED'' else None),
     tx_failedAt = (if s \<in> {FAILED, EXPIRED} then Some 4000 else None) \<rparr>"

definition sample_token :: "blockchain \<Rightarrow> token" where
  "sample_token b = \<lparr> tk_id = ''musdt'', tk_name = ''Mini USDT'', tk_symbol = ''MUSDT'', tk_contractAddress = Some ''0xc0ffee'',
     tk_blockchain = b, tk_isActive = True, tk_decimals = 6, tk_lastProcessedBlock = 0, tk_createdAt = 0 \<rparr>"

definition sample_wallet :: "string \<Rightarrow> string \<Rightarrow> custody_type \<Rightarrow> wallet" where
  "sample_wallet i a c = \<lparr> wa_id = i, wa_tenantId = ''acme'', wa_ownerId = ''alice'', wa_chainId = 11155111, wa_address = a,
     wa_custodyType = c, wa_status = ACTIVE, wa_createdAt = 0 \<rparr>"

definition sample_store :: "blockchain \<Rightarrow> transaction list \<Rightarrow> store" where
  "sample_store b ts = empty_store\<lparr> transactions := ts, tokens := [sample_token b],
     wallets := [sample_wallet ''wallet-1'' ''0xaa'' CUSTODIAL, sample_wallet ''wallet-2'' ''0xbb'' EXTERNAL],
     custodyKeys := [\<lparr> ck_id = ''key-1'', ck_walletId = ''wallet-1'', ck_encryptedKey = ''sealed'', ck_kmsKeyId = ''kms-1'' \<rparr>] \<rparr>"

definition sample_node :: "exn + bool \<Rightarrow> evm_client" where
  "sample_node r = \<lparr> ec_isAddress = (\<lambda>a. take 2 a = ''0x''),
     ec_transfer = (\<lambda>n key token receiver amount. Inr ''0xbeef''),
     ec_mint = (\<lambda>n key token receiver amount. Inr ''0xmint''),
     ec_waitForReceipt = (\<lambda>n h. map_sum id (\<lambda>ok. \<lparr> er_success = ok, er_blockNumber = 90, er_gasUsed = 21000, er_transactionHash = h \<rparr>) r),
     ec_getTransactionReceipt = (\<lambda>n h. map_sum id (\<lambda>ok. \<lparr> er_success = ok, er_blockNumber = 90, er_gasUsed = 21000, er_transactionHash = h \<rparr>) r),
     ec_balanceOf = (\<lambda>n token a b. Inr 1000), ec_getBlockNumber = (\<lambda>n. Inr 95),
     ec_verifyMessage = (\<lambda>n a m s. Inr True), ec_generatePrivateKey = (\<lambda>n. ''secret''), ec_addressOf = (\<lambda>k. ''0xcc''),
     ec_minterKey = Some ''minter'' \<rparr>"

definition sample_bitcoin :: "exn + int option \<Rightarrow> bitcoin_client" where
  "sample_bitcoin r = \<lparr> bc_getblockchaininfo = (\<lambda>n. Inr 800), bc_listunspent = (\<lambda>n a. Inr [Btc 5]),
     bc_sendtoaddress = (\<lambda>n a x. Inr ''b1''), bc_getrawtransaction = (\<lambda>n h. map_sum id (\<lambda>k. \<lparr> bx_confirmations = k, bx_blockhash = Some ''0b'' \<rparr>) r),
     bc_getblockheader = (\<lambda>n h. Inr 799) \<rparr>"

definition sample_solana :: solana_client where
  "sample_solana = \<lparr> sc_publicKey = (\<lambda>a. Inr ()), sc_getBalanceAndContext = (\<lambda>n a s. Inr (7, 70)),
     sc_getLatestBlockhash = (\<lambda>n. Inr ''h''), sc_sendTransfer = (\<lambda>n k b a x. Inr ''s1''),
     sc_getSignatureStatus = (\<lambda>n s. Inr None), sc_computeUnits = (\<lambda>n s. Inr None), sc_generate = (\<lambda>n. (''addr'', ''seed'')) \<rparr>"

definition sample_keys :: key_service where
  "sample_keys n c k = Inr ''secret''"

definition sample_registry :: "exn + bool \<Rightarrow> exn + int option \<Rightarrow> adapter list" where
  "sample_registry r q = blockchainAdapterRegistry (sample_node r) (sample_bitcoin q) sample_solana sample_keys"

definition sample_ids :: "nat \<Rightarrow> string" where
  "sample_ids n = ''id-'' @ show_int (int n)"

definition sample_env :: env where
  "sample_env = calm (\<lambda>n. 10000 + int n) sample_ids"

section \<open>It is well formed and answers\<close>

lemma quiet_sample [simp]: "quiet sample_env"
  by (simp add: sample_env_def)

definition sample_adapter :: "exn + bool \<Rightarrow> exn + int option \<Rightarrow> blockchain \<Rightarrow> adapter" where
  "sample_adapter r q b = (case b of EVM \<Rightarrow> evm_adapter (sample_node r) sample_keys
     | BITCOIN \<Rightarrow> bitcoin_adapter (sample_bitcoin q) | SOLANA \<Rightarrow> solana_adapter sample_solana sample_keys)"

lemma sample_find:
  "List.find (\<lambda>a. ad_chain a = toUpperCase (blockchain_name b)) (sample_registry r q) = Some (sample_adapter r q b)"
  by (cases b) (simp_all add: sample_registry_def blockchainAdapterRegistry_def sample_adapter_def evm_adapter_def
      bitcoin_adapter_def solana_adapter_def toUpperCase_def upper_char_def)

lemma sample_ok: "ledger_ok (sample_store b [sample_tx s])"
  by (cases s) (simp_all add: ledger_ok_def sample_store_def sample_tx_def keyed_def tx_hashes_def tx_wf_def)

lemma sample_delivered:
  "s \<noteq> PENDING \<Longrightarrow> delivered (sample_registry r q) (sample_store b [sample_tx s]) ''tx-1'' ''acme'' (sample_tx s) ''0xfeed''
     (sample_adapter r q b)"
  using sample_ok [of b s] sample_find [of b r q]
  by (simp add: delivered_def) (simp add: sample_store_def sample_tx_def sample_token_def)

lemma sample_tx_simps [simp]: "tx_status (sample_tx s) = s" "tx_id (sample_tx s) = ''tx-1''" "tx_createdAt (sample_tx s) = 1000"
  "tx_tokenId (sample_tx s) = ''musdt''" "tx_tenantId (sample_tx s) = ''acme''"
  by (simp_all add: sample_tx_def)

lemma sample_outbox [simp]: "outbox (sample_store b ts) = []"
  by (simp add: sample_store_def empty_store_def)

text \<open>The EVM adapter answers with the receipt of the node, at the first request.\<close>

definition receipt_of :: "string \<Rightarrow> evm_receipt \<Rightarrow> blockchain_transaction" where
  "receipt_of h r = \<lparr> bt_txHash = h, bt_blockNumber = Some (er_blockNumber r), bt_confirmations = 1,
     bt_status = (if er_success r then chain_confirmed else chain_failed),
     bt_gasUsed = Some (er_gasUsed r), bt_confirmationLevel = None \<rparr>"

lemma evm_answers:
  assumes "quiet e" "\<And>n. ec_getTransactionReceipt c n h = Inr r"
  shows "answers e (ad_getTransaction (evm_adapter c k) h) (Inr (receipt_of h r))"
  using assms
  by (auto simp: answers_def receipt_of_def evm_adapter_def evm_getTransaction_def executeRpc_def instrumentRpc_def retry_def
      retry_loop.simps [of _ _ _ _ _ 0] withTimeout_def eff_simps external_quiet incrementMetric_def failures_def)
    (auto simp: quiet_def)

definition sample_receipt :: "bool \<Rightarrow> blockchain_transaction" where
  "sample_receipt ok = receipt_of ''0xfeed'' \<lparr> er_success = ok, er_blockNumber = 90, er_gasUsed = 21000, er_transactionHash = ''0xfeed'' \<rparr>"

lemma sample_receipt_simps [simp]:
  "bt_status (sample_receipt ok) = (if ok then chain_confirmed else chain_failed)"
  "bt_blockNumber (sample_receipt ok) = Some 90" "bt_gasUsed (sample_receipt ok) = Some 21000"
  by (simp_all add: sample_receipt_def receipt_of_def)

lemma sample_evm_answers:
  "answers sample_env (ad_getTransaction (sample_adapter (Inr ok) q EVM) ''0xfeed'') (Inr (sample_receipt ok))"
  unfolding sample_adapter_def sample_receipt_def by simp (rule evm_answers, simp_all add: sample_node_def)

lemma sample_bitcoin_answers:
  "answers sample_env (ad_getTransaction (sample_adapter r q BITCOIN) ''0xfeed'')
     (map_sum id (\<lambda>k. \<lparr> bt_txHash = ''0xfeed'', bt_blockNumber = None, bt_confirmations = 0, bt_status = chain_pending,
        bt_gasUsed = None, bt_confirmationLevel = None \<rparr>) q)" if "\<And>k. q = Inr k \<Longrightarrow> k = None"
  using that
  by (cases q) (simp_all add: answers_def sample_adapter_def bitcoin_adapter_def bitcoin_getTransaction_def sample_bitcoin_def
      eff_simps external_quiet failures_def)

end
