(* ===== verification/Gatekeeping.thy ===== *)
theory Gatekeeping
  imports Wallet_Ownership Idempotency Sample_Ledger
begin

text \<open>
  The properties of the gates of the API: ownership challenges, API keys and login tokens,
  with a sample of the libraries they use.
\<close>

definition sample_crypto :: crypto_lib where
  "sample_crypto = \<lparr> cl_sha256 = (\<lambda>s. to_hex (map (\<lambda>c. of_char c) s)), cl_hmac = (\<lambda>k m. [length k mod 256, length m mod 256]),
     cl_randomBytes = (\<lambda>n k. replicate k (n mod 256)), cl_bcryptHash = (\<lambda>n p r. ''hash:'' @ p),
     cl_bcryptCompare = (\<lambda>p h. h = ''hash:'' @ p), cl_jwtSign = (\<lambda>n p x. ''jwt'' @ show_nat n),
     cl_jwtVerify = (\<lambda>n t. Inl (PlainError ''invalid token'')) \<rparr>"

definition sample_subject :: ownership_subject where
  "sample_subject = \<lparr> os_tenantId = ''acme'', os_userId = ''alice'', os_chainId = 11155111, os_address = ''0xAbCd'' \<rparr>"

section \<open>Ownership of external wallets\<close>

definition issued_claims :: "crypto_lib \<Rightarrow> int \<Rightarrow> ownership_subject \<Rightarrow> nat \<Rightarrow> int \<Rightarrow> challenge_claims" where
  "issued_claims c evm s n now = \<lparr> cc_v = CHALLENGE_VERSION, cc_tid = os_tenantId s, cc_uid = os_userId s, cc_cid = os_chainId s,
     cc_addr = normalizeWalletAddress evm (os_chainId s) (os_address s), cc_nonce = to_hex (cl_randomBytes c n 16),
     cc_iat = now, cc_exp = now + CHALLENGE_TTL_MS \<rparr>"

lemma issueChallenge_Inr:
  assumes "issueChallenge c secret va pk evm registry s e w = (Inr ic, w1)"
  shows "ic_challenge ic = seal c secret (issued_claims c evm s (Suc (calls w)) (env_clock e (calls w)))"
    and "ic_message ic = buildOwnershipMessage (issued_claims c evm s (Suc (calls w)) (env_clock e (calls w)))"
    and "isValidWalletAddress va pk evm (os_chainId s) (os_address s)"
    and "\<exists>b ad v. blockchainForChainId evm (os_chainId s) = Some b \<and>
      List.find (\<lambda>a. ad_chain a = toUpperCase (blockchain_name b)) registry = Some ad \<and> ad_verifyOwnership ad = Some v"
  using assms by (auto simp: issueChallenge_def registry_get_def eff_simps getNow_def randomBytes_def library_def Let_def issued_claims_def
      split: option.splits if_splits)

lemma issued_challenge_accepted:
  assumes "\<And>k m. bytes_ok (cl_hmac c k m)" "issueChallenge c secret va pk evm registry s e w = (Inr ic, w1)"
    and "length (ic_challenge ic) \<le> MAX_CHALLENGE_LENGTH" "isOwnershipProofRequired vars = Inr needed"
    and "blockchainForChainId evm (os_chainId s) = Some b"
      "List.find (\<lambda>a. ad_chain a = toUpperCase (blockchain_name b)) registry = Some ad" "ad_verifyOwnership ad = Some v"
    and "\<And>w. \<exists>w'. v (normalizeWalletAddress evm (os_chainId s) (os_address s)) (ic_message ic) sig e w = (Inr True, w') \<and> db w' = db w"
    and "env_clock e (calls w2) < env_clock e (calls w) + CHALLENGE_TTL_MS"
  shows "\<exists>w'. assertOwnership c secret vars evm registry s (Some (ic_challenge ic)) (Some sig) e w2 = (Inr (), w') \<and> db w' = db w2"
proof -
  let ?k = "issued_claims c evm s (Suc (calls w)) (env_clock e (calls w))"
  note issued = issueChallenge_Inr [OF assms(2)]
  have "open_challenge c secret (seal c secret ?k) e w2 = (Inr ?k, w2\<lparr>calls := Suc (calls w2)\<rparr>)"
    using assms(1,3,9) issued(1) by (intro open_seal) (simp_all add: issued_claims_def)
  moreover obtain w' where "v (cc_addr ?k) (buildOwnershipMessage ?k) sig e (w2\<lparr>calls := Suc (calls w2)\<rparr>) = (Inr True, w')"
    "db w' = db w2"
    using assms(8) [of "w2\<lparr>calls := Suc (calls w2)\<rparr>"] issued(2) by (auto simp: issued_claims_def)
  ultimately show ?thesis
    using assms(4-7) issued(1)
    by (simp add: assertOwnership_def liftE_def registry_get_def eff_simps Let_def) (simp add: issued_claims_def returnE_def)
qed

text \<open>The sample registry verifies every signature; its clock is still within the five minutes.\<close>

lemma sample_ownership:
  obtains ic w1 where "issueChallenge sample_crypto ''secret'' (ec_isAddress (sample_node (Inr True))) (\<lambda>a. Inr True) 11155111
      (sample_registry (Inr True) (Inr None)) sample_subject sample_env (world_of empty_store) = (Inr ic, w1)"
    "length (ic_challenge ic) \<le> MAX_CHALLENGE_LENGTH" "db w1 = empty_store" "calls w1 = 2"
proof -
  let ?node = "sample_node (Inr True)" and ?reg = "sample_registry (Inr True) (Inr None)"
  let ?k = "issued_claims sample_crypto 11155111 sample_subject 1 10000"
  have "\<exists>ic w1. issueChallenge sample_crypto ''secret'' (ec_isAddress ?node) (\<lambda>a. Inr True) 11155111 ?reg sample_subject sample_env
      (world_of empty_store) = (Inr ic, w1) \<and> ic_challenge ic = seal sample_crypto ''secret'' ?k \<and> db w1 = empty_store \<and> calls w1 = 2"
    by (simp add: issueChallenge_def registry_get_def eff_simps getNow_def randomBytes_def library_def Let_def
        isValidWalletAddress_def blockchainForChainId_def isEvmChainId_def sample_subject_def sample_node_def sample_env_def
        issued_claims_def sample_registry_def blockchainAdapterRegistry_def evm_adapter_def toUpperCase_def upper_char_def)
  then obtain ic w1 where ic: "issueChallenge sample_crypto ''secret'' (ec_isAddress ?node) (\<lambda>a. Inr True) 11155111 ?reg sample_subject sample_env
      (world_of empty_store) = (Inr ic, w1)" "ic_challenge ic = seal sample_crypto ''secret'' ?k" "db w1 = empty_store" "calls w1 = 2" by blast
  have "length (stringify (claims_json ?k)) \<le> 400"
    using escape_bound [of "cc_nonce ?k"] escape_bound [of "cc_addr ?k"]
    by (simp add: claims_json_def issued_claims_def sample_subject_def sample_crypto_def CHALLENGE_VERSION_def CHALLENGE_TTL_MS_def
        normalizeWalletAddress_def json_string_def json_escape_def show_int_def show_nat.simps split: if_splits)
  then have "length (ic_challenge ic) \<le> MAX_CHALLENGE_LENGTH"
    using length_seal [of sample_crypto "''secret''" ?k] by (simp add: ic(2) mac_def sample_crypto_def MAX_CHALLENGE_LENGTH_def)
  with ic show thesis using that by blast
qed

lemma sample_hmac: "bytes_ok (cl_hmac sample_crypto k m)"
  by (simp add: sample_crypto_def bytes_ok_def)

lemma sample_proof_required: "isOwnershipProofRequired (\<lambda>v. Some ''true'') = Inr True"
  by (simp add: isOwnershipProofRequired_def trim_def is_space_def toLowerCase_def lower_char_def)

lemma sample_chain_known: "blockchainForChainId 11155111 (os_chainId sample_subject) = Some EVM"
  by (simp add: blockchainForChainId_def isEvmChainId_def sample_subject_def)

lemma sample_evm_registered:
  "List.find (\<lambda>a. ad_chain a = toUpperCase (blockchain_name EVM)) (sample_registry (Inr True) (Inr None)) =
     Some (evm_adapter (sample_node (Inr True)) sample_keys)"
  by (simp add: sample_registry_def blockchainAdapterRegistry_def evm_adapter_def toUpperCase_def upper_char_def Let_def)

lemma evm_verifies: "ad_verifyOwnership (evm_adapter c k) = Some (evm_verifyOwnership c)"
  by (simp add: evm_adapter_def)

lemma sample_verifies:
  "\<exists>w'. evm_verifyOwnership (sample_node (Inr True)) x y z sample_env w = (Inr True, w') \<and> db w' = db w"
  by (simp add: evm_verifyOwnership_def sample_node_def eff_simps external_quiet sample_env_def)

lemma sample_in_time: "calls w1 = 2 \<Longrightarrow>
    env_clock sample_env (calls w1) < env_clock sample_env (calls (world_of empty_store)) + CHALLENGE_TTL_MS"
  by (simp add: sample_env_def CHALLENGE_TTL_MS_def)

lemmas sample_gate = sample_proof_required sample_chain_known sample_evm_registered evm_verifies sample_verifies

text \<open>
  C26: a challenge that was issued is accepted. Within its five minutes, the answer to a challenge of
  the same tenant, user, chain and address, with a signature that the chain's adapter verifies for
  the issued message, passes the gate whether or not a proof is required, and the store is as it
  was. The length of the challenge is the only other condition.
\<close>

theorem ownership_round_trip:
  assumes "\<And>k m. bytes_ok (cl_hmac c k m)" "issueChallenge c secret va pk evm registry s e w = (Inr ic, w1)"
    and "length (ic_challenge ic) \<le> MAX_CHALLENGE_LENGTH" "isOwnershipProofRequired vars = Inr needed"
    and "blockchainForChainId evm (os_chainId s) = Some b"
      "List.find (\<lambda>a. ad_chain a = toUpperCase (blockchain_name b)) registry = Some ad" "ad_verifyOwnership ad = Some v"
    and "\<And>w. \<exists>w'. v (normalizeWalletAddress evm (os_chainId s) (os_address s)) (ic_message ic) sig e w = (Inr True, w') \<and> db w' = db w"
    and "env_clock e (calls w2) < env_clock e (calls w) + CHALLENGE_TTL_MS"
  shows "\<exists>w'. assertOwnership c secret vars evm registry s (Some (ic_challenge ic)) (Some sig) e w2 = (Inr (), w') \<and> db w' = db w2"
  using assms by (rule issued_challenge_accepted)

theorem ownership_round_trip_witness:
  "\<exists>ic w1 w'. issueChallenge sample_crypto ''secret'' (ec_isAddress (sample_node (Inr True))) (\<lambda>a. Inr True) 11155111
      (sample_registry (Inr True) (Inr None)) sample_subject sample_env (world_of empty_store) = (Inr ic, w1) \<and>
    assertOwnership sample_crypto ''secret'' (\<lambda>v. Some ''true'') 11155111 (sample_registry (Inr True) (Inr None)) sample_subject
      (Some (ic_challenge ic)) (Some ''0xsig'') sample_env w1 = (Inr (), w') \<and> db w' = empty_store"
proof -
  obtain ic w1 where ic: "issueChallenge sample_crypto ''secret'' (ec_isAddress (sample_node (Inr True))) (\<lambda>a. Inr True) 11155111
      (sample_registry (Inr True) (Inr None)) sample_subject sample_env (world_of empty_store) = (Inr ic, w1)"
    "length (ic_challenge ic) \<le> MAX_CHALLENGE_LENGTH" "db w1 = empty_store" "calls w1 = 2" by (rule sample_ownership)
  from ownership_round_trip [OF sample_hmac ic(1,2) sample_gate sample_in_time [OF ic(4)]] ic(1,3) show ?thesis by auto
qed

text \<open>
  C27: what passes the gate was proven. When a proof is required, or one is offered, for a chain the
  program knows, the gate lets a registration pass only if the challenge carries the MAC of its own
  payload under the server's key, the claims in that payload name exactly the tenant, user, chain
  and normalised address of the registration and have not expired, and the adapter of the chain
  verified the signature over the message rebuilt from those claims. In every environment.
\<close>

theorem ownership_proven:
  assumes "assertOwnership c secret vars evm registry s challenge signature e w = (Inr (), w')"
    and "isOwnershipProofRequired vars = Inr True \<or> (challenge \<noteq> None \<and> signature \<noteq> None)"
    and "blockchainForChainId evm (os_chainId s) = Some b"
  shows "\<exists>payload presented source v k ad verify sig w1.
    challenge = Some (payload @ ''.'' @ presented) \<and> from_base64url presented = mac c secret payload \<and>
    utf8_decode (from_base64url payload) = Some source \<and> json_parse source = Some v \<and> well_formed_claims v = Some k \<and>
    cc_tid k = os_tenantId s \<and> cc_uid k = os_userId s \<and> cc_cid k = os_chainId s \<and>
    cc_addr k = normalizeWalletAddress evm (os_chainId s) (os_address s) \<and> env_clock e (calls w) < cc_exp k \<and>
    ad \<in> set registry \<and> ad_chain ad = toUpperCase (blockchain_name b) \<and> ad_verifyOwnership ad = Some verify \<and>
    signature = Some sig \<and> fst (verify (cc_addr k) (buildOwnershipMessage k) sig e w1) = Inr True"
proof -
  obtain needed where n: "isOwnershipProofRequired vars = Inr needed"
    using assms(1,3) by (auto simp: assertOwnership_def liftE_def eff_simps split: sum.splits)
  have need: "needed \<or> (challenge \<noteq> None \<and> signature \<noteq> None)" using assms(2) n by auto
  obtain ad verify where a: "registry_get registry (blockchain_name b) e w = (Inr ad, w)" "ad_verifyOwnership ad = Some verify"
    and given: "challenge \<noteq> None" "signature \<noteq> None"
    using assms(1,3) need n by (auto simp: assertOwnership_def liftE_def registry_get_def eff_simps Let_def split: option.splits if_splits)
  obtain k w1 where k: "open_challenge c secret (the challenge) e w = (Inr k, w1)" "cc_tid k = os_tenantId s" "cc_uid k = os_userId s"
    "cc_cid k = os_chainId s" "cc_addr k = normalizeWalletAddress evm (os_chainId s) (os_address s)"
    "fst (verify (cc_addr k) (buildOwnershipMessage k) (the signature) e w1) = Inr True"
    using assms(1,3) need n a given
    by (auto simp: assertOwnership_def liftE_def bindE_def returnE_def throwE_def Let_def split: prod.splits sum.splits if_splits)
  from k(1) obtain payload presented v source where "the challenge = payload @ ''.'' @ presented"
    "from_base64url presented = mac c secret payload" "utf8_decode (from_base64url payload) = Some source" "json_parse source = Some v"
    "well_formed_claims v = Some k" "env_clock e (calls w) < cc_exp k"
    by (rule open_challenge_Inr)
  with k(2-6) a registry_get_Inr [OF a(1)] given show ?thesis by (auto intro!: exI)
qed

theorem ownership_proven_witness:
  "\<exists>ic w1 payload presented. issueChallenge sample_crypto ''secret'' (ec_isAddress (sample_node (Inr True))) (\<lambda>a. Inr True) 11155111
      (sample_registry (Inr True) (Inr None)) sample_subject sample_env (world_of empty_store) = (Inr ic, w1) \<and>
    ic_challenge ic = payload @ ''.'' @ presented \<and> from_base64url presented = mac sample_crypto ''secret'' payload"
proof -
  obtain ic w1 where ic: "issueChallenge sample_crypto ''secret'' (ec_isAddress (sample_node (Inr True))) (\<lambda>a. Inr True) 11155111
      (sample_registry (Inr True) (Inr None)) sample_subject sample_env (world_of empty_store) = (Inr ic, w1)"
    "length (ic_challenge ic) \<le> MAX_CHALLENGE_LENGTH" "db w1 = empty_store" "calls w1 = 2" by (rule sample_ownership)
  obtain w' where "assertOwnership sample_crypto ''secret'' (\<lambda>v. Some ''true'') 11155111 (sample_registry (Inr True) (Inr None)) sample_subject
      (Some (ic_challenge ic)) (Some ''0xsig'') sample_env w1 = (Inr (), w')"
    using issued_challenge_accepted [OF sample_hmac ic(1,2) sample_gate sample_in_time [OF ic(4)]] by blast
  from ownership_proven [OF this disjI1 [OF sample_proof_required] sample_chain_known] ic(1) show ?thesis by auto
qed

section \<open>API keys\<close>

lemma find_None: "(\<And>x. x \<in> set xs \<Longrightarrow> \<not> P x) \<Longrightarrow> List.find P xs = None"
  by (simp add: find_None_iff)

lemma map_filter_mem: "y \<in> set (List.map_filter f xs) \<longleftrightarrow> (\<exists>x \<in> set xs. f x = Some y)"
  by (induction xs) (auto simp: List.map_filter_simps split: option.splits)

lemma map_filter_append: "List.map_filter f (xs @ ys) = List.map_filter f xs @ List.map_filter f ys"
  by (simp add: List.map_filter_def)

lemma revoked_never_verifies:
  assumes "sha256_hex c" "rely key_order e" "keys_ok (db w)" "row ak_id (apiKeys (db w)) i = Some k"
    and "ak_revokedAt k \<noteq> None" "ak_keyHash k = hashToken c raw"
  shows "\<exists>x w'. verifyKey c raw e w = (Inl x, w')"
proof -
  let ?n = "Suc (calls w)" and ?now = "env_clock e (calls w)"
  let ?d = "env_interfere e ?n (db w)"
  have "key_order (db w) ?d" using assms(2) by (simp add: rely_def)
  with assms(3,4) obtain k' where ok: "keys_ok ?d" and k': "row ak_id (apiKeys ?d) i = Some k'" "key_kept k k'"
    unfolding key_order_def by blast
  have none: "List.find (\<lambda>(k, t). length (from_hex (ak_keyHash k)) = length (from_hex (hashToken c raw)) \<and>
      from_hex (ak_keyHash k) = from_hex (hashToken c raw))
     (List.map_filter (\<lambda>k. map_option (\<lambda>t. (k, t)) (row tn_id (tenants ?d) (ak_tenantId k)))
       (filter (\<lambda>k. ak_keyPrefix k = p \<and> usable ?now k) (apiKeys ?d))) = None" for p
  proof (rule find_None, clarify)
    fix k2 t assume m: "(k2, t) \<in> set (List.map_filter (\<lambda>k. map_option (\<lambda>t. (k, t)) (row tn_id (tenants ?d) (ak_tenantId k)))
       (filter (\<lambda>k. ak_keyPrefix k = p \<and> usable ?now k) (apiKeys ?d)))"
      and h: "from_hex (ak_keyHash k2) = from_hex (hashToken c raw)"
    from m have k2: "k2 \<in> set (apiKeys ?d)" "usable ?now k2" by (auto simp: map_filter_mem)
    have "ak_keyHash k2 = hashToken c raw"
      using is_digest_inject h ok k2(1) assms(1) by (simp add: keys_ok_def sha256_hex_def hashToken_def)
    also have "\<dots> = ak_keyHash k'" using k'(2) assms(6) by (simp add: key_kept_def)
    finally have "k2 = k'"
      using ok k2(1) row_SomeD [OF k'(1)] row_member [of ak_keyHash "apiKeys ?d"] by (metis keys_ok_def option.inject)
    with k2(2) k'(2) assms(5) show False by (simp add: usable_def key_kept_def)
  qed
  show ?thesis
    using none
    by (auto simp: verifyKey_def findActiveByPrefix_def query_def statement_def eff_simps getNow_def Let_def arrive_def split: fault.splits)
qed

text \<open>A revocation that succeeds is in the store when it returns, and stays.\<close>

definition key_present :: "string \<Rightarrow> string \<Rightarrow> store \<Rightarrow> bool" where
  "key_present i h d \<longleftrightarrow> keys_ok d \<and> (\<exists>k. row ak_id (apiKeys d) i = Some k \<and> ak_keyHash k = h)"

definition key_revoked :: "string \<Rightarrow> string \<Rightarrow> store \<Rightarrow> bool" where
  "key_revoked i h d \<longleftrightarrow> keys_ok d \<and> (\<exists>k. row ak_id (apiKeys d) i = Some k \<and> ak_keyHash k = h \<and> ak_revokedAt k \<noteq> None)"

lemma stable_key_present: "stable key_order (key_present i h)"
  unfolding stable_def key_present_def key_order_def key_kept_def by metis

lemma stable_key_revoked: "stable key_order (key_revoked i h)"
  unfolding stable_def key_revoked_def key_order_def key_kept_def by metis

lemma ensures_revoke:
  assumes "rely key_order e"
  shows "ensures (key_present i h) key_order e (revoke tn i) (\<lambda>b d. b \<longrightarrow> key_revoked i h d)"
  unfolding revoke_def
proof (rule ko.ensures_bind)
  show "ensures (key_present i h) key_order e getNow (\<lambda>_. key_present i h)"
    by (rule ko.ensures_frame [OF ko.keeps_getNow stable_key_present])
next
  fix now
  let ?P = "\<lambda>k. ak_id k = i \<and> ak_tenantId k = tn \<and> ak_revokedAt k = None"
  let ?f = "\<lambda>k. k\<lparr>ak_active := False, ak_revokedAt := Some now\<rparr>"
  have order: "key_order d (d\<lparr>apiKeys := update_rows ?P ?f (apiKeys d)\<rparr>)" for d
    by (rule key_order_update) (simp add: key_kept_def)
  have "key_revoked i h (d\<lparr>apiKeys := update_rows ?P ?f (apiKeys d)\<rparr>)"
    if "key_present i h d" "count_rows ?P (apiKeys d) = 1" for d
  proof -
    from that(2) obtain k where k: "k \<in> set (apiKeys d)" "?P k"
      using count_rows_pos [of ?P "apiKeys d"] by auto
    moreover from that(1) have "keyed ak_id (apiKeys d)" by (simp add: key_present_def keys_ok_def)
    ultimately have "row ak_id (apiKeys d) i = Some k" using row_member [of ak_id "apiKeys d" k] by simp
    moreover have "keys_ok (d\<lparr>apiKeys := update_rows ?P ?f (apiKeys d)\<rparr>)"
      using order [of d] that(1) by (simp add: key_order_def key_present_def)
    ultimately show ?thesis using that(1) k(2) by (simp add: key_revoked_def key_present_def row_update)
  qed
  then show "ensures (key_present i h) key_order e
      (statement (\<lambda>d. let P = ?P in Inr (count_rows P (apiKeys d) = 1, d\<lparr>apiKeys := update_rows P ?f (apiKeys d)\<rparr>)))
      (\<lambda>b d. b \<longrightarrow> key_revoked i h d)"
    by (intro ko.ensures_statement assms stable_key_present) (auto simp: Let_def intro: order)
qed

lemma revokeKey_revokes:
  assumes "sha256_hex c" "rely key_order e" "key_present i h (db w)" "revokeKey tn i e w = (Inr j, w1)"
  shows "key_revoked i h (db w1)"
proof -
  have audit: "keeps key_order e (audit_record x)" for x
    using identity_frame.keeps_identity_writes(1) [OF key_identity_frame [OF assms(1)] assms(2)] .
  have "ensures (key_present i h) key_order e (revokeKey tn i) (\<lambda>_. key_revoked i h)"
    unfolding revokeKey_def apiKey_findByIdForTenant_def
  proof (rule ko.ensures_bind)
    show "ensures (key_present i h) key_order e (query (\<lambda>d. List.find (\<lambda>k. ak_id k = i \<and> ak_tenantId k = tn) (apiKeys d)))
        (\<lambda>_. key_present i h)"
      by (rule ko.ensures_frame [OF ko.keeps_query [OF assms(2)] stable_key_present])
  next
    fix existing :: "api_key option"
    have "ensures (\<lambda>d. b \<longrightarrow> key_revoked i h d) key_order e
        (if \<not> b then throwE (AppError 409 ''API_KEY_ALREADY_REVOKED'' ''API key already revoked'' [])
         else bindE (audit_record x) (\<lambda>_. returnE i)) (\<lambda>_. key_revoked i h)" for b x
      using ko.ensures_bind [OF ko.ensures_frame [OF audit stable_key_revoked] ko.ensures_return, of i h]
      by (cases b) (auto intro: ko.ensures_throw)
    then show "ensures (key_present i h) key_order e
        (case existing of None \<Rightarrow> throwE (AppError 404 ''API_KEY_NOT_FOUND'' ''API key not found'' [])
         | Some k \<Rightarrow> bindE (revoke tn i) (\<lambda>revoked.
             if \<not> revoked then throwE (AppError 409 ''API_KEY_ALREADY_REVOKED'' ''API key already revoked'' [])
             else bindE (audit_record \<lparr> ae_tenantId = Some tn, ae_userId = None, ae_action = ''api_key.revoked'',
                ae_resource = ''ApiKey'', ae_resourceId = Some i, ae_metadata = None \<rparr>) (\<lambda>_. returnE i)))
        (\<lambda>_. key_revoked i h)"
      by (cases existing) (auto intro: ko.ensures_throw ko.ensures_bind [OF ensures_revoke [OF assms(2)]])
  qed
  from ensuresD [OF this assms(3,4)] show ?thesis .
qed

lemma audit_quiet:
  "quiet e \<Longrightarrow> \<exists>n x. audit_record entry e w = (Inr (), w\<lparr>calls := n, db := (db w)\<lparr>auditLogs := x\<rparr>\<rparr>)"
  by (rule exI [of _ "calls w + 3"], rule exI [of _ "if row al_id (auditLogs (db w)) (env_uuid e (calls w)) = None
      then auditLogs (db w) @ [\<lparr> al_id = env_uuid e (calls w), al_tenantId = ae_tenantId entry, al_userId = ae_userId entry,
        al_action = ae_action entry, al_resource = ae_resource entry, al_resourceId = ae_resourceId entry,
        al_metadata = ae_metadata entry, al_createdAt = env_clock e (Suc (calls w)) \<rparr>] else auditLogs (db w)"])
    (simp add: audit_record_def audit_create_def eff_simps quiet_simps Let_def eval_nat_numeral)

lemma createKey_quiet:
  fixes c tn name scopes exp
  assumes "quiet e" "\<And>n. row ak_id (apiKeys (db w)) (env_uuid e n) = None"
    and "row ak_keyHash (apiKeys (db w)) (hashToken c (''tenant_'' @ to_hex (cl_randomBytes c (calls w) 32))) = None"
  defines "raw \<equiv> ''tenant_'' @ to_hex (cl_randomBytes c (calls w) 32)"
  defines "k \<equiv> \<lparr> ak_id = env_uuid e (Suc (calls w)), ak_tenantId = tn, ak_keyHash = hashToken c raw,
    ak_keyPrefix = take KEY_PREFIX_LENGTH raw, ak_name = name, ak_active = True,
    ak_scopes = (case scopes of None \<Rightarrow> [''*''] | Some ss \<Rightarrow> if length ss > 0 then ss else [''*'']), ak_lastUsedAt = None,
    ak_expiresAt = exp, ak_createdAt = env_clock e (Suc (Suc (calls w))), ak_revokedAt = None \<rparr>"
  obtains w1 where "createKey c tn name scopes exp e w = (Inr \<lparr> kc_id = ak_id k, kc_apiKey = raw, kc_keyPrefix = ak_keyPrefix k,
      kc_name = ak_name k, kc_scopes = ak_scopes k, kc_expiresAt = ak_expiresAt k, kc_createdAt = ak_createdAt k \<rparr>, w1)"
    "apiKeys (db w1) = apiKeys (db w) @ [k]" "tenants (db w1) = tenants (db w)"
proof -
  define w0 where "w0 = w\<lparr>calls := calls w + 4, db := (db w)\<lparr>apiKeys := apiKeys (db w) @ [k]\<rparr>\<rparr>"
  let ?entry = "\<lparr> ae_tenantId = Some tn, ae_userId = None, ae_action = ''api_key.created'',
    ae_resource = ''ApiKey'', ae_resourceId = Some (ak_id k),
    ae_metadata = Some (JObj [(''name'', JStr (ak_name k)), (''scopes'', JArr (map JStr (ak_scopes k)))]) \<rparr>"
  obtain n x where a: "audit_record ?entry e w0 = (Inr (), w0\<lparr>calls := n, db := (db w0)\<lparr>auditLogs := x\<rparr>\<rparr>)"
    using audit_quiet [OF assms(1)] by blast
  have "createKey c tn name scopes exp e w = (Inr \<lparr> kc_id = ak_id k, kc_apiKey = raw, kc_keyPrefix = ak_keyPrefix k,
      kc_name = ak_name k, kc_scopes = ak_scopes k, kc_expiresAt = ak_expiresAt k, kc_createdAt = ak_createdAt k \<rparr>,
      w0\<lparr>calls := n, db := (db w0)\<lparr>auditLogs := x\<rparr>\<rparr>)"
    using assms(1-3) a
    by (simp add: createKey_def generateRawKey_def randomBytes_def library_def apiKey_create_def apiKey_insert_def eff_simps quiet_simps
        k_def w0_def raw_def eval_nat_numeral)
  then show thesis by (rule that) (simp_all add: w0_def)
qed

text \<open>
  C28: a key that was created verifies. When nothing fails, the raw key that \<^verbatim>\<open>createKey\<close> returns, and
  which is stored nowhere, verifies as long as it has not expired, and is resolved to the tenant it
  was created for; what is stored of it is its digest and its first eight characters.
\<close>

theorem api_key_round_trip:
  assumes "quiet e" "sha256_hex c" "keys_ok (db w)" "row tn_id (tenants (db w)) tn = Some t"
    and "\<And>n. row ak_id (apiKeys (db w)) (env_uuid e n) = None"
    and "row ak_keyHash (apiKeys (db w)) (hashToken c (''tenant_'' @ to_hex (cl_randomBytes c (calls w) 32))) = None"
    and "\<And>n x. exp = Some x \<Longrightarrow> env_clock e n < x" "cl_randomBytes c (calls w) 32 \<noteq> []"
  shows "\<exists>kc w1 k w2. createKey c tn name scopes exp e w = (Inr kc, w1) \<and> verifyKey c (kc_apiKey kc) e w1 = (Inr (t, k), w2) \<and>
    ak_id k = kc_id kc \<and> ak_tenantId k = tn \<and> ak_keyHash k = hashToken c (kc_apiKey kc) \<and> ak_keyPrefix k = take 8 (kc_apiKey kc)"
proof -
  let ?raw = "''tenant_'' @ to_hex (cl_randomBytes c (calls w) 32)"
  let ?scopes = "case scopes of None \<Rightarrow> [''*''] | Some ss \<Rightarrow> if length ss > 0 then ss else [''*'']"
  define k where "k = \<lparr> ak_id = env_uuid e (Suc (calls w)), ak_tenantId = tn, ak_keyHash = hashToken c ?raw,
    ak_keyPrefix = take KEY_PREFIX_LENGTH ?raw, ak_name = name, ak_active = True, ak_scopes = ?scopes, ak_lastUsedAt = None,
    ak_expiresAt = exp, ak_createdAt = env_clock e (Suc (Suc (calls w))), ak_revokedAt = None \<rparr>"
  obtain w1 where w1: "createKey c tn name scopes exp e w = (Inr \<lparr> kc_id = ak_id k, kc_apiKey = ?raw, kc_keyPrefix = ak_keyPrefix k,
      kc_name = ak_name k, kc_scopes = ak_scopes k, kc_expiresAt = ak_expiresAt k, kc_createdAt = ak_createdAt k \<rparr>, w1)"
    "apiKeys (db w1) = apiKeys (db w) @ [k]" "tenants (db w1) = tenants (db w)"
    by (rule createKey_quiet [OF assms(1,5,6), where tn = tn and name = name and scopes = scopes and exp = exp])
      (auto simp: k_def)
  have u: "usable now k" if "\<And>x. exp = Some x \<Longrightarrow> now < x" for now
    using that by (auto simp: usable_def k_def split: option.split)
  have hd: "is_digest (hashToken c ?raw)" using assms(2) by (simp add: sha256_hex_def hashToken_def)
  have other: "from_hex (ak_keyHash k2) \<noteq> from_hex (hashToken c ?raw)" if "k2 \<in> set (apiKeys (db w))" for k2
  proof -
    have "ak_keyHash k2 \<noteq> hashToken c ?raw" using that assms(6) unfolding row_None_iff by (metis image_eqI)
    with is_digest_inject [OF _ hd, of "ak_keyHash k2"] that assms(3) show ?thesis by (simp add: keys_ok_def)
  qed
  let ?cands = "\<lambda>now ks. List.map_filter (\<lambda>k. map_option (\<lambda>t. (k, t)) (row tn_id (tenants (db w)) (ak_tenantId k)))
       (filter (\<lambda>k. ak_keyPrefix k = take KEY_PREFIX_LENGTH ?raw \<and> usable now k) ks)"
  let ?P = "\<lambda>(k, t). length (from_hex (ak_keyHash k)) = length (from_hex (hashToken c ?raw)) \<and>
      from_hex (ak_keyHash k) = from_hex (hashToken c ?raw)"
  have "List.find ?P (?cands now (apiKeys (db w))) = None" for now
    using other by (intro find_None) (auto simp: map_filter_mem)
  then have found: "List.find ?P (?cands now (apiKeys (db w1))) = Some (k, t)" if "\<And>x. exp = Some x \<Longrightarrow> now < x" for now
    using u [OF that] assms(4) by (simp add: w1(2) map_filter_append find_append List.map_filter_simps k_def)
  have k: "row ak_id (apiKeys (db w1)) (ak_id k) = Some k" using assms(5) by (simp add: w1(2) row_append k_def)
  have long: "\<not> length ?raw < KEY_PREFIX_LENGTH"
    using assms(8) by (cases "cl_randomBytes c (calls w) 32") (simp_all add: KEY_PREFIX_LENGTH_def)
  have "\<exists>w2. verifyKey c ?raw e w1 = (Inr (t, k), w2)"
    using assms(1) long found [of "env_clock e (calls w1)"] assms(7) k w1(3)
    by (simp add: verifyKey_def findActiveByPrefix_def touchLastUsed_def eff_simps quiet_simps Let_def)
  then obtain w2 where "verifyKey c ?raw e w1 = (Inr (t, k), w2)" by blast
  then show ?thesis using w1(1) by (intro exI conjI) (auto simp: k_def KEY_PREFIX_LENGTH_def)
qed

definition tenant_store :: store where
  "tenant_store = empty_store\<lparr>tenants := [\<lparr> tn_id = ''acme'', tn_name = ''Acme'', tn_createdAt = 0 \<rparr>]\<rparr>"

lemma sample_sha256: "sha256_hex sample_crypto"
proof -
  have "bytes_ok (map of_char s)" for s :: string by (simp add: bytes_ok_def)
  then show ?thesis by (auto simp: sha256_hex_def is_digest_def sample_crypto_def)
qed

theorem api_key_round_trip_witness:
  "\<exists>kc w1 k w2. createKey sample_crypto ''acme'' ''ci'' None None sample_env (world_of tenant_store) = (Inr kc, w1) \<and>
    verifyKey sample_crypto (kc_apiKey kc) sample_env w1 = (Inr (hd (tenants tenant_store), k), w2) \<and> ak_tenantId k = ''acme''"
proof -
  have q: "quiet sample_env" by (simp add: sample_env_def)
  have ok: "keys_ok (db (world_of tenant_store))" by (simp add: keys_ok_def tenant_store_def empty_store_def)
  show ?thesis
    using api_key_round_trip [OF q sample_sha256 ok, of "''acme''" "hd (tenants tenant_store)" None "''ci''" None]
    by (auto simp: tenant_store_def empty_store_def sample_crypto_def)
qed

end
