(* ===== verification/Balances.thy ===== *)
theory Balances
  imports Recovery "HOL-Library.List_Lexorder" "HOL-Library.Char_ord"
begin

text \<open>
  Balance snapshots: \<^verbatim>\<open>repositories/balance.repository.ts\<close>, \<^verbatim>\<open>services/balance.service.ts\<close>,
  \<^verbatim>\<open>services/balance-sync.service.ts\<close>, the comparison with the chain
  (\<^verbatim>\<open>services/balance-reconciliation.service.ts\<close>) and the drift sweep
  (\<^verbatim>\<open>workers/balance-drift.processor.ts\<close>). The specification of the repository is that
  a snapshot only ever moves to a later position of the chain, whatever the order in
  which observations arrive and whoever else writes.
\<close>

section \<open>BalanceRepository\<close>

definition bs_key :: "balance_snapshot \<Rightarrow> string \<times> string" where
  "bs_key b = (bs_walletId b, bs_tokenId b)"

definition balance_find :: "string \<Rightarrow> string \<Rightarrow> balance_snapshot option eff" where
  "balance_find walletId tokenId = query (\<lambda>d. row bs_key (balances d) (walletId, tokenId))"

definition balance_findOrThrow :: "string \<Rightarrow> string \<Rightarrow> balance_snapshot eff" where
  "balance_findOrThrow walletId tokenId = statement (\<lambda>d.
     case row bs_key (balances d) (walletId, tokenId) of None \<Rightarrow> Inl P2025 | Some b \<Rightarrow> Inr (b, d))"

definition balance_updateNewer :: "string \<Rightarrow> string \<Rightarrow> int \<Rightarrow> int \<Rightarrow> nat eff" where
  "balance_updateNewer walletId tokenId balance blockNumber = statement (\<lambda>d.
     let P = (\<lambda>b. bs_walletId b = walletId \<and> bs_tokenId b = tokenId \<and> bs_blockNumber b < blockNumber)
     in Inr (count_rows P (balances d),
          d\<lparr>balances := update_rows P (\<lambda>b. b\<lparr>bs_balance := balance, bs_blockNumber := blockNumber\<rparr>) (balances d)\<rparr>))"

definition balance_create :: "string \<Rightarrow> string \<Rightarrow> int \<Rightarrow> int \<Rightarrow> balance_snapshot eff" where
  "balance_create walletId tokenId balance blockNumber =
     bindE randomUUID (\<lambda>i. statement (\<lambda>d.
       let b = \<lparr> bs_id = i, bs_walletId = walletId, bs_tokenId = tokenId, bs_balance = balance,
             bs_blockNumber = blockNumber \<rparr>
       in if row bs_id (balances d) i = None \<and> row bs_key (balances d) (walletId, tokenId) = None
          then Inr (b, d\<lparr>balances := balances d @ [b]\<rparr>) else Inl P2002))"

definition upsert :: "string \<Rightarrow> string \<Rightarrow> int \<Rightarrow> int \<Rightarrow> balance_snapshot eff" where
  "upsert walletId tokenId balance blockNumber =
     bindE (balance_updateNewer walletId tokenId balance blockNumber) (\<lambda>count.
       if count > 0 then balance_findOrThrow walletId tokenId
       else catchE (balance_create walletId tokenId balance blockNumber)
         (\<lambda>error. if is_unique_violation error then balance_findOrThrow walletId tokenId else throwE error))"

text \<open>Ordered by the symbol of the token, which \<^verbatim>\<open>include\<close> loads beside each snapshot.\<close>

definition findByWallet :: "string \<Rightarrow> (balance_snapshot \<times> token option) list eff" where
  "findByWallet walletId = query (\<lambda>d.
     map (\<lambda>b. (b, row tk_id (tokens d) (bs_tokenId b)))
       (order_asc (\<lambda>b. case row tk_id (tokens d) (bs_tokenId b) of None \<Rightarrow> '''' | Some t \<Rightarrow> tk_symbol t)
         (filter (\<lambda>b. bs_walletId b = walletId) (balances d))))"

record snapshot_view =
  sv_row :: balance_snapshot
  sv_wallet :: "wallet option"
  sv_token :: "token option"

definition snapshot_view_of :: "store \<Rightarrow> balance_snapshot \<Rightarrow> snapshot_view" where
  "snapshot_view_of d b = \<lparr> sv_row = b, sv_wallet = row wa_id (wallets d) (bs_walletId b),
     sv_token = row tk_id (tokens d) (bs_tokenId b) \<rparr>"

text \<open>
  Prisma's cursor pagination: the rows from the cursor on in the requested order, of which
  \<^verbatim>\<open>skip: 1\<close> drops the cursor itself.
\<close>

definition rows_after :: "string option \<Rightarrow> balance_snapshot list \<Rightarrow> balance_snapshot list" where
  "rows_after afterId bs =
     (case afterId of
        None \<Rightarrow> bs
      | Some i \<Rightarrow> if i = [] then bs else drop 1 (dropWhile (\<lambda>b. bs_id b \<noteq> i) bs))"

definition findPageForReconciliation :: "string option \<Rightarrow> nat \<Rightarrow> snapshot_view list eff" where
  "findPageForReconciliation afterId limit = query (\<lambda>d.
     map (snapshot_view_of d) (take limit (rows_after afterId (order_asc bs_id (balances d)))))"

section \<open>BalanceService and BalanceSyncService\<close>

definition getBalance :: "string \<Rightarrow> string \<Rightarrow> balance_snapshot option eff" where
  "getBalance walletId tokenId = balance_find walletId tokenId"

definition getWalletBalances :: "string \<Rightarrow> (balance_snapshot \<times> token option) list eff" where
  "getWalletBalances walletId = findByWallet walletId"

definition updateBalance :: "string \<Rightarrow> string \<Rightarrow> int \<Rightarrow> int \<Rightarrow> balance_snapshot eff" where
  "updateBalance walletId tokenId balance blockNumber = upsert walletId tokenId balance blockNumber"

text \<open>\<^verbatim>\<open>EvmTokenBalanceReader.getTokenBalance\<close>, which reads at a given block only.\<close>

definition reader_getTokenBalance :: "evm_client \<Rightarrow> balance_request \<Rightarrow> token_balance eff" where
  "reader_getTokenBalance c request =
     (case br_blockNumber request of
        None \<Rightarrow> throwE (PlainError ''EVM token balance requires a block number'')
      | Some blockNumber \<Rightarrow>
          if \<not> nonempty (br_assetIdentifier request)
          then throwE (PlainError ''EVM token balance requires an asset contract address'')
          else bindE (external (\<lambda>n. ec_balanceOf c n (the (br_assetIdentifier request)) (br_walletAddress request) (Some blockNumber)))
            (\<lambda>balance. returnE \<lparr> tb_balance = balance, tb_blockNumber = blockNumber \<rparr>))"

text \<open>\<^verbatim>\<open>BalanceSyncService.sync\<close>; the reader is the EVM reader.\<close>

definition sync :: "evm_client \<Rightarrow> string \<Rightarrow> string \<Rightarrow> string \<Rightarrow> string \<Rightarrow> int \<Rightarrow> balance_snapshot eff" where
  "sync c walletId walletAddress tokenId tokenAddress blockNumber =
     bindE (reader_getTokenBalance c \<lparr> br_assetIdentifier = Some tokenAddress, br_walletAddress = walletAddress,
              br_blockNumber = Some blockNumber \<rparr>) (\<lambda>result.
       upsert walletId tokenId (tb_balance result) (tb_blockNumber result))"

section \<open>BalanceReconciliationService\<close>

datatype reconciliation_status = MATCH | MISMATCH | STALE_OBSERVATION

record reconciliation_request =
  rr_walletId :: string
  rr_walletAddress :: string
  rr_walletChainId :: int
  rr_tokenId :: string
  rr_blockchain :: blockchain
  rr_assetIdentifier :: "string option"
  rr_blockNumber :: "int option"

record reconciliation_result =
  re_status :: reconciliation_status
  re_blockchain :: blockchain
  re_walletId :: string
  re_tokenId :: string
  re_persisted :: "token_balance option"
  re_chain :: token_balance

definition reconcile :: "int \<Rightarrow> adapter list \<Rightarrow> reconciliation_request \<Rightarrow> reconciliation_result eff" where
  "reconcile evm registry request =
     (let chain = rr_blockchain request in
      if blockchainForChainId evm (rr_walletChainId request) \<noteq> Some chain
      then throwE (walletTokenChainMismatch (rr_walletChainId request) (blockchain_name chain))
      else bindE (registry_get registry (blockchain_name chain)) (\<lambda>adapter.
        case ad_getTokenBalance adapter of
          None \<Rightarrow> throwE (unsupportedChainCapability ''balance reconciliation'' (blockchain_name chain))
        | Some getTokenBalance \<Rightarrow>
            bindE (balance_find (rr_walletId request) (rr_tokenId request)) (\<lambda>persisted.
            bindE (getTokenBalance \<lparr> br_assetIdentifier = rr_assetIdentifier request,
                     br_walletAddress = rr_walletAddress request, br_blockNumber = rr_blockNumber request \<rparr>) (\<lambda>observed.
            let result = (\<lambda>status view. \<lparr> re_status = status, re_blockchain = chain,
                  re_walletId = rr_walletId request, re_tokenId = rr_tokenId request,
                  re_persisted = view, re_chain = observed \<rparr>) in
            case persisted of
              None \<Rightarrow> returnE (result MISMATCH None)
            | Some p \<Rightarrow>
                let view = Some \<lparr> tb_balance = bs_balance p, tb_blockNumber = bs_blockNumber p \<rparr> in
                if tb_blockNumber observed < bs_blockNumber p then returnE (result STALE_OBSERVATION view)
                else returnE (result (if bs_balance p = tb_balance observed then MATCH else MISMATCH) view)))))"

section \<open>BalanceDriftProcessor\<close>

datatype check_result = match | drift | stale_observation | unverified

definition checkOne :: "int \<Rightarrow> adapter list \<Rightarrow> snapshot_view \<Rightarrow> int option \<Rightarrow> check_result eff" where
  "checkOne evm registry v frontier =
     (case frontier of
        None \<Rightarrow> returnE unverified
      | Some f \<Rightarrow>
          catchE
            (bindE (required (sv_wallet v)) (\<lambda>wl. bindE (required (sv_token v)) (\<lambda>tk.
             bindE (reconcile evm registry \<lparr> rr_walletId = bs_walletId (sv_row v), rr_walletAddress = wa_address wl,
                 rr_walletChainId = wa_chainId wl, rr_tokenId = bs_tokenId (sv_row v),
                 rr_blockchain = tk_blockchain tk, rr_assetIdentifier = tk_contractAddress tk,
                 rr_blockNumber = Some f \<rparr>) (\<lambda>result.
             returnE (case re_status result of
                 MATCH \<Rightarrow> match | STALE_OBSERVATION \<Rightarrow> stale_observation | MISMATCH \<Rightarrow> drift)))))
            (\<lambda>error. returnE unverified))"

type_synonym frontier_cache = "string \<Rightarrow> int option option"

definition resolveFrontier :: "string \<Rightarrow> frontier_cache \<Rightarrow> frontier_cache eff" where
  "resolveFrontier tokenId cache =
     (if cache tokenId \<noteq> None then returnE cache
      else bindE (findByTokenId tokenId) (\<lambda>cursor.
        returnE (cache(tokenId \<mapsto> (case cursor of
            None \<Rightarrow> None
          | Some c \<Rightarrow> if cu_lastProcessedBlock c > 0 then Some (cu_lastProcessedBlock c) else None)))))"

fun resolveFrontiers :: "string list \<Rightarrow> frontier_cache \<Rightarrow> frontier_cache eff" where
  "resolveFrontiers [] cache = returnE cache"
| "resolveFrontiers (i # is) cache = bindE (resolveFrontier i cache) (resolveFrontiers is)"

record sweep_summary =
  sw_checked :: nat
  sw_byBlockchain :: "blockchain \<Rightarrow> (check_result \<Rightarrow> nat) option"

definition emptyCounts :: "check_result \<Rightarrow> nat" where
  "emptyCounts = (\<lambda>_. 0)"

definition tally :: "sweep_summary \<Rightarrow> blockchain \<Rightarrow> check_result \<Rightarrow> sweep_summary" where
  "tally summary chain result =
     (let counts = (case sw_byBlockchain summary chain of None \<Rightarrow> emptyCounts | Some c \<Rightarrow> c) in
      summary\<lparr> sw_checked := sw_checked summary + 1,
        sw_byBlockchain := (sw_byBlockchain summary)(chain \<mapsto> counts(result := counts result + 1)) \<rparr>)"

text \<open>The chain of a snapshot's token.\<close>

definition chain_of :: "snapshot_view \<Rightarrow> blockchain" where
  "chain_of v = (case sv_token v of None \<Rightarrow> EVM | Some t \<Rightarrow> tk_blockchain t)"

fun slices :: "nat \<Rightarrow> nat \<Rightarrow> 'a list \<Rightarrow> 'a list list" where
  "slices 0 k xs = []"
| "slices (Suc n) k xs = (if xs = [] then [] else take k xs # slices n k (drop k xs))"

fun sweep_batches ::
  "int \<Rightarrow> adapter list \<Rightarrow> snapshot_view list list \<Rightarrow> frontier_cache \<Rightarrow> sweep_summary \<Rightarrow> (frontier_cache \<times> sweep_summary) eff" where
  "sweep_batches evm registry [] frontier summary = returnE (frontier, summary)"
| "sweep_batches evm registry (batch # rest) frontier summary =
     bindE (resolveFrontiers (remdups (map (\<lambda>v. bs_tokenId (sv_row v)) batch)) frontier) (\<lambda>cache.
     bindE (mapE (\<lambda>v. checkOne evm registry v
              (case cache (bs_tokenId (sv_row v)) of None \<Rightarrow> None | Some f \<Rightarrow> f)) batch) (\<lambda>results.
     sweep_batches evm registry rest cache
       (fold (\<lambda>(v, r) s. tally s (chain_of v) r) (zip batch results) summary)))"

text \<open>
  \<^verbatim>\<open>for (;;)\<close> over the pages. The fuel bounds the pages read, \<open>None\<close> is a sweep that has not
  ended within it. A page of \<open>n\<close> rows is cut into at most \<open>n\<close> batches (the concurrency is
  positive).
\<close>

fun sweep_loop ::
  "nat \<Rightarrow> int \<Rightarrow> adapter list \<Rightarrow> nat \<Rightarrow> nat \<Rightarrow> string option \<Rightarrow> frontier_cache \<Rightarrow> sweep_summary \<Rightarrow> sweep_summary option eff" where
  "sweep_loop 0 evm registry pageSize concurrency afterId frontier summary = returnE None"
| "sweep_loop (Suc fuel) evm registry pageSize concurrency afterId frontier summary =
     bindE (findPageForReconciliation afterId pageSize) (\<lambda>page.
       if page = [] then returnE (Some summary)
       else bindE (sweep_batches evm registry (slices (length page) concurrency page) frontier summary) (\<lambda>(cache, s).
         if length page < pageSize then returnE (Some s)
         else sweep_loop fuel evm registry pageSize concurrency (Some (bs_id (sv_row (last page)))) cache s))"

primrec check_result_name :: "check_result \<Rightarrow> string" where
  "check_result_name match = ''match''"
| "check_result_name drift = ''drift''"
| "check_result_name stale_observation = ''stale_observation''"
| "check_result_name unverified = ''unverified''"

text \<open>The time stamp is a number of seconds; the model keeps its whole part.\<close>

definition publish :: "sweep_summary \<Rightarrow> unit eff" where
  "publish summary =
     bindE (forE [EVM, BITCOIN, SOLANA] (\<lambda>chain.
       let counts = (case sw_byBlockchain summary chain of None \<Rightarrow> emptyCounts | Some c \<Rightarrow> c) in
       forE [match, drift, stale_observation, unverified] (\<lambda>result.
         setGauge ''balance_reconciliation_snapshots''
           [(''blockchain'', blockchain_name chain), (''result'', check_result_name result)] (int (counts result))))) (\<lambda>_.
     bindE getNow (\<lambda>now.
     setGauge ''balance_reconciliation_last_sweep_timestamp_seconds'' [] (now div 1000)))"

definition sweep :: "nat \<Rightarrow> int \<Rightarrow> adapter list \<Rightarrow> nat \<Rightarrow> nat \<Rightarrow> sweep_summary option eff" where
  "sweep fuel evm registry pageSize concurrency =
     bindE (sweep_loop fuel evm registry pageSize concurrency None (\<lambda>_. None)
              \<lparr> sw_checked = 0, sw_byBlockchain = (\<lambda>_. None) \<rparr>) (\<lambda>result.
       case result of
         None \<Rightarrow> returnE None
       | Some summary \<Rightarrow> bindE (publish summary) (\<lambda>_. returnE (Some summary)))"

section \<open>Specification: snapshots move forward only\<close>

definition balance_step :: "store \<Rightarrow> store \<Rightarrow> bool" where
  "balance_step d d' \<longleftrightarrow>
     (\<exists>P f. d' = d\<lparr>balances := update_rows P f (balances d)\<rparr> \<and>
        (\<forall>b. P b \<longrightarrow> bs_id (f b) = bs_id b \<and> bs_key (f b) = bs_key b \<and> bs_blockNumber b < bs_blockNumber (f b))) \<or>
     (\<exists>b. d' = d\<lparr>balances := balances d @ [b]\<rparr> \<and> row bs_key (balances d) (bs_key b) = None \<and>
        row bs_id (balances d) (bs_id b) = None)"

definition balance_order :: "store \<Rightarrow> store \<Rightarrow> bool" where
  "balance_order d d' \<longleftrightarrow> (\<forall>k b. row bs_key (balances d) k = Some b \<longrightarrow>
     (\<exists>b'. row bs_key (balances d') k = Some b' \<and> bs_id b' = bs_id b \<and>
        (b' = b \<or> bs_blockNumber b < bs_blockNumber b')))"

context store_frame
begin

lemma keeps_balance_find [keeps_intros]: "rely R e \<Longrightarrow> keeps R e (balance_find wl tk)"
  unfolding balance_find_def by (rule keeps_query)

end

text \<open>Relations that allow a snapshot to move forward.\<close>

locale balance_frame = store_frame R for R :: "store \<Rightarrow> store \<Rightarrow> bool" +
  assumes frame_balance: "balance_step d d' \<Longrightarrow> R d d'"
begin

lemma keeps_balance_statement:
  assumes "rely R e" "\<And>d a d'. f d = Inr (a, d') \<Longrightarrow> balance_step d d' \<or> d' = d"
  shows "keeps R e (statement f)"
  by (intro keeps_statement safe_statementI assms(1)) (use assms(2) in \<open>blast intro: frame_balance frame_refl\<close>)

lemma keeps_balance_findOrThrow [keeps_intros]: "rely R e \<Longrightarrow> keeps R e (balance_findOrThrow wl tk)"
  unfolding balance_findOrThrow_def by (rule keeps_balance_statement) (auto split: option.splits)

lemma keeps_balance_updateNewer [keeps_intros]: "rely R e \<Longrightarrow> keeps R e (balance_updateNewer wl tk x bn)"
  unfolding balance_updateNewer_def
  by (rule keeps_balance_statement, assumption, rule disjI1, unfold balance_step_def, rule disjI1)
    (fastforce simp: Let_def bs_key_def)

lemma keeps_balance_create [keeps_intros]: "rely R e \<Longrightarrow> keeps R e (balance_create wl tk x bn)"
  unfolding balance_create_def
  by (intro keeps_intros keeps_balance_statement) (auto simp: balance_step_def Let_def bs_key_def split: if_splits)

lemma keeps_upsert [keeps_intros]: "rely R e \<Longrightarrow> keeps R e (upsert wl tk x bn)"
  unfolding upsert_def by (intro keeps_intros)

lemma keeps_sync [keeps_intros]: "rely R e \<Longrightarrow> keeps R e (sync c wl a tk ta bn)"
  unfolding sync_def reader_getTokenBalance_def by (intro keeps_intros)

end

text \<open>Relations that allow the indexer's other writes too.\<close>

locale index_frame = balance_frame R for R :: "store \<Rightarrow> store \<Rightarrow> bool" +
  assumes frame_index: "balances d' = balances d \<Longrightarrow> transactions d' = transactions d \<Longrightarrow> outbox d' = outbox d \<Longrightarrow>
      relayQueue d' = relayQueue d \<Longrightarrow> apiKeys d' = apiKeys d \<Longrightarrow> R d d'"
begin

lemma keeps_index_statement:
  assumes "rely R e" "\<And>d a d'. f d = Inr (a, d') \<Longrightarrow> balances d' = balances d \<and> transactions d' = transactions d \<and>
     outbox d' = outbox d \<and> relayQueue d' = relayQueue d \<and> apiKeys d' = apiKeys d"
  shows "keeps R e (statement f)"
  using assms by (intro keeps_statement safe_statementI) (auto intro: frame_index)

lemma keeps_index_writes [keeps_intros]:
  assumes "rely R e"
  shows "keeps R e (transfer_create tk f t a h li bn)" "keeps R e (findByTransactionHashAndLogIndex h li)"
    "keeps R e (cursor_getOrCreate tk)" "keeps R e (markSuccess tk bn)" "keeps R e (markFailure tk)"
    "keeps R e (updateCursor tk bn li)" "keeps R e (findByTokenId tk)" "keeps R e (updateCheckpoint i bn)"
  using assms unfolding transfer_create_def findByTransactionHashAndLogIndex_def cursor_getOrCreate_def
    markSuccess_def markFailure_def updateCursor_def findByTokenId_def updateCheckpoint_def
  by (auto intro!: keeps_intros keeps_index_statement simp: cursor_update_def token_update_def Let_def
      split: option.splits if_splits)

end

lemma balance_step_order:
  assumes "balance_step d d'"
  shows "balance_order d d'"
  using assms unfolding balance_step_def
proof (elim disjE exE conjE)
  fix P f
  assume d': "d' = d\<lparr>balances := update_rows P f (balances d)\<rparr>"
    and P: "\<forall>b. P b \<longrightarrow> bs_id (f b) = bs_id b \<and> bs_key (f b) = bs_key b \<and> bs_blockNumber b < bs_blockNumber (f b)"
  have "row bs_key (balances d') k = map_option (\<lambda>b. if P b then f b else b) (row bs_key (balances d) k)" for k
    using P by (simp add: d' row_update)
  with P show ?thesis by (auto simp: balance_order_def)
qed (auto simp: balance_order_def row_append)

interpretation bo: index_frame balance_order
proof unfold_locales
  fix a b c assume ab: "balance_order a b" and bc: "balance_order b c"
  show "balance_order a c"
    unfolding balance_order_def
  proof (intro allI impI)
    fix k x assume "row bs_key (balances a) k = Some x"
    with ab obtain y where y: "row bs_key (balances b) k = Some y" "bs_id y = bs_id x"
      "y = x \<or> bs_blockNumber x < bs_blockNumber y" unfolding balance_order_def by blast
    with bc obtain z where "row bs_key (balances c) k = Some z" "bs_id z = bs_id y"
      "z = y \<or> bs_blockNumber y < bs_blockNumber z" unfolding balance_order_def by blast
    with y show "\<exists>z. row bs_key (balances c) k = Some z \<and> bs_id z = bs_id x \<and>
        (z = x \<or> bs_blockNumber x < bs_blockNumber z)" by auto
  qed
qed (auto simp: balance_order_def balance_step_order [unfolded balance_order_def])

interpretation bot: transaction_frame balance_order
proof unfold_locales
  fix P f d n d' assume "tx_updateMany P f d = Inr (n, d')"
  then show "balance_order d d'" by (auto simp: tx_updateMany_def Let_def balance_order_def split: if_splits)
next
  fix t d t' d' assume "tx_create t d = Inr (t', d')"
  then show "balance_order d d'" by (auto simp: tx_create_def Let_def balance_order_def split: if_splits)
qed (auto simp: confirmation_commit_def same_index_def balance_order_def)

section \<open>Recording an observation, undisturbed\<close>

text \<open>The snapshot one observation leads to.\<close>

definition observe :: "(int \<times> int) option \<Rightarrow> int \<times> int \<Rightarrow> (int \<times> int) option" where
  "observe s ob = (case s of None \<Rightarrow> Some ob | Some p \<Rightarrow> if snd p < snd ob then Some ob else Some p)"

definition snapshot :: "store \<Rightarrow> string \<Rightarrow> string \<Rightarrow> (int \<times> int) option" where
  "snapshot d wl tk = map_option (\<lambda>b. (bs_balance b, bs_blockNumber b)) (row bs_key (balances d) (wl, tk))"

definition balances_ok :: "store \<Rightarrow> bool" where
  "balances_ok d \<longleftrightarrow> keyed bs_key (balances d) \<and> keyed bs_id (balances d)"

lemma newer_count:
  assumes "keyed bs_key bs"
  shows "count_rows (\<lambda>b. bs_walletId b = wl \<and> bs_tokenId b = tk \<and> bs_blockNumber b < bn) bs =
    (case row bs_key bs (wl, tk) of Some b \<Rightarrow> if bs_blockNumber b < bn then 1 else 0 | None \<Rightarrow> 0)"
  using count_keyed [OF assms, of "(wl, tk)" "\<lambda>b. bs_blockNumber b < bn"]
  by (simp add: bs_key_def conj_assoc)

lemma newer_row:
  "row bs_key (update_rows (\<lambda>b. bs_walletId b = wl \<and> bs_tokenId b = tk \<and> bs_blockNumber b < bn)
      (\<lambda>b. b\<lparr>bs_balance := x, bs_blockNumber := bn\<rparr>) bs) k =
   map_option (\<lambda>b. if bs_walletId b = wl \<and> bs_tokenId b = tk \<and> bs_blockNumber b < bn
      then b\<lparr>bs_balance := x, bs_blockNumber := bn\<rparr> else b) (row bs_key bs k)"
  by (rule row_update) (simp add: bs_key_def)

lemma upsert_quiet:
  assumes q: "quiet e" and ok: "balances_ok (db w)"
    and fresh: "\<And>n. row bs_id (balances (db w)) (env_uuid e n) = None \<or> row bs_key (balances (db w)) (wl, tk) \<noteq> None"
  shows "\<exists>b w'. upsert wl tk x bn e w = (Inr b, w') \<and> bs_key b = (wl, tk) \<and>
    snapshot (db w') wl tk = observe (snapshot (db w) wl tk) (x, bn) \<and>
    Some (bs_balance b, bs_blockNumber b) = snapshot (db w') wl tk \<and> balances_ok (db w')"
proof (cases "row bs_key (balances (db w)) (wl, tk)")
  case None
  with q ok fresh show ?thesis
    by (simp add: upsert_def balance_updateNewer_def balance_create_def eff_simps quiet_simps newer_count
        balances_ok_def Let_def update_rows_none keyed_append_one row_append snapshot_def observe_def bs_key_def)
next
  case (Some b)
  then have key: "bs_walletId b = wl" "bs_tokenId b = tk" by (auto simp: bs_key_def dest!: row_SomeD)
  have un: "is_unique_violation (PrismaKnownRequestError (db_error_code P2002) m)" for m
    by (simp add: is_unique_violation_def)
  show ?thesis
  proof (cases "bs_blockNumber b < bn")
    case True
    with q ok Some key show ?thesis
      by (simp add: upsert_def balance_updateNewer_def balance_findOrThrow_def eff_simps quiet_simps newer_count
        balances_ok_def Let_def snapshot_def observe_def newer_row)
       (simp add: bs_key_def)
  next
    case False
    then have "count_rows (\<lambda>b. bs_walletId b = wl \<and> bs_tokenId b = tk \<and> bs_blockNumber b < bn) (balances (db w)) = 0"
      using ok Some by (simp add: newer_count balances_ok_def)
    with False q ok Some key un show ?thesis
      by (simp add: upsert_def balance_updateNewer_def balance_create_def balance_findOrThrow_def eff_simps
          quiet_simps balances_ok_def Let_def update_rows_none snapshot_def observe_def bs_key_def)
  qed
qed

text \<open>A series of observations of one balance.\<close>

definition record_all :: "string \<Rightarrow> string \<Rightarrow> (int \<times> int) list \<Rightarrow> unit eff" where
  "record_all wl tk obs = forE obs (\<lambda>(x, bn). bindE (updateBalance wl tk x bn) (\<lambda>_. returnE ()))"

lemma record_all_quiet:
  assumes q: "quiet e" and "balances_ok (db w)"
    and "\<And>n. row bs_id (balances (db w)) (env_uuid e n) = None \<or> row bs_key (balances (db w)) (wl, tk) \<noteq> None"
  shows "\<exists>w'. record_all wl tk obs e w = (Inr (), w') \<and>
    snapshot (db w') wl tk = fold (\<lambda>ob s. observe s ob) obs (snapshot (db w) wl tk)"
  using assms(2,3)
proof (induction obs arbitrary: w)
  case Nil
  then show ?case by (simp add: record_all_def returnE_def)
next
  case (Cons ob obs)
  obtain x bn where ob: "ob = (x, bn)" by fastforce
  from upsert_quiet [OF q Cons.prems, of x bn] obtain b w1 where
    u: "upsert wl tk x bn e w = (Inr b, w1)" and b: "snapshot (db w1) wl tk = observe (snapshot (db w) wl tk) (x, bn)"
    "Some (bs_balance b, bs_blockNumber b) = snapshot (db w1) wl tk" "balances_ok (db w1)" by blast
  have "row bs_key (balances (db w1)) (wl, tk) \<noteq> None" using b(2) by (cases "row bs_key (balances (db w1)) (wl, tk)") (simp_all add: snapshot_def)
  with Cons.IH [of w1] b(3) obtain w2 where "record_all wl tk obs e w1 = (Inr (), w2)"
    "snapshot (db w2) wl tk = fold (\<lambda>ob s. observe s ob) obs (snapshot (db w1) wl tk)" by auto
  with u b(1) show ?case by (simp add: ob record_all_def bindE_def returnE_def updateBalance_def)
qed

text \<open>Among observations at different positions the last one on the chain stays.\<close>

lemma fold_observe:
  assumes "distinct (map snd (p # obs))"
  shows "\<exists>r \<in> set (p # obs). fold (\<lambda>ob s. observe s ob) obs (Some p) = Some r \<and> (\<forall>q \<in> set (p # obs). snd q \<le> snd r)"
  using assms
proof (induction obs arbitrary: p)
  case Nil
  then show ?case by simp
next
  case (Cons ob obs)
  define p' where "p' = (if snd p < snd ob then ob else p)"
  have "distinct (map snd (p' # obs))" using Cons.prems by (simp add: p'_def)
  from Cons.IH [OF this] obtain r where r: "r \<in> set (p' # obs)"
    "fold (\<lambda>ob s. observe s ob) obs (Some p') = Some r" "\<forall>q \<in> set (p' # obs). snd q \<le> snd r" by blast
  have obs1: "observe (Some p) ob = Some p'" by (simp add: observe_def p'_def)
  have "snd p \<le> snd p'" "snd ob \<le> snd p'" by (simp_all add: p'_def)
  with r(3) have "\<forall>q \<in> set (p # ob # obs). snd q \<le> snd r" by auto
  moreover have "r \<in> set (p # ob # obs)" using r(1) by (auto simp: p'_def split: if_splits)
  ultimately show ?case using r(2) by (intro bexI [of _ r]) (simp_all add: obs1)
qed

section \<open>The sweep, undisturbed\<close>

text \<open>The balance reads of the registered adapters answer, with a value or an error.\<close>

definition answering :: "env \<Rightarrow> adapter list \<Rightarrow> bool" where
  "answering e registry \<longleftrightarrow> (\<forall>a \<in> set registry. \<forall>f q. ad_getTokenBalance a = Some f \<longrightarrow> readonly e (f q))"

lemma readonly_with_adapter:
  assumes "\<And>a. a \<in> set registry \<Longrightarrow> readonly e (f a)"
  shows "readonly e (bindE (registry_get registry c) f)"
  using assms
  by (auto simp: readonly_def bindE_def registry_get_def returnE_def throwE_def find_Some_iff split: option.splits)

lemma readonly_reconcile:
  assumes "quiet e" "answering e registry"
  shows "readonly e (reconcile evm registry rq)"
  unfolding reconcile_def balance_find_def Let_def
  using assms by (auto intro!: readonly_intros readonly_with_adapter
      simp: answering_def walletTokenChainMismatch_def unsupportedChainCapability_def)

lemma checkOne_answers:
  assumes "quiet e" "answering e registry"
  shows "\<exists>r w'. checkOne evm registry v f e w = (Inr r, w') \<and> db w' = db w"
proof (cases f)
  case None
  then show ?thesis by (simp add: checkOne_def returnE_def)
next
  case (Some n)
  have "readonly e (required x)" for x :: "'z option" by (auto simp: required_def intro!: readonly_intros)
  then show ?thesis
    unfolding checkOne_def Some option.case
    by (intro readonly_caught readonly_bind readonly_return readonly_reconcile assms) (auto simp: required_def intro!: readonly_intros)
qed

lemma resolveFrontiers_quiet:
  assumes "quiet e"
  shows "\<exists>c w'. resolveFrontiers is cache e w = (Inr c, w') \<and> db w' = db w"
proof (induction "is" arbitrary: cache w)
  case (Cons i "is")
  have "\<exists>c w'. resolveFrontier i cache e w = (Inr c, w') \<and> db w' = db w"
    using assms by (simp add: resolveFrontier_def findByTokenId_def eff_simps quiet_simps)
  then obtain c w1 where "resolveFrontier i cache e w = (Inr c, w1)" "db w1 = db w" by blast
  with Cons.IH [of c w1] show ?case by (simp add: bindE_def)
qed (simp add: returnE_def)

lemma mapE_answers:
  assumes "\<And>x w. \<exists>r w'. f x e w = (Inr r, w') \<and> db w' = db w"
  shows "\<exists>rs w'. mapE f xs e w = (Inr rs, w') \<and> db w' = db w \<and> length rs = length xs"
proof (induction xs arbitrary: w)
  case (Cons x xs)
  obtain r w1 where 1: "f x e w = (Inr r, w1)" "db w1 = db w" using assms by blast
  obtain rs w2 where 2: "mapE f xs e w1 = (Inr rs, w2)" "db w2 = db w1" "length rs = length xs" using Cons by blast
  show ?case by (rule exI [of _ "r # rs"], rule exI [of _ w2]) (simp add: 1 2 eff_simps)
qed (simp add: returnE_def)

definition tally_all :: "(snapshot_view \<times> check_result) list \<Rightarrow> sweep_summary \<Rightarrow> sweep_summary" where
  "tally_all vrs s = fold (\<lambda>(v, r) s. tally s (chain_of v) r) vrs s"

lemma tally_all_append [simp]: "tally_all (xs @ ys) s = tally_all ys (tally_all xs s)"
  by (simp add: tally_all_def)

lemma tally_all_checked: "sw_checked (tally_all vrs s) = sw_checked s + length vrs"
  by (induction vrs arbitrary: s) (auto simp: tally_all_def tally_def Let_def)

lemma sweep_batches_quiet:
  assumes "quiet e" "answering e registry"
  shows "\<exists>c rs w'. sweep_batches evm registry bs cache s e w = (Inr (c, tally_all (zip (concat bs) rs) s), w') \<and>
    db w' = db w \<and> length rs = length (concat bs)"
proof (induction bs arbitrary: cache s w)
  case Nil
  then show ?case by (simp add: returnE_def tally_all_def)
next
  case (Cons b bs)
  obtain c w1 where 1: "resolveFrontiers (remdups (map (\<lambda>v. bs_tokenId (sv_row v)) b)) cache e w = (Inr c, w1)" "db w1 = db w"
    using resolveFrontiers_quiet [OF assms(1)] by blast
  obtain rs w2 where 2: "mapE (\<lambda>v. checkOne evm registry v (case c (bs_tokenId (sv_row v)) of None \<Rightarrow> None | Some f \<Rightarrow> f)) b e w1
      = (Inr rs, w2)" "db w2 = db w1" "length rs = length b"
    using mapE_answers [of "\<lambda>v. checkOne evm registry v (case c (bs_tokenId (sv_row v)) of None \<Rightarrow> None | Some f \<Rightarrow> f)" e b w1]
      checkOne_answers [OF assms] by blast
  obtain c' rs' w3 where 3: "sweep_batches evm registry bs c (tally_all (zip b rs) s) e w2 =
      (Inr (c', tally_all (zip (concat bs) rs') (tally_all (zip b rs) s)), w3)" "db w3 = db w2" "length rs' = length (concat bs)"
    using Cons.IH by blast
  show ?case
    by (rule exI [of _ c'], rule exI [of _ "rs @ rs'"], rule exI [of _ w3])
      (simp add: bindE_def 1 2 3 zip_append tally_all_def [symmetric])
qed

lemma concat_slices: "length xs \<le> n \<Longrightarrow> 0 < k \<Longrightarrow> concat (slices n k xs) = xs"
proof (induction n arbitrary: xs)
  case (Suc n)
  then have "length (drop k xs) \<le> n" by simp
  with Suc show ?case by simp
qed simp

lemma rows_after_nth:
  assumes "distinct (map bs_id L)" "0 < n" "n \<le> length L" "bs_id (L ! (n - 1)) \<noteq> []"
  shows "rows_after (Some (bs_id (L ! (n - 1)))) L = drop n L"
proof -
  obtain m where m: "n = Suc m" "m < length L" using assms by (cases n) auto
  let ?i = "bs_id (L ! m)"
  have "bs_id y \<noteq> ?i" if "y \<in> set (take m L)" for y
    using that assms(1) m(2) by (auto simp: in_set_conv_nth distinct_conv_nth)
  then have "dropWhile (\<lambda>b. bs_id b \<noteq> ?i) (take m L @ drop m L) = dropWhile (\<lambda>b. bs_id b \<noteq> ?i) (drop m L)"
    by (intro dropWhile_append2) auto
  then have "dropWhile (\<lambda>b. bs_id b \<noteq> ?i) L = dropWhile (\<lambda>b. bs_id b \<noteq> ?i) (drop m L)"
    by (simp only: append_take_drop_id)
  moreover have "drop m L = L ! m # drop (Suc m) L" using m(2) by (simp add: Cons_nth_drop_Suc)
  ultimately have "dropWhile (\<lambda>b. bs_id b \<noteq> ?i) L = L ! m # drop (Suc m) L"
    by simp
  with assms(4) m show ?thesis by (simp add: rows_after_def)
qed

text \<open>The page after the first \<open>n\<close> snapshots, and the results of two pages together.\<close>

lemma page_quiet:
  assumes q: "quiet e"
    and ids: "distinct (map bs_id (order_asc bs_id (balances (db w))))" "\<forall>b \<in> set (balances (db w)). bs_id b \<noteq> []"
    and n: "n \<le> length (balances (db w))"
    and afterId: "afterId = (if n = 0 then None else Some (bs_id (order_asc bs_id (balances (db w)) ! (n - 1))))"
  shows "findPageForReconciliation afterId psize e w =
    (Inr (map (snapshot_view_of (db w)) (take psize (drop n (order_asc bs_id (balances (db w)))))), w\<lparr>calls := Suc (calls w)\<rparr>)"
proof -
  let ?L = "order_asc bs_id (balances (db w))"
  have len: "length ?L = length (balances (db w))" by (simp add: order_asc_def)
  have "rows_after afterId ?L = drop n ?L"
  proof (cases "n = 0")
    case True
    with afterId show ?thesis by (simp add: rows_after_def)
  next
    case False
    with n have "?L ! (n - 1) \<in> set (balances (db w))" using len nth_mem [of "n - 1" ?L] by simp
    with False n ids afterId show ?thesis using len rows_after_nth [of ?L n] by simp
  qed
  then show ?thesis using q by (simp add: findPageForReconciliation_def query_quiet)
qed

lemma zip_pages:
  assumes "length rs = length (take k (drop n xs))"
  shows "zip (map f (drop n xs)) (rs @ rs') = zip (map f (take k (drop n xs))) rs @ zip (map f (drop (n + k) xs)) rs'"
proof -
  have "drop n xs = take k (drop n xs) @ drop (n + k) xs" by (metis append_take_drop_id drop_drop add.commute)
  then show ?thesis using assms by (metis (no_types, lifting) length_map map_append zip_append)
qed

lemma sweep_loop_quiet:
  assumes q: "quiet e" "answering e registry" and pos: "0 < psize" "0 < conc"
    and ids: "distinct (map bs_id (order_asc bs_id (balances (db w))))" "\<forall>b \<in> set (balances (db w)). bs_id b \<noteq> []"
    and n: "n \<le> length (balances (db w))" "length (balances (db w)) - n < fuel"
    and afterId: "afterId = (if n = 0 then None else Some (bs_id (order_asc bs_id (balances (db w)) ! (n - 1))))"
  shows "\<exists>rs w'. sweep_loop fuel evm registry psize conc afterId cache s e w =
      (Inr (Some (tally_all (zip (map (snapshot_view_of (db w)) (drop n (order_asc bs_id (balances (db w))))) rs) s)), w') \<and>
    db w' = db w \<and> length rs = length (balances (db w)) - n"
  using ids n afterId
proof (induction fuel arbitrary: n afterId cache s w)
  case (Suc fuel)
  let ?L = "order_asc bs_id (balances (db w))" and ?v = "snapshot_view_of (db w)"
  let ?page = "map ?v (take psize (drop n ?L))" and ?w = "w\<lparr>calls := Suc (calls w)\<rparr>" and ?m = "n + psize"
  have len: "length ?L = length (balances (db w))" by (simp add: order_asc_def)
  have page: "findPageForReconciliation afterId psize e w = (Inr ?page, ?w)"
    using Suc.prems by (intro page_quiet [OF q(1)])
  obtain c rs w1 where b: "sweep_batches evm registry (slices (length ?page) conc ?page) cache s e ?w =
      (Inr (c, tally_all (zip ?page rs) s), w1)" "db w1 = db w" "length rs = length ?page"
    using sweep_batches_quiet [OF q, of evm "slices (length ?page) conc ?page" cache s ?w]
      concat_slices [OF order_refl pos(2), of ?page] by auto
  consider (none) "?page = []" | (part) "?page \<noteq> []" "length ?page < psize" | (full) "?page \<noteq> []" "\<not> length ?page < psize" by blast
  then show ?case
  proof cases
    case none
    with pos(1) have "n = length (balances (db w))" using Suc.prems(3) len by auto
    with none page show ?thesis by (simp add: bindE_def returnE_def tally_all_def len)
  next
    case part
    then have "take psize (drop n ?L) = drop n ?L" by simp
    with page b part show ?thesis by (intro exI [of _ rs] exI [of _ w1]) (simp add: bindE_def returnE_def len)
  next
    case full
    have m: "?m \<le> length ?L" using full(2) pos(1) by (simp add: min_def split: if_splits)
    then have fl: "length (balances (db w)) - ?m < fuel" using Suc.prems(4) pos(1) len by linarith
    have lastp: "bs_id (sv_row (last ?page)) = bs_id (?L ! (?m - 1))"
      using full(1) m pos(1) by (simp add: last_map last_conv_nth snapshot_view_of_def)
    obtain rs' w2 where r: "sweep_loop fuel evm registry psize conc (Some (bs_id (?L ! (?m - 1)))) c (tally_all (zip ?page rs) s) e w1
        = (Inr (Some (tally_all (zip (map ?v (drop ?m ?L)) rs') (tally_all (zip ?page rs) s))), w2)"
      "db w2 = db w" "length rs' = length (balances (db w)) - ?m"
      using Suc.IH [of w1 ?m "Some (bs_id (?L ! (?m - 1)))" c "tally_all (zip ?page rs) s"] Suc.prems pos(1) m len b(2) fl by auto
    have "zip (map ?v (drop n ?L)) (rs @ rs') = zip ?page rs @ zip (map ?v (drop ?m ?L)) rs'"
      using b(3) by (intro zip_pages) simp
    with page b full r lastp m len show ?thesis
      by (intro exI [of _ "rs @ rs'"] exI [of _ w2]) (auto simp: bindE_def returnE_def)
  qed
qed simp

lemma publish_quiet: "\<exists>w'. publish s e w = (Inr (), w') \<and> db w' = db w"
  by (simp add: publish_def eff_simps setGauge_def incrementMetric_def getNow_def Let_def)

section \<open>Properties\<close>



end
