(* ===== verification/Http.thy ===== *)
theory Http
  imports Gatekeeping Balances
begin

text \<open>
  The HTTP layer below the routes: \<^verbatim>\<open>api/middleware/auth.middleware.ts\<close>,
  \<^verbatim>\<open>api/middleware/role.middleware.ts\<close>, \<^verbatim>\<open>api/error-handler.ts\<close>, \<^verbatim>\<open>api/utils/response.ts\<close>,
  \<^verbatim>\<open>utils/serialize.ts\<close> and the schemas of \<^verbatim>\<open>validators/*.ts\<close>. Fastify runs the validation of
  a route's schema, then its pre-handlers, then its handler, and gives every error to the
  error handler. Zod's tests of e-mail addresses and UUIDs are parameters.
\<close>

section \<open>Values that may hold a bigint\<close>

datatype js = JsNull | JsBool bool | JsNum int | JsStr string | JsBig int | JsArr "js list" | JsObj "(string \<times> js) list"

text \<open>What \<^verbatim>\<open>JSON.stringify\<close> makes of a value; a bigint makes it throw.\<close>

fun to_json :: "js \<Rightarrow> json option"
  and to_json_list :: "js list \<Rightarrow> json list option"
  and to_json_members :: "(string \<times> js) list \<Rightarrow> (string \<times> json) list option" where
  "to_json JsNull = Some JNull"
| "to_json (JsBool b) = Some (JBool b)"
| "to_json (JsNum i) = Some (JNum i)"
| "to_json (JsStr s) = Some (JStr s)"
| "to_json (JsBig i) = None"
| "to_json (JsArr vs) = map_option JArr (to_json_list vs)"
| "to_json (JsObj ms) = map_option JObj (to_json_members ms)"
| "to_json_list [] = Some []"
| "to_json_list (v # vs) = (case to_json v of None \<Rightarrow> None | Some j \<Rightarrow> map_option (\<lambda>js. j # js) (to_json_list vs))"
| "to_json_members [] = Some []"
| "to_json_members ((k, v) # ms) = (case to_json v of None \<Rightarrow> None | Some j \<Rightarrow> map_option (\<lambda>js. (k, j) # js) (to_json_members ms))"

fun serializeBigInt :: "js \<Rightarrow> js"
  and serialize_list :: "js list \<Rightarrow> js list"
  and serialize_members :: "(string \<times> js) list \<Rightarrow> (string \<times> js) list" where
  "serializeBigInt (JsBig i) = JsStr (show_int i)"
| "serializeBigInt (JsArr vs) = JsArr (serialize_list vs)"
| "serializeBigInt (JsObj ms) = JsObj (serialize_members ms)"
| "serializeBigInt v = v"
| "serialize_list [] = []"
| "serialize_list (v # vs) = serializeBigInt v # serialize_list vs"
| "serialize_members [] = []"
| "serialize_members ((k, v) # ms) = (k, serializeBigInt v) # serialize_members ms"

section \<open>Requests and replies\<close>

record auth_user =
  au_id :: string
  au_email :: string
  au_role :: role
  au_tenantId :: string

text \<open>\<^verbatim>\<open>page\<close> and \<^verbatim>\<open>limit\<close> are the numbers of the query string.\<close>

record http_request =
  hr_id :: string
  hr_authorization :: "string option"
  hr_tenantKey :: "string option"
  hr_params :: "string \<Rightarrow> string"
  hr_page :: "int option"
  hr_limit :: "int option"
  hr_blockNumber :: "string option"
  hr_body :: json

record http_reply =
  rp_status :: int
  rp_body :: json

text \<open>\<^verbatim>\<open>reply.code(status).send(payload)\<close>.\<close>

definition send :: "int \<Rightarrow> js \<Rightarrow> http_reply eff" where
  "send status payload =
     (case to_json payload of
        None \<Rightarrow> throwE (PlainError ''Do not know how to serialize a BigInt'')
      | Some body \<Rightarrow> returnE \<lparr> rp_status = status, rp_body = body \<rparr>)"

definition successResponse :: "http_request \<Rightarrow> js \<Rightarrow> int \<Rightarrow> http_reply eff" where
  "successResponse rq payload status = send status (JsObj [(''data'', payload), (''requestId'', JsStr (hr_id rq))])"

definition refused :: "http_request \<Rightarrow> int \<Rightarrow> string \<Rightarrow> http_reply" where
  "refused rq status message = \<lparr> rp_status = status, rp_body = JObj [(''error'', JStr message), (''requestId'', JStr (hr_id rq))] \<rparr>"

section \<open>Middleware\<close>

text \<open>A pre-handler replies, which ends the request, or lets it go on.\<close>

definition authenticate :: "crypto_lib \<Rightarrow> http_request \<Rightarrow> (http_reply + auth_user) eff" where
  "authenticate c rq =
     (case hr_authorization rq of
        None \<Rightarrow> returnE (Inl (refused rq 401 ''Missing Authorization header''))
      | Some authorization \<Rightarrow>
          if authorization = [] then returnE (Inl (refused rq 401 ''Missing Authorization header''))
          else (let parts = split_at_char (CHR '' '') authorization; scheme = hd parts; token = (if length parts > 1 then parts ! 1 else []) in
            if scheme \<noteq> ''Bearer'' \<or> token = [] then returnE (Inl (refused rq 401 ''Invalid Authorization header''))
            else catchE
              (bindE (verifyToken c token) (\<lambda>payload.
               returnE (Inr \<lparr> au_id = jp_id payload, au_email = jp_email payload, au_role = jp_role payload, au_tenantId = jp_tenantId payload \<rparr>)))
              (\<lambda>_. returnE (Inl (refused rq 401 ''Invalid or expired token'')))))"

definition authorize :: "role list \<Rightarrow> http_request \<Rightarrow> auth_user option \<Rightarrow> http_reply option" where
  "authorize allowedRoles rq u =
     (case u of
        None \<Rightarrow> Some (refused rq 401 ''Unauthorized'')
      | Some x \<Rightarrow> if au_role x \<in> set allowedRoles then None else Some (refused rq 403 ''Forbidden''))"

text \<open>A route with its pre-handlers \<^verbatim>\<open>[authenticate, authorize(roles)]\<close>; without roles only the first.\<close>

definition protected_route :: "crypto_lib \<Rightarrow> role list option \<Rightarrow> http_request \<Rightarrow> (auth_user \<Rightarrow> http_reply eff) \<Rightarrow> http_reply eff" where
  "protected_route c roles rq handler =
     bindE (authenticate c rq) (\<lambda>answer.
     case answer of
       Inl reply \<Rightarrow> returnE reply
     | Inr u \<Rightarrow>
         (case (case roles of None \<Rightarrow> None | Some rs \<Rightarrow> authorize rs rq (Some u)) of
            Some reply \<Rightarrow> returnE reply
          | None \<Rightarrow> handler u))"

section \<open>The error handler\<close>

definition error_reply :: "http_request \<Rightarrow> int \<Rightarrow> int \<Rightarrow> string \<Rightarrow> string \<Rightarrow> (string \<times> string) list \<Rightarrow> http_reply" where
  "error_reply rq now status code message details =
     \<lparr> rp_status = status, rp_body = JObj [(''error'', JObj ([(''code'', JStr code), (''message'', JStr message)] @
         (if details = [] then [] else [(''details'', JObj (map (\<lambda>(k, v). (k, JStr v)) details))]))),
       (''requestId'', JStr (hr_id rq)), (''timestamp'', JStr (toISOString now))] \<rparr>"

text \<open>
  The details of a validation or database error are the library's own description of it and
  are left out.
\<close>

definition error_handler :: "http_request \<Rightarrow> exn \<Rightarrow> http_reply eff" where
  "error_handler rq error =
     (case error of
        ZodError m \<Rightarrow> returnE \<lparr> rp_status = 400, rp_body = JObj [(''error'', JObj [(''code'', JStr ''VALIDATION_ERROR''),
            (''message'', JStr ''Invalid request payload'')]), (''requestId'', JStr (hr_id rq))] \<rparr>
      | FastifyValidationError m \<Rightarrow> bindE getNow (\<lambda>now. returnE (error_reply rq now 400 ''VALIDATION_ERROR'' ''Request validation failed'' []))
      | AppError status code message details \<Rightarrow> bindE getNow (\<lambda>now. returnE (error_reply rq now status code message details))
      | PrismaKnownRequestError code m \<Rightarrow> bindE getNow (\<lambda>now. returnE (
          if code = ''P2002'' then error_reply rq now 409 ''RESOURCE_ALREADY_EXISTS'' ''Resource already exists'' []
          else if code = ''P2025'' then error_reply rq now 404 ''RESOURCE_NOT_FOUND'' ''Resource not found'' []
          else if code = ''P2003'' then error_reply rq now 400 ''INVALID_REFERENCE'' ''Invalid resource reference'' []
          else error_reply rq now 500 ''DATABASE_ERROR'' ''Database operation failed'' []))
      | _ \<Rightarrow> bindE getNow (\<lambda>now. returnE (error_reply rq now 500 ''INTERNAL_SERVER_ERROR'' ''Unexpected error'' [])))"

definition handled :: "http_request \<Rightarrow> http_reply eff \<Rightarrow> http_reply eff" where
  "handled rq handler = catchE handler (error_handler rq)"

section \<open>Schemas\<close>

record zod_lib =
  zl_uuid :: "string \<Rightarrow> bool"
  zl_email :: "string \<Rightarrow> bool"
  zl_date :: "json \<Rightarrow> int option"

definition zod_fail :: "exn + 'a" where
  "zod_fail = Inl (ZodError ''invalid'')"

definition z_string :: "(string \<Rightarrow> bool) \<Rightarrow> json option \<Rightarrow> exn + string" where
  "z_string P v = (case v of Some (JStr s) \<Rightarrow> if P s then Inr s else zod_fail | _ \<Rightarrow> zod_fail)"

definition z_optional :: "(json option \<Rightarrow> exn + 'a) \<Rightarrow> json option \<Rightarrow> exn + 'a option" where
  "z_optional p v = (case v of None \<Rightarrow> Inr None | Some x \<Rightarrow> map_sum id Some (p (Some x)))"

definition z_int :: "(int \<Rightarrow> bool) \<Rightarrow> json option \<Rightarrow> exn + int" where
  "z_int P v = (case v of Some (JNum i) \<Rightarrow> if P i then Inr i else zod_fail | _ \<Rightarrow> zod_fail)"

definition z_object :: "json \<Rightarrow> (json \<Rightarrow> exn + 'a) \<Rightarrow> exn + 'a" where
  "z_object v p = (case v of JObj ms \<Rightarrow> p v | _ \<Rightarrow> zod_fail)"

definition sum_bind :: "exn + 'a \<Rightarrow> ('a \<Rightarrow> exn + 'b) \<Rightarrow> exn + 'b" where
  "sum_bind r f = (case r of Inl x \<Rightarrow> Inl x | Inr a \<Rightarrow> f a)"

definition min_length :: "nat \<Rightarrow> string \<Rightarrow> bool" where
  "min_length n s = (n \<le> length s)"

definition createTenantSchema :: "json \<Rightarrow> exn + string" where
  "createTenantSchema v = z_object v (\<lambda>b. z_string (min_length 3) (json_member b ''name''))"

text \<open>\<^verbatim>\<open>registerSchema\<close> and \<^verbatim>\<open>loginSchema\<close> are the same.\<close>

definition loginSchema :: "zod_lib \<Rightarrow> json \<Rightarrow> exn + string \<times> string" where
  "loginSchema z v = z_object v (\<lambda>b.
     sum_bind (z_string (zl_email z) (json_member b ''email'')) (\<lambda>email.
     sum_bind (z_string (min_length 8) (json_member b ''password'')) (\<lambda>password. Inr (email, password))))"

definition refreshSchema :: "json \<Rightarrow> exn + string" where
  "refreshSchema v = z_object v (\<lambda>b. z_string (min_length 1) (json_member b ''refreshToken''))"

record api_key_input =
  ai_name :: string
  ai_scopes :: "string list option"
  ai_expiresAt :: "int option"

fun z_strings :: "json list \<Rightarrow> exn + string list" where
  "z_strings [] = Inr []"
| "z_strings (v # vs) = sum_bind (z_string (\<lambda>_. True) (Some v)) (\<lambda>s. sum_bind (z_strings vs) (\<lambda>ss. Inr (s # ss)))"

definition createApiKeySchema :: "zod_lib \<Rightarrow> json \<Rightarrow> exn + api_key_input" where
  "createApiKeySchema z v = z_object v (\<lambda>b.
     sum_bind (z_string (\<lambda>s. 1 \<le> length s \<and> length s \<le> 100) (json_member b ''name'')) (\<lambda>name.
     sum_bind (z_optional (\<lambda>x. case x of Some (JArr vs) \<Rightarrow> z_strings vs | _ \<Rightarrow> zod_fail) (json_member b ''scopes'')) (\<lambda>scopes.
     sum_bind (z_optional (\<lambda>x. case x of Some d \<Rightarrow> (case zl_date z d of None \<Rightarrow> zod_fail | Some t \<Rightarrow> Inr t) | None \<Rightarrow> zod_fail)
       (json_member b ''expiresAt'')) (\<lambda>expiresAt.
     Inr \<lparr> ai_name = name, ai_scopes = scopes, ai_expiresAt = expiresAt \<rparr>))))"

text \<open>The schemas of a path parameter \<^verbatim>\<open>id\<close>.\<close>

definition uuidParam :: "zod_lib \<Rightarrow> string \<Rightarrow> exn + string" where
  "uuidParam z s = (if zl_uuid z s then Inr s else zod_fail)"

record wallet_input =
  wi_chainId :: int
  wi_address :: string
  wi_challenge :: "string option"
  wi_signature :: "string option"

definition createWalletSchema :: "json \<Rightarrow> exn + wallet_input" where
  "createWalletSchema v = z_object v (\<lambda>b.
     sum_bind (z_int (\<lambda>_. True) (json_member b ''chainId'')) (\<lambda>chainId.
     sum_bind (z_string (\<lambda>_. True) (json_member b ''address'')) (\<lambda>address.
     sum_bind (z_optional (z_string (min_length 1)) (json_member b ''challenge'')) (\<lambda>challenge.
     sum_bind (z_optional (z_string (min_length 1)) (json_member b ''signature'')) (\<lambda>signature.
     if (challenge = None) = (signature = None)
     then Inr \<lparr> wi_chainId = chainId, wi_address = address, wi_challenge = challenge, wi_signature = signature \<rparr> else zod_fail)))))"

definition walletChallengeSchema :: "json \<Rightarrow> exn + int \<times> string" where
  "walletChallengeSchema v = z_object v (\<lambda>b.
     sum_bind (z_int (\<lambda>_. True) (json_member b ''chainId'')) (\<lambda>chainId.
     sum_bind (z_string (\<lambda>_. True) (json_member b ''address'')) (\<lambda>address. Inr (chainId, address))))"

definition createCustodialWalletSchema :: "json \<Rightarrow> exn + int" where
  "createCustodialWalletSchema v = z_object v (\<lambda>b. z_int (\<lambda>_. True) (json_member b ''chainId''))"

record token_input =
  ti_name :: string
  ti_symbol :: string
  ti_contractAddress :: "string option"
  ti_decimals :: int
  ti_blockchain :: blockchain

definition blockchain_of_name :: "string \<Rightarrow> blockchain option" where
  "blockchain_of_name s = List.find (\<lambda>b. blockchain_name b = s) [EVM, BITCOIN, SOLANA]"

definition registerTokenSchema :: "zod_lib \<Rightarrow> json \<Rightarrow> exn + token_input" where
  "registerTokenSchema z v = z_object v (\<lambda>b.
     sum_bind (z_string (zl_uuid z) (json_member b ''tokenId'')) (\<lambda>tokenId.
     sum_bind (z_string (min_length 1) (json_member b ''name'')) (\<lambda>name.
     sum_bind (z_string (min_length 1) (json_member b ''symbol'')) (\<lambda>symbol.
     sum_bind (z_optional (z_string (min_length 1)) (json_member b ''contractAddress'')) (\<lambda>contractAddress.
     sum_bind (z_optional (z_int (\<lambda>i. i > 0)) (json_member b ''decimals'')) (\<lambda>decimals.
     sum_bind (z_optional (\<lambda>x. case x of Some (JStr s) \<Rightarrow> (case blockchain_of_name s of None \<Rightarrow> zod_fail | Some c \<Rightarrow> Inr c) | _ \<Rightarrow> zod_fail)
       (json_member b ''blockchain'')) (\<lambda>chain.
     Inr \<lparr> ti_name = name, ti_symbol = symbol, ti_contractAddress = contractAddress,
       ti_decimals = (case decimals of None \<Rightarrow> 6 | Some n \<Rightarrow> n), ti_blockchain = (case chain of None \<Rightarrow> EVM | Some c \<Rightarrow> c) \<rparr>)))))))"

text \<open>\<^verbatim>\<open>BigInt(text)\<close>: white space around, a sign before decimal digits, or a prefix and digits of its base.\<close>

definition digit_value :: "char \<Rightarrow> nat option" where
  "digit_value c = (let n = (of_char c :: nat) in
     if 48 \<le> n \<and> n \<le> 57 then Some (n - 48) else if 97 \<le> n \<and> n \<le> 102 then Some (n - 87)
     else if 65 \<le> n \<and> n \<le> 70 then Some (n - 55) else None)"

definition in_base :: "nat \<Rightarrow> string \<Rightarrow> int option" where
  "in_base k s = (if s \<noteq> [] \<and> list_all (\<lambda>c. case digit_value c of None \<Rightarrow> False | Some n \<Rightarrow> n < k) s
     then Some (foldl (\<lambda>a c. int k * a + int (the (digit_value c))) 0 s) else None)"

definition BigInt_of_string :: "string \<Rightarrow> int option" where
  "BigInt_of_string s =
     (case trim s of
        [] \<Rightarrow> Some 0
      | c # r \<Rightarrow>
          if c = CHR ''-'' then map_option uminus (in_base 10 r)
          else if c = CHR ''+'' then in_base 10 r
          else if c = CHR ''0'' \<and> r \<noteq> [] \<and> hd r \<in> {CHR ''x'', CHR ''X''} then in_base 16 (tl r)
          else if c = CHR ''0'' \<and> r \<noteq> [] \<and> hd r \<in> {CHR ''o'', CHR ''O''} then in_base 8 (tl r)
          else if c = CHR ''0'' \<and> r \<noteq> [] \<and> hd r \<in> {CHR ''b'', CHR ''B''} then in_base 2 (tl r)
          else in_base 10 (c # r))"

definition mintTokenSchema :: "json \<Rightarrow> exn + string \<times> int" where
  "mintTokenSchema v = z_object v (\<lambda>b.
     sum_bind (z_string (min_length 1) (json_member b ''receiver'')) (\<lambda>receiver.
     sum_bind (z_string (\<lambda>s. case BigInt_of_string s of None \<Rightarrow> False | Some i \<Rightarrow> i > 0) (json_member b ''amount'')) (\<lambda>amount.
     Inr (receiver, the (BigInt_of_string amount)))))"

definition reconcileTokenBalanceQuerySchema :: "string option \<Rightarrow> exn + int option" where
  "reconcileTokenBalanceQuerySchema v =
     (case v of None \<Rightarrow> Inr None
      | Some s \<Rightarrow> if s \<noteq> [] \<and> list_all is_digit s then Inr (Some (digits_value s)) else zod_fail)"

record transfer_input =
  fi_tokenId :: string
  fi_fromWalletId :: string
  fi_toWalletId :: string
  fi_amount :: int

definition transferSchema :: "zod_lib \<Rightarrow> json \<Rightarrow> exn + transfer_input" where
  "transferSchema z v = z_object v (\<lambda>b.
     sum_bind (z_string (zl_uuid z) (json_member b ''tokenId'')) (\<lambda>tokenId.
     sum_bind (z_string (zl_uuid z) (json_member b ''fromWalletId'')) (\<lambda>fromWalletId.
     sum_bind (z_string (zl_uuid z) (json_member b ''toWalletId'')) (\<lambda>toWalletId.
     sum_bind (z_string (\<lambda>s. s \<noteq> [] \<and> list_all is_digit s \<and> digits_value s > 0) (json_member b ''amount'')) (\<lambda>amount.
     Inr \<lparr> fi_tokenId = tokenId, fi_fromWalletId = fromWalletId, fi_toWalletId = toWalletId, fi_amount = digits_value amount \<rparr>)))))"

text \<open>A schema given to the route is checked by Fastify, before the pre-handlers.\<close>

definition validated :: "exn + 'a \<Rightarrow> http_reply eff \<Rightarrow> http_reply eff" where
  "validated parsed rest = (case parsed of Inl x \<Rightarrow> throwE (FastifyValidationError (exn_message x)) | Inr _ \<Rightarrow> rest)"

end
