(* ===== verification/Routes.thy ===== *)
theory Routes
  imports Http
begin

text \<open>
  The routes of \<^verbatim>\<open>api/routes/*.ts\<close>, each with its schema, its pre-handlers and its handler, and
  the rows as they are sent. \<open>respond\<close> is the reply to a request: the route under the error
  handler.
\<close>

section \<open>Configuration\<close>

record api_platform =
  ap_crypto :: crypto_lib
  ap_zod :: zod_lib
  ap_lifetimes :: token_lifetimes
  ap_jwtSecret :: string
  ap_vars :: "string \<Rightarrow> string option"
  ap_evm :: int
  ap_registry :: "adapter list"
  ap_isEvmAddress :: "string \<Rightarrow> bool"
  ap_publicKey :: "string \<Rightarrow> exn + bool"
  ap_kmsKeyId :: "exn + string"
  ap_encrypt :: "nat \<Rightarrow> string \<Rightarrow> string \<Rightarrow> exn + string"

section \<open>Rows as they are sent\<close>

primrec role_name :: "role \<Rightarrow> string" where
  "role_name ADMIN = ''ADMIN''"
| "role_name USER = ''USER''"
| "role_name SERVICE = ''SERVICE''"

primrec custody_name :: "custody_type \<Rightarrow> string" where
  "custody_name CUSTODIAL = ''CUSTODIAL''"
| "custody_name EXTERNAL = ''EXTERNAL''"
| "custody_name LOCAL = ''LOCAL''"
| "custody_name KMS = ''KMS''"

primrec wallet_status_name :: "wallet_status \<Rightarrow> string" where
  "wallet_status_name ACTIVE = ''ACTIVE''"
| "wallet_status_name SUSPENDED = ''SUSPENDED''"

definition js_opt :: "('a \<Rightarrow> js) \<Rightarrow> 'a option \<Rightarrow> js" where
  "js_opt f x = (case x of None \<Rightarrow> JsNull | Some a \<Rightarrow> f a)"

definition js_date :: "int \<Rightarrow> js" where
  "js_date t = JsStr (toISOString t)"

definition wallet_js :: "wallet \<Rightarrow> js" where
  "wallet_js x = JsObj [(''id'', JsStr (wa_id x)), (''tenantId'', JsStr (wa_tenantId x)), (''ownerId'', JsStr (wa_ownerId x)),
     (''chainId'', JsNum (wa_chainId x)), (''address'', JsStr (wa_address x)), (''custodyType'', JsStr (custody_name (wa_custodyType x))),
     (''status'', JsStr (wallet_status_name (wa_status x))), (''createdAt'', js_date (wa_createdAt x))]"

definition token_js :: "token \<Rightarrow> js" where
  "token_js x = JsObj [(''id'', JsStr (tk_id x)), (''name'', JsStr (tk_name x)), (''symbol'', JsStr (tk_symbol x)),
     (''contractAddress'', js_opt JsStr (tk_contractAddress x)), (''blockchain'', JsStr (blockchain_name (tk_blockchain x))),
     (''isActive'', JsBool (tk_isActive x)), (''decimals'', JsNum (tk_decimals x)), (''lastProcessedBlock'', JsBig (tk_lastProcessedBlock x)),
     (''createdAt'', js_date (tk_createdAt x))]"

definition snapshot_js :: "balance_snapshot \<Rightarrow> js" where
  "snapshot_js b = JsObj [(''id'', JsStr (bs_id b)), (''walletId'', JsStr (bs_walletId b)), (''tokenId'', JsStr (bs_tokenId b)),
     (''balance'', JsBig (bs_balance b)), (''blockNumber'', JsBig (bs_blockNumber b))]"

definition snapshot_token_js :: "balance_snapshot \<times> token option \<Rightarrow> js" where
  "snapshot_token_js = (\<lambda>(b, t). JsObj [(''id'', JsStr (bs_id b)), (''walletId'', JsStr (bs_walletId b)), (''tokenId'', JsStr (bs_tokenId b)),
     (''balance'', JsBig (bs_balance b)), (''blockNumber'', JsBig (bs_blockNumber b)), (''token'', js_opt token_js t)])"

definition transaction_members :: "transaction \<Rightarrow> (string \<times> js) list" where
  "transaction_members t = [(''id'', JsStr (tx_id t)), (''tenantId'', JsStr (tx_tenantId t)), (''tokenId'', JsStr (tx_tokenId t)),
     (''fromWalletId'', JsStr (tx_fromWalletId t)), (''toWalletId'', JsStr (tx_toWalletId t)), (''txHash'', js_opt JsStr (tx_txHash t)),
     (''amount'', JsBig (tx_amount t)), (''nonce'', js_opt JsBig (tx_nonce t)), (''gasUsed'', js_opt JsBig (tx_gasUsed t)),
     (''blockNumber'', js_opt JsBig (tx_blockNumber t)), (''status'', JsStr (status_name (tx_status t))),
     (''createdAt'', js_date (tx_createdAt t)), (''submittedAt'', js_opt js_date (tx_submittedAt t)),
     (''confirmationStartedAt'', js_opt js_date (tx_confirmationStartedAt t)), (''confirmedAt'', js_opt js_date (tx_confirmedAt t)),
     (''failureReason'', js_opt JsStr (tx_failureReason t)), (''failedAt'', js_opt js_date (tx_failedAt t))]"

definition transaction_js :: "transaction \<Rightarrow> js" where
  "transaction_js t = JsObj (transaction_members t)"

definition transaction_view_js :: "transaction_view \<Rightarrow> js" where
  "transaction_view_js v = JsObj (transaction_members (tv_row v) @ [(''token'', js_opt token_js (tv_token v)),
     (''fromWallet'', js_opt wallet_js (tv_fromWallet v)), (''toWallet'', js_opt wallet_js (tv_toWallet v))])"

section \<open>Tenants, keys, audit log and accounts\<close>

definition post_tenants :: "api_platform \<Rightarrow> http_request \<Rightarrow> http_reply eff" where
  "post_tenants p rq = validated (createTenantSchema (hr_body rq)) (
     bindE (liftE (createTenantSchema (hr_body rq))) (\<lambda>name.
     bindE (createTenant (ap_crypto p) name) (\<lambda>((t, k), apiKey).
     successResponse rq (JsObj [(''tenant'', JsObj [(''id'', JsStr (tn_id t)), (''name'', JsStr (tn_name t)), (''createdAt'', js_date (tn_createdAt t)),
         (''apiKeys'', JsArr [JsObj [(''id'', JsStr (ak_id k)), (''tenantId'', JsStr (ak_tenantId k)), (''keyHash'', JsStr (ak_keyHash k)),
           (''keyPrefix'', JsStr (ak_keyPrefix k)), (''name'', JsStr (ak_name k)), (''active'', JsBool (ak_active k)),
           (''scopes'', JsArr (map JsStr (ak_scopes k))), (''lastUsedAt'', js_opt js_date (ak_lastUsedAt k)),
           (''expiresAt'', js_opt js_date (ak_expiresAt k)), (''createdAt'', js_date (ak_createdAt k)),
           (''revokedAt'', js_opt js_date (ak_revokedAt k))]])]),
       (''apiKey'', JsStr apiKey)]) 201)))"

definition post_api_keys :: "api_platform \<Rightarrow> http_request \<Rightarrow> http_reply eff" where
  "post_api_keys p rq = validated (createApiKeySchema (ap_zod p) (hr_body rq)) (
     protected_route (ap_crypto p) (Some [ADMIN]) rq (\<lambda>u.
     bindE (liftE (createApiKeySchema (ap_zod p) (hr_body rq))) (\<lambda>body.
     bindE (createKey (ap_crypto p) (au_tenantId u) (ai_name body) (ai_scopes body) (ai_expiresAt body)) (\<lambda>k.
     successResponse rq (JsObj [(''id'', JsStr (kc_id k)), (''apiKey'', JsStr (kc_apiKey k)), (''keyPrefix'', JsStr (kc_keyPrefix k)),
       (''name'', JsStr (kc_name k)), (''scopes'', JsArr (map JsStr (kc_scopes k))), (''expiresAt'', js_opt js_date (kc_expiresAt k)),
       (''createdAt'', js_date (kc_createdAt k))]) 201))))"

definition get_api_keys :: "api_platform \<Rightarrow> http_request \<Rightarrow> http_reply eff" where
  "get_api_keys p rq = protected_route (ap_crypto p) (Some [ADMIN]) rq (\<lambda>u.
     bindE (listKeys (au_tenantId u)) (\<lambda>keys.
     successResponse rq (JsArr (map (\<lambda>k. JsObj [(''id'', JsStr (kl_id k)), (''keyPrefix'', JsStr (kl_keyPrefix k)), (''name'', JsStr (kl_name k)),
       (''scopes'', JsArr (map JsStr (kl_scopes k))), (''active'', JsBool (kl_active k)), (''lastUsedAt'', js_opt js_date (kl_lastUsedAt k)),
       (''expiresAt'', js_opt js_date (kl_expiresAt k)), (''createdAt'', js_date (kl_createdAt k)),
       (''revokedAt'', js_opt js_date (kl_revokedAt k))]) keys)) 200))"

definition delete_api_key :: "api_platform \<Rightarrow> http_request \<Rightarrow> http_reply eff" where
  "delete_api_key p rq = protected_route (ap_crypto p) (Some [ADMIN]) rq (\<lambda>u.
     bindE (liftE (uuidParam (ap_zod p) (hr_params rq ''id''))) (\<lambda>i.
     bindE (revokeKey (au_tenantId u) i) (\<lambda>k.
     successResponse rq (JsObj [(''id'', JsStr k), (''revoked'', JsBool True)]) 200)))"

primrec json_js :: "json \<Rightarrow> js" where
  "json_js JNull = JsNull"
| "json_js (JBool b) = JsBool b"
| "json_js (JNum i) = JsNum i"
| "json_js (JStr s) = JsStr s"
| "json_js (JArr vs) = JsArr (map json_js vs)"
| "json_js (JObj ms) = JsObj (map (map_prod id json_js) ms)"

definition get_audit_logs :: "api_platform \<Rightarrow> http_request \<Rightarrow> http_reply eff" where
  "get_audit_logs p rq = protected_route (ap_crypto p) (Some [ADMIN]) rq (\<lambda>u.
     bindE (listForTenant (au_tenantId u) (case hr_page rq of None \<Rightarrow> 1 | Some n \<Rightarrow> n) (case hr_limit rq of None \<Rightarrow> 50 | Some n \<Rightarrow> n)) (\<lambda>entries.
     successResponse rq (JsArr (map (\<lambda>x. JsObj [(''id'', JsStr (al_id x)), (''tenantId'', js_opt JsStr (al_tenantId x)),
       (''userId'', js_opt JsStr (al_userId x)), (''action'', JsStr (al_action x)), (''resource'', JsStr (al_resource x)),
       (''resourceId'', js_opt JsStr (al_resourceId x)), (''metadata'', js_opt json_js (al_metadata x)),
       (''createdAt'', js_date (al_createdAt x))]) entries)) 200))"

text \<open>The reply to a registration is cut to the members of \<^verbatim>\<open>userResponseSchema\<close>, which has no \<^verbatim>\<open>tenantId\<close>.\<close>

definition post_register :: "api_platform \<Rightarrow> http_request \<Rightarrow> http_reply eff" where
  "post_register p rq = validated (loginSchema (ap_zod p) (hr_body rq)) (
     case hr_tenantKey rq of
       None \<Rightarrow> throwE (unauthorized ''Tenant API key required'')
     | Some key \<Rightarrow>
         if key = [] then throwE (unauthorized ''Tenant API key required'')
         else bindE (verifyKey (ap_crypto p) key) (\<lambda>(t, k).
           bindE (liftE (loginSchema (ap_zod p) (hr_body rq))) (\<lambda>(email, password).
           bindE (auth_register (ap_crypto p) email password (tn_id t)) (\<lambda>u.
           successResponse rq (JsObj [(''id'', JsStr (us_id u)), (''email'', JsStr (us_email u)), (''role'', JsStr (role_name (us_role u))),
             (''createdAt'', js_date (us_createdAt u))]) 201))))"

definition post_login :: "api_platform \<Rightarrow> http_request \<Rightarrow> http_reply eff" where
  "post_login p rq = validated (loginSchema (ap_zod p) (hr_body rq)) (
     bindE (liftE (loginSchema (ap_zod p) (hr_body rq))) (\<lambda>(email, password).
     bindE (login (ap_crypto p) (ap_lifetimes p) email password) (\<lambda>r.
     successResponse rq (JsObj [(''accessToken'', JsStr (lr_accessToken r)), (''refreshToken'', JsStr (lr_refreshToken r)),
       (''expiresIn'', JsNum (lr_expiresIn r))]) 200)))"

definition post_refresh :: "api_platform \<Rightarrow> http_request \<Rightarrow> http_reply eff" where
  "post_refresh p rq = validated (refreshSchema (hr_body rq)) (
     bindE (liftE (refreshSchema (hr_body rq))) (\<lambda>token.
     bindE (refresh (ap_crypto p) (ap_lifetimes p) token) (\<lambda>(accessToken, expiresIn).
     successResponse rq (JsObj [(''accessToken'', JsStr accessToken), (''expiresIn'', JsNum expiresIn)]) 200)))"

section \<open>Wallets\<close>

definition get_me :: "api_platform \<Rightarrow> http_request \<Rightarrow> http_reply eff" where
  "get_me p rq = protected_route (ap_crypto p) (Some [USER, ADMIN]) rq (\<lambda>u.
     successResponse rq (JsObj [(''userId'', JsStr (au_id u)), (''email'', JsStr (au_email u)), (''role'', JsStr (role_name (au_role u))),
       (''tenantId'', JsStr (au_tenantId u))]) 200)"

definition get_wallets :: "api_platform \<Rightarrow> http_request \<Rightarrow> http_reply eff" where
  "get_wallets p rq = protected_route (ap_crypto p) (Some [USER, ADMIN]) rq (\<lambda>u.
     bindE (getUserWallets (au_id u)) (\<lambda>ws. successResponse rq (JsArr (map wallet_js ws)) 200))"

definition get_wallet :: "api_platform \<Rightarrow> http_request \<Rightarrow> http_reply eff" where
  "get_wallet p rq = protected_route (ap_crypto p) (Some [USER, ADMIN]) rq (\<lambda>u.
     bindE (liftE (uuidParam (ap_zod p) (hr_params rq ''id''))) (\<lambda>i.
     bindE (getWallet i (au_id u) (au_tenantId u) (au_role u)) (\<lambda>x. successResponse rq (wallet_js x) 200)))"

definition post_wallets :: "api_platform \<Rightarrow> http_request \<Rightarrow> http_reply eff" where
  "post_wallets p rq = validated (createWalletSchema (hr_body rq)) (
     protected_route (ap_crypto p) (Some [USER, ADMIN]) rq (\<lambda>u.
     bindE (liftE (createWalletSchema (hr_body rq))) (\<lambda>body.
     bindE (assertOwnership (ap_crypto p) (ap_jwtSecret p) (ap_vars p) (ap_evm p) (ap_registry p)
        \<lparr> os_tenantId = au_tenantId u, os_userId = au_id u, os_chainId = wi_chainId body, os_address = wi_address body \<rparr>
        (wi_challenge body) (wi_signature body)) (\<lambda>_.
     bindE (createWallet (ap_isEvmAddress p) (ap_publicKey p) (ap_evm p) (au_tenantId u) (au_id u) (wi_chainId body) (wi_address body)) (\<lambda>x.
     successResponse rq (wallet_js x) 201)))))"

definition post_challenge :: "api_platform \<Rightarrow> http_request \<Rightarrow> http_reply eff" where
  "post_challenge p rq = validated (walletChallengeSchema (hr_body rq)) (
     protected_route (ap_crypto p) (Some [USER, ADMIN]) rq (\<lambda>u.
     bindE (liftE (walletChallengeSchema (hr_body rq))) (\<lambda>(chainId, address).
     bindE (issueChallenge (ap_crypto p) (ap_jwtSecret p) (ap_isEvmAddress p) (ap_publicKey p) (ap_evm p) (ap_registry p)
        \<lparr> os_tenantId = au_tenantId u, os_userId = au_id u, os_chainId = chainId, os_address = address \<rparr>) (\<lambda>ic.
     successResponse rq (JsObj [(''message'', JsStr (ic_message ic)), (''challenge'', JsStr (ic_challenge ic)),
       (''expiresAt'', JsStr (ic_expiresAt ic))]) 200))))"

definition post_custodial :: "api_platform \<Rightarrow> http_request \<Rightarrow> http_reply eff" where
  "post_custodial p rq = validated (createCustodialWalletSchema (hr_body rq)) (
     protected_route (ap_crypto p) (Some [USER, ADMIN]) rq (\<lambda>u.
     bindE (liftE (createCustodialWalletSchema (hr_body rq))) (\<lambda>chainId.
     bindE (createCustodialWallet (ap_evm p) (ap_registry p) (ap_kmsKeyId p) (ap_encrypt p) (au_tenantId u) (au_id u) chainId) (\<lambda>x.
     successResponse rq (wallet_js x) 201))))"

definition get_wallet_balances :: "api_platform \<Rightarrow> http_request \<Rightarrow> http_reply eff" where
  "get_wallet_balances p rq = protected_route (ap_crypto p) None rq (\<lambda>u.
     bindE (getWallet (hr_params rq ''id'') (au_id u) (au_tenantId u) (au_role u)) (\<lambda>_.
     bindE (getWalletBalances (hr_params rq ''id'')) (\<lambda>bs. successResponse rq (JsArr (map snapshot_token_js bs)) 200)))"

section \<open>Tokens\<close>

definition post_tokens :: "api_platform \<Rightarrow> http_request \<Rightarrow> http_reply eff" where
  "post_tokens p rq = protected_route (ap_crypto p) (Some [ADMIN]) rq (\<lambda>u.
     bindE (liftE (registerTokenSchema (ap_zod p) (hr_body rq))) (\<lambda>body.
     bindE (registerToken (ap_registry p) (ti_name body) (ti_symbol body) (ti_contractAddress body) (ti_decimals body) (ti_blockchain body)) (\<lambda>t.
     successResponse rq (serializeBigInt (token_js t)) 201)))"

definition get_tokens :: "api_platform \<Rightarrow> http_request \<Rightarrow> http_reply eff" where
  "get_tokens p rq = protected_route (ap_crypto p) (Some [ADMIN]) rq (\<lambda>u.
     bindE getTokens (\<lambda>ts. successResponse rq (serializeBigInt (JsArr (map token_js ts))) 200))"

definition get_token :: "api_platform \<Rightarrow> http_request \<Rightarrow> http_reply eff" where
  "get_token p rq = protected_route (ap_crypto p) (Some [ADMIN]) rq (\<lambda>u.
     bindE (getToken (hr_params rq ''id'')) (\<lambda>t. successResponse rq (serializeBigInt (token_js t)) 200))"

definition post_mint :: "api_platform \<Rightarrow> http_request \<Rightarrow> http_reply eff" where
  "post_mint p rq = protected_route (ap_crypto p) (Some [ADMIN]) rq (\<lambda>u.
     bindE (liftE (mintTokenSchema (hr_body rq))) (\<lambda>(receiver, amount).
     bindE (mintToken (ap_registry p) (hr_params rq ''id'') receiver amount) (\<lambda>h.
     successResponse rq (JsObj [(''transactionHash'', JsStr h)]) 200)))"

definition get_token_balance :: "api_platform \<Rightarrow> http_request \<Rightarrow> http_reply eff" where
  "get_token_balance p rq = protected_route (ap_crypto p) None rq (\<lambda>u.
     bindE (getWallet (hr_params rq ''walletId'') (au_id u) (au_tenantId u) (au_role u)) (\<lambda>_.
     bindE (getBalance (hr_params rq ''walletId'') (hr_params rq ''tokenId'')) (\<lambda>b.
     successResponse rq (serializeBigInt (js_opt snapshot_js b)) 200)))"

primrec reconciliation_name :: "reconciliation_status \<Rightarrow> string" where
  "reconciliation_name MATCH = ''MATCH''"
| "reconciliation_name MISMATCH = ''MISMATCH''"
| "reconciliation_name STALE_OBSERVATION = ''STALE_OBSERVATION''"

definition observed_js :: "token_balance \<Rightarrow> js" where
  "observed_js x = JsObj [(''balance'', JsStr (show_int (tb_balance x))), (''blockNumber'', JsStr (show_int (tb_blockNumber x)))]"

definition get_reconcile :: "api_platform \<Rightarrow> http_request \<Rightarrow> http_reply eff" where
  "get_reconcile p rq = validated (reconcileTokenBalanceQuerySchema (hr_blockNumber rq)) (
     protected_route (ap_crypto p) None rq (\<lambda>u.
     bindE (getWallet (hr_params rq ''walletId'') (au_id u) (au_tenantId u) (au_role u)) (\<lambda>x.
     bindE (getToken (hr_params rq ''tokenId'')) (\<lambda>t.
     bindE (liftE (reconcileTokenBalanceQuerySchema (hr_blockNumber rq))) (\<lambda>blockNumber.
     bindE (reconcile (ap_evm p) (ap_registry p) \<lparr> rr_walletId = hr_params rq ''walletId'', rr_walletAddress = wa_address x,
        rr_walletChainId = wa_chainId x, rr_tokenId = hr_params rq ''tokenId'', rr_blockchain = tk_blockchain t,
        rr_assetIdentifier = tk_contractAddress t, rr_blockNumber = blockNumber \<rparr>) (\<lambda>r.
     successResponse rq (JsObj [(''status'', JsStr (reconciliation_name (re_status r))), (''blockchain'', JsStr (blockchain_name (re_blockchain r))),
       (''walletId'', JsStr (re_walletId r)), (''tokenId'', JsStr (re_tokenId r)), (''persisted'', js_opt observed_js (re_persisted r)),
       (''chain'', observed_js (re_chain r))]) 200))))))"

section \<open>Transactions\<close>

definition post_transactions :: "api_platform \<Rightarrow> http_request \<Rightarrow> http_reply eff" where
  "post_transactions p rq = protected_route (ap_crypto p) (Some [USER, ADMIN]) rq (\<lambda>u.
     bindE (liftE (transferSchema (ap_zod p) (hr_body rq))) (\<lambda>body.
     bindE (transfer (ap_registry p) \<lparr> rq_tenantId = au_tenantId u, rq_userId = au_id u, rq_tokenId = fi_tokenId body,
        rq_fromWalletId = fi_fromWalletId body, rq_toWalletId = fi_toWalletId body, rq_amount = fi_amount body \<rparr>) (\<lambda>t.
     successResponse rq (serializeBigInt (transaction_js t)) 201)))"

definition get_transactions :: "api_platform \<Rightarrow> http_request \<Rightarrow> http_reply eff" where
  "get_transactions p rq = protected_route (ap_crypto p) (Some [USER, ADMIN]) rq (\<lambda>u.
     bindE (list_transactions (au_tenantId u) (case hr_page rq of None \<Rightarrow> 1 | Some n \<Rightarrow> n) (case hr_limit rq of None \<Rightarrow> 20 | Some n \<Rightarrow> n)) (\<lambda>ts.
     successResponse rq (serializeBigInt (JsArr (map transaction_view_js ts))) 200))"

definition get_transaction :: "api_platform \<Rightarrow> http_request \<Rightarrow> http_reply eff" where
  "get_transaction p rq = protected_route (ap_crypto p) (Some [USER, ADMIN]) rq (\<lambda>u.
     bindE (liftE (uuidParam (ap_zod p) (hr_params rq ''id''))) (\<lambda>i.
     bindE (getById i (au_tenantId u)) (\<lambda>found.
     case found of
       None \<Rightarrow> send 404 (JsObj [(''error'', JsObj [(''code'', JsStr ''NOT_FOUND''), (''message'', JsStr ''Transaction not found'')]),
                (''requestId'', JsStr (hr_id rq))])
     | Some v \<Rightarrow> successResponse rq (serializeBigInt (transaction_view_js v)) 200)))"

section \<open>Dispatch\<close>

datatype route = PostTenants | PostApiKeys | GetApiKeys | DeleteApiKey | GetAuditLogs | PostRegister | PostLogin | PostRefresh
  | GetMe | GetWallets | GetWallet | PostWallets | PostChallenge | PostCustodial | GetWalletBalances
  | PostTokens | GetTokens | GetToken | PostMint | GetTokenBalance | GetReconcile | PostTransactions | GetTransactions | GetTransaction

fun route_handler :: "route \<Rightarrow> api_platform \<Rightarrow> http_request \<Rightarrow> http_reply eff" where
  "route_handler PostTenants = post_tenants"
| "route_handler PostApiKeys = post_api_keys"
| "route_handler GetApiKeys = get_api_keys"
| "route_handler DeleteApiKey = delete_api_key"
| "route_handler GetAuditLogs = get_audit_logs"
| "route_handler PostRegister = post_register"
| "route_handler PostLogin = post_login"
| "route_handler PostRefresh = post_refresh"
| "route_handler GetMe = get_me"
| "route_handler GetWallets = get_wallets"
| "route_handler GetWallet = get_wallet"
| "route_handler PostWallets = post_wallets"
| "route_handler PostChallenge = post_challenge"
| "route_handler PostCustodial = post_custodial"
| "route_handler GetWalletBalances = get_wallet_balances"
| "route_handler PostTokens = post_tokens"
| "route_handler GetTokens = get_tokens"
| "route_handler GetToken = get_token"
| "route_handler PostMint = post_mint"
| "route_handler GetTokenBalance = get_token_balance"
| "route_handler GetReconcile = get_reconcile"
| "route_handler PostTransactions = post_transactions"
| "route_handler GetTransactions = get_transactions"
| "route_handler GetTransaction = get_transaction"

definition respond :: "api_platform \<Rightarrow> route \<Rightarrow> http_request \<Rightarrow> http_reply eff" where
  "respond p r rq = handled rq (route_handler r p rq)"

end
