(* ===== verification/Leases.thy ===== *)
theory Leases
  imports Lifecycle
begin

text \<open>
  \<^verbatim>\<open>scheduling/scheduler-lease.ts\<close> and \<^verbatim>\<open>postgres-scheduler-lease.ts\<close>: the lease that
  lets one process at a time run a scheduler. The interface is the locale
  \<open>lease_service\<close>; the mutual exclusion of its holders is proved once from its laws and
  holds for the SQL of the PostgreSQL implementation through the interpretation. The
  grants are what the callers believe to hold: they learn of them only through answers,
  which may be lost.
\<close>

section \<open>The PostgreSQL implementation\<close>

text \<open>\<^verbatim>\<open>INSERT ... ON CONFLICT DO UPDATE ... WHERE ... RETURNING\<close>: true iff a row came back.\<close>

definition lease_acquire ::
  "string \<Rightarrow> string \<Rightarrow> int \<Rightarrow> int \<Rightarrow> scheduler_lease list \<Rightarrow> bool \<times> scheduler_lease list" where
  "lease_acquire ownerId name ttlMs now ls =
     (let new = \<lparr> ls_name = name, ls_ownerId = ownerId, ls_expiresAt = now + ttlMs \<rparr> in
      case row ls_name ls name of
        None \<Rightarrow> (True, ls @ [new])
      | Some l \<Rightarrow>
          if ls_expiresAt l \<le> now \<or> ls_ownerId l = ownerId
          then (True, update_rows (\<lambda>r. ls_name r = name) (\<lambda>_. new) ls) else (False, ls))"

definition lease_renew ::
  "string \<Rightarrow> string \<Rightarrow> int \<Rightarrow> int \<Rightarrow> scheduler_lease list \<Rightarrow> bool \<times> scheduler_lease list" where
  "lease_renew ownerId name ttlMs now ls =
     (let P = (\<lambda>r. ls_name r = name \<and> ls_ownerId r = ownerId \<and> ls_expiresAt r > now) in
      (count_rows P ls = 1, update_rows P (\<lambda>r. r\<lparr>ls_expiresAt := now + ttlMs\<rparr>) ls))"

definition lease_release :: "string \<Rightarrow> string \<Rightarrow> scheduler_lease list \<Rightarrow> scheduler_lease list" where
  "lease_release ownerId name ls = filter (\<lambda>r. \<not> (ls_name r = name \<and> ls_ownerId r = ownerId)) ls"

definition assertTtl :: "int \<Rightarrow> unit eff" where
  "assertTtl ttlMs =
     (if ttlMs \<le> 0 then throwE (PlainError ''Scheduler lease TTL must be greater than zero'') else returnE ())"

definition acquire :: "string \<Rightarrow> string \<Rightarrow> int \<Rightarrow> bool eff" where
  "acquire ownerId name ttlMs =
     bindE (assertTtl ttlMs) (\<lambda>_. bindE getNow (\<lambda>now. statement (\<lambda>d.
       case lease_acquire ownerId name ttlMs now (leases d) of (b, ls) \<Rightarrow> Inr (b, d\<lparr>leases := ls\<rparr>))))"

definition renew :: "string \<Rightarrow> string \<Rightarrow> int \<Rightarrow> bool eff" where
  "renew ownerId name ttlMs =
     bindE (assertTtl ttlMs) (\<lambda>_. bindE getNow (\<lambda>now. statement (\<lambda>d.
       case lease_renew ownerId name ttlMs now (leases d) of (b, ls) \<Rightarrow> Inr (b, d\<lparr>leases := ls\<rparr>))))"

definition release :: "string \<Rightarrow> string \<Rightarrow> unit eff" where
  "release ownerId name = statement (\<lambda>d. Inr ((), d\<lparr>leases := lease_release ownerId name (leases d)\<rparr>))"

section \<open>Holders and what they believe\<close>

datatype lease_op = Acquire string string | Renew string string | Release string string

type_synonym grants = "(string \<times> string \<times> int) list"

text \<open>A grant replaces what its owner believed before about the same lease.\<close>

definition grant :: "string \<Rightarrow> string \<Rightarrow> int \<Rightarrow> grants \<Rightarrow> grants" where
  "grant ow n u gs = (ow, n, u) # filter (\<lambda>(p, m, v). \<not> (p = ow \<and> m = n)) gs"

definition forget :: "string \<Rightarrow> string \<Rightarrow> grants \<Rightarrow> grants" where
  "forget ow n gs = filter (\<lambda>(p, m, v). \<not> (p = ow \<and> m = n)) gs"

text \<open>
  Runs of any number of processes against the table: time does not go back, each lease name
  has its own constant time to live, and the answer to a request may be lost. An owner
  stops relying on a lease before it releases it.
\<close>

inductive lease_reach ::
  "(string \<Rightarrow> string \<Rightarrow> int \<Rightarrow> int \<Rightarrow> 'l \<Rightarrow> bool \<times> 'l) \<Rightarrow> (string \<Rightarrow> string \<Rightarrow> int \<Rightarrow> int \<Rightarrow> 'l \<Rightarrow> bool \<times> 'l) \<Rightarrow>
   (string \<Rightarrow> string \<Rightarrow> 'l \<Rightarrow> 'l) \<Rightarrow> (string \<Rightarrow> int) \<Rightarrow> 'l \<Rightarrow> int \<Rightarrow> 'l \<Rightarrow> grants \<Rightarrow> bool"
  for acq ren rel ttl init where
  start: "lease_reach acq ren rel ttl init now init []"
| later: "lease_reach acq ren rel ttl init now ls gs \<Longrightarrow> now \<le> now' \<Longrightarrow> lease_reach acq ren rel ttl init now' ls gs"
| acquired: "lease_reach acq ren rel ttl init now ls gs \<Longrightarrow> acq ow n (ttl n) now ls = (b, ls') \<Longrightarrow>
    gs' = (if b \<and> \<not> lost then grant ow n (now + ttl n) gs else gs) \<Longrightarrow>
    lease_reach acq ren rel ttl init now ls' gs'"
| renewed: "lease_reach acq ren rel ttl init now ls gs \<Longrightarrow> ren ow n (ttl n) now ls = (b, ls') \<Longrightarrow>
    gs' = (if b \<and> \<not> lost then grant ow n (now + ttl n) gs else gs) \<Longrightarrow>
    lease_reach acq ren rel ttl init now ls' gs'"
| released: "lease_reach acq ren rel ttl init now ls gs \<Longrightarrow>
    lease_reach acq ren rel ttl init now (rel ow n ls) (forget ow n gs)"

section \<open>The interface and its mutual exclusion\<close>

locale lease_service =
  fixes acq ren :: "string \<Rightarrow> string \<Rightarrow> int \<Rightarrow> int \<Rightarrow> 'l \<Rightarrow> bool \<times> 'l"
    and rel :: "string \<Rightarrow> string \<Rightarrow> 'l \<Rightarrow> 'l"
    and wf :: "'l \<Rightarrow> bool"
    and held :: "'l \<Rightarrow> string \<Rightarrow> (string \<times> int) option"
  assumes acq_wf: "wf ls \<Longrightarrow> acq ow n k now ls = (b, ls') \<Longrightarrow> wf ls'"
    and ren_wf: "wf ls \<Longrightarrow> ren ow n k now ls = (b, ls') \<Longrightarrow> wf ls'"
    and rel_wf: "wf ls \<Longrightarrow> wf (rel ow n ls)"
    and acq_free: "acq ow n k now ls = (True, ls') \<Longrightarrow> held ls n = Some (p, u) \<Longrightarrow> u \<le> now \<or> p = ow"
    and acq_held: "wf ls \<Longrightarrow> acq ow n k now ls = (b, ls') \<Longrightarrow>
      held ls' m = (if b \<and> m = n then Some (ow, now + k) else held ls m)"
    and ren_own: "wf ls \<Longrightarrow> ren ow n k now ls = (True, ls') \<Longrightarrow> \<exists>u > now. held ls n = Some (ow, u)"
    and ren_held: "wf ls \<Longrightarrow> ren ow n k now ls = (b, ls') \<Longrightarrow>
      held ls' m = (if b \<and> m = n then Some (ow, now + k) else held ls m)"
    and rel_held: "wf ls \<Longrightarrow>
      held (rel ow n ls) m = (if m = n \<and> (\<exists>u. held ls n = Some (ow, u)) then None else held ls m)"
begin

definition backed :: "(string \<Rightarrow> int) \<Rightarrow> int \<Rightarrow> 'l \<Rightarrow> grants \<Rightarrow> bool" where
  "backed ttl now ls gs \<longleftrightarrow> wf ls \<and>
     (\<forall>ow n u. (ow, n, u) \<in> set gs \<longrightarrow> u \<le> now + ttl n \<and> (now < u \<longrightarrow> (\<exists>v \<ge> u. held ls n = Some (ow, v))))"

lemma backed_grant:
  assumes b: "backed ttl now ls gs" and wf: "wf ls'"
    and held: "\<And>m. held ls' m = (if m = n then Some (ow, now + ttl n) else held ls m)"
    and own: "\<And>p u. (p, n, u) \<in> set gs \<Longrightarrow> now < u \<Longrightarrow> p = ow"
  shows "backed ttl now ls' (if c then grant ow n (now + ttl n) gs else gs)"
proof -
  have "held ls' m = Some (p, now + ttl m) \<and> u \<le> now + ttl m \<or> (\<exists>v \<ge> u. held ls' m = Some (p, v))"
    if "(p, m, u) \<in> set gs" "now < u" for p m u
    using b own that by (cases "m = n") (auto simp: held backed_def)
  then have "backed ttl now ls' gs"
    using b wf unfolding backed_def by blast
  moreover have "backed ttl now ls' (grant ow n (now + ttl n) gs)"
    using \<open>backed ttl now ls' gs\<close> held [of n] by (auto simp: backed_def grant_def)
  ultimately show ?thesis by simp
qed

lemma backed_later: "backed ttl now ls gs \<Longrightarrow> now \<le> now' \<Longrightarrow> backed ttl now' ls gs"
  unfolding backed_def by (meson add_right_mono order_le_less_trans order_trans)

lemma backed_same: "backed ttl now ls gs \<Longrightarrow> wf ls' \<Longrightarrow> (\<And>m. held ls' m = held ls m) \<Longrightarrow> backed ttl now ls' gs"
  by (simp add: backed_def)

lemma backed_live: "backed ttl now ls gs \<Longrightarrow> (p, n, u) \<in> set gs \<Longrightarrow> now < u \<Longrightarrow> \<exists>v > now. held ls n = Some (p, v)"
  unfolding backed_def by (meson order_less_le_trans)

text \<open>A granted request, acquire or renew, whose answer arrives or not.\<close>

lemma backed_answer:
  assumes bk: "backed ttl now ls gs" and wf: "wf ls'"
    and held: "\<And>m. held ls' m = (if b \<and> m = n then Some (ow, now + ttl n) else held ls m)"
    and free: "\<And>p u. b \<Longrightarrow> held ls n = Some (p, u) \<Longrightarrow> now < u \<Longrightarrow> p = ow"
  shows "backed ttl now ls' (if b \<and> \<not> lost then grant ow n (now + ttl n) gs else gs)"
proof (cases b)
  case False
  with bk wf held show ?thesis by (simp add: backed_same)
next
  case True
  then have "backed ttl now ls' (if \<not> lost then grant ow n (now + ttl n) gs else gs)"
    using bk wf held free by (intro backed_grant) (auto dest: backed_live)
  with True show ?thesis by simp
qed

lemma backed_released:
  assumes bk: "backed ttl now ls gs"
  shows "backed ttl now (rel ow n ls) (forget ow n gs)"
proof -
  have w: "wf ls" using bk by (simp add: backed_def)
  have "held (rel ow n ls) m = held ls m" if "held ls m = Some (p, v)" "(p, m, u) \<in> set (forget ow n gs)" for p m u v
    using that by (auto simp: rel_held [OF w] forget_def)
  moreover have "set (forget ow n gs) \<subseteq> set gs" by (auto simp: forget_def)
  ultimately show ?thesis
    using bk rel_wf [OF w] unfolding backed_def by (metis subsetD)
qed

lemma reach_backed:
  "lease_reach acq ren rel ttl init now ls gs \<Longrightarrow> wf init \<Longrightarrow> backed ttl now ls gs"
proof (induction rule: lease_reach.induct)
  case (start now)
  then show ?case by (simp add: backed_def)
next
  case (later now ls gs now')
  then show ?case by (auto intro: backed_later)
next
  case (acquired now ls gs ow n b ls' gs' lost)
  then have bk: "backed ttl now ls gs" by simp
  then have w: "wf ls" by (simp add: backed_def)
  have "p = ow" if b "held ls n = Some (p, u)" "now < u" for p u
    using acq_free [of ow n "ttl n" now ls ls' p u] acquired.hyps(2) that by simp
  then show ?case
    unfolding acquired.hyps(3)
    by (rule backed_answer [OF bk acq_wf [OF w acquired.hyps(2)] acq_held [OF w acquired.hyps(2)]])
next
  case (renewed now ls gs ow n b ls' gs' lost)
  then have bk: "backed ttl now ls gs" by simp
  then have w: "wf ls" by (simp add: backed_def)
  have "p = ow" if b "held ls n = Some (p, u)" for p u
    using ren_own [OF w, of ow n "ttl n" now ls'] renewed.hyps(2) that by auto
  then show ?case
    unfolding renewed.hyps(3)
    by (intro backed_answer [OF bk ren_wf [OF w renewed.hyps(2)] ren_held [OF w renewed.hyps(2)]])
next
  case (released now ls gs ow n)
  then show ?case by (simp add: backed_released)
qed

text \<open>Two grants of one lease that have not run out belong to one owner.\<close>

lemma grants_exclusive:
  assumes "lease_reach acq ren rel ttl init now ls gs" "wf init"
    and "(ow, n, u) \<in> set gs" "(ow', n, u') \<in> set gs" "now < u" "now < u'"
  shows "ow = ow'"
proof -
  have "backed ttl now ls gs" using assms(1,2) by (rule reach_backed)
  with assms(3,5) assms(4,6) obtain v v' where "held ls n = Some (ow, v)" "held ls n = Some (ow', v')"
    unfolding backed_def by blast
  then show ?thesis by simp
qed

end

definition holder :: "scheduler_lease list \<Rightarrow> string \<Rightarrow> (string \<times> int) option" where
  "holder ls n = map_option (\<lambda>l. (ls_ownerId l, ls_expiresAt l)) (row ls_name ls n)"

lemma lease_acquire_wf:
  "keyed ls_name ls \<Longrightarrow> lease_acquire ow n k now ls = (b, ls') \<Longrightarrow> keyed ls_name ls'"
  by (auto simp: lease_acquire_def Let_def keyed_append_one keyed_update_const split: option.splits if_splits)

lemma lease_acquire_holder:
  "lease_acquire ow n k now ls = (b, ls') \<Longrightarrow>
   holder ls' m = (if b \<and> m = n then Some (ow, now + k) else holder ls m)"
  by (auto simp: lease_acquire_def Let_def holder_def row_append row_update_const dest: row_SomeD
      split: option.splits if_splits)

lemma lease_renew_granted:
  assumes "keyed ls_name ls" "lease_renew ow n k now ls = (b, ls')"
  shows "b \<longleftrightarrow> (\<exists>l. row ls_name ls n = Some l \<and> ls_ownerId l = ow \<and> now < ls_expiresAt l)"
  using assms count_keyed [OF assms(1), of n "\<lambda>r. ls_ownerId r = ow \<and> now < ls_expiresAt r"]
  by (auto simp: lease_renew_def Let_def split: option.splits if_splits)

lemma lease_renew_holder:
  assumes "keyed ls_name ls" "lease_renew ow n k now ls = (b, ls')"
  shows "holder ls' m = (if b \<and> m = n then Some (ow, now + k) else holder ls m)"
proof -
  have r: "row ls_name ls' m = map_option (\<lambda>r. if ls_name r = n \<and> ls_ownerId r = ow \<and> ls_expiresAt r > now
      then r\<lparr>ls_expiresAt := now + k\<rparr> else r) (row ls_name ls m)"
    using assms(2) by (auto simp: lease_renew_def Let_def row_update)
  show ?thesis
  proof (cases "row ls_name ls m")
    case None
    with r lease_renew_granted [OF assms] show ?thesis by (auto simp: holder_def)
  next
    case (Some l)
    then have "ls_name l = m" by (auto dest: row_SomeD)
    with r Some lease_renew_granted [OF assms] show ?thesis by (auto simp: holder_def)
  qed
qed

interpretation pg: lease_service lease_acquire lease_renew lease_release "keyed ls_name" holder
proof unfold_locales
  fix ls ow n k now b ls' m
  assume "keyed ls_name ls" "lease_acquire ow n k now ls = (b, ls')"
  then show "keyed ls_name ls'" "holder ls' m = (if b \<and> m = n then Some (ow, now + k) else holder ls m)"
    by (rule lease_acquire_wf, simp_all add: lease_acquire_holder)
next
  fix ls ow n k now b ls' m
  assume k: "keyed ls_name ls" "lease_renew ow n k now ls = (b, ls')"
  then show "keyed ls_name ls'" by (auto simp: lease_renew_def Let_def)
  show "holder ls' m = (if b \<and> m = n then Some (ow, now + k) else holder ls m)"
    using k by (rule lease_renew_holder)
next
  fix ls ow n k now ls'
  assume k: "keyed ls_name ls" "lease_renew ow n k now ls = (True, ls')"
  then show "\<exists>u > now. holder ls n = Some (ow, u)"
    using lease_renew_granted [OF k] by (auto simp: holder_def)
next
  fix ls ow n k now ls' p u
  assume "lease_acquire ow n k now ls = (True, ls')" "holder ls n = Some (p, u)"
  then show "u \<le> now \<or> p = ow"
    by (auto simp: lease_acquire_def Let_def holder_def split: option.splits if_splits)
next
  fix ls :: "scheduler_lease list" and ow n m assume k: "keyed ls_name ls"
  then show "keyed ls_name (lease_release ow n ls)" by (simp add: lease_release_def keyed_def distinct_map_filter)
  show "holder (lease_release ow n ls) m =
      (if m = n \<and> (\<exists>u. holder ls n = Some (ow, u)) then None else holder ls m)"
    using k by (cases "row ls_name ls m")
      (auto simp: lease_release_def holder_def row_filter_keyed dest: row_SomeD)
qed

context transaction_frame
begin

lemma keeps_lease [keeps_intros]:
  assumes "rely R e"
  shows "keeps R e (acquire ow n k)" "keeps R e (renew ow n k)" "keeps R e (release ow n)"
  using assms unfolding acquire_def renew_def release_def assertTtl_def
  by (auto intro!: keeps_intros keeps_elsewhere simp: same_index_def split: prod.splits)

end

section \<open>Properties\<close>

text \<open>
  C16: at most one process at a time relies on a scheduler lease. In every run of any number of
  processes against the table, with lost answers, crashes (a process that stops acting) and
  expiry, two grants of the same lease that have not run out belong to the same process.
\<close>

theorem lease_exclusive:
  assumes "lease_reach lease_acquire lease_renew lease_release ttl [] now ls gs"
    and "(ow, n, u) \<in> set gs" "(ow', n, u') \<in> set gs" "now < u" "now < u'"
  shows "ow = ow'"
  by (rule pg.grants_exclusive [OF assms(1) _ assms(2-5)]) simp

theorem lease_exclusive_witness:
  "lease_reach lease_acquire lease_renew lease_release (\<lambda>_. 60) [] 20
     [\<lparr> ls_name = ''expiration'', ls_ownerId = ''p1'', ls_expiresAt = 80 \<rparr>]
     [(''p1'', ''expiration'', 80)] \<and> fst (''p1'', ''expiration'', 80::int) = ''p1''"
proof -
  let ?l = "\<lambda>u. [\<lparr> ls_name = ''expiration'', ls_ownerId = ''p1'', ls_expiresAt = u \<rparr>]"
  let ?r = "lease_reach lease_acquire lease_renew lease_release (\<lambda>_. 60) []"
  let ?g = "[(''p1'', ''expiration'', 60)]"
  have "?r 0 (?l 60) ?g"
    by (rule lease_reach.acquired [OF lease_reach.start, where ow = "''p1''" and n = "''expiration''" and b = True and lost = False])
      (simp_all add: lease_acquire_def grant_def)
  then have "?r 10 (?l 60) ?g" by (rule lease_reach.later) simp
  then have "?r 10 (?l 60) ?g"
    by (rule lease_reach.acquired [where ow = "''p2''" and n = "''expiration''" and b = False and lost = False])
      (simp_all add: lease_acquire_def grant_def)
  then have "?r 20 (?l 60) ?g" by (rule lease_reach.later) simp
  then have r: "?r 20 (?l 80) [(''p1'', ''expiration'', 80)]"
    by (rule lease_reach.renewed [where ow = "''p1''" and n = "''expiration''" and b = True and lost = False])
      (simp_all add: lease_renew_def grant_def update_rows_def)
  moreover have "''p1'' = ''p1''" by (rule lease_exclusive [OF r]) auto
  ultimately show ?thesis by simp
qed

end
