(* ===== verification/Schedulers.thy ===== *)
theory Schedulers
  imports Balances Leases
begin

text \<open>
  The five leased schedulers (\<^verbatim>\<open>workers/expiration.scheduler.ts\<close>,
  \<^verbatim>\<open>submission-recovery.scheduler.ts\<close>, \<^verbatim>\<open>pending-recovery.scheduler.ts\<close>,
  \<^verbatim>\<open>balance-drift.scheduler.ts\<close>, \<^verbatim>\<open>outbox-relay.scheduler.ts\<close>). The classes have the same
  methods up to the name, the time to live of the lease and the work of a cycle, so
  each is the object \<open>leased_scheduler\<close> makes of these. One run is modelled as an effect;
  how the runs, the timers and \<^verbatim>\<open>start\<close>/\<^verbatim>\<open>stop\<close> of one object interleave at the awaits is
  the step relation \<open>sched_step\<close> on the object's fields.
\<close>

section \<open>The fields and the synchronous methods\<close>

record scheduler =
  sd_timer :: bool
  sd_running :: bool
  sd_executing :: bool
  sd_leaseRenewTimer :: bool

definition new_scheduler :: scheduler where
  "new_scheduler = \<lparr> sd_timer = False, sd_running = False, sd_executing = False, sd_leaseRenewTimer = False \<rparr>"

definition scheduler_start :: "scheduler \<Rightarrow> scheduler" where
  "scheduler_start s = (if sd_running s then s else s\<lparr>sd_running := True, sd_timer := True\<rparr>)"

definition scheduler_stop :: "scheduler \<Rightarrow> scheduler" where
  "scheduler_stop s =
     (if \<not> sd_running s then s else s\<lparr>sd_running := False, sd_timer := False, sd_leaseRenewTimer := False\<rparr>)"

definition stopLeaseRenewal :: "scheduler \<Rightarrow> scheduler" where
  "stopLeaseRenewal s = s\<lparr>sd_leaseRenewTimer := False\<rparr>"

definition startLeaseRenewal :: "scheduler \<Rightarrow> scheduler" where
  "startLeaseRenewal s = (stopLeaseRenewal s)\<lparr>sd_leaseRenewTimer := True\<rparr>"

definition renewLease :: "string \<Rightarrow> string \<Rightarrow> int \<Rightarrow> unit eff" where
  "renewLease ownerId name ttl = catchE (bindE (renew ownerId name ttl) (\<lambda>renewed. returnE ())) (\<lambda>error. returnE ())"

section \<open>One run\<close>

text \<open>The segments of \<^verbatim>\<open>run\<close> between its awaits, as they change the fields.\<close>

definition run_enter :: "scheduler \<Rightarrow> scheduler option" where
  "run_enter s = (if \<not> sd_running s \<or> sd_executing s then None else Some (s\<lparr>sd_executing := True\<rparr>))"

definition run_exit :: "scheduler \<Rightarrow> scheduler" where
  "run_exit s = s\<lparr>sd_executing := False\<rparr>"

text \<open>The cycle with its counters: a failure is counted and rethrown, every cycle is counted.\<close>

definition metered :: "string \<Rightarrow> unit eff \<Rightarrow> unit eff" where
  "metered name work =
     finallyE
       (catchE work (\<lambda>error. bindE (incrementMetric ''worker_failures_total'' [(''worker_name'', name)]) (\<lambda>_. throwE error)))
       (incrementMetric ''worker_cycles_total'' [(''worker_name'', name)])"

text \<open>
  What a run does besides its fields: acquire, cycle, release. An error of the acquire or of
  the cycle is logged and swallowed, and so is an error of the release.
\<close>

definition run_body :: "string \<Rightarrow> string \<Rightarrow> int \<Rightarrow> unit eff \<Rightarrow> unit eff" where
  "run_body ownerId name ttl cycle =
     bindE (catchE (acquire ownerId name ttl) (\<lambda>error. returnE False)) (\<lambda>leaseAcquired.
       if \<not> leaseAcquired then returnE ()
       else bindE (catchE cycle (\<lambda>error. returnE ())) (\<lambda>_.
            catchE (release ownerId name) (\<lambda>error. returnE ())))"

definition scheduler_run :: "string \<Rightarrow> string \<Rightarrow> int \<Rightarrow> unit eff \<Rightarrow> scheduler \<Rightarrow> scheduler eff" where
  "scheduler_run ownerId name ttl cycle s =
     (case run_enter s of
        None \<Rightarrow> returnE s
      | Some s1 \<Rightarrow> bindE (run_body ownerId name ttl cycle) (\<lambda>_. returnE (run_exit (stopLeaseRenewal s1))))"

record scheduler_object =
  so_start :: "scheduler \<Rightarrow> scheduler"
  so_stop :: "scheduler \<Rightarrow> scheduler"
  so_run :: "scheduler \<Rightarrow> scheduler eff"
  so_renewLease :: "unit eff"

definition leased_scheduler :: "string \<Rightarrow> string \<Rightarrow> int \<Rightarrow> unit eff \<Rightarrow> scheduler_object" where
  "leased_scheduler ownerId name ttl cycle = \<lparr> so_start = scheduler_start, so_stop = scheduler_stop,
     so_run = scheduler_run ownerId name ttl cycle, so_renewLease = renewLease ownerId name ttl \<rparr>"

section \<open>The five classes\<close>

definition expiration_cycle :: "unit eff" where
  "expiration_cycle =
     bindE getNow (\<lambda>now. metered ''expiration-scheduler''
       (bindE (processExpiredTransactions (now - CONFIRMATION_TIMEOUT_MS)) (\<lambda>_. returnE ())))"

definition ExpirationScheduler :: "string \<Rightarrow> scheduler_object" where
  "ExpirationScheduler ownerId = leased_scheduler ownerId ''expiration-scheduler'' 60000 expiration_cycle"

definition SubmissionRecoveryScheduler :: "string \<Rightarrow> scheduler_object" where
  "SubmissionRecoveryScheduler ownerId = leased_scheduler ownerId ''submission-recovery-scheduler'' 60000
     (metered ''submission-recovery-scheduler'' processSubmittedTransactions)"

definition PendingRecoveryScheduler :: "int \<Rightarrow> int \<Rightarrow> int \<Rightarrow> string \<Rightarrow> scheduler_object" where
  "PendingRecoveryScheduler graceMs failAfterMs listenerStalenessMs ownerId =
     leased_scheduler ownerId ''pending-recovery-scheduler'' 60000
       (metered ''pending-recovery-scheduler'' (processOrphanedPending graceMs failAfterMs listenerStalenessMs))"

definition BalanceDriftScheduler :: "nat \<Rightarrow> int \<Rightarrow> adapter list \<Rightarrow> nat \<Rightarrow> nat \<Rightarrow> string \<Rightarrow> scheduler_object" where
  "BalanceDriftScheduler fuel evm registry pageSize concurrency ownerId =
     leased_scheduler ownerId ''balance-drift-scheduler'' 60000
       (metered ''balance-drift-scheduler'' (bindE (sweep fuel evm registry pageSize concurrency) (\<lambda>_. returnE ())))"

definition OutboxRelayScheduler :: "string \<Rightarrow> scheduler_object" where
  "OutboxRelayScheduler ownerId = leased_scheduler ownerId ''outbox-relay-scheduler'' 30000
     (bindE (relay 50) (\<lambda>_. returnE ()))"

section \<open>Interleaving of the methods of one object\<close>

text \<open>The await a run is at.\<close>

datatype run_phase = Acquiring | Working | Releasing

text \<open>
  The fields together with the runs in flight. A tick of the interval timer calls \<^verbatim>\<open>run\<close>;
  every other step resumes one run in flight, and \<^verbatim>\<open>start\<close> and \<^verbatim>\<open>stop\<close> may come in at any
  point.
\<close>

inductive sched_step :: "scheduler \<times> run_phase list \<Rightarrow> scheduler \<times> run_phase list \<Rightarrow> bool" where
  started: "sched_step (s, ps) (scheduler_start s, ps)"
| stopped: "sched_step (s, ps) (scheduler_stop s, ps)"
| tick: "sd_timer s \<Longrightarrow> run_enter s = Some s' \<Longrightarrow> sched_step (s, ps) (s', ps @ [Acquiring])"
| refused: "sched_step (s, us @ Acquiring # vs) (run_exit (stopLeaseRenewal s), us @ vs)"
| granted: "sched_step (s, us @ Acquiring # vs) (startLeaseRenewal s, us @ Working # vs)"
| worked: "sched_step (s, us @ Working # vs) (stopLeaseRenewal s, us @ Releasing # vs)"
| released: "sched_step (s, us @ Releasing # vs) (run_exit s, us @ vs)"

inductive sched_reach :: "scheduler \<times> run_phase list \<Rightarrow> bool" where
  init: "sched_reach (new_scheduler, [])"
| step: "sched_reach x \<Longrightarrow> sched_step x y \<Longrightarrow> sched_reach y"

inductive_cases sched_stepE: "sched_step (s, ps) y"

definition sched_inv :: "scheduler \<times> run_phase list \<Rightarrow> bool" where
  "sched_inv x \<longleftrightarrow> (case x of (s, ps) \<Rightarrow>
     length ps = (if sd_executing s then 1 else 0) \<and> sd_timer s = sd_running s \<and>
     (sd_leaseRenewTimer s \<longrightarrow> ps = [Working]))"

lemma sched_inv_single: "sched_inv (s, us @ p # vs) \<Longrightarrow> us = [] \<and> vs = [] \<and> sd_executing s \<and> sd_timer s = sd_running s"
  by (cases "sd_executing s") (simp_all add: sched_inv_def)

lemmas scheduler_defs = scheduler_start_def scheduler_stop_def run_enter_def run_exit_def
  stopLeaseRenewal_def startLeaseRenewal_def

lemma sched_inv_step:
  assumes "sched_step x y" "sched_inv x"
  shows "sched_inv y"
  using assms
proof cases
  case (tick s s' ps)
  then have "s' = s\<lparr>sd_executing := True\<rparr>" "sd_running s" "\<not> sd_executing s"
    by (simp_all add: run_enter_def split: if_splits)
  with assms(2) show ?thesis by (cases ps) (simp_all add: tick(1,2) sched_inv_def)
next
  case (refused s us vs)
  then have "us = []" "vs = []" "sd_executing s" "sd_timer s = sd_running s"
    using assms(2) by (auto dest: sched_inv_single)
  then show ?thesis by (simp add: refused sched_inv_def scheduler_defs)
next
  case (granted s us vs)
  then have "us = []" "vs = []" "sd_executing s" "sd_timer s = sd_running s"
    using assms(2) by (auto dest: sched_inv_single)
  then show ?thesis by (simp add: granted sched_inv_def scheduler_defs)
next
  case (worked s us vs)
  then have "us = []" "vs = []" "sd_executing s" "sd_timer s = sd_running s"
    using assms(2) by (auto dest: sched_inv_single)
  then show ?thesis by (simp add: worked sched_inv_def scheduler_defs)
next
  case (released s us vs)
  then have "us = []" "vs = []" "sd_executing s" "sd_timer s = sd_running s"
    using assms(2) by (auto dest: sched_inv_single)
  then show ?thesis using assms(2) by (simp add: released sched_inv_def scheduler_defs)
next
  case (started s ps)
  with assms(2) show ?thesis by (cases "sd_running s") (simp_all add: sched_inv_def scheduler_defs)
next
  case (stopped s ps)
  with assms(2) show ?thesis by (cases "sd_running s") (simp_all add: sched_inv_def scheduler_defs)
qed

lemma sched_reach_inv: "sched_reach x \<Longrightarrow> sched_inv x"
proof (induction rule: sched_reach.induct)
  case init
  show ?case by (simp add: sched_inv_def new_scheduler_def)
next
  case (step x y)
  then show ?case by (blast intro: sched_inv_step)
qed

section \<open>What a run keeps, and what it does alone\<close>

context store_frame
begin

lemma keeps_metered [keeps_intros]: "keeps R e m \<Longrightarrow> keeps R e (metered n m)"
  unfolding metered_def by (intro keeps_intros)

end

context transaction_frame
begin

lemma keeps_run_body:
  assumes "rely R e" "keeps R e cycle"
  shows "keeps R e (run_body ow n k cycle)"
  unfolding run_body_def by (intro keeps_intros assms)

lemma keeps_scheduler_run:
  assumes "rely R e" "keeps R e cycle"
  shows "keeps R e (scheduler_run ow n k cycle s)"
  unfolding scheduler_run_def by (intro keeps_intros keeps_run_body assms)

lemma keeps_renewLease: "rely R e \<Longrightarrow> keeps R e (renewLease ow n k)"
  unfolding renewLease_def by (intro keeps_intros)

lemma keeps_reconcile [keeps_intros]:
  assumes "sound_registry registry" "rely R e"
  shows "keeps R e (reconcile evm registry rq)"
  unfolding reconcile_def Let_def using assms
  by (auto intro!: keeps_intros keeps_with_adapter intro: chain_adapter.balance_keeps [OF _ store_frame_axioms])

lemma keeps_checkOne [keeps_intros]:
  assumes "sound_registry registry" "rely R e"
  shows "keeps R e (checkOne evm registry v f)"
  unfolding checkOne_def using assms by (auto intro!: keeps_intros)

lemma keeps_resolveFrontiers [keeps_intros]: "rely R e \<Longrightarrow> keeps R e (resolveFrontiers is c)"
proof (induction "is" arbitrary: c)
  case (Cons i "is")
  then show ?case unfolding resolveFrontiers.simps resolveFrontier_def by (intro keeps_intros)
qed (simp add: keeps_return)

lemma keeps_sweep_batches [keeps_intros]:
  assumes "sound_registry registry" "rely R e"
  shows "keeps R e (sweep_batches evm registry bs c s)"
  by (induction bs arbitrary: c s) (auto intro!: keeps_intros assms)

lemma keeps_sweep:
  assumes "sound_registry registry" "rely R e"
  shows "keeps R e (sweep fuel evm registry p k)"
proof -
  have "keeps R e (sweep_loop fuel evm registry p k a c s)" for a c s
    by (induction fuel arbitrary: a c s)
      (auto intro!: keeps_intros assms simp: findPageForReconciliation_def split: prod.split)
  then show ?thesis unfolding sweep_def publish_def by (auto intro!: keeps_intros)
qed

end

text \<open>The only error that leaves a run is the death of the process.\<close>

lemma run_body_throws: "run_body ow n k cycle e w = (Inl x, w') \<Longrightarrow> x = Crashed"
  unfolding run_body_def bindE_Inl by (auto simp: bindE_Inl split: if_splits dest: swallowed)

text \<open>A refused lease: the cycle does not run, whatever it is.\<close>

lemma run_body_refused:
  assumes "acquire ow n k e w = (Inr False, w')"
  shows "run_body ow n k cycle e w = (Inr (), w')"
  using assms by (simp add: run_body_def eff_simps)

lemma run_body_granted:
  assumes "acquire ow n k e w = (Inr True, w1)" "cycle e w1 = (r, w2)" "r \<noteq> Inl Crashed" "quiet e"
  shows "run_body ow n k cycle e w =
    (Inr (), w2\<lparr>calls := Suc (calls w2), db := (db w2)\<lparr>leases := lease_release ow n (leases (db w2))\<rparr>\<rparr>)"
  using assms by (cases r) (simp_all add: run_body_def release_def eff_simps quiet_simps)

section \<open>Properties\<close>

text \<open>
  C17: a scheduler object never has more than one run in flight, whatever the interleaving of
  timer ticks, \<^verbatim>\<open>start\<close>, \<^verbatim>\<open>stop\<close> and the awaits of a run; the interval timer exists exactly while
  it is running; and the lease is renewed only while its cycle is at work, so no renewal outlives
  a run or a stop.
\<close>

theorem scheduler_single_flight:
  assumes "sched_reach (s, ps)"
  shows "length ps = (if sd_executing s then 1 else 0) \<and> sd_timer s = sd_running s \<and> (sd_leaseRenewTimer s \<longrightarrow> ps = [Working])"
  using sched_reach_inv [OF assms] by (simp add: sched_inv_def)

theorem scheduler_single_flight_witness:
  "\<exists>s. sched_reach (s, [Working]) \<and> sd_running s \<and> sd_leaseRenewTimer s \<and> length [Working] = (if sd_executing s then 1 else 0)"
proof -
  let ?s = "scheduler_start new_scheduler"
  have "sched_reach (?s, [])" by (rule sched_reach.step [OF sched_reach.init sched_step.started])
  then have "sched_reach (?s\<lparr>sd_executing := True\<rparr>, [] @ [Acquiring])"
    by (rule sched_reach.step) (rule sched_step.tick, simp_all add: scheduler_defs new_scheduler_def)
  then have "sched_reach (?s\<lparr>sd_executing := True\<rparr>, [] @ Acquiring # [])" by simp
  then have r: "sched_reach (startLeaseRenewal (?s\<lparr>sd_executing := True\<rparr>), [] @ Working # [])"
    by (rule sched_reach.step [OF _ sched_step.granted])
  show ?thesis
    using scheduler_single_flight [of "startLeaseRenewal (?s\<lparr>sd_executing := True\<rparr>)" "[Working]"] r
    by (intro exI [of _ "startLeaseRenewal (?s\<lparr>sd_executing := True\<rparr>)"]) (simp add: scheduler_defs new_scheduler_def)
qed

text \<open>
  A process that does not get the lease does not work. When another process holds it and it
  has not run out, the run ends normally, the store is as it was, whatever the cycle would have
  done, and the object is ready for the next tick.
\<close>

theorem lease_refused:
  assumes "quiet e" "0 < k" "row ls_name (leases (db w)) n = Some l" "ls_ownerId l \<noteq> ow" "env_clock e (calls w) < ls_expiresAt l"
    and "sd_running s" "\<not> sd_executing s"
  shows "\<exists>w'. so_run (leased_scheduler ow n k cycle) s e w = (Inr (s\<lparr>sd_leaseRenewTimer := False\<rparr>), w') \<and> db w' = db w"
proof -
  have "acquire ow n k e w = (Inr False, w\<lparr>calls := Suc (Suc (calls w))\<rparr>)"
    using assms(1-5) by (simp add: acquire_def assertTtl_def eff_simps getNow_def statement_quiet lease_acquire_def)
  from run_body_refused [OF this, of cycle] show ?thesis
    using assms(6,7) by (simp add: leased_scheduler_def scheduler_run_def run_enter_def bindE_def returnE_def run_exit_def
        stopLeaseRenewal_def)
qed

theorem lease_refused_witness:
  "\<exists>w'. so_run (ExpirationScheduler ''p2'') (scheduler_start new_scheduler) (calm (\<lambda>_. 50) (\<lambda>_. ''i''))
      (world_of (empty_store\<lparr>leases := [\<lparr> ls_name = ''expiration-scheduler'', ls_ownerId = ''p1'', ls_expiresAt = 60 \<rparr>]\<rparr>)) =
     (Inr (scheduler_start new_scheduler), w')"
  using lease_refused [of "calm (\<lambda>_. 50) (\<lambda>_. ''i'')" 60000
      "world_of (empty_store\<lparr>leases := [\<lparr> ls_name = ''expiration-scheduler'', ls_ownerId = ''p1'', ls_expiresAt = 60 \<rparr>]\<rparr>)"
      "''expiration-scheduler''" "\<lparr> ls_name = ''expiration-scheduler'', ls_ownerId = ''p1'', ls_expiresAt = 60 \<rparr>" "''p2''"
      "scheduler_start new_scheduler" expiration_cycle]
  by (auto simp: ExpirationScheduler_def scheduler_defs new_scheduler_def)

text \<open>
  C18: no error leaves a run. Whatever the cycle throws, whatever fails in the database and whoever
  interferes, a run of a scheduler either returns with the object ready for the next tick or ends
  with the death of the process.
\<close>

theorem run_contains_errors:
  assumes "so_run (leased_scheduler ow n k cycle) s e w = (r, w')" "sd_running s" "\<not> sd_executing s"
  shows "r = Inr (s\<lparr>sd_leaseRenewTimer := False\<rparr>) \<or> r = Inl Crashed"
  using assms run_body_throws [of ow n k cycle e w]
  by (auto simp: leased_scheduler_def scheduler_run_def run_enter_def bindE_def returnE_def run_exit_def stopLeaseRenewal_def
      split: prod.splits sum.splits)

theorem run_contains_errors_witness:
  "fst (so_run (leased_scheduler ''p1'' ''job'' 1000 (throwE (PlainError ''boom''))) (scheduler_start new_scheduler)
      (calm (\<lambda>_. 50) (\<lambda>_. ''i'')) (world_of empty_store)) = Inr (scheduler_start new_scheduler) \<or>
   fst (so_run (leased_scheduler ''p1'' ''job'' 1000 (throwE (PlainError ''boom''))) (scheduler_start new_scheduler)
      (calm (\<lambda>_. 50) (\<lambda>_. ''i'')) (world_of empty_store)) = Inl Crashed"
proof -
  have "(scheduler_start new_scheduler)\<lparr>sd_leaseRenewTimer := False\<rparr> = scheduler_start new_scheduler"
    by (simp add: scheduler_defs new_scheduler_def)
  then show ?thesis
    using run_contains_errors [of "''p1''" "''job''" 1000 "throwE (PlainError ''boom'')" "scheduler_start new_scheduler"
        "calm (\<lambda>_. 50) (\<lambda>_. ''i'')" "world_of empty_store", OF prod.collapse [symmetric]]
    by (simp add: scheduler_defs new_scheduler_def)
qed

end
