(* ===== verification/Api_Frame.thy ===== *)
theory Api_Frame
  imports Routes Schedulers
begin

text \<open>
  What the HTTP interface keeps: every relation on stores that allows the writes of the
  repositories (\<open>identity_frame\<close>) is respected by every route, whatever the request.
\<close>

context store_frame
begin

lemma keeps_send [keeps_intros]: "keeps R e (send s v)" "keeps R e (successResponse rq v s)"
  unfolding successResponse_def send_def by (auto intro: keeps_return keeps_throw split: option.split)

lemma keeps_validated [keeps_intros]: "(\<And>a. r = Inr a \<Longrightarrow> keeps R e m) \<Longrightarrow> keeps R e (validated r m)"
  unfolding validated_def by (auto intro: keeps_throw split: sum.split)

lemma keeps_error_handler [keeps_intros]: "keeps R e (error_handler rq x)"
  unfolding error_handler_def by (auto intro!: keeps_bind keeps_return keeps_getNow split: exn.split)

lemma keeps_handled [keeps_intros]: "keeps R e m \<Longrightarrow> keeps R e (handled rq m)"
  unfolding handled_def by (intro keeps_intros)

lemma keeps_pure_call: "keeps R e (library g)"
  by (simp add: keeps_def library_def frame_refl)

lemma keeps_authenticate [keeps_intros]: "keeps R e (authenticate c rq)"
  unfolding authenticate_def verifyToken_def Let_def by (intro keeps_intros keeps_pure_call)

lemma keeps_protected_route [keeps_intros]: "(\<And>u. keeps R e (h u)) \<Longrightarrow> keeps R e (protected_route c roles rq h)"
  unfolding protected_route_def by (auto intro!: keeps_intros split: sum.split option.split)

lemma keeps_open_challenge [keeps_intros]: "keeps R e (open_challenge c s t)"
  unfolding open_challenge_def Let_def by (auto intro!: keeps_intros split: list.split option.split)

lemma keeps_issueChallenge [keeps_intros]: "keeps R e (issueChallenge c s va pk evm registry x)"
  unfolding issueChallenge_def Let_def randomBytes_def by (intro keeps_intros keeps_pure_call)

end

context transaction_frame
begin

lemma keeps_assertOwnership:
  assumes "sound_registry registry" "rely R e"
  shows "keeps R e (assertOwnership c s vars evm registry x ch sig)"
  unfolding assertOwnership_def Let_def using assms
  by (auto intro!: keeps_intros keeps_with_adapter intro: chain_adapter.verify_keeps [OF _ store_frame_axioms] split: option.split)

lemmas api_reads = getUserWallets_def findByOwnerId_def getWallet_def wallet_findById_def getWalletBalances_def findByWallet_def
  getBalance_def balance_find_def getTokens_def token_findAll_def list_transactions_def findAll_def getById_def findById_def

lemma keeps_reads [keeps_intros]:
  assumes "rely R e"
  shows "keeps R e (getUserWallets u)" "keeps R e (getWallet i u t r)" "keeps R e (getWalletBalances i)" "keeps R e (getBalance i j)"
    "keeps R e getTokens" "keeps R e (list_transactions t pg l)" "keeps R e (getById i t)"
  using assms unfolding api_reads by (auto intro!: keeps_intros)

end

context identity_frame
begin

lemma keeps_route:
  assumes "rely R e" "ap_crypto p = c" "sound_registry (ap_registry p)"
  shows "keeps R e (route_handler r p rq)"
proof -
  note handlers = post_tenants_def post_api_keys_def get_api_keys_def delete_api_key_def get_audit_logs_def post_register_def
    post_login_def post_refresh_def get_me_def get_wallets_def get_wallet_def post_wallets_def post_challenge_def post_custodial_def
    get_wallet_balances_def post_tokens_def get_tokens_def get_token_def post_mint_def get_token_balance_def get_reconcile_def
    post_transactions_def get_transactions_def get_transaction_def
  note ops = keeps_createTenant keeps_createKey keeps_key_operations keeps_accounts keeps_listForTenant keeps_assertOwnership
    keeps_createWallet keeps_createCustodialWallet keeps_registerToken keeps_mintToken keeps_reconcile keeps_transfer
  have k: "keeps R e (createTenant (ap_crypto p) nm)" "keeps R e (createKey (ap_crypto p) tn nm sc x)" for nm tn sc x
    using assms(1,2) keeps_createTenant keeps_createKey by simp_all
  show ?thesis
    by (cases r; simp only: route_handler.simps handlers)
      (auto intro!: keeps_intros k ops assms(1,3) split: prod.split option.split)
qed

lemma keeps_respond:
  assumes "rely R e" "ap_crypto p = c" "sound_registry (ap_registry p)"
  shows "keeps R e (respond p r rq)"
  unfolding respond_def by (intro keeps_handled keeps_route assms)

end

end
