(* ===== verification/Log_Windows.thy ===== *)
theory Log_Windows
  imports Effects
begin

text \<open>
  \<^verbatim>\<open>blockchain/evm/log-windows.ts\<close>: the bounded scan over block ranges. The two regular
  expressions are terms of a small regular-expression type with an executable search;
  an error is seen through the layers of its cause chain. The rule
  \<open>ensures_scanLogWindows\<close> is what the indexer relies on: a fact about all blocks before
  the window that the processing of a window carries to the block after it holds
  throughout the scan.
\<close>

section \<open>Regular expressions\<close>

datatype rx =
    Lit string
  | Cls "char \<Rightarrow> bool"
  | WordB
  | Seq rx rx
  | Alt rx rx
  | Rep nat nat rx

definition word_char :: "char \<Rightarrow> bool" where
  "word_char c = (let n = of_char c :: nat in
     is_digit c \<or> (97 \<le> n \<and> n \<le> 122) \<or> (65 \<le> n \<and> n \<le> 90) \<or> n = 95)"

text \<open>A position of the subject: the character before it and the rest.\<close>

type_synonym pos = "char option \<times> string"

fun strip :: "string \<Rightarrow> pos \<Rightarrow> pos list" where
  "strip [] p = [p]"
| "strip (c # cs) (b, []) = []"
| "strip (c # cs) (b, d # ds) = (if c = d then strip cs (Some d, ds) else [])"

definition at_boundary :: "pos \<Rightarrow> bool" where
  "at_boundary p =
     ((case fst p of None \<Rightarrow> False | Some c \<Rightarrow> word_char c) \<noteq> (case snd p of [] \<Rightarrow> False | c # cs \<Rightarrow> word_char c))"

text \<open>Between \<open>m\<close> and \<open>m + n\<close> repetitions of a matcher.\<close>

fun repeat :: "nat \<Rightarrow> nat \<Rightarrow> (pos \<Rightarrow> pos list) \<Rightarrow> pos \<Rightarrow> pos list" where
  "repeat (Suc m) n f p = concat (map (repeat m n f) (f p))"
| "repeat 0 (Suc n) f p = p # concat (map (repeat 0 n f) (f p))"
| "repeat 0 0 f p = [p]"

text \<open>The positions at which a match that starts here may end.\<close>

fun ends :: "rx \<Rightarrow> pos \<Rightarrow> pos list" where
  "ends (Lit s) p = strip s p"
| "ends (Cls P) p = (case snd p of [] \<Rightarrow> [] | c # cs \<Rightarrow> if P c then [(Some c, cs)] else [])"
| "ends WordB p = (if at_boundary p then [p] else [])"
| "ends (Seq r s) p = concat (map (ends s) (ends r p))"
| "ends (Alt r s) p = ends r p @ ends s p"
| "ends (Rep m n r) p = repeat m n (ends r) p"

fun search :: "rx \<Rightarrow> char option \<Rightarrow> string \<Rightarrow> bool" where
  "search r b [] = (ends r (b, []) \<noteq> [])"
| "search r b (c # cs) = (ends r (b, c # cs) \<noteq> [] \<or> search r (Some c) cs)"

text \<open>\<^verbatim>\<open>pattern.test(text)\<close> with the flag \<^verbatim>\<open>i\<close>; the patterns are in lower case.\<close>

definition rx_test :: "rx \<Rightarrow> string \<Rightarrow> bool" where
  "rx_test r text = search r None (toLowerCase text)"

definition opt :: "rx \<Rightarrow> rx" where "opt r = Rep 0 1 r"

fun alts :: "rx list \<Rightarrow> rx" where
  "alts [] = Cls (\<lambda>_. False)"
| "alts [r] = r"
| "alts (r # rs) = Alt r (alts rs)"

fun seqs :: "rx list \<Rightarrow> rx" where
  "seqs [] = Lit ''''"
| "seqs [r] = r"
| "seqs (r # rs) = Seq r (seqs rs)"

text \<open>\<^verbatim>\<open>.\<close> and \<^verbatim>\<open>\d+\<close>, the latter up to the length of any number a message can hold.\<close>

definition any_char :: rx where "any_char = Cls (\<lambda>c. c \<noteq> CHR 0x0A \<and> c \<noteq> CHR 0x0D)"

definition digit :: rx where "digit = Cls is_digit"

definition RATE_LIMIT_PATTERN :: rx where
  "RATE_LIMIT_PATTERN = alts [
     seqs [Lit ''rate'', opt any_char, Lit ''limit''],
     Lit ''too many requests'',
     seqs [Lit ''request'', opt (Lit ''s''), Lit '' '', alts [Lit ''count'', Lit ''per'']],
     Lit ''throttl'',
     seqs [WordB, Lit ''429'', WordB]]"

definition RANGE_LIMIT_PATTERN :: rx where
  "RANGE_LIMIT_PATTERN = alts [
     Lit ''block range'',
     seqs [Lit ''range '', opt (Lit ''is ''), Lit ''too '', alts [Lit ''large'', Lit ''wide'', Lit ''big'']],
     seqs [alts [Lit ''exceed'', Lit ''exceeds'', Lit ''exceeded''], Rep 0 40 (Cls (\<lambda>c. c \<noteq> CHR ''.'')),
           alts [Lit ''range'', Lit ''limit'', Lit ''results'', Lit ''size'']],
     seqs [Lit ''more than '', Rep 1 77 digit, Lit '' results''],
     seqs [Lit ''too many '', alts [Lit ''results'', Lit ''logs'']],
     Lit ''response size'',
     seqs [Lit ''query '', alts [Lit ''returned'', Lit ''exceeds'']],
     Lit ''limit exceeded'',
     seqs [Lit ''max'', opt (Lit ''imum''), Lit '' '', opt (Lit ''block ''), Lit ''range''],
     seqs [Lit ''log'', opt (Lit ''s''), Lit '' '', alts [Lit ''response'', Lit ''result''], opt (Lit ''s''),
           Lit '' '', opt (Lit ''is ''), Lit ''too'']]"

section \<open>Errors seen through their cause chain\<close>

text \<open>One object of the chain; a chain that comes back to an object it has seen ends there.\<close>

record error_layer =
  el_message :: "string option"
  el_shortMessage :: "string option"
  el_details :: "string option"
  el_status :: "int option"

definition layer_parts :: "error_layer \<Rightarrow> string list" where
  "layer_parts l =
     concat (map (\<lambda>f. case f of None \<Rightarrow> [] | Some s \<Rightarrow> [s]) [el_message l, el_shortMessage l, el_details l])
     @ (case el_status l of None \<Rightarrow> [] | Some n \<Rightarrow> [''status '' @ show_int n])"

fun collect_parts :: "error_layer list \<Rightarrow> string list \<Rightarrow> string list" where
  "collect_parts [] parts = parts"
| "collect_parts (l # ls) parts = (if length parts < 10 then collect_parts ls (parts @ layer_parts l) else parts)"

fun join_parts :: "string \<Rightarrow> string list \<Rightarrow> string" where
  "join_parts sep [] = ''''"
| "join_parts sep [s] = s"
| "join_parts sep (s # ss) = s @ sep @ join_parts sep ss"

definition collectErrorText :: "error_layer list \<Rightarrow> string" where
  "collectErrorText ls = join_parts '' | '' (collect_parts ls [])"

definition isRateLimitError :: "error_layer list \<Rightarrow> bool" where
  "isRateLimitError ls = rx_test RATE_LIMIT_PATTERN (collectErrorText ls)"

definition isBlockRangeLimitError :: "error_layer list \<Rightarrow> bool" where
  "isBlockRangeLimitError ls =
     (let text = collectErrorText ls in
      if rx_test RATE_LIMIT_PATTERN text then False else rx_test RANGE_LIMIT_PATTERN text)"

section \<open>The scan\<close>

record scan_result =
  sr_lastProcessed :: "int option"
  sr_complete :: bool
  sr_windows :: int
  sr_maxRange :: int

text \<open>The last block of the window that starts at \<open>from\<close>.\<close>

definition window_end :: "int \<Rightarrow> int \<Rightarrow> int \<Rightarrow> int" where
  "window_end from rng to = (if from + rng - 1 < to then from + rng - 1 else to)"

function scan_loop ::
  "(exn \<Rightarrow> error_layer list) \<Rightarrow> (int \<Rightarrow> int \<Rightarrow> 'l list eff) \<Rightarrow> ('l list \<Rightarrow> int \<Rightarrow> int \<Rightarrow> unit eff) \<Rightarrow>
   (int \<Rightarrow> exn \<Rightarrow> unit eff) \<Rightarrow> int \<Rightarrow> int \<Rightarrow> int \<Rightarrow> int \<Rightarrow> int \<Rightarrow> int option \<Rightarrow> scan_result eff" where
  "scan_loop layers fetch onWindow onShrink to maxWindows from rng windows lastProcessed =
     (if from \<le> to \<and> windows < maxWindows then
        (let end = window_end from rng to in
         bindE (catchE (bindE (fetch from end) (\<lambda>logs. returnE (Inr logs))) (\<lambda>error. returnE (Inl error))) (\<lambda>answer.
         case answer of
           Inl error \<Rightarrow>
             if rng > 1 \<and> isBlockRangeLimitError (layers error)
             then bindE (onShrink (rng div 2) error) (\<lambda>_.
                    scan_loop layers fetch onWindow onShrink to maxWindows from (rng div 2) windows lastProcessed)
             else throwE error
         | Inr logs \<Rightarrow>
             bindE (onWindow logs from end) (\<lambda>_.
               scan_loop layers fetch onWindow onShrink to maxWindows (end + 1) rng (windows + 1) (Some end))))
      else returnE \<lparr> sr_lastProcessed = lastProcessed, sr_complete = from > to, sr_windows = windows, sr_maxRange = rng \<rparr>)"
  by pat_completeness auto
termination
  by (relation "measures [\<lambda>(ly, f, ow, os, to, mw, from, rng, wi, lp). nat (mw - wi),
      \<lambda>(ly, f, ow, os, to, mw, from, rng, wi, lp). nat rng]") auto

declare scan_loop.simps [simp del]

definition scanLogWindows ::
  "(exn \<Rightarrow> error_layer list) \<Rightarrow> int \<Rightarrow> int \<Rightarrow> int \<Rightarrow> int \<Rightarrow> (int \<Rightarrow> int \<Rightarrow> 'l list eff) \<Rightarrow>
   ('l list \<Rightarrow> int \<Rightarrow> int \<Rightarrow> unit eff) \<Rightarrow> (int \<Rightarrow> exn \<Rightarrow> unit eff) \<Rightarrow> scan_result eff" where
  "scanLogWindows layers from to maxRange maxWindows fetch onWindow onShrink =
     scan_loop layers fetch onWindow onShrink to maxWindows from maxRange 0 None"

section \<open>Rules for the scan\<close>

context store_frame
begin

lemma ensures_caught:
  assumes "ensures S R e m T" "stable R S"
  shows "ensures S R e (catchE (bindE m (\<lambda>a. returnE (Inr a))) (\<lambda>x. returnE (Inl x)))
     (\<lambda>r d. case r of Inl x \<Rightarrow> S d | Inr a \<Rightarrow> T a d)"
  unfolding ensures_def
proof (intro allI impI)
  fix w :: world assume S: "S (db w)"
  obtain r w' where m: "m e w = (r, w')" by fastforce
  with assms(1) S have "R (db w) (db w')" "\<And>a. r = Inr a \<Longrightarrow> T a (db w')" unfolding ensures_def by fastforce+
  moreover from this(1) assms(2) S have "S (db w')" by (auto simp: stable_def)
  ultimately show "case catchE (bindE m (\<lambda>a. returnE (Inr a))) (\<lambda>x. returnE (Inl x)) e w of
      (r, w') \<Rightarrow> R (db w) (db w') \<and> (\<forall>a. r = Inr a \<longrightarrow> (case a of Inl x \<Rightarrow> S (db w') | Inr a \<Rightarrow> T a (db w')))"
    by (cases r) (simp_all add: catchE_def bindE_def returnE_def m)
qed

lemma ensures_scan_loop:
  assumes "\<And>f t. ensures (J f) R e (fetch f t) (\<lambda>logs d. J f d \<and> F logs f t)"
    and "\<And>logs f t. F logs f t \<Longrightarrow> ensures (J f) R e (onWindow logs f t) (\<lambda>_. J (t + 1))"
    and "\<And>k x. keeps R e (onShrink k x)"
    and "\<And>f. stable R (J f)"
  shows "ensures (J fb) R e (scan_loop layers fetch onWindow onShrink tb mw fb rng wi lp) (\<lambda>_ _. True)"
  using assms
proof (induction layers fetch onWindow onShrink tb mw fb rng wi lp rule: scan_loop.induct)
  case (1 layers fetch onWindow onShrink tb mw fb rng wi lp)
  let ?stop = "window_end fb rng tb"
  note prems = "1.prems"
  show ?case
  proof (cases "fb \<le> tb \<and> wi < mw")
    case False
    then show ?thesis by (subst scan_loop.simps) (auto intro: ensures_return)
  next
    case True
    have caught: "ensures (J fb) R e (catchE (bindE (fetch fb ?stop) (\<lambda>logs. returnE (Inr logs))) (\<lambda>error. returnE (Inl error)))
        (\<lambda>r d. case r of Inl x \<Rightarrow> J fb d | Inr logs \<Rightarrow> J fb d \<and> F logs fb ?stop)"
      by (rule ensures_caught [OF prems(1,4)])
    have shrunk: "ensures (J fb) R e (bindE (onShrink (rng div 2) x) (\<lambda>_.
        scan_loop layers fetch onWindow onShrink tb mw fb (rng div 2) wi lp)) (\<lambda>_ _. True)"
      if "rng > 1" "isBlockRangeLimitError (layers x)" for x
      by (rule ensures_bind [OF ensures_frame [OF prems(3,4)]]) (rule "1.IH"(1) [OF True refl conjI [OF that] prems])
    have window: "ensures (J fb) R e (bindE (onWindow logs fb ?stop) (\<lambda>_.
        scan_loop layers fetch onWindow onShrink tb mw (?stop + 1) rng (wi + 1) (Some ?stop))) (\<lambda>_ _. True)"
      if "F logs fb ?stop" for logs
      by (rule ensures_bind [OF prems(2) [OF that]]) (rule "1.IH"(2) [OF True refl prems])
    show ?thesis
      by (subst scan_loop.simps, unfold Let_def if_P [OF True], rule ensures_bind [OF caught])
        (auto split: sum.split intro!: shrunk window ensures_throw ensures_pure)
  qed
qed

lemma ensures_scanLogWindows:
  assumes "\<And>f t. ensures (J f) R e (fetch f t) (\<lambda>logs d. J f d \<and> F logs f t)"
    and "\<And>logs f t. F logs f t \<Longrightarrow> ensures (J f) R e (onWindow logs f t) (\<lambda>_. J (t + 1))"
    and "\<And>k x. keeps R e (onShrink k x)" and "\<And>f. stable R (J f)"
  shows "ensures (J fb) R e (scanLogWindows layers fb tb rng mw fetch onWindow onShrink) (\<lambda>_ _. True)"
  unfolding scanLogWindows_def using assms by (rule ensures_scan_loop)

lemma keeps_scanLogWindows [keeps_intros]:
  assumes "\<And>f t. keeps R e (fetch f t)" "\<And>logs f t. keeps R e (onWindow logs f t)" "\<And>k x. keeps R e (onShrink k x)"
  shows "keeps R e (scanLogWindows layers fb tb rng mw fetch onWindow onShrink)"
  using ensures_scanLogWindows [of "\<lambda>_ _. True" e fetch "\<lambda>_ _ _. True" onWindow onShrink] assms
  by (simp add: ensures_keeps stable_def)

end

section \<open>Reference: the windows of a scan whose requests succeed\<close>

fun windows_of :: "nat \<Rightarrow> int \<Rightarrow> int \<Rightarrow> int \<Rightarrow> (int \<times> int) list" where
  "windows_of 0 fb rng tb = []"
| "windows_of (Suc n) fb rng tb =
     (if fb \<le> tb then (fb, window_end fb rng tb) # windows_of n (window_end fb rng tb + 1) rng tb else [])"

definition scan_outcome :: "int \<Rightarrow> int \<Rightarrow> int \<Rightarrow> int \<Rightarrow> int option \<Rightarrow> (int \<times> int) list \<Rightarrow> scan_result" where
  "scan_outcome fb tb rng wi lp ws = \<lparr> sr_lastProcessed = (if ws = [] then lp else Some (snd (last ws))),
     sr_complete = ((if ws = [] then fb else snd (last ws) + 1) > tb), sr_windows = wi + int (length ws), sr_maxRange = rng \<rparr>"

lemma bindE_assoc: "bindE (bindE m f) g = bindE m (\<lambda>a. bindE (f a) g)"
  by (rule ext)+ (simp add: bindE_def split: prod.split sum.split)

lemma bindE_return [simp]: "bindE (returnE a) f = f a"
  by (rule ext)+ (simp add: bindE_def returnE_def)

lemma fetched: "bindE (catchE (bindE (external (\<lambda>n. Inr l)) (\<lambda>logs. returnE (Inr logs))) (\<lambda>x. returnE (Inl x))) f =
    bindE (external (\<lambda>n. Inr l)) (\<lambda>logs. f (Inr logs))"
  by (rule ext)+ (simp add: bindE_def catchE_def external_def returnE_def)

lemma scan_outcome_Cons: "scan_outcome fb tb rng wi lp ((fb, t) # ws) = scan_outcome (t + 1) tb rng (wi + 1) (Some t) ws"
  by (simp add: scan_outcome_def)

lemma scan_loop_windows:
  assumes "\<And>f t. fetch f t = external (\<lambda>n. Inr (logs f t))" and "wi \<le> mw"
  shows "scan_loop layers fetch onWindow onShrink tb mw fb rng wi lp =
    (let ws = windows_of (nat (mw - wi)) fb rng tb in
     bindE (forE ws (\<lambda>(f, t). bindE (fetch f t) (\<lambda>l. onWindow l f t)))
       (\<lambda>_. returnE (scan_outcome fb tb rng wi lp ws)))"
  using assms(2)
proof (induction "nat (mw - wi)" arbitrary: fb wi lp)
  case 0
  then show ?case by (subst scan_loop.simps) (simp add: scan_outcome_def)
next
  case (Suc n)
  then have n: "nat (mw - wi) = Suc n" "nat (mw - (wi + 1)) = n" "wi < mw" by linarith+
  show ?case
  proof (cases "fb \<le> tb")
    case False
    then show ?thesis using n by (subst scan_loop.simps) (simp add: scan_outcome_def)
  next
    case True
    let ?t = "window_end fb rng tb" and ?g = "\<lambda>(f, t). bindE (external (\<lambda>n. Inr (logs f t))) (\<lambda>l. onWindow l f t)"
    have IH: "scan_loop layers fetch onWindow onShrink tb mw (?t + 1) rng (wi + 1) (Some ?t) =
       bindE (forE (windows_of n (?t + 1) rng tb) ?g)
         (\<lambda>_. returnE (scan_outcome (?t + 1) tb rng (wi + 1) (Some ?t) (windows_of n (?t + 1) rng tb)))"
      using Suc.hyps(1) [of "wi + 1" "?t + 1" "Some ?t"] n by (simp add: Let_def assms(1))
    have "scan_loop layers fetch onWindow onShrink tb mw fb rng wi lp =
       bindE (external (\<lambda>n. Inr (logs fb ?t))) (\<lambda>l. bindE (onWindow l fb ?t) (\<lambda>_.
         scan_loop layers fetch onWindow onShrink tb mw (?t + 1) rng (wi + 1) (Some ?t)))"
      using True n by (subst scan_loop.simps) (simp add: Let_def assms(1) fetched)
    then show ?thesis
      unfolding IH using True by (simp add: Let_def assms(1) bindE_assoc scan_outcome_Cons n(1))
  qed
qed

text \<open>The windows are the requested blocks cut into pieces of at most the given size, in order, without gap or overlap.\<close>

lemma windows_cover:
  assumes "1 \<le> rng"
  shows "concat (map (\<lambda>(f, t). [f..t]) (windows_of n fb rng tb)) = [fb..min tb (fb + int n * rng - 1)]"
proof (induction n arbitrary: fb)
  case 0
  then show ?case by simp
next
  case (Suc n)
  show ?case
  proof (cases "fb \<le> tb")
    case True
    let ?t = "window_end fb rng tb" and ?z = "min tb (fb + int (Suc n) * rng - 1)"
    have t: "fb \<le> ?t" "?t \<le> tb" "?t \<le> fb + rng - 1" using True assms by (auto simp: window_end_def)
    define p where "p = rng * int n"
    have p: "0 \<le> p" using assms by (simp add: p_def)
    have e1: "fb + int (Suc n) * rng - 1 = fb + rng + p - 1" by (simp add: p_def algebra_simps)
    have e2: "?t + 1 + int n * rng - 1 = ?t + p" by (simp add: p_def algebra_simps)
    have z: "min tb (?t + 1 + int n * rng - 1) = ?z" "?t \<le> ?z"
      unfolding e1 e2 using p assms by (cases "fb + rng - 1 < tb"; simp add: window_end_def min_def)+
    have "[fb..?t] @ [?t + 1..?z] = [fb..?z]"
      using t(1) z(2) by (rule upto_split2 [symmetric])
    with True Suc.IH [of "?t + 1"] z(1) show ?thesis by simp
  next
    case False
    then show ?thesis using assms by (simp add: upto_empty)
  qed
qed

lemma windows_bounded: "1 \<le> rng \<Longrightarrow> (f, t) \<in> set (windows_of n fb rng tb) \<Longrightarrow> f \<le> t \<and> t - f < rng \<and> t \<le> tb"
  by (induction n arbitrary: fb) (auto simp: window_end_def split: if_splits)

lemma windows_length: "length (windows_of n fb rng tb) \<le> n"
  by (induction n arbitrary: fb) auto

text \<open>The scan got past the last block exactly when the windows reach that far.\<close>

lemma windows_end:
  assumes "1 \<le> rng"
  shows "((if windows_of n fb rng tb = [] then fb else snd (last (windows_of n fb rng tb)) + 1) > tb) = (tb < fb + int n * rng)"
proof (induction n arbitrary: fb)
  case (Suc n)
  let ?t = "window_end fb rng tb"
  have pos: "0 \<le> int n * rng" using assms by simp
  show ?case
  proof (cases "fb \<le> tb")
    case True
    then have "((if windows_of (Suc n) fb rng tb = [] then fb else snd (last (windows_of (Suc n) fb rng tb)) + 1) > tb) =
        (tb < ?t + 1 + int n * rng)"
      using Suc [of "?t + 1"] by (simp split: if_splits)
    also have "\<dots> = (tb < fb + int (Suc n) * rng)"
      using pos by (auto simp: window_end_def algebra_simps)
    finally show ?thesis .
  next
    case False
    have "int (Suc n) * rng = rng + int n * rng" by (simp add: algebra_simps)
    with False assms pos have "tb < fb + int (Suc n) * rng" by linarith
    with False show ?thesis by simp
  qed
qed simp

section \<open>Property\<close>

text \<open>
  C37: with a node that answers every request, a scan is the plain walk over the block range. It
  asks for and hands on one window after the other; together the windows are exactly the blocks
  from the first on, in order, without gap or overlap, up to the last or as far as the allowed
  number of windows reaches; none is larger than the allowed range; and the result names the last
  block handed on and whether the range is exhausted.
\<close>

theorem scan_windows:
  assumes "1 \<le> maxRange" "0 \<le> maxWindows" "\<And>f t. fetch f t = external (\<lambda>n. Inr (logs f t))"
  shows "\<exists>ws. scanLogWindows layers fb tb maxRange maxWindows fetch onWindow onShrink =
      bindE (forE ws (\<lambda>(f, t). bindE (fetch f t) (\<lambda>l. onWindow l f t)))
        (\<lambda>_. returnE \<lparr> sr_lastProcessed = (if ws = [] then None else Some (snd (last ws))),
           sr_complete = (tb < fb + maxWindows * maxRange), sr_windows = int (length ws), sr_maxRange = maxRange \<rparr>) \<and>
    concat (map (\<lambda>(f, t). [f..t]) ws) = [fb..min tb (fb + maxWindows * maxRange - 1)] \<and>
    int (length ws) \<le> maxWindows \<and> (\<forall>(f, t) \<in> set ws. f \<le> t \<and> t - f < maxRange)"
proof -
  let ?ws = "windows_of (nat maxWindows) fb maxRange tb"
  have cover: "concat (map (\<lambda>(f, t). [f..t]) ?ws) = [fb..min tb (fb + maxWindows * maxRange - 1)]"
    using windows_cover [OF assms(1), where n = "nat maxWindows" and fb = fb and tb = tb] assms(2) by simp
  have bounded: "\<forall>(f, t) \<in> set ?ws. f \<le> t \<and> t - f < maxRange" using windows_bounded [OF assms(1)] by fastforce
  have "int (length ?ws) \<le> maxWindows" using windows_length [of "nat maxWindows" fb maxRange tb] assms(2) by linarith
  moreover have "((if ?ws = [] then fb else snd (last ?ws) + 1) > tb) = (tb < fb + maxWindows * maxRange)"
    using windows_end [OF assms(1), where n = "nat maxWindows" and fb = fb and tb = tb] assms(2) by simp
  ultimately show ?thesis
    using scan_loop_windows [OF assms(3), where wi = 0 and mw = maxWindows and layers = layers and onWindow = onWindow and
        onShrink = onShrink and tb = tb and fb = fb and rng = maxRange and lp = None] assms(2) cover bounded
    by (intro exI [of _ ?ws]) (simp add: scanLogWindows_def scan_outcome_def Let_def)
qed

theorem scan_windows_witness:
  "\<exists>ws. scanLogWindows (\<lambda>_. []) 1 25 10 2 (\<lambda>f t. external (\<lambda>n. Inr [f])) (\<lambda>l f t. returnE ()) (\<lambda>k x. returnE ()) =
      bindE (forE ws (\<lambda>(f, t). bindE (external (\<lambda>n. Inr [f])) (\<lambda>l. returnE ())))
        (\<lambda>_. returnE \<lparr> sr_lastProcessed = (if ws = [] then None else Some (snd (last ws))),
           sr_complete = False, sr_windows = int (length ws), sr_maxRange = 10 \<rparr>) \<and>
    concat (map (\<lambda>(f, t). [f..t]) ws) = [1..20]"
  using scan_windows [of 10 2 "\<lambda>f t. external (\<lambda>n. Inr [f])" "\<lambda>f t. [f]" "\<lambda>_. []" 1 25 "\<lambda>l f t. returnE ()" "\<lambda>k x. returnE ()"] by auto

end
