(* ===== verification/Event_Indexer.thy ===== *)
theory Event_Indexer
  imports Balances Log_Windows
begin

text \<open>
  The indexer of ERC-20 transfers: \<^verbatim>\<open>blockchain/evm/indexer-config.ts\<close>,
  \<^verbatim>\<open>services/transfer-event.service.ts\<close>, \<^verbatim>\<open>workers/event.listener.ts\<close> and
  \<^verbatim>\<open>workers/event-listener.worker.ts\<close>. Its main property is that the cursor of a token
  never passes an event that is not stored, under every fault, crash and interleaving.
\<close>

section \<open>Configuration\<close>

record indexer_config =
  ic_startBlock :: int
  ic_confirmations :: int
  ic_maxBlockRange :: int
  ic_maxWindowsPerRun :: int

definition DEFAULT_MAX_BLOCK_RANGE :: int where "DEFAULT_MAX_BLOCK_RANGE = 2000"

definition DEFAULT_MAX_WINDOWS_PER_RUN :: int where "DEFAULT_MAX_WINDOWS_PER_RUN = 25"

definition parseInteger :: "(string \<Rightarrow> string option) \<Rightarrow> string \<Rightarrow> int \<Rightarrow> int \<Rightarrow> exn + int" where
  "parseInteger vars name fallback minimum =
     (case map_option trim (vars name) of
        None \<Rightarrow> Inr fallback
      | Some raw \<Rightarrow>
          if raw = [] then Inr fallback
          else if \<not> list_all is_digit raw \<or> digits_value raw < minimum
          then Inl (PlainError (''Invalid '' @ name @ '' \"'' @ raw @ ''\": expected an integer >= '' @ show_int minimum))
          else Inr (digits_value raw))"

definition loadEvmIndexerConfig :: "(string \<Rightarrow> string option) \<Rightarrow> exn + indexer_config" where
  "loadEvmIndexerConfig vars =
     (case parseInteger vars ''EVM_INDEX_MAX_WINDOWS_PER_RUN'' DEFAULT_MAX_WINDOWS_PER_RUN 1 of Inl x \<Rightarrow> Inl x | Inr windows \<Rightarrow>
      case parseInteger vars ''EVM_INDEX_START_BLOCK'' 0 0 of Inl x \<Rightarrow> Inl x | Inr start \<Rightarrow>
      case parseInteger vars ''EVM_INDEX_CONFIRMATIONS'' 0 0 of Inl x \<Rightarrow> Inl x | Inr confirmations \<Rightarrow>
      case parseInteger vars ''EVM_LOGS_MAX_BLOCK_RANGE'' DEFAULT_MAX_BLOCK_RANGE 1 of Inl x \<Rightarrow> Inl x | Inr rng \<Rightarrow>
      Inr \<lparr> ic_startBlock = start, ic_confirmations = confirmations, ic_maxBlockRange = rng,
        ic_maxWindowsPerRun = Number_of_bigint windows \<rparr>)"

section \<open>TransferEventService\<close>

record transfer_log =
  tl_address :: string
  tl_from :: string
  tl_to :: string
  tl_value :: int
  tl_transactionHash :: string
  tl_logIndex :: int
  tl_blockNumber :: int

definition syncWalletBalance :: "evm_client \<Rightarrow> string option \<Rightarrow> string \<Rightarrow> string \<Rightarrow> string \<Rightarrow> int \<Rightarrow> unit eff" where
  "syncWalletBalance c evmVar address tokenId tokenAddress blockNumber =
     bindE (liftE (getEvmChainId evmVar)) (\<lambda>evm.
     bindE (findByAddress evm evm address) (\<lambda>wallet.
       case wallet of
         None \<Rightarrow> returnE ()
       | Some wl \<Rightarrow> bindE (sync c (wa_id wl) (wa_address wl) tokenId tokenAddress blockNumber) (\<lambda>_. returnE ())))"

definition handleTransferEvent :: "evm_client \<Rightarrow> string option \<Rightarrow> transfer_log \<Rightarrow> unit eff" where
  "handleTransferEvent c evmVar log =
     bindE (findByContractAddress (tl_address log) EVM) (\<lambda>token.
     case token of
       None \<Rightarrow> throwE (PlainError ''Token not registered'')
     | Some tk \<Rightarrow>
     bindE (findByTransactionHashAndLogIndex (tl_transactionHash log) (tl_logIndex log)) (\<lambda>stored.
     bindE (case stored of
              None \<Rightarrow> bindE (transfer_create (tk_id tk) (tl_from log) (tl_to log) (tl_value log)
                        (tl_transactionHash log) (tl_logIndex log) (tl_blockNumber log)) (\<lambda>_. returnE ())
            | Some r \<Rightarrow> incrementMetric ''event_listener_events_skipped_total'' []) (\<lambda>_.
     bindE (requireContractAddress (tk_contractAddress tk)) (\<lambda>ca.
     bindE (syncWalletBalance c evmVar (toLowerCase (tl_from log)) (tk_id tk) ca (tl_blockNumber log)) (\<lambda>_.
     bindE (requireContractAddress (tk_contractAddress tk)) (\<lambda>ca'.
     syncWalletBalance c evmVar (toLowerCase (tl_to log)) (tk_id tk) ca' (tl_blockNumber log)))))))"

section \<open>The listener\<close>

text \<open>The client of the listener, a library object: the head of the chain and the logs of a range.\<close>

record log_client =
  lc_getBlockNumber :: "nat \<Rightarrow> exn + int"
  lc_getLogs :: "nat \<Rightarrow> string option \<Rightarrow> int \<Rightarrow> int \<Rightarrow> exn + transfer_log list"

text \<open>The module-level variables \<^verbatim>\<open>processingTokens\<close> and \<^verbatim>\<open>learnedMaxBlockRange\<close>.\<close>

definition is_processing :: "string \<Rightarrow> bool eff" where
  "is_processing i = (\<lambda>e w. (Inr (i \<in> set (processingTokens w)), w))"

definition processing_add :: "string \<Rightarrow> unit eff" where
  "processing_add i = (\<lambda>e w. (Inr (), w\<lparr>processingTokens := i # processingTokens w\<rparr>))"

definition processing_delete :: "string \<Rightarrow> unit eff" where
  "processing_delete i = (\<lambda>e w. (Inr (), w\<lparr>processingTokens := filter (\<lambda>j. j \<noteq> i) (processingTokens w)\<rparr>))"

definition get_learned :: "int option eff" where
  "get_learned = (\<lambda>e w. (Inr (learnedMaxBlockRange w), w))"

definition set_learned :: "int option \<Rightarrow> unit eff" where
  "set_learned r = (\<lambda>e w. (Inr (), w\<lparr>learnedMaxBlockRange := r\<rparr>))"

definition resetEvmIndexerState :: "unit eff" where
  "resetEvmIndexerState = set_learned None"

definition setLag :: "string \<Rightarrow> int \<Rightarrow> int \<Rightarrow> unit eff" where
  "setLag i head lastIndexed =
     (let lag = (if head > lastIndexed then head - lastIndexed else 0) in
      setGauge ''event_listener_lag_blocks'' [(''token_id'', i)] (Number_of_bigint lag))"

definition onWindow :: "evm_client \<Rightarrow> string option \<Rightarrow> string \<Rightarrow> transfer_log list \<Rightarrow> int \<Rightarrow> int \<Rightarrow> unit eff" where
  "onWindow c evmVar tokenId logs from to =
     bindE (forE logs (handleTransferEvent c evmVar)) (\<lambda>_.
     bindE (markSuccess tokenId to) (\<lambda>_.
     incrementMetricBy ''event_listener_events_processed_total'' (length logs)))"

text \<open>The first block of a cycle: the configured start for a token never indexed, else one before the cursor.\<close>

definition first_block :: "indexer_config \<Rightarrow> int \<Rightarrow> int" where
  "first_block config lastProcessed = (if lastProcessed = 0 then ic_startBlock config else lastProcessed - 1)"

text \<open>The part of the \<^verbatim>\<open>try\<close> block after the cursor is loaded.\<close>

definition index_token ::
  "log_client \<Rightarrow> (exn \<Rightarrow> error_layer list) \<Rightarrow> evm_client \<Rightarrow> string option \<Rightarrow> indexer_config \<Rightarrow> token \<Rightarrow> token_event_cursor \<Rightarrow> unit eff" where
  "index_token lc layers c evmVar config tk cursor =
     bindE (external (lc_getBlockNumber lc)) (\<lambda>currentBlock.
     let indexableHead = currentBlock - ic_confirmations config;
         fromBlock = first_block config (cu_lastProcessedBlock cursor) in
     if fromBlock > indexableHead then setLag (tk_id tk) currentBlock (cu_lastProcessedBlock cursor)
     else bindE get_learned (\<lambda>learned.
       bindE (scanLogWindows layers fromBlock indexableHead
                (case learned of None \<Rightarrow> ic_maxBlockRange config | Some r \<Rightarrow> r) (ic_maxWindowsPerRun config)
                (\<lambda>f t. external (\<lambda>n. lc_getLogs lc n (tk_contractAddress tk) f t))
                (onWindow c evmVar (tk_id tk))
                (\<lambda>newRange error. set_learned (Some newRange))) (\<lambda>result.
       setLag (tk_id tk) currentBlock
         (case sr_lastProcessed result of None \<Rightarrow> cu_lastProcessedBlock cursor | Some b \<Rightarrow> b))))"

definition processTokenEvents ::
  "(string \<Rightarrow> string option) \<Rightarrow> log_client \<Rightarrow> (exn \<Rightarrow> error_layer list) \<Rightarrow> evm_client \<Rightarrow> string option \<Rightarrow> string \<Rightarrow> unit eff" where
  "processTokenEvents vars lc layers c evmVar databaseTokenId =
     bindE (is_processing databaseTokenId) (\<lambda>busy.
     if busy then returnE ()
     else bindE (processing_add databaseTokenId) (\<lambda>_.
       finallyE
         (bindE (token_findById databaseTokenId) (\<lambda>token.
          case token of
            None \<Rightarrow> throwE (PlainError (''Token '' @ databaseTokenId @ '' not found''))
          | Some tk \<Rightarrow>
              if tk_blockchain tk \<noteq> EVM then returnE ()
              else bindE (liftE (loadEvmIndexerConfig vars)) (\<lambda>config.
                bindE (cursor_getOrCreate databaseTokenId) (\<lambda>cursor.
                catchE (index_token lc layers c evmVar config tk cursor)
                  (\<lambda>error.
                     bindE (catchE (bindE (markFailure databaseTokenId) (\<lambda>_. returnE ())) (\<lambda>_. returnE ())) (\<lambda>_.
                     throwE error))))))
         (processing_delete databaseTokenId)))"

section \<open>The worker\<close>

definition MAX_BACKOFF_MS :: int where "MAX_BACKOFF_MS = 60000"

definition backoffDelay :: "int \<Rightarrow> int \<Rightarrow> int" where
  "backoffDelay baseMs consecutiveFailures =
     (if consecutiveFailures \<le> 0 then baseMs
      else (let doubled = baseMs * 2 ^ nat (min consecutiveFailures 10) in min doubled (max baseMs MAX_BACKOFF_MS)))"

fun process_tokens :: "(string \<Rightarrow> unit eff) \<Rightarrow> token list \<Rightarrow> nat \<Rightarrow> nat eff" where
  "process_tokens process [] failedTokens = returnE failedTokens"
| "process_tokens process (tk # tks) failedTokens =
     bindE (catchE (bindE (process (tk_id tk)) (\<lambda>_. returnE False))
              (\<lambda>error. bindE (incrementMetric ''event_listener_failures_total'' []) (\<lambda>_. returnE True))) (\<lambda>failed.
     process_tokens process tks (if failed then failedTokens + 1 else failedTokens))"

definition processCycle :: "(string \<Rightarrow> unit eff) \<Rightarrow> nat eff" where
  "processCycle process =
     bindE (incrementMetric ''event_listener_cycles_total'' []) (\<lambda>_.
     catchE (bindE (query tokens) (\<lambda>tks. process_tokens process tks 0))
       (\<lambda>error. bindE (incrementMetric ''event_listener_failures_total'' []) (\<lambda>_. throwE error)))"

text \<open>
  \<^verbatim>\<open>start\<close>: the loop runs while \<^verbatim>\<open>this.running\<close>, which \<^verbatim>\<open>stop\<close> clears from outside;
  \<open>running k\<close> is what the flag reads after cycle \<open>k\<close>. The fuel bounds the number of cycles;
  the value is the list of delays slept, so far.
\<close>

fun worker_loop :: "nat \<Rightarrow> (nat \<Rightarrow> bool) \<Rightarrow> (string \<Rightarrow> unit eff) \<Rightarrow> int \<Rightarrow> nat \<Rightarrow> int \<Rightarrow> int list eff" where
  "worker_loop 0 running process interval k consecutiveFailures = returnE []"
| "worker_loop (Suc fuel) running process interval k consecutiveFailures =
     bindE (catchE (bindE (processCycle process) (\<lambda>failedTokens. returnE (failedTokens > 0))) (\<lambda>error. returnE True)) (\<lambda>cycleFailed.
     let failures = (if cycleFailed then consecutiveFailures + 1 else 0) in
     if running k
     then bindE (worker_loop fuel running process interval (Suc k) failures) (\<lambda>delays.
            returnE (backoffDelay interval failures # delays))
     else returnE [])"

definition worker_start :: "string \<Rightarrow> bool \<Rightarrow> nat \<Rightarrow> (nat \<Rightarrow> bool) \<Rightarrow> (string \<Rightarrow> unit eff) \<Rightarrow> int \<Rightarrow> int list eff" where
  "worker_start intervalVar alreadyRunning fuel running process interval =
     (if alreadyRunning then throwE (PlainError ''Event listener worker already running'')
      else if interval < 0 then throwE (PlainError (''Invalid EVENT_LISTENER_INTERVAL_MS: '' @ intervalVar))
      else worker_loop fuel running process interval 0 0)"

section \<open>The cursor never passes an event that is not stored\<close>

definition stored :: "transfer_log \<Rightarrow> store \<Rightarrow> bool" where
  "stored l d \<longleftrightarrow> (\<exists>r \<in> set (transfers d). tr_transactionHash r = tl_transactionHash l \<and> tr_logIndex r = tl_logIndex l)"

text \<open>The events of the token's contract, and what the cursor of the token says about them.\<close>

definition stored_until :: "int \<Rightarrow> transfer_log list \<Rightarrow> int \<Rightarrow> store \<Rightarrow> bool" where
  "stored_until start chain b d \<longleftrightarrow> (\<forall>l \<in> set chain. start \<le> tl_blockNumber l \<longrightarrow> tl_blockNumber l \<le> b \<longrightarrow> stored l d)"

definition index_ok :: "int \<Rightarrow> transfer_log list \<Rightarrow> string option \<Rightarrow> string \<Rightarrow> store \<Rightarrow> bool" where
  "index_ok start chain ca i d \<longleftrightarrow> (\<exists>tk. row tk_id (tokens d) i = Some tk \<and> tk_contractAddress tk = ca) \<and>
     (\<forall>c. row cu_tokenId (cursors d) i = Some c \<longrightarrow> cu_lastProcessedBlock c \<noteq> 0 \<longrightarrow>
        stored_until start chain (cu_lastProcessedBlock c) d)"

definition index_order :: "int \<Rightarrow> transfer_log list \<Rightarrow> string option \<Rightarrow> string \<Rightarrow> store \<Rightarrow> store \<Rightarrow> bool" where
  "index_order start chain ca i d d' \<longleftrightarrow>
     (index_ok start chain ca i d \<longrightarrow> index_ok start chain ca i d' \<and> (\<forall>l. stored l d \<longrightarrow> stored l d'))"

text \<open>The node answers a range with all of the contract's events in it.\<close>

definition complete_logs :: "log_client \<Rightarrow> transfer_log list \<Rightarrow> string option \<Rightarrow> bool" where
  "complete_logs lc chain ca \<longleftrightarrow> (\<forall>n f t ls. lc_getLogs lc n ca f t = Inr ls \<longrightarrow>
     (\<forall>l \<in> set chain. f \<le> tl_blockNumber l \<longrightarrow> tl_blockNumber l \<le> t \<longrightarrow> l \<in> set ls))"

lemma index_order_same:
  assumes "transfers d' = transfers d" "cursors d' = cursors d" "tokens d' = tokens d"
  shows "index_order start chain ca i d d'"
  using assms by (simp add: index_order_def index_ok_def stored_until_def stored_def)

interpretation ix: balance_frame "index_order start chain ca i" for start chain ca i
proof unfold_locales
  fix d show "index_order start chain ca i d d" by (rule index_order_same) simp_all
next
  fix a b c assume "index_order start chain ca i a b" "index_order start chain ca i b c"
  then show "index_order start chain ca i a c" by (simp add: index_order_def)
next
  fix d d' assume "balance_step d d'"
  then show "index_order start chain ca i d d'" by (auto simp: balance_step_def intro: index_order_same)
qed

interpretation ixt: transaction_frame "index_order start chain ca i" for start chain ca i
proof unfold_locales
  fix P f d n d' assume "tx_updateMany P f d = Inr (n, d')"
  then show "index_order start chain ca i d d'"
    by (auto simp: tx_updateMany_def Let_def intro: index_order_same split: if_splits)
next
  fix t d t' d' assume "tx_create t d = Inr (t', d')"
  then show "index_order start chain ca i d d'"
    by (auto simp: tx_create_def Let_def intro: index_order_same split: if_splits)
next
  fix d d' assume "confirmation_commit d d'"
  then show "index_order start chain ca i d d'"
    by (auto simp: confirmation_commit_def same_index_def intro: index_order_same)
next
  fix d d' assume "same_index d d'"
  then show "index_order start chain ca i d d'" by (simp add: same_index_def index_order_same)
next
  fix d :: store and x :: token assume "row tk_id (tokens d) (tk_id x) = None"
  then show "index_order start chain ca i d (d\<lparr>tokens := tokens d @ [x]\<rparr>)"
    by (auto simp: index_order_def index_ok_def stored_until_def stored_def row_append)
qed

lemma stable_index_ok: "stable (index_order start chain ca i) (index_ok start chain ca i)"
  by (simp add: stable_def index_order_def)

text \<open>The facts the scan carries along: the invariant and everything before a block.\<close>

definition before :: "int \<Rightarrow> transfer_log list \<Rightarrow> string option \<Rightarrow> string \<Rightarrow> int \<Rightarrow> store \<Rightarrow> bool" where
  "before start chain ca i b d \<longleftrightarrow> index_ok start chain ca i d \<and> stored_until start chain (b - 1) d"

lemma stable_stored: "stable (index_order start chain ca i) (\<lambda>d. index_ok start chain ca i d \<and> (\<forall>l \<in> L. stored l d))"
  by (auto simp: stable_def index_order_def)

lemma stable_before: "stable (index_order start chain ca i) (before start chain ca i b)"
  by (auto simp: stable_def index_order_def before_def stored_until_def)

lemma stable_conj: "stable R S \<Longrightarrow> stable R T \<Longrightarrow> stable R (\<lambda>d. S d \<and> T d)"
  by (auto simp: stable_def)

lemma index_orderI:
  "ensures (index_ok start chain ca i) (index_order start chain ca i) e m Q \<Longrightarrow> keeps (index_order start chain ca i) e m"
  unfolding ensures_def keeps_def case_prod_beta index_order_def by blast

lemma stable_and_stored:
  assumes "stable (index_order start chain ca i) S" and "\<And>d. S d \<Longrightarrow> index_ok start chain ca i d"
  shows "stable (index_order start chain ca i) (\<lambda>d. S d \<and> stored l d)"
  unfolding stable_def
proof (intro allI impI)
  fix d d' assume r: "index_order start chain ca i d d'" and s: "S d \<and> stored l d"
  with assms(1) have "S d'" unfolding stable_def by blast
  moreover from r s assms(2) have "stored l d'" unfolding index_order_def by blast
  ultimately show "S d' \<and> stored l d'" by blast
qed

lemma before_extended:
  assumes "before start chain ca i f d" "\<forall>l \<in> set logs. stored l d"
    and "\<forall>l \<in> set chain. f \<le> tl_blockNumber l \<longrightarrow> tl_blockNumber l \<le> t \<longrightarrow> l \<in> set logs"
  shows "before start chain ca i (t + 1) d"
  unfolding before_def stored_until_def
proof (intro conjI ballI impI)
  show "index_ok start chain ca i d" using assms(1) by (simp add: before_def)
  fix l assume l: "l \<in> set chain" "start \<le> tl_blockNumber l" "tl_blockNumber l \<le> t + 1 - 1"
  show "stored l d"
  proof (cases "f \<le> tl_blockNumber l")
    case True
    with l assms(2,3) show ?thesis by simp
  next
    case False
    with l assms(1) show ?thesis by (simp add: before_def stored_until_def)
  qed
qed

lemma transfer_create_stores:
  assumes "rely (index_order start chain ca i) e" "stable (index_order start chain ca i) S"
    and ok: "\<And>d. S d \<Longrightarrow> index_ok start chain ca i d"
  shows "ensures S (index_order start chain ca i) e
    (transfer_create tk fa ta a (tl_transactionHash l) (tl_logIndex l) bn) (\<lambda>_ d. S d \<and> stored l d)"
proof -
  have app: "index_order start chain ca i d (d\<lparr>transfers := transfers d @ [r]\<rparr>)" for d r
    by (auto simp: index_order_def index_ok_def stored_until_def stored_def)
  have S': "S (d\<lparr>transfers := transfers d @ [r]\<rparr>)" if "S d" for d r
    using assms(2) app [of d r] that unfolding stable_def by blast
  show ?thesis
    unfolding transfer_create_def
    by (intro ix.ensures_bind [OF ix.ensures_frame [OF ix.keeps_uuid assms(2)]]
        ix.ensures_bind [OF ix.ensures_frame [OF ix.keeps_getNow assms(2)]] ix.ensures_statement assms)
      (auto simp: Let_def app S' stored_def ix.frame_refl find_Some_iff split: option.splits intro: nth_mem)
qed

text \<open>After an event is handled it is stored, and what was known before still holds.\<close>

lemma handleTransferEvent_stores:
  assumes rely: "rely (index_order start chain ca i) e" and st: "stable (index_order start chain ca i) S"
    and ok: "\<And>d. S d \<Longrightarrow> index_ok start chain ca i d"
  shows "ensures S (index_order start chain ca i) e (handleTransferEvent c ev l) (\<lambda>_ d. S d \<and> stored l d)"
proof -
  have st': "stable (index_order start chain ca i) (\<lambda>d. S d \<and> stored l d)"
    using st ok by (rule stable_and_stored)
  have found: "ensures S (index_order start chain ca i) e
      (findByTransactionHashAndLogIndex (tl_transactionHash l) (tl_logIndex l)) (\<lambda>r d. S d \<and> (r \<noteq> None \<longrightarrow> stored l d))"
    unfolding findByTransactionHashAndLogIndex_def
    by (rule ix.ensures_query [OF rely st]) (auto simp: stored_def find_Some_iff intro: nth_mem)
  have rest: "keeps (index_order start chain ca i) e (bindE (requireContractAddress ca1) (\<lambda>ca.
      bindE (syncWalletBalance c ev fa tki ca bn) (\<lambda>_. bindE (requireContractAddress ca2) (\<lambda>ca'.
      syncWalletBalance c ev ta tki ca' bn))))" for ca1 fa ta tki bn ca2
    unfolding requireContractAddress_def syncWalletBalance_def findByAddress_def
    by (intro ix.keeps_bind ix.keeps_if ix.keeps_throw ix.keeps_return ix.keeps_lift ix.keeps_query
        ix.keeps_case_option ix.keeps_sync rely)
  have store: "ensures (\<lambda>d. S d \<and> (r \<noteq> None \<longrightarrow> stored l d)) (index_order start chain ca i) e
      (case r of None \<Rightarrow> bindE (transfer_create tki fa ta a (tl_transactionHash l) (tl_logIndex l) bn) (\<lambda>_. returnE ())
       | Some x \<Rightarrow> incrementMetric ''event_listener_events_skipped_total'' []) (\<lambda>_ d. S d \<and> stored l d)" for r tki fa ta a bn
    using ix.ensures_bind [OF transfer_create_stores [OF rely st ok] ix.ensures_return]
      ix.ensures_frame [OF ix.keeps_metric st'] by (cases r) auto
  show ?thesis
    unfolding handleTransferEvent_def findByContractAddress_def
    by (rule ix.ensures_bind [OF ix.ensures_frame [OF _ st]])
      (auto intro!: ix.keeps_query rely ix.ensures_throw ix.ensures_bind [OF found] ix.ensures_bind [OF store]
        ix.ensures_frame [OF rest st'] split: option.split)
qed

lemma handle_all_stores:
  assumes rely: "rely (index_order start chain ca i) e" and "stable (index_order start chain ca i) S"
    and "\<And>d. S d \<Longrightarrow> index_ok start chain ca i d"
  shows "ensures S (index_order start chain ca i) e (forE ls (handleTransferEvent c ev)) (\<lambda>_ d. S d \<and> (\<forall>l \<in> set ls. stored l d))"
  using assms(2,3)
proof (induction ls arbitrary: S)
  case Nil
  then show ?case by (simp add: ix.ensures_return)
next
  case (Cons l ls)
  have st: "stable (index_order start chain ca i) (\<lambda>d. S d \<and> stored l d)"
    using Cons.prems by (rule stable_and_stored)
  have "ensures (\<lambda>d. S d \<and> stored l d) (index_order start chain ca i) e (forE ls (handleTransferEvent c ev))
      (\<lambda>_ d. S d \<and> (\<forall>l' \<in> set (l # ls). stored l' d))"
    by (rule ensures_mono [OF Cons.IH [OF st]]) (use Cons.prems in auto)
  then show ?case
    by (auto intro: ix.ensures_bind [OF handleTransferEvent_stores [OF rely Cons.prems]])
qed

lemma markSuccess_advances:
  assumes rely: "rely (index_order start chain ca i) e"
  shows "ensures (before start chain ca i (b + 1)) (index_order start chain ca i) e (markSuccess i b)
    (\<lambda>_. before start chain ca i (b + 1))"
proof -
  have step: "index_order start chain ca i d d' \<and> before start chain ca i (b + 1) d'"
    if "before start chain ca i (b + 1) d" "cursor_update i (\<lambda>c. c\<lparr>cu_lastProcessedBlock := b, cu_lastSuccessfulSync := Some now,
        cu_failureCount := 0\<rparr>) d = Inr (c, d')" for d c d' now
  proof -
    have t: "transfers d' = transfers d" "tokens d' = tokens d" using that(2) by (auto simp: cursor_update_def split: option.splits)
    have r: "row cu_tokenId (cursors d') i = map_option (\<lambda>c. c\<lparr>cu_lastProcessedBlock := b, cu_lastSuccessfulSync := Some now,
        cu_failureCount := 0\<rparr>) (row cu_tokenId (cursors d) i)"
      using that(2) by (auto simp: cursor_update_def row_update dest: row_SomeD split: option.splits)
    have s: "stored l d' = stored l d" for l by (simp add: stored_def t)
    show ?thesis using that(1) r by (auto simp: index_order_def before_def index_ok_def stored_until_def s t)
  qed
  show ?thesis
    unfolding markSuccess_def
    by (intro ix.ensures_bind [OF ix.ensures_frame [OF ix.keeps_getNow stable_before]] ix.ensures_statement rely
        stable_before) (rule step)
qed

lemma onWindow_advances:
  assumes rely: "rely (index_order start chain ca i) e"
    and logs: "\<forall>l \<in> set chain. f \<le> tl_blockNumber l \<longrightarrow> tl_blockNumber l \<le> t \<longrightarrow> l \<in> set logs"
  shows "ensures (before start chain ca i f) (index_order start chain ca i) e (onWindow c ev i logs f t)
    (\<lambda>_. before start chain ca i (t + 1))"
proof -
  have "ensures (before start chain ca i f) (index_order start chain ca i) e (forE logs (handleTransferEvent c ev))
      (\<lambda>_. before start chain ca i (t + 1))"
    by (rule ensures_mono [OF handle_all_stores [OF rely stable_before]])
      (simp add: before_def, elim conjE, rule before_extended [OF _ _ logs])
  then show ?thesis
    unfolding onWindow_def
    by (intro ix.ensures_bind [OF _ ix.ensures_bind [OF markSuccess_advances [OF rely]
        ix.ensures_frame [OF ix.keeps_gauge(2) stable_before]]])
qed

lemma first_block_before:
  assumes "index_ok (ic_startBlock config) chain ca i d" "row cu_tokenId (cursors d) i = Some c"
  shows "before (ic_startBlock config) chain ca i (first_block config (cu_lastProcessedBlock c)) d"
  using assms by (auto simp: before_def first_block_def index_ok_def stored_until_def)

context store_frame
begin

text \<open>The module-level variables are not part of the store.\<close>

lemma keeps_module_state [keeps_intros]:
  "keeps R e (is_processing i)" "keeps R e (processing_add i)" "keeps R e (processing_delete i)"
  "keeps R e get_learned" "keeps R e (set_learned r)" "keeps R e (setLag i h b)"
  by (simp_all add: keeps_def is_processing_def processing_add_def processing_delete_def get_learned_def
      set_learned_def setLag_def setGauge_def Let_def incrementMetric_def frame_refl)

end

lemma index_token_ensures:
  assumes rely: "rely (index_order (ic_startBlock config) chain ca (tk_id tk)) e"
    and logs: "complete_logs lc chain ca" and tk: "tk_contractAddress tk = ca"
  shows "ensures (before (ic_startBlock config) chain ca (tk_id tk) (first_block config (cu_lastProcessedBlock cursor)))
    (index_order (ic_startBlock config) chain ca (tk_id tk)) e (index_token lc layers c ev config tk cursor) (\<lambda>_ _. True)"
proof -
  let ?R = "index_order (ic_startBlock config) chain ca (tk_id tk)" and ?B = "before (ic_startBlock config) chain ca (tk_id tk)"
  let ?F = "\<lambda>ls f t. \<forall>l \<in> set chain. f \<le> tl_blockNumber l \<longrightarrow> tl_blockNumber l \<le> t \<longrightarrow> l \<in> set ls"
  have fetch: "ensures (?B f) ?R e (external (\<lambda>n. lc_getLogs lc n (tk_contractAddress tk) f t)) (\<lambda>ls d. ?B f d \<and> ?F ls f t)" for f t
    using ix.ensures_frame [OF ix.keeps_external [OF rely] stable_before] logs
    by (fastforce simp: ensures_def external_def complete_logs_def tk)
  have scan: "ensures (?B f) ?R e (scanLogWindows layers f t r mw (\<lambda>f t. external (\<lambda>n. lc_getLogs lc n (tk_contractAddress tk) f t))
      (onWindow c ev (tk_id tk)) (\<lambda>newRange error. set_learned (Some newRange))) (\<lambda>_ _. True)" for f t r mw
    by (rule ix.ensures_scanLogWindows [where J = ?B and F = ?F])
      (rule fetch, erule onWindow_advances [OF rely], rule ix.keeps_module_state(5), rule stable_before)
  have lag: "ensures S ?R e (setLag (tk_id tk) h b) (\<lambda>_ _. True)" for S h b
  proof -
    have "keeps ?R e (setLag (tk_id tk) h b)" by (rule ix.keeps_module_state)
    then show ?thesis by (simp add: ensures_def keeps_def case_prod_beta)
  qed
  show ?thesis
    unfolding index_token_def Let_def
    by (rule ix.ensures_bind [OF ix.ensures_frame [OF ix.keeps_external [OF rely] stable_before]])
      (intro ix.ensures_if lag ix.ensures_bind [OF ix.ensures_frame [OF ix.keeps_module_state(4) stable_before]]
        ix.ensures_bind [OF scan])
qed

lemma cursor_getOrCreate_ensures:
  assumes rely: "rely (index_order (ic_startBlock config) chain ca i) e"
  shows "ensures (index_ok (ic_startBlock config) chain ca i) (index_order (ic_startBlock config) chain ca i) e (cursor_getOrCreate i)
    (\<lambda>c. before (ic_startBlock config) chain ca i (first_block config (cu_lastProcessedBlock c)))"
  unfolding cursor_getOrCreate_def
proof (rule ix.ensures_statement [OF rely stable_index_ok])
  fix d c d'
  assume ok: "index_ok (ic_startBlock config) chain ca i d"
    and g: "(case row cu_tokenId (cursors d) i of Some c \<Rightarrow> Inr (c, d)
       | None \<Rightarrow> let c = \<lparr> cu_tokenId = i, cu_lastProcessedBlock = 0, cu_lastProcessedLogIndex = 0,
               cu_lastSuccessfulSync = None, cu_lastFailedSync = None, cu_failureCount = 0 \<rparr>
         in Inr (c, d\<lparr>cursors := cursors d @ [c]\<rparr>)) = Inr (c, d')"
  have same: "transfers d' = transfers d" "tokens d' = tokens d" using g by (auto simp: Let_def split: option.splits)
  have row': "row cu_tokenId (cursors d') i = Some c" "d' = d \<or> cu_lastProcessedBlock c = 0"
    using g by (auto simp: Let_def row_append split: option.splits)
  then have ok': "index_ok (ic_startBlock config) chain ca i d'" using ok by (auto simp: index_ok_def same)
  then show "index_order (ic_startBlock config) chain ca i d d' \<and>
      before (ic_startBlock config) chain ca i (first_block config (cu_lastProcessedBlock c)) d'"
    using first_block_before row'(1) by (simp add: index_order_def stored_def same)
qed

lemma keeps_markFailure_index:
  assumes "rely (index_order start chain ca i) e"
  shows "keeps (index_order start chain ca i) e (markFailure j)"
proof -
  have "index_order start chain ca i d d'" if "cursor_update j (\<lambda>c. c\<lparr>cu_lastFailedSync := Some now,
      cu_failureCount := cu_failureCount c + 1\<rparr>) d = Inr (c, d')" for d c d' now
  proof -
    have "transfers d' = transfers d" "tokens d' = tokens d"
      using that by (auto simp: cursor_update_def split: option.splits)
    moreover have "\<exists>c0. row cu_tokenId (cursors d) i = Some c0 \<and> cu_lastProcessedBlock c0 = cu_lastProcessedBlock c1"
      if "row cu_tokenId (cursors d') i = Some c1" for c1
      using that \<open>cursor_update j _ d = Inr (c, d')\<close>
      by (auto simp: cursor_update_def row_update split: option.splits if_splits)
    ultimately show ?thesis by (fastforce simp: index_order_def index_ok_def stored_until_def stored_def)
  qed
  then show ?thesis
    unfolding markFailure_def by (intro ix.keeps_bind ix.keeps_getNow ix.keeps_statement assms safe_statementI)
qed

lemma token_findById_ensures:
  assumes rely: "rely (index_order start chain ca i) e"
  shows "ensures (index_ok start chain ca i) (index_order start chain ca i) e (token_findById i)
    (\<lambda>r d. index_ok start chain ca i d \<and> (\<forall>tk. r = Some tk \<longrightarrow> tk_id tk = i \<and> tk_contractAddress tk = ca))"
  unfolding token_findById_def
  by (rule ix.ensures_query [OF rely stable_index_ok]) (auto simp: index_ok_def dest: row_SomeD)

lemma index_attempt_ensures:
  assumes rely: "rely (index_order (ic_startBlock config) chain ca i) e" and logs: "complete_logs lc chain ca"
    and tk: "tk_id tk = i" "tk_contractAddress tk = ca"
  shows "ensures (before (ic_startBlock config) chain ca i (first_block config (cu_lastProcessedBlock cur))) (index_order (ic_startBlock config) chain ca i) e
    (catchE (index_token lc layers c ev config tk cur) (\<lambda>error.
       bindE (catchE (bindE (markFailure i) (\<lambda>_. returnE ())) (\<lambda>_. returnE ())) (\<lambda>_. throwE error))) (\<lambda>_ _. True)"
  using index_token_ensures [where tk = tk and cursor = cur and config = config, of chain ca e lc layers c ev] rely logs tk
  by (intro ix.ensures_catch ix.keeps_bind ix.keeps_catch ix.keeps_return ix.keeps_throw keeps_markFailure_index rely) blast

lemma index_body_ensures:
  assumes rely: "rely (index_order (ic_startBlock config) chain ca i) e"
    and cfg: "loadEvmIndexerConfig vars = Inr config" and logs: "complete_logs lc chain ca"
  shows "ensures (index_ok (ic_startBlock config) chain ca i) (index_order (ic_startBlock config) chain ca i) e
    (bindE (token_findById i) (\<lambda>token.
       case token of
         None \<Rightarrow> throwE (PlainError (''Token '' @ i @ '' not found''))
       | Some tk \<Rightarrow>
           if tk_blockchain tk \<noteq> EVM then returnE ()
           else bindE (liftE (loadEvmIndexerConfig vars)) (\<lambda>config.
             bindE (cursor_getOrCreate i) (\<lambda>cursor.
             catchE (index_token lc layers c ev config tk cursor)
               (\<lambda>error.
                  bindE (catchE (bindE (markFailure i) (\<lambda>_. returnE ())) (\<lambda>_. returnE ())) (\<lambda>_.
                  throwE error)))))) (\<lambda>_ _. True)"
  unfolding cfg liftE_def sum.case bindE_return
proof (rule ix.ensures_bind [OF token_findById_ensures [OF rely]], rule ix.ensures_pure, rule ix.ensures_case_option)
  fix r :: "token option" and tk assume "\<forall>tk. r = Some tk \<longrightarrow> tk_id tk = i \<and> tk_contractAddress tk = ca" "r = Some tk"
  then have tk: "tk_id tk = i" "tk_contractAddress tk = ca" by simp_all
  show "ensures (index_ok (ic_startBlock config) chain ca i) (index_order (ic_startBlock config) chain ca i) e
      (if tk_blockchain tk \<noteq> EVM then returnE ()
       else bindE (cursor_getOrCreate i) (\<lambda>cursor. catchE (index_token lc layers c ev config tk cursor)
         (\<lambda>error. bindE (catchE (bindE (markFailure i) (\<lambda>_. returnE ())) (\<lambda>_. returnE ())) (\<lambda>_. throwE error)))) (\<lambda>_ _. True)"
    by (intro ix.ensures_if ix.ensures_return TrueI ix.ensures_bind [OF cursor_getOrCreate_ensures [OF rely]]
        index_attempt_ensures [OF rely logs tk])
qed (rule ix.ensures_throw)

lemma keeps_processTokenEvents_index:
  assumes rely: "rely (index_order (ic_startBlock config) chain ca i) e"
    and cfg: "loadEvmIndexerConfig vars = Inr config" and logs: "complete_logs lc chain ca"
  shows "keeps (index_order (ic_startBlock config) chain ca i) e (processTokenEvents vars lc layers c ev i)"
  unfolding processTokenEvents_def
  by (intro ix.keeps_bind ix.keeps_module_state ix.keeps_if ix.keeps_return ix.keeps_finally
      index_orderI [OF index_body_ensures [OF rely cfg logs]])

text \<open>Indexing another token does not touch the cursor of this one, and events are only added.\<close>

lemma index_order_grows:
  assumes "tokens d' = tokens d" "set (transfers d) \<subseteq> set (transfers d')"
    and "\<And>c. row cu_tokenId (cursors d') i = Some c \<Longrightarrow>
      \<exists>c0. row cu_tokenId (cursors d) i = Some c0 \<and> cu_lastProcessedBlock c0 = cu_lastProcessedBlock c"
  shows "index_order start chain ca i d d'"
proof -
  have s: "stored l d \<Longrightarrow> stored l d'" for l using assms(2) by (auto simp: stored_def)
  show ?thesis
    unfolding index_order_def
  proof (intro impI conjI allI)
    assume ok: "index_ok start chain ca i d"
    show "index_ok start chain ca i d'"
      unfolding index_ok_def
    proof (intro conjI allI impI)
      show "\<exists>tk. row tk_id (tokens d') i = Some tk \<and> tk_contractAddress tk = ca" using ok by (simp add: index_ok_def assms(1))
      fix c assume "row cu_tokenId (cursors d') i = Some c" "cu_lastProcessedBlock c \<noteq> 0"
      with assms(3) ok have "stored_until start chain (cu_lastProcessedBlock c) d" unfolding index_ok_def by metis
      with s show "stored_until start chain (cu_lastProcessedBlock c) d'" by (simp add: stored_until_def)
    qed
  qed (rule s)
qed

lemma cursor_update_rows:
  assumes "cursor_update j f d = Inr (c, d')" "\<And>c. cu_tokenId (f c) = cu_tokenId c"
  shows "tokens d' = tokens d" "transfers d' = transfers d"
    and "row cu_tokenId (cursors d') i = map_option (\<lambda>c. if cu_tokenId c = j then f c else c) (row cu_tokenId (cursors d) i)"
  using assms by (auto simp: cursor_update_def row_update split: option.splits)

lemma keeps_other_cursor:
  assumes "rely (index_order start chain ca i) e" "j \<noteq> i"
  shows "keeps (index_order start chain ca i) e (markSuccess j b)" "keeps (index_order start chain ca i) e (cursor_getOrCreate j)"
proof -
  have "index_order start chain ca i d d'" if u: "cursor_update j (\<lambda>c. c\<lparr>cu_lastProcessedBlock := b, cu_lastSuccessfulSync := Some now,
      cu_failureCount := 0\<rparr>) d = Inr (c, d')" for d c d' now
  proof (rule index_order_grows)
    fix c' assume "row cu_tokenId (cursors d') i = Some c'"
    then show "\<exists>c0. row cu_tokenId (cursors d) i = Some c0 \<and> cu_lastProcessedBlock c0 = cu_lastProcessedBlock c'"
      using cursor_update_rows(3) [OF u, of i] assms(2) by (auto dest: row_SomeD split: if_splits)
  qed (use cursor_update_rows(1,2) [OF u] in simp_all)
  then show "keeps (index_order start chain ca i) e (markSuccess j b)"
    unfolding markSuccess_def by (intro ix.keeps_bind ix.keeps_getNow ix.keeps_statement assms(1) safe_statementI)
  have "index_order start chain ca i d (d\<lparr>cursors := cursors d @ [c]\<rparr>)" if "cu_tokenId c = j" for d c
    by (rule index_order_grows) (use that assms(2) in \<open>auto simp: row_append split: option.splits\<close>)
  then show "keeps (index_order start chain ca i) e (cursor_getOrCreate j)"
    unfolding cursor_getOrCreate_def
    by (intro ix.keeps_statement assms(1) safe_statementI) (auto simp: Let_def ix.frame_refl split: option.splits)
qed

lemma keeps_transfer_create_index:
  assumes "rely (index_order start chain ca i) e"
  shows "keeps (index_order start chain ca i) e (transfer_create tk f t a h li bn)"
proof -
  have "index_order start chain ca i d (d\<lparr>transfers := transfers d @ [r]\<rparr>)" for d r
    by (rule index_order_grows) auto
  then show ?thesis
    unfolding transfer_create_def
    by (intro ix.keeps_bind ix.keeps_uuid ix.keeps_getNow ix.keeps_statement assms safe_statementI)
      (auto simp: Let_def ix.frame_refl split: option.splits if_splits)
qed

lemma keeps_processTokenEvents_other:
  assumes "rely (index_order start chain ca i) e" "j \<noteq> i"
  shows "keeps (index_order start chain ca i) e (processTokenEvents vars lc layers c ev j)"
proof -
  have w: "keeps (index_order start chain ca i) e (onWindow c ev j ls f t)" for ls f t
    unfolding onWindow_def handleTransferEvent_def syncWalletBalance_def requireContractAddress_def findByContractAddress_def
      findByTransactionHashAndLogIndex_def findByAddress_def
    by (intro ix.keeps_bind ix.keeps_for ix.keeps_case_option ix.keeps_throw ix.keeps_return ix.keeps_query ix.keeps_if
        ix.keeps_metric ix.keeps_gauge ix.keeps_lift ix.keeps_sync keeps_transfer_create_index keeps_other_cursor assms)
  have t: "keeps (index_order start chain ca i) e (index_token lc layers c ev config tk cur)" if "tk_id tk = j" for config tk cur
    unfolding index_token_def that
    by (intro ix.keeps_bind ix.keeps_let ix.keeps_if ix.keeps_module_state ix.keeps_external ix.keeps_scanLogWindows w assms(1))
  have found: "yields (\<lambda>r. \<forall>tk. r = Some tk \<longrightarrow> tk_id tk = j) (token_findById j)"
    unfolding token_findById_def by (rule yields_query) (auto dest: row_SomeD)
  have "keeps (index_order start chain ca i) e (token_findById j)"
    unfolding token_findById_def by (rule ix.keeps_query [OF assms(1)])
  note with_token = ix.keeps_bind_yields [OF this found]
  show ?thesis
    unfolding processTokenEvents_def
    by (intro ix.keeps_bind ix.keeps_module_state ix.keeps_if ix.keeps_return ix.keeps_finally with_token ix.keeps_case_option
        ix.keeps_throw ix.keeps_lift ix.keeps_catch keeps_other_cursor keeps_markFailure_index t assms) simp_all
qed

section \<open>What the indexer keeps\<close>

context index_frame
begin

lemma keeps_handleTransferEvent [keeps_intros]:
  "rely R e \<Longrightarrow> keeps R e (handleTransferEvent c ev l)"
  unfolding handleTransferEvent_def syncWalletBalance_def requireContractAddress_def by (intro keeps_intros)

lemma keeps_onWindow [keeps_intros]: "rely R e \<Longrightarrow> keeps R e (onWindow c ev i ls f t)"
  unfolding onWindow_def by (intro keeps_intros)

lemma keeps_index_token [keeps_intros]:
  "rely R e \<Longrightarrow> keeps R e (index_token lc layers c ev config tk cursor)"
  unfolding index_token_def by (intro keeps_intros)

lemma keeps_processTokenEvents [keeps_intros]:
  "rely R e \<Longrightarrow> keeps R e (processTokenEvents vars lc layers c ev i)"
  unfolding processTokenEvents_def by (intro keeps_intros)

end

context store_frame
begin

lemma keeps_processCycle [keeps_intros]:
  assumes "rely R e" "\<And>i. keeps R e (process i)"
  shows "keeps R e (processCycle process)"
proof -
  have "keeps R e (process_tokens process tks n)" for tks n
    by (induction tks arbitrary: n) (auto intro!: keeps_intros assms)
  then show ?thesis unfolding processCycle_def by (intro keeps_intros assms)
qed

lemma keeps_worker_start:
  assumes "rely R e" "\<And>i. keeps R e (process i)"
  shows "keeps R e (worker_start iv b fuel running process interval)"
proof -
  have "keeps R e (worker_loop fuel running process interval k n)" for k n
    by (induction fuel arbitrary: k n) (auto intro!: keeps_intros assms simp: Let_def)
  then show ?thesis unfolding worker_start_def by (intro keeps_intros)
qed

end

text \<open>The four relations on the ledger do not speak of what the indexer writes.\<close>

interpretation lci: index_frame lifecycle
  by unfold_locales (auto simp: balance_step_def lifecycle_def)

interpretation oki: index_frame "kept ledger_ok"
  by unfold_locales (auto simp: balance_step_def kept_def ledger_ok_def)

interpretation obi: index_frame "kept outbox_ok"
  by unfold_locales (auto simp: balance_step_def kept_def outbox_ok_def confirmed_events_def is_confirmed_def)

interpretation rli: index_frame relay_order
  by unfold_locales (auto simp: balance_step_def intro: relay_order_same)

section \<open>The delays of the worker\<close>

lemma backoffDelay_bounds:
  assumes "0 \<le> b"
  shows "b \<le> backoffDelay b n" and "backoffDelay b n \<le> max b MAX_BACKOFF_MS"
proof -
  have "b * 1 \<le> b * 2 ^ nat (min n 10)" using assms by (intro mult_left_mono) simp_all
  then show "b \<le> backoffDelay b n" by (simp add: backoffDelay_def Let_def)
  show "backoffDelay b n \<le> max b MAX_BACKOFF_MS" by (simp add: backoffDelay_def Let_def)
qed

lemma backoffDelay_mono:
  assumes "0 \<le> b" "m \<le> n"
  shows "backoffDelay b m \<le> backoffDelay b n"
proof (cases "m \<le> 0")
  case True
  then show ?thesis using backoffDelay_bounds(1) [OF assms(1), of n] by (simp add: backoffDelay_def)
next
  case False
  then have "(2::int) ^ nat (min m 10) \<le> 2 ^ nat (min n 10)" using assms(2) by (intro power_increasing nat_mono) auto
  then have "b * 2 ^ nat (min m 10) \<le> b * 2 ^ nat (min n 10)" using assms(1) by (rule mult_left_mono)
  with False assms(2) show ?thesis by (simp add: backoffDelay_def Let_def min.coboundedI1)
qed

end
