(* ===== verification/Worker_Process.thy ===== *)
theory Worker_Process
  imports Schedulers Event_Indexer Json
begin

text \<open>
  The worker process, \<^verbatim>\<open>workers/confirmation.queue.runner.ts\<close>, with the parts it starts and stops:
  the consumer of the confirmation queue (\<^verbatim>\<open>confirmation.queue.worker.ts\<close>), the sampler of pending
  transactions (\<^verbatim>\<open>pending-transactions-sampler.ts\<close>), the metrics server
  (\<^verbatim>\<open>worker-metrics.server.ts\<close>), the event listener and the five schedulers. What each does to the
  store is in their own theories; here is their life: the process is a state machine whose steps are
  the segments of \<^verbatim>\<open>startConfirmationQueueWorker\<close> and \<^verbatim>\<open>shutdown\<close> between their awaits, the signals,
  the events of the queue and the runs of the schedulers, in any order.
\<close>

section \<open>Configuration\<close>

text \<open>\<^verbatim>\<open>Number(s)\<close> on text that is a whole number; anything else counts as not a number.\<close>

definition js_number :: "string \<Rightarrow> int option" where
  "js_number s =
     (let t = trim s in
      if t = [] then Some 0
      else if hd t = CHR ''-'' \<and> tl t \<noteq> [] \<and> list_all is_digit (tl t) then Some (- digits_value (tl t))
      else if hd t = CHR ''+'' \<and> tl t \<noteq> [] \<and> list_all is_digit (tl t) then Some (digits_value (tl t))
      else if list_all is_digit t then Some (digits_value t) else None)"

definition env_number :: "(string \<Rightarrow> string option) \<Rightarrow> string \<Rightarrow> int \<Rightarrow> int option" where
  "env_number vars name other = (case vars name of None \<Rightarrow> Some other | Some v \<Rightarrow> js_number v)"

definition createExpirationScheduler :: "string \<Rightarrow> scheduler_object" where
  "createExpirationScheduler ownerId = ExpirationScheduler ownerId"

definition createSubmissionRecoveryScheduler :: "string \<Rightarrow> scheduler_object" where
  "createSubmissionRecoveryScheduler ownerId = SubmissionRecoveryScheduler ownerId"

definition createOutboxRelayScheduler :: "string \<Rightarrow> scheduler_object" where
  "createOutboxRelayScheduler ownerId = OutboxRelayScheduler ownerId"

text \<open>The interval of the timer comes with the object; \<open>None\<close> when a setting is not a number of the model.\<close>

definition createPendingTransactionsSampler :: "(string \<Rightarrow> string option) \<Rightarrow> int option" where
  "createPendingTransactionsSampler vars = env_number vars ''PENDING_TRANSACTIONS_SAMPLE_INTERVAL_MS'' 15000"

definition createPendingRecoveryScheduler :: "(string \<Rightarrow> string option) \<Rightarrow> string \<Rightarrow> (scheduler_object \<times> int) option" where
  "createPendingRecoveryScheduler vars ownerId =
     (case (env_number vars ''PENDING_RECOVERY_GRACE_MS'' 120000, env_number vars ''PENDING_RECOVERY_FAIL_AFTER_MS'' 900000,
            env_number vars ''PENDING_RECOVERY_LISTENER_STALENESS_MS'' 60000, env_number vars ''PENDING_RECOVERY_INTERVAL_MS'' 30000) of
        (Some grace, Some failAfter, Some staleness, Some interval) \<Rightarrow>
          Some (PendingRecoveryScheduler grace failAfter staleness ownerId, interval)
      | _ \<Rightarrow> None)"

definition createBalanceDriftScheduler ::
  "nat \<Rightarrow> int \<Rightarrow> adapter list \<Rightarrow> (string \<Rightarrow> string option) \<Rightarrow> string \<Rightarrow> (scheduler_object \<times> int) option" where
  "createBalanceDriftScheduler fuel evm registry vars ownerId =
     (case (env_number vars ''BALANCE_DRIFT_PAGE_SIZE'' 200, env_number vars ''BALANCE_DRIFT_CONCURRENCY'' 5,
            env_number vars ''BALANCE_DRIFT_INTERVAL_MS'' 300000) of
        (Some page, Some conc, Some interval) \<Rightarrow> if page < 0 \<or> conc < 0 then None else
          Some (BalanceDriftScheduler fuel evm registry (nat page) (nat conc) ownerId, interval)
      | _ \<Rightarrow> None)"

definition balanceDriftEnabled :: "(string \<Rightarrow> string option) \<Rightarrow> bool" where
  "balanceDriftEnabled vars = (vars ''BALANCE_DRIFT_ENABLED'' \<noteq> Some ''false'')"

section \<open>The sampler and the metrics server\<close>

definition sample :: "unit eff" where
  "sample = catchE (bindE countPending (\<lambda>n. setGauge ''confirmation_worker_pending_transactions'' [] (int n))) (\<lambda>error. returnE ())"

text \<open>The answer of the metrics server: status, content type, body.\<close>

definition metrics_request :: "string \<Rightarrow> (exn + string) \<Rightarrow> bool \<Rightarrow> string \<Rightarrow> int \<times> string \<times> string" where
  "metrics_request contentType collected ready url =
     (if url = ''/metrics'' then
        (case collected of Inr m \<Rightarrow> (200, contentType, m) | Inl _ \<Rightarrow> (500, ''text/plain'', ''Failed to collect metrics''))
      else if url = ''/health'' then
        (if ready then 200 else 503, ''application/json'', stringify (JObj [(''status'', JStr (if ready then ''UP'' else ''DOWN''))]))
      else (404, ''text/plain'', ''Not Found''))"

section \<open>The process\<close>

text \<open>The names under which the process and the consumer report to the gauge \<^verbatim>\<open>worker_ready\<close>.\<close>

definition RUNNER_NAME :: string where "RUNNER_NAME = ''confirmation-queue-worker''"

definition CONSUMER_NAME :: string where "CONSUMER_NAME = ''confirmation-worker''"

lemma worker_names [simp]: "CONSUMER_NAME \<noteq> RUNNER_NAME" "RUNNER_NAME \<noteq> CONSUMER_NAME"
  by (simp_all add: RUNNER_NAME_def CONSUMER_NAME_def)

record listener =
  ln_running :: bool
  ln_stopping :: bool

definition listener_start :: "string option \<Rightarrow> int option \<Rightarrow> listener \<Rightarrow> exn + listener" where
  "listener_start setting interval l =
     (if ln_running l then Inl (PlainError ''Event listener worker already running'')
      else case interval of
        None \<Rightarrow> Inl (PlainError (''Invalid EVENT_LISTENER_INTERVAL_MS: '' @ (case setting of Some v \<Rightarrow> v | None \<Rightarrow> ''undefined'')))
      | Some i \<Rightarrow>
          if i < 0 then Inl (PlainError (''Invalid EVENT_LISTENER_INTERVAL_MS: '' @ (case setting of Some v \<Rightarrow> v | None \<Rightarrow> ''undefined'')))
          else Inr (l\<lparr>ln_running := True, ln_stopping := False\<rparr>))"

definition listener_stop :: "listener \<Rightarrow> listener" where
  "listener_stop l = (if \<not> ln_running l \<or> ln_stopping l then l else l\<lparr>ln_stopping := True, ln_running := False\<rparr>)"

datatype queue_state = QueueConnecting | QueueReady | QueueClosed

datatype part = Listener | Sampler | PendingRecovery | Expiration | SubmissionRecovery | OutboxRelay | BalanceDrift | Queue | Redis | MetricsServer

text \<open>\<open>Starting\<close> waits for the queue; \<open>Stopping\<close> holds the parts that are still to be stopped.\<close>

datatype stage = Starting | Serving | Stopping "part list"

type_synonym timed = "scheduler \<times> run_phase list"

record worker_process =
  wp_timed :: "part \<rightharpoonup> timed"
  wp_sampler :: bool
  wp_listener :: listener
  wp_queue :: queue_state
  wp_redis :: bool
  wp_server :: bool
  wp_ready :: bool
  wp_gauges :: "string \<rightharpoonup> int"
  wp_shuttingDown :: bool
  wp_signals :: "string list"
  wp_exitCode :: int
  wp_exited :: "int option"
  wp_stage :: stage

definition on_timed :: "(scheduler \<Rightarrow> scheduler) \<Rightarrow> timed \<Rightarrow> timed" where
  "on_timed f x = (f (fst x), snd x)"

text \<open>The schedulers that are created.\<close>

definition schedulers_of :: "(string \<Rightarrow> string option) \<Rightarrow> part list" where
  "schedulers_of vars = [Expiration, SubmissionRecovery, OutboxRelay, PendingRecovery] @ (if balanceDriftEnabled vars then [BalanceDrift] else [])"

text \<open>Up to the first await: everything is created, nothing runs, the gauge is 0.\<close>

definition worker_boot :: "(string \<Rightarrow> string option) \<Rightarrow> worker_process" where
  "worker_boot vars = \<lparr> wp_timed = (\<lambda>k. if k \<in> set (schedulers_of vars) then Some (new_scheduler, []) else None),
     wp_sampler = False, wp_listener = \<lparr> ln_running = False, ln_stopping = False \<rparr>, wp_queue = QueueConnecting, wp_redis = True,
     wp_server = True, wp_ready = False, wp_gauges = [RUNNER_NAME \<mapsto> 0], wp_shuttingDown = False, wp_signals = [], wp_exitCode = 0, wp_exited = None,
     wp_stage = Starting \<rparr>"

text \<open>After it: every part is started, the handlers of the two signals are installed.\<close>

definition start_listener :: "(string \<Rightarrow> string option) \<Rightarrow> worker_process \<Rightarrow> worker_process" where
  "start_listener vars s =
     (if vars ''DISABLE_WORKERS'' = Some ''true'' then s
      else case listener_start (vars ''EVENT_LISTENER_INTERVAL_MS'') (env_number vars ''EVENT_LISTENER_INTERVAL_MS'' 5000) (wp_listener s) of
        Inl error \<Rightarrow> s\<lparr>wp_exitCode := 1\<rparr>
      | Inr l \<Rightarrow> s\<lparr>wp_listener := l\<rparr>)"

definition worker_started :: "(string \<Rightarrow> string option) \<Rightarrow> worker_process \<Rightarrow> worker_process" where
  "worker_started vars s =
     (start_listener vars (s\<lparr>wp_queue := QueueReady, wp_timed := (\<lambda>k. map_option (on_timed scheduler_start) (wp_timed s k)),
        wp_sampler := True\<rparr>))
     \<lparr>wp_gauges := (wp_gauges s)(RUNNER_NAME \<mapsto> 1), wp_ready := True, wp_signals := [''SIGINT'', ''SIGTERM''], wp_stage := Serving\<rparr>"

definition shutdown_order :: "part list" where
  "shutdown_order = [Listener, Sampler, PendingRecovery, Expiration, SubmissionRecovery, OutboxRelay, BalanceDrift, Queue, Redis, MetricsServer]"

definition shutdown :: "worker_process \<Rightarrow> worker_process" where
  "shutdown s = (if wp_shuttingDown s then s
     else s\<lparr>wp_shuttingDown := True, wp_gauges := (wp_gauges s)(RUNNER_NAME \<mapsto> 0), wp_ready := False, wp_stage := Stopping shutdown_order\<rparr>)"

definition stop_scheduler :: "part \<Rightarrow> worker_process \<Rightarrow> worker_process" where
  "stop_scheduler k s = s\<lparr>wp_timed := (wp_timed s)(k := map_option (on_timed scheduler_stop) (wp_timed s k))\<rparr>"

fun stop_part :: "part \<Rightarrow> worker_process \<Rightarrow> worker_process" where
  "stop_part Listener s = s\<lparr>wp_listener := listener_stop (wp_listener s)\<rparr>"
| "stop_part Sampler s = s\<lparr>wp_sampler := False\<rparr>"
| "stop_part PendingRecovery s = stop_scheduler PendingRecovery s"
| "stop_part Expiration s = stop_scheduler Expiration s"
| "stop_part SubmissionRecovery s = stop_scheduler SubmissionRecovery s"
| "stop_part OutboxRelay s = stop_scheduler OutboxRelay s"
| "stop_part BalanceDrift s = stop_scheduler BalanceDrift s"
| "stop_part Queue s = s\<lparr>wp_queue := QueueClosed\<rparr>"
| "stop_part Redis s = s\<lparr>wp_redis := False\<rparr>"
| "stop_part MetricsServer s = s\<lparr>wp_server := False\<rparr>"

text \<open>The stops that wait for something outside the process, and so may fail.\<close>

definition may_fail :: "part \<Rightarrow> bool" where
  "may_fail k = (k \<in> {Queue, Redis, MetricsServer})"

text \<open>One stop is done: the next one, or \<^verbatim>\<open>process.exit(0)\<close> after the last.\<close>

definition stopped_part :: "part \<Rightarrow> part list \<Rightarrow> worker_process \<Rightarrow> worker_process" where
  "stopped_part k ks s = (stop_part k s)\<lparr>wp_stage := Stopping ks, wp_exited := (if ks = [] then Some 0 else None)\<rparr>"

text \<open>The handler of the consumer's event \<^verbatim>\<open>error\<close>; the other events are only logged.\<close>

definition on_error :: "worker_process \<Rightarrow> worker_process" where
  "on_error s = s\<lparr>wp_gauges := (wp_gauges s)(CONSUMER_NAME \<mapsto> 0)\<rparr>"

text \<open>A step of a scheduler on its own: a tick of its timer or the progress of a run.\<close>

definition runs :: "timed \<Rightarrow> timed \<Rightarrow> bool" where
  "runs x y \<longleftrightarrow> sched_step x y \<and> sd_running (fst y) = sd_running (fst x)"

inductive worker_step :: "(string \<Rightarrow> string option) \<Rightarrow> worker_process \<Rightarrow> worker_process \<Rightarrow> bool" for vars where
  ready: "wp_exited s = None \<Longrightarrow> wp_stage s = Starting \<Longrightarrow> worker_step vars s (worker_started vars s)"
| crashed: "wp_exited s = None \<Longrightarrow> wp_stage s = Starting \<Longrightarrow> worker_step vars s (s\<lparr>wp_exited := Some 1\<rparr>)"
| signalled: "wp_exited s = None \<Longrightarrow> sig \<in> set (wp_signals s) \<Longrightarrow>
    worker_step vars s (shutdown (s\<lparr>wp_signals := remove1 sig (wp_signals s)\<rparr>))"
| stopped: "wp_exited s = None \<Longrightarrow> wp_stage s = Stopping (k # ks) \<Longrightarrow> worker_step vars s (stopped_part k ks s)"
| failed: "wp_exited s = None \<Longrightarrow> wp_stage s = Stopping (k # ks) \<Longrightarrow> may_fail k \<Longrightarrow> worker_step vars s (s\<lparr>wp_exited := Some 1\<rparr>)"
| queue_error: "wp_exited s = None \<Longrightarrow> worker_step vars s (on_error s)"
| scheduled: "wp_exited s = None \<Longrightarrow> wp_timed s k = Some x \<Longrightarrow> runs x y \<Longrightarrow> worker_step vars s (s\<lparr>wp_timed := (wp_timed s)(k \<mapsto> y)\<rparr>)"

inductive worker_reach :: "(string \<Rightarrow> string option) \<Rightarrow> worker_process \<Rightarrow> bool" for vars where
  boot: "worker_reach vars (worker_boot vars)"
| step: "worker_reach vars s \<Longrightarrow> worker_step vars s t \<Longrightarrow> worker_reach vars t"

section \<open>Invariant\<close>

text \<open>Parts that have been stopped, and parts in service. A stopped scheduler starts no further run.\<close>

definition idle :: "timed \<Rightarrow> bool" where
  "idle x \<longleftrightarrow> \<not> sd_running (fst x) \<and> \<not> sd_timer (fst x)"

definition ticking :: "timed \<Rightarrow> bool" where
  "ticking x \<longleftrightarrow> sd_running (fst x) \<and> sd_timer (fst x)"

fun quiesced :: "part \<Rightarrow> worker_process \<Rightarrow> bool" where
  "quiesced Listener s = (\<not> ln_running (wp_listener s))"
| "quiesced Sampler s = (\<not> wp_sampler s)"
| "quiesced Queue s = (wp_queue s = QueueClosed)"
| "quiesced Redis s = (\<not> wp_redis s)"
| "quiesced MetricsServer s = (\<not> wp_server s)"
| "quiesced k s = pred_option idle (wp_timed s k)"

text \<open>
  The settings let the event listener run: it is not disabled and its interval is a finite number, not negative.
\<close>

definition listener_allowed :: "(string \<Rightarrow> string option) \<Rightarrow> bool" where
  "listener_allowed vars \<longleftrightarrow> vars ''DISABLE_WORKERS'' \<noteq> Some ''true'' \<and>
     pred_option (\<lambda>i. 0 \<le> i) (env_number vars ''EVENT_LISTENER_INTERVAL_MS'' 5000) \<and> env_number vars ''EVENT_LISTENER_INTERVAL_MS'' 5000 \<noteq> None"

text \<open>
  All parts in service. The queue was ready when the parts were started; that its client loses the connection
  to Redis and makes it again is not modelled.
\<close>

definition in_service :: "(string \<Rightarrow> string option) \<Rightarrow> worker_process \<Rightarrow> bool" where
  "in_service vars s \<longleftrightarrow> (\<forall>k. pred_option ticking (wp_timed s k)) \<and>
     {Expiration, SubmissionRecovery, OutboxRelay, PendingRecovery} \<subseteq> dom (wp_timed s) \<and>
     (ln_running (wp_listener s) \<longleftrightarrow> listener_allowed vars) \<and>
     wp_sampler s \<and> wp_queue s = QueueReady \<and> wp_redis s \<and> wp_server s"

definition timed_ok :: "worker_process \<Rightarrow> bool" where
  "timed_ok s \<longleftrightarrow> (\<forall>k. pred_option sched_inv (wp_timed s k)) \<and>
     {Expiration, SubmissionRecovery, OutboxRelay, PendingRecovery} \<subseteq> dom (wp_timed s) \<and>
     (ln_stopping (wp_listener s) \<longrightarrow> \<not> ln_running (wp_listener s))"

definition stage_ok :: "(string \<Rightarrow> string option) \<Rightarrow> worker_process \<Rightarrow> bool" where
  "stage_ok vars s \<longleftrightarrow> (case wp_stage s of
      Starting \<Rightarrow> \<not> wp_ready s \<and> \<not> wp_shuttingDown s \<and> wp_signals s = [] \<and> wp_redis s \<and> wp_server s \<and> wp_exited s \<noteq> Some 0 \<and> \<not> ln_running (wp_listener s)
    | Serving \<Rightarrow> wp_ready s \<and> wp_gauges s RUNNER_NAME = Some 1 \<and> \<not> wp_shuttingDown s \<and> wp_exited s = None \<and> in_service vars s
    | Stopping ks \<Rightarrow> \<not> wp_ready s \<and> wp_shuttingDown s \<and> wp_gauges s RUNNER_NAME = Some 0 \<and> (wp_exited s = Some 0 \<longleftrightarrow> ks = []) \<and>
        (\<exists>ds. shutdown_order = ds @ ks \<and> (\<forall>k \<in> set ds. quiesced k s)))"

lemma sched_inv_timer: "sched_inv x \<Longrightarrow> sd_timer (fst x) = sd_running (fst x)"
  by (cases x) (simp add: sched_inv_def)

lemma sched_inv_start: "sched_inv x \<Longrightarrow> sched_inv (on_timed scheduler_start x)"
  using sched_inv_step [of x "on_timed scheduler_start x"] sched_step.started [of "fst x" "snd x"] by (simp add: on_timed_def)

lemma sched_inv_stop: "sched_inv x \<Longrightarrow> sched_inv (on_timed scheduler_stop x)"
  using sched_inv_step [of x "on_timed scheduler_stop x"] sched_step.stopped [of "fst x" "snd x"] by (simp add: on_timed_def)

lemma sched_inv_runs: "runs x y \<Longrightarrow> sched_inv x \<Longrightarrow> sched_inv y"
  by (auto simp: runs_def intro: sched_inv_step)

lemma idle_stop: "sched_inv x \<Longrightarrow> idle (on_timed scheduler_stop x)"
  using sched_inv_timer [of x] by (simp add: idle_def on_timed_def scheduler_stop_def)

lemma idle_runs: "runs x y \<Longrightarrow> sched_inv x \<Longrightarrow> idle x \<Longrightarrow> idle y"
  using sched_inv_timer [OF sched_inv_runs [of x y]] by (simp add: idle_def runs_def)

lemma pred_option_map: "pred_option P x \<Longrightarrow> (\<And>a. P a \<Longrightarrow> Q (f a)) \<Longrightarrow> pred_option Q (map_option f x)"
  by (cases x) simp_all

lemma timed_ok_sched: "timed_ok s \<Longrightarrow> pred_option sched_inv (wp_timed s k)"
  by (simp add: timed_ok_def)

lemma quiesced_stop: "timed_ok s \<Longrightarrow> quiesced k (stop_part k s)"
  using pred_option_map [OF timed_ok_sched [of s k], of idle "on_timed scheduler_stop"] idle_stop
  by (cases k) (auto simp: timed_ok_def listener_stop_def stop_scheduler_def)

lemma quiesced_stay: "timed_ok s \<Longrightarrow> quiesced j s \<Longrightarrow> quiesced j (stop_part k s)"
  using pred_option_map [OF timed_ok_sched [of s k], of idle "on_timed scheduler_stop"] idle_stop
  by (cases k; cases j) (simp_all add: listener_stop_def stop_scheduler_def)

lemma timed_ok_scheduler: "timed_ok s \<Longrightarrow> timed_ok (stop_scheduler k s)"
  using pred_option_map [OF timed_ok_sched [of s k], of sched_inv "on_timed scheduler_stop"] sched_inv_stop
  by (auto simp: timed_ok_def stop_scheduler_def)

lemma timed_ok_stop: "timed_ok s \<Longrightarrow> timed_ok (stop_part k s)"
  by (cases k) (simp_all add: timed_ok_scheduler, simp_all add: timed_ok_def listener_stop_def)

text \<open>Fields that neither a part nor a scheduler reads.\<close>

lemma quiesced_fields [simp]:
  "quiesced k (s\<lparr>wp_stage := a\<rparr>) = quiesced k s" "quiesced k (s\<lparr>wp_exited := b\<rparr>) = quiesced k s" "quiesced k (s\<lparr>wp_gauges := c\<rparr>) = quiesced k s"
  "quiesced k (s\<lparr>wp_signals := d\<rparr>) = quiesced k s"
  by (cases k; simp)+

lemma stop_fields [simp]:
  "wp_ready (stop_part k s) = wp_ready s" "wp_shuttingDown (stop_part k s) = wp_shuttingDown s" "wp_gauges (stop_part k s) = wp_gauges s"
  "wp_signals (stop_part k s) = wp_signals s"
  by (cases k; simp add: stop_scheduler_def)+

lemma timed_ok_boot: "timed_ok (worker_boot vars)"
  by (auto simp: timed_ok_def worker_boot_def schedulers_of_def sched_inv_def new_scheduler_def)

lemma start_listener_fields:
  "wp_timed (start_listener vars s) = wp_timed s" "wp_sampler (start_listener vars s) = wp_sampler s" "wp_queue (start_listener vars s) = wp_queue s"
  "wp_redis (start_listener vars s) = wp_redis s" "wp_server (start_listener vars s) = wp_server s" "wp_shuttingDown (start_listener vars s) = wp_shuttingDown s"
  "wp_exited (start_listener vars s) = wp_exited s"
  by (simp_all add: start_listener_def split: sum.splits)

lemma start_listener_running:
  "\<not> ln_running (wp_listener s) \<Longrightarrow> ln_running (wp_listener (start_listener vars s)) \<longleftrightarrow> listener_allowed vars"
  by (auto simp: start_listener_def listener_start_def listener_allowed_def split: option.splits)

lemma start_listener_ok:
  "(ln_stopping (wp_listener s) \<longrightarrow> \<not> ln_running (wp_listener s)) \<Longrightarrow>
     ln_stopping (wp_listener (start_listener vars s)) \<longrightarrow> \<not> ln_running (wp_listener (start_listener vars s))"
  by (auto simp: start_listener_def listener_start_def split: if_splits option.splits)

lemma timed_ok_started:
  assumes "timed_ok s"
  shows "timed_ok (worker_started vars s)"
proof -
  have "pred_option sched_inv (map_option (on_timed scheduler_start) (wp_timed s k))" for k
    using timed_ok_sched [OF assms] sched_inv_start by (rule pred_option_map)
  then show ?thesis using assms start_listener_ok by (simp add: timed_ok_def worker_started_def start_listener_fields dom_def)
qed

lemma started_ticking: "sched_inv x \<Longrightarrow> ticking (on_timed scheduler_start x)"
  using sched_inv_timer [of x] by (simp add: ticking_def on_timed_def scheduler_start_def)

lemma in_service_started:
  assumes "timed_ok s" "wp_redis s" "wp_server s" "\<not> ln_running (wp_listener s)"
  shows "in_service vars (worker_started vars s)"
proof -
  have "pred_option ticking (map_option (on_timed scheduler_start) (wp_timed s k))" for k
    using timed_ok_sched [OF assms(1)] started_ticking by (rule pred_option_map)
  then show ?thesis using assms start_listener_running [of _ vars]
    by (simp add: in_service_def timed_ok_def worker_started_def start_listener_fields dom_def)
qed

lemma timed_ok_runs:
  assumes "timed_ok s" "wp_timed s j = Some x" "runs x y"
  shows "timed_ok (s\<lparr>wp_timed := (wp_timed s)(j \<mapsto> y)\<rparr>)"
  using assms(1) timed_ok_sched [OF assms(1), of j] sched_inv_runs [OF assms(3)] assms(2) by (auto simp: timed_ok_def)

lemma timed_ok_step:
  assumes "worker_step vars s t" "timed_ok s"
  shows "timed_ok t"
  using assms(1)
proof cases
  case ready
  then show ?thesis using assms(2) timed_ok_started by blast
next
  case (stopped k ks)
  have "timed_ok (stop_part k s)" using assms(2) by (rule timed_ok_stop)
  then show ?thesis by (simp add: stopped(1) stopped_part_def timed_ok_def)
next
  case (scheduled k x y)
  then show ?thesis using timed_ok_runs [OF assms(2)] by blast
qed (use assms(2) in \<open>auto simp: timed_ok_def shutdown_def on_error_def\<close>)

lemma quiesced_runs:
  assumes "timed_ok s" "wp_timed s j = Some x" "runs x y" "quiesced k s"
  shows "quiesced k (s\<lparr>wp_timed := (wp_timed s)(j \<mapsto> y)\<rparr>)"
proof -
  have "idle x \<Longrightarrow> idle y" using idle_runs [OF assms(3)] timed_ok_sched [OF assms(1), of j] assms(2) by simp
  then show ?thesis using assms(2,4) by (cases k) auto
qed

lemma in_service_runs:
  assumes "timed_ok s" "wp_timed s j = Some x" "runs x y" "in_service vars s"
  shows "in_service vars (s\<lparr>wp_timed := (wp_timed s)(j \<mapsto> y)\<rparr>)"
proof -
  have x: "sched_inv x" using timed_ok_sched [OF assms(1), of j] assms(2) by simp
  have "pred_option ticking (wp_timed s j)" using assms(4) by (simp add: in_service_def)
  then have "ticking y" using sched_inv_timer [OF sched_inv_runs [OF assms(3) x]] assms(2,3) by (simp add: runs_def ticking_def)
  then show ?thesis using assms(4) by (auto simp: in_service_def)
qed

lemma stage_ok_boot: "stage_ok vars (worker_boot vars)"
  by (simp add: stage_ok_def worker_boot_def)

text \<open>A step that changes only what the stage does not speak of.\<close>

lemma stage_ok_same:
  assumes "stage_ok vars s" "wp_stage t = wp_stage s" "wp_ready t = wp_ready s" "wp_shuttingDown t = wp_shuttingDown s" "wp_exited t = wp_exited s"
    and "wp_gauges t RUNNER_NAME = wp_gauges s RUNNER_NAME" "wp_signals s = [] \<Longrightarrow> wp_signals t = []" "wp_redis t = wp_redis s" "wp_server t = wp_server s" "wp_listener t = wp_listener s"
    and "in_service vars s \<Longrightarrow> in_service vars t" "\<And>k. quiesced k s \<Longrightarrow> quiesced k t"
  shows "stage_ok vars t"
  using assms by (cases "wp_stage s") (auto simp: stage_ok_def)

lemma stage_ok_step:
  assumes "worker_step vars s t" "timed_ok s" "stage_ok vars s"
  shows "stage_ok vars t"
  using assms(1)
proof cases
  case ready
  then show ?thesis using assms(2,3) in_service_started [OF assms(2)]
    by (simp add: stage_ok_def) (simp add: worker_started_def start_listener_fields)
next
  case (signalled sig)
  show ?thesis
  proof (cases "wp_shuttingDown s")
    case True
    show ?thesis unfolding signalled(1) shutdown_def
      using True by (simp, intro stage_ok_same [OF assms(3)]) (auto simp: in_service_def)
  next
    case False
    then show ?thesis using signalled assms(3) by (cases "wp_stage s") (auto simp: stage_ok_def shutdown_def shutdown_order_def)
  qed
next
  case (stopped k ks)
  obtain ds where ds: "shutdown_order = ds @ k # ks" "\<And>j. j \<in> set ds \<Longrightarrow> quiesced j s"
    using assms(3) stopped(3) by (auto simp: stage_ok_def)
  have "shutdown_order = (ds @ [k]) @ ks" "\<forall>j \<in> set (ds @ [k]). quiesced j (stop_part k s)"
    using ds quiesced_stop [OF assms(2)] quiesced_stay [OF assms(2)] by auto
  then have "\<exists>ds. shutdown_order = ds @ ks \<and> (\<forall>j \<in> set ds. quiesced j (stop_part k s))" by blast
  then show ?thesis using assms(3) stopped by (simp add: stage_ok_def stopped_part_def)
next
  case (failed k ks)
  then show ?thesis using assms(3) by (simp add: stage_ok_def)
next
  case crashed
  then show ?thesis using assms(3) by (simp add: stage_ok_def)
next
  case queue_error
  show ?thesis unfolding queue_error(1) on_error_def
    by (rule stage_ok_same [OF assms(3)]) (auto simp: in_service_def worker_names)
next
  case (scheduled k x y)
  show ?thesis unfolding scheduled(1)
    using in_service_runs [OF assms(2) scheduled(3,4)] quiesced_runs [OF assms(2) scheduled(3,4)]
    by (intro stage_ok_same [OF assms(3)]) simp_all
qed

lemma worker_reach_ok: "worker_reach vars s \<Longrightarrow> timed_ok s \<and> stage_ok vars s"
proof (induction rule: worker_reach.induct)
  case boot
  then show ?case by (simp add: timed_ok_boot stage_ok_boot)
next
  case (step s t)
  then show ?case using timed_ok_step stage_ok_step by blast
qed

text \<open>With every stop answered, the shutdown ends.\<close>

lemma drained: "wp_stage s = Stopping ks \<Longrightarrow> wp_exited s = None \<Longrightarrow> ks \<noteq> [] \<Longrightarrow> \<exists>t. (worker_step vars ^^ length ks) s t \<and> wp_exited t = Some 0"
proof (induction ks arbitrary: s)
  case (Cons k ks)
  let ?t = "stopped_part k ks s"
  have step: "worker_step vars s ?t" using worker_step.stopped [OF Cons.prems(2,1)] .
  show ?case
  proof (cases "ks = []")
    case True
    then show ?thesis using step by (auto simp: stopped_part_def)
  next
    case False
    then have "\<exists>u. (worker_step vars ^^ length ks) ?t u \<and> wp_exited u = Some 0"
      using Cons.IH [of ?t] by (simp add: stopped_part_def)
    then show ?thesis unfolding length_Cons using relpowp_Suc_I2 [where P = "worker_step vars", OF step] by blast
  qed
qed simp

section \<open>Properties\<close>

text \<open>
  C36: the life of the worker process. In every state the process can reach, its health endpoint
  answers UP exactly while it serves, and then every scheduler is running with its timer set, the
  sampler and the metrics server are up, the consumer of the queue was ready, and the event listener is running exactly
  when the settings let it (it is not disabled and its interval is valid; otherwise the process is healthy without
  it). It exits with code 0 only when
  every part has been stopped: listener, sampler and schedulers start nothing further, the queue and
  the connection to Redis are closed. A shutdown that has begun is ten stops or fewer away from that
  exit when no stop fails.
\<close>

theorem worker_life:
  assumes "worker_reach vars s"
  shows "(fst (metrics_request ct m (wp_ready s) ''/health'') = 200 \<longleftrightarrow> wp_stage s = Serving) \<and>
    (wp_stage s = Serving \<longrightarrow> in_service vars s) \<and> (wp_exited s = Some 0 \<longrightarrow> (\<forall>k. quiesced k s)) \<and>
    (wp_shuttingDown s \<longrightarrow> wp_exited s = None \<longrightarrow> (\<exists>n t. n \<le> 10 \<and> (worker_step vars ^^ n) s t \<and> wp_exited t = Some 0))"
proof -
  have ok: "stage_ok vars s" using worker_reach_ok [OF assms] by blast
  have all: "k \<in> set shutdown_order" for k by (cases k) (simp_all add: shutdown_order_def)
  have quiet: "quiesced k s" if "wp_exited s = Some 0" for k
    using ok that all [of k] by (cases "wp_stage s") (auto simp: stage_ok_def)
  have live: "\<exists>n t. n \<le> 10 \<and> (worker_step vars ^^ n) s t \<and> wp_exited t = Some 0" if sd: "wp_shuttingDown s" "wp_exited s = None"
  proof -
    obtain ks where ks: "wp_stage s = Stopping ks" "ks \<noteq> []" "\<exists>ds. shutdown_order = ds @ ks"
      using ok sd by (cases "wp_stage s") (auto simp: stage_ok_def)
    have "length ks \<le> length shutdown_order" using ks(3) by (metis length_append le_add2)
    then have "length ks \<le> 10" by (simp add: shutdown_order_def)
    then show ?thesis using drained [OF ks(1) sd(2) ks(2)] by blast
  qed
  have "fst (metrics_request ct m (wp_ready s) ''/health'') = 200 \<longleftrightarrow> wp_ready s" by (simp add: metrics_request_def)
  then show ?thesis using ok quiet live by (cases "wp_stage s") (simp_all add: stage_ok_def)
qed

theorem worker_life_witness:
  "fst (metrics_request ''text/plain'' (Inr []) (wp_ready (worker_started (\<lambda>_. None) (worker_boot (\<lambda>_. None)))) ''/health'') = 200 \<and>
   in_service (\<lambda>_. None) (worker_started (\<lambda>_. None) (worker_boot (\<lambda>_. None))) \<and>
   (\<exists>n t. n \<le> 10 \<and> (worker_step (\<lambda>_. None) ^^ n) (shutdown ((worker_started (\<lambda>_. None) (worker_boot (\<lambda>_. None)))\<lparr>wp_signals := [''SIGINT'']\<rparr>)) t \<and>
     wp_exited t = Some 0 \<and> quiesced Queue t)"
proof -
  let ?v = "\<lambda>_ :: string. None :: string option"
  let ?s = "worker_started ?v (worker_boot ?v)"
  let ?u = "shutdown (?s\<lparr>wp_signals := [''SIGINT'']\<rparr>)"
  have s: "worker_reach ?v ?s"
    by (rule worker_reach.step [OF worker_reach.boot worker_step.ready]) (simp_all add: worker_boot_def)
  have f: "wp_stage ?s = Serving" "wp_exited ?s = None" "wp_signals ?s = [''SIGINT'', ''SIGTERM'']" "wp_shuttingDown ?s = False"
    by (simp_all add: worker_started_def start_listener_fields worker_boot_def)
  have "worker_step ?v ?s (shutdown (?s\<lparr>wp_signals := remove1 ''SIGTERM'' (wp_signals ?s)\<rparr>))"
    by (rule worker_step.signalled) (simp_all add: f)
  then have u: "worker_reach ?v ?u" using worker_reach.step [OF s] by (simp add: f)
  have "wp_shuttingDown ?u" "wp_exited ?u = None" by (simp_all add: shutdown_def f)
  then obtain n t where t: "n \<le> 10" "(worker_step ?v ^^ n) ?u t" "wp_exited t = Some 0" using worker_life [OF u] by blast
  have "worker_reach ?v t" using t(2)
  proof (induction n arbitrary: t)
    case 0
    then show ?case using u by simp
  next
    case (Suc n)
    then show ?case by (auto intro: worker_reach.step)
  qed
  then have "quiesced Queue t" using worker_life t(3) by blast
  then show ?thesis using worker_life [OF s, of "''text/plain''" "Inr []"] f(1) t by blast
qed

text \<open>
  An error of the consumer does not show in the gauge of the process: the two report under
  different names. While the process serves, its own series says 1 whatever the consumer reported,
  and the series the consumer sets to 0 is never 1.
\<close>

lemma gauge_blind:
  assumes "worker_reach vars s"
  shows "(wp_stage s = Serving \<longrightarrow> wp_gauges s RUNNER_NAME = Some 1) \<and> wp_gauges s CONSUMER_NAME \<noteq> Some 1"
proof -
  have "wp_gauges s CONSUMER_NAME \<noteq> Some 1"
    using assms
  proof (induction rule: worker_reach.induct)
    case boot
    then show ?case by (simp add: worker_boot_def)
  next
    case (step s t)
    from step(2,3) show ?case
      by cases (auto simp: shutdown_def stopped_part_def on_error_def worker_started_def)
  qed
  then show ?thesis using worker_reach_ok [OF assms] by (cases "wp_stage s") (simp_all add: stage_ok_def)
qed

end
