(* ===== verification/Envelope.thy ===== *)
theory Envelope
  imports Adapters Base64url
begin

text \<open>
  The envelope around the keys of custodial wallets, \<^verbatim>\<open>crypto/envelope.ts\<close>: AWS KMS, or with
  \<^verbatim>\<open>KMS_PROVIDER=local\<close> AES-256-GCM under a master key from the environment. KMS and the cipher
  are the fields of a record; an answer of KMS and random bytes depend on the number of the call.
  A column of bytes is a string whose characters are the bytes. \<^verbatim>\<open>scripts/attach-custody-key.mjs\<close>, which
  seals a given key for a wallet, is here too.
\<close>

section \<open>Libraries\<close>

text \<open>
  The cipher returns the ciphertext and the tag; \<open>km_text\<close> is what \<^verbatim>\<open>toString('utf-8')\<close> makes of
  bytes that are not the encoding of a text of the model.
\<close>

record kms_lib =
  km_encrypt :: "nat \<Rightarrow> string \<Rightarrow> bytes \<Rightarrow> exn + bytes option"
  km_decrypt :: "nat \<Rightarrow> string \<Rightarrow> bytes \<Rightarrow> exn + bytes option"
  km_randomBytes :: "nat \<Rightarrow> nat \<Rightarrow> bytes"
  km_gcmSeal :: "bytes \<Rightarrow> bytes \<Rightarrow> bytes \<Rightarrow> bytes \<times> bytes"
  km_gcmOpen :: "bytes \<Rightarrow> bytes \<Rightarrow> bytes \<Rightarrow> bytes \<Rightarrow> exn + bytes"
  km_text :: "bytes \<Rightarrow> string"

definition blob :: "bytes \<Rightarrow> string" where
  "blob bs = map char_of bs"

definition unblob :: "string \<Rightarrow> bytes" where
  "unblob s = map of_char s"

definition utf8_text :: "kms_lib \<Rightarrow> bytes \<Rightarrow> string" where
  "utf8_text km bs = (case utf8_decode bs of Some s \<Rightarrow> s | None \<Rightarrow> km_text km bs)"

lemma unblob_blob: "bytes_ok bs \<Longrightarrow> unblob (blob bs) = bs"
  by (induction bs) (auto simp: blob_def unblob_def bytes_ok_def)

section \<open>Configuration\<close>

definition isLocalProvider :: "(string \<Rightarrow> string option) \<Rightarrow> bool" where
  "isLocalProvider vars = (vars ''KMS_PROVIDER'' = Some ''local'')"

definition getWalletKmsKeyId :: "(string \<Rightarrow> string option) \<Rightarrow> exn + string" where
  "getWalletKmsKeyId vars =
     (let configured = (case vars ''KMS_KEY_ID'' of None \<Rightarrow> [] | Some v \<Rightarrow> trim v) in
      if configured \<noteq> [] then Inr configured
      else if isLocalProvider vars then Inr ''local''
      else Inl (PlainError (''KMS_KEY_ID is not set. It is required to create custodial wallets whenever KMS_PROVIDER is not ''
             @ [CHR 0x22] @ ''local'' @ [CHR 0x22] @ '' (e.g. a KMS key ARN or alias).'')))"

definition parseLocalMasterKey :: "string option \<Rightarrow> exn + bytes" where
  "parseLocalMasterKey raw =
     (let value = (case raw of None \<Rightarrow> [] | Some v \<Rightarrow> trim v) in
      if value = [] then Inl (PlainError (''LOCAL_KMS_MASTER_KEY is not set. Add a 64-char hex string (32 bytes) to your '' @
             ''.env.test (or .env for local dev) - required whenever KMS_PROVIDER=local.''))
      else if \<not> (length value = 64 \<and> list_all (\<lambda>c. hex_nibble c \<noteq> None) value)
      then Inl (PlainError (''LOCAL_KMS_MASTER_KEY must be exactly 64 hex characters (32 bytes), got '' @ show_nat (length value)
             @ '' characters. Check for a stray quote, trailing newline, or '' @ [CHR 0x22] @ ''0x'' @ [CHR 0x22] @ '' prefix in your .env file.''))
      else Inr (from_hex value))"

definition getLocalMasterKey :: "(string \<Rightarrow> string option) \<Rightarrow> exn + bytes" where
  "getLocalMasterKey vars = parseLocalMasterKey (vars ''LOCAL_KMS_MASTER_KEY'')"

section \<open>The envelope\<close>

text \<open>The layout is the vector, the tag, the ciphertext.\<close>

definition encryptLocal :: "kms_lib \<Rightarrow> (string \<Rightarrow> string option) \<Rightarrow> nat \<Rightarrow> string \<Rightarrow> exn + bytes" where
  "encryptLocal km vars n privateKey =
     (let iv = km_randomBytes km n 12 in
      case getLocalMasterKey vars of
        Inl x \<Rightarrow> Inl x
      | Inr key \<Rightarrow> (case km_gcmSeal km key iv (utf8 privateKey) of (ciphertext, authTag) \<Rightarrow> Inr (iv @ authTag @ ciphertext)))"

definition decryptLocal :: "kms_lib \<Rightarrow> (string \<Rightarrow> string option) \<Rightarrow> bytes \<Rightarrow> exn + string" where
  "decryptLocal km vars buf =
     (let iv = take 12 buf; authTag = take 16 (drop 12 buf); ciphertext = drop 28 buf in
      case getLocalMasterKey vars of
        Inl x \<Rightarrow> Inl x
      | Inr key \<Rightarrow> (case km_gcmOpen km key iv authTag ciphertext of Inl x \<Rightarrow> Inl x | Inr plaintext \<Rightarrow> Inr (utf8_text km plaintext)))"

definition encryptWalletKey :: "kms_lib \<Rightarrow> (string \<Rightarrow> string option) \<Rightarrow> nat \<Rightarrow> string \<Rightarrow> string \<Rightarrow> exn + string" where
  "encryptWalletKey km vars n privateKey kmsKeyId =
     (if isLocalProvider vars then map_sum id blob (encryptLocal km vars n privateKey)
      else case km_encrypt km n kmsKeyId (utf8 privateKey) of
        Inl x \<Rightarrow> Inl x
      | Inr None \<Rightarrow> Inl (PlainError ''Key encryption failed'')
      | Inr (Some ciphertextBlob) \<Rightarrow> Inr (blob ciphertextBlob))"

definition decryptWalletKey :: "kms_lib \<Rightarrow> (string \<Rightarrow> string option) \<Rightarrow> key_service" where
  "decryptWalletKey km vars n ciphertext kmsKeyId =
     (if isLocalProvider vars then decryptLocal km vars (unblob ciphertext)
      else case km_decrypt km n kmsKeyId (unblob ciphertext) of
        Inl x \<Rightarrow> Inl x
      | Inr None \<Rightarrow> Inl (PlainError ''Key decryption failed'')
      | Inr (Some plaintext) \<Rightarrow> Inr (utf8_text km plaintext))"

section \<open>Attaching a key to a wallet\<close>

text \<open>
  \<^verbatim>\<open>scripts/attach-custody-key.mjs\<close>: one database transaction makes the wallet custodial, removes
  the key it has and writes the new one.
\<close>

definition present :: "string option \<Rightarrow> string" where
  "present v = (case v of None \<Rightarrow> [] | Some s \<Rightarrow> s)"

definition attach_custody_key :: "kms_lib \<Rightarrow> (string \<Rightarrow> string option) \<Rightarrow> unit eff" where
  "attach_custody_key km vars =
     (let walletId = present (vars ''WALLET_ID''); privateKey = present (vars ''PRIVATE_KEY_HEX'');
          kmsKeyId = (case vars ''KMS_KEY_ID'' of None \<Rightarrow> ''test-key'' | Some k \<Rightarrow> k) in
      if walletId = [] \<or> privateKey = [] then throwE (PlainError ''WALLET_ID and PRIVATE_KEY_HEX are required'')
      else bindE (external (\<lambda>n. encryptWalletKey km vars n privateKey kmsKeyId)) (\<lambda>encryptedKey.
        bindE randomUUID (\<lambda>keyId. db_transaction (
          bindE (statement (\<lambda>d. if row wa_id (wallets d) walletId = None then Inl P2025
            else Inr ((), d\<lparr>wallets := update_rows (\<lambda>x. wa_id x = walletId) (\<lambda>x. x\<lparr>wa_custodyType := CUSTODIAL\<rparr>) (wallets d)\<rparr>))) (\<lambda>_.
          bindE (statement (\<lambda>d. Inr ((), d\<lparr>custodyKeys := filter (\<lambda>k. ck_walletId k \<noteq> walletId) (custodyKeys d)\<rparr>))) (\<lambda>_.
          statement (\<lambda>d. let k = \<lparr> ck_id = keyId, ck_walletId = walletId, ck_encryptedKey = encryptedKey, ck_kmsKeyId = kmsKeyId \<rparr> in
            if keyed ck_walletId (custodyKeys d @ [k]) then Inr ((), d\<lparr>custodyKeys := custodyKeys d @ [k]\<rparr>) else Inl P2002)))))))"

section \<open>What is sealed can be opened\<close>

text \<open>
  What the envelope relies on: vectors of 12 and tags of 16 bytes, a cipher that opens what it
  sealed, and a key service that decrypts what it encrypted under the same key id.
\<close>

definition cipher_laws :: "kms_lib \<Rightarrow> bool" where
  "cipher_laws km \<longleftrightarrow>
     (\<forall>n. length (km_randomBytes km n 12) = 12 \<and> bytes_ok (km_randomBytes km n 12)) \<and>
     (\<forall>key iv m c t. bytes_ok m \<longrightarrow> km_gcmSeal km key iv m = (c, t) \<longrightarrow> length t = 16 \<and> bytes_ok t \<and> bytes_ok c \<and> km_gcmOpen km key iv t c = Inr m) \<and>
     (\<forall>n n' k m c. bytes_ok m \<longrightarrow> km_encrypt km n k m = Inr (Some c) \<longrightarrow> bytes_ok c \<and> km_decrypt km n' k c = Inr (Some m))"

lemma utf8_text_utf8 [simp]: "utf8_text km (utf8 s) = s"
  by (simp add: utf8_text_def utf8_round_trip)

lemma envelope_round_trip:
  assumes "cipher_laws km" "encryptWalletKey km vars n s k = Inr c"
  shows "decryptWalletKey km vars n' c k = Inr s"
proof (cases "isLocalProvider vars")
  case True
  let ?iv = "km_randomBytes km n 12"
  obtain key ct tag where k: "getLocalMasterKey vars = Inr key" "km_gcmSeal km key ?iv (utf8 s) = (ct, tag)" "c = blob (?iv @ tag @ ct)"
    using assms(2) True by (auto simp: encryptWalletKey_def encryptLocal_def Let_def split: sum.splits prod.splits)
  have iv: "length ?iv = 12" "bytes_ok ?iv" using assms(1) by (simp_all add: cipher_laws_def)
  have t: "length tag = 16" "bytes_ok tag" "bytes_ok ct" "km_gcmOpen km key ?iv tag ct = Inr (utf8 s)"
    using assms(1) k(2) utf8_ok unfolding cipher_laws_def by blast+
  have "bytes_ok (?iv @ tag @ ct)" using iv(2) t(2,3) by (auto simp: bytes_ok_def)
  then have "unblob c = ?iv @ tag @ ct" unfolding k(3) by (rule unblob_blob)
  then show ?thesis using True k(1) iv(1) t(1,4) by (simp add: decryptWalletKey_def decryptLocal_def Let_def)
next
  case False
  then obtain ct where ct: "km_encrypt km n k (utf8 s) = Inr (Some ct)" "c = blob ct"
    using assms(2) by (auto simp: encryptWalletKey_def split: sum.splits option.splits)
  have "bytes_ok ct" "km_decrypt km n' k ct = Inr (Some (utf8 s))" using assms(1) ct(1) utf8_ok unfolding cipher_laws_def by blast+
  then show ?thesis using False ct(2) by (simp add: decryptWalletKey_def unblob_blob)
qed

text \<open>A master key that is accepted has 32 bytes.\<close>

lemma length_from_hex: "list_all (\<lambda>c. hex_nibble c \<noteq> None) s \<Longrightarrow> length (from_hex s) = length s div 2"
  by (induction s rule: from_hex.induct) (auto split: option.splits)

lemma master_key_length: "parseLocalMasterKey raw = Inr key \<Longrightarrow> length key = 32"
  by (auto simp: parseLocalMasterKey_def Let_def length_from_hex split: if_splits)

end
