(* ===== verification/Ledger_Spec.thy ===== *)
theory Ledger_Spec
  imports Outbox
begin

text \<open>
  The ledger as its clients see it, and the refinement: an abstract ledger has entries with
  fixed terms, a status and a hash, and a count of announced settlements. Its events are the
  six things that can happen to an entry; a settlement and its announcement are one event.
  The tables and processes of the program refine it: whatever a history does to the store is
  a run of the abstract ledger. The contract of the repository and the one of the
  relay are discharged here for the relation \<open>refines\<close>.
\<close>

section \<open>The abstract ledger\<close>

record entry =
  en_tenant :: string
  en_token :: string
  en_from :: string
  en_to :: string
  en_amount :: int
  en_status :: transaction_status
  en_hash :: "string option"

record spec_ledger =
  sl_entries :: "string \<rightharpoonup> entry"
  sl_announced :: "string \<Rightarrow> nat"

datatype spec_event = Opened string entry | Submitted string string | Claimed string | Failed string | Expired string | Settled string

abbreviation set_entry :: "string \<Rightarrow> entry \<Rightarrow> spec_ledger \<Rightarrow> spec_ledger" where
  "set_entry i x L \<equiv> L\<lparr>sl_entries := (sl_entries L)(i \<mapsto> x)\<rparr>"

inductive spec_step :: "spec_ledger \<Rightarrow> spec_event \<Rightarrow> spec_ledger \<Rightarrow> bool" where
  opened: "sl_entries L i = None \<Longrightarrow> en_status x = PENDING \<Longrightarrow> en_hash x = None \<Longrightarrow>
     spec_step L (Opened i x) (set_entry i x L)"
| submitted: "sl_entries L i = Some x \<Longrightarrow> en_status x = PENDING \<Longrightarrow> (\<forall>y \<in> ran (sl_entries L). en_hash y \<noteq> Some h) \<Longrightarrow>
     spec_step L (Submitted i h) (set_entry i (x\<lparr>en_status := SUBMITTED, en_hash := Some h\<rparr>) L)"
| claimed: "sl_entries L i = Some x \<Longrightarrow> en_status x = SUBMITTED \<Longrightarrow>
     spec_step L (Claimed i) (set_entry i (x\<lparr>en_status := CONFIRMING\<rparr>) L)"
| failed: "sl_entries L i = Some x \<Longrightarrow> en_status x \<in> {PENDING, CONFIRMING} \<Longrightarrow>
     spec_step L (Failed i) (set_entry i (x\<lparr>en_status := FAILED\<rparr>) L)"
| expired: "sl_entries L i = Some x \<Longrightarrow> en_status x \<in> {SUBMITTED, CONFIRMING} \<Longrightarrow>
     spec_step L (Expired i) (set_entry i (x\<lparr>en_status := EXPIRED\<rparr>) L)"
| settled: "sl_entries L i = Some x \<Longrightarrow> en_status x = CONFIRMING \<Longrightarrow>
     spec_step L (Settled i) ((set_entry i (x\<lparr>en_status := CONFIRMED\<rparr>) L)\<lparr>sl_announced := (sl_announced L)(i := sl_announced L i + 1)\<rparr>)"

inductive_simps spec_step_settled: "spec_step L (Settled i) L'"

inductive spec_run :: "spec_ledger \<Rightarrow> spec_event list \<Rightarrow> spec_ledger \<Rightarrow> bool" where
  idle: "spec_run L [] L"
| more: "spec_step L ev L' \<Longrightarrow> spec_run L' evs L'' \<Longrightarrow> spec_run L (ev # evs) L''"

lemma spec_run_append: "spec_run L evs L' \<Longrightarrow> spec_run L' evs' L'' \<Longrightarrow> spec_run L (evs @ evs') L''"
  by (induction rule: spec_run.induct) (auto intro: spec_run.more)

lemma spec_run_single: "spec_step L ev L' \<Longrightarrow> spec_run L [ev] L'"
  by (rule spec_run.more [OF _ spec_run.idle])

section \<open>What the abstract ledger guarantees\<close>

text \<open>The announcements of a run are its settlements, and an entry is settled at most once.\<close>

lemma spec_run_announced: "spec_run L evs L' \<Longrightarrow> sl_announced L' i = sl_announced L i + count_list evs (Settled i)"
  by (induction rule: spec_run.induct) (auto elim!: spec_step.cases split: if_splits)

definition settled_entry :: "spec_ledger \<Rightarrow> string \<Rightarrow> bool" where
  "settled_entry L i \<longleftrightarrow> map_option en_status (sl_entries L i) = Some CONFIRMED"

lemma spec_step_settled_once:
  "spec_step L ev L' \<Longrightarrow> settled_entry L' i = (settled_entry L i \<or> ev = Settled i) \<and> (settled_entry L i \<longrightarrow> ev \<noteq> Settled i)"
  by (induction rule: spec_step.induct) (auto simp: settled_entry_def)

lemma spec_run_settled:
  "spec_run L evs L' \<Longrightarrow> of_bool (settled_entry L' i) = (of_bool (settled_entry L i) :: nat) + count_list evs (Settled i)"
proof (induction rule: spec_run.induct)
  case (more L ev L' evs L'')
  from spec_step_settled_once [OF more.hyps(1), of i] more.IH show ?case by auto
qed simp

lemma spec_run_settled_once: "spec_run L evs L' \<Longrightarrow> count_list evs (Settled i) \<le> 1"
  by (drule spec_run_settled [of _ _ _ i]) (simp add: of_bool_def split: if_splits)

section \<open>The abstraction\<close>

definition entry_of :: "transaction \<Rightarrow> entry" where
  "entry_of t = \<lparr> en_tenant = tx_tenantId t, en_token = tx_tokenId t, en_from = tx_fromWalletId t, en_to = tx_toWalletId t,
     en_amount = tx_amount t, en_status = tx_status t, en_hash = tx_txHash t \<rparr>"

definition abstract_ledger :: "store \<Rightarrow> spec_ledger" where
  "abstract_ledger d = \<lparr> sl_entries = (\<lambda>i. map_option entry_of (row tx_id (transactions d) i)), sl_announced = confirmed_events d \<rparr>"

definition refines :: "store \<Rightarrow> store \<Rightarrow> bool" where
  "refines d d' \<longleftrightarrow> (ledger_ok d \<longrightarrow> ledger_ok d' \<and> (\<exists>evs. spec_run (abstract_ledger d) evs (abstract_ledger d')))"


section \<open>One row\<close>

lemma refinesI: "ledger_ok d' \<Longrightarrow> spec_run (abstract_ledger d) evs (abstract_ledger d') \<Longrightarrow> refines d d'"
  unfolding refines_def by blast

lemma refines_same:
  "transactions d' = transactions d \<Longrightarrow> confirmed_events d' = confirmed_events d \<Longrightarrow> refines d d'"
  unfolding refines_def abstract_ledger_def ledger_ok_def by (auto intro!: spec_run.idle)

lemma submitted_spec:
  assumes "sl_entries L i = Some x" "en_status x = PENDING" "en_hash x = None"
    and "\<And>j y. j \<noteq> i \<Longrightarrow> sl_entries L j = Some y \<Longrightarrow> en_hash y \<noteq> Some h"
  shows "spec_step L (Submitted i h) (set_entry i (x\<lparr>en_status := SUBMITTED, en_hash := Some h\<rparr>) L)"
proof (rule spec_step.submitted [OF assms(1,2)])
  show "\<forall>y \<in> ran (sl_entries L). en_hash y \<noteq> Some h"
  proof
    fix y assume "y \<in> ran (sl_entries L)"
    then obtain j where "sl_entries L j = Some y" by (auto simp: ran_def)
    then show "en_hash y \<noteq> Some h" using assms(1,3) assms(4) [of j y] by (cases "j = i") auto
  qed
qed

lemma legal_step_entry:
  assumes "legal_step t t'"
  shows "entry_of t' = (entry_of t)\<lparr>en_status := tx_status t', en_hash := tx_txHash t'\<rparr>"
    and "tx_status t' \<noteq> SUBMITTED \<Longrightarrow> entry_of t' = (entry_of t)\<lparr>en_status := tx_status t'\<rparr>"
  using assms by (simp_all add: legal_step_def same_terms_def entry_of_def)

lemma legal_step_spec:
  assumes "legal_step t t'" "tx_wf t" "sl_entries L i = Some (entry_of t)"
    and "\<And>j y. j \<noteq> i \<Longrightarrow> sl_entries L j = Some y \<Longrightarrow> en_hash y = None \<or> en_hash y \<noteq> tx_txHash t'"
  shows "\<exists>ev. spec_step L ev (set_entry i (entry_of t') L)"
proof -
  have st: "en_status (entry_of t) = tx_status t" "en_hash (entry_of t) = tx_txHash t" by (simp_all add: entry_of_def)
  consider (sub) "tx_status t = PENDING" "tx_status t' = SUBMITTED"
    | (claim) "tx_status t = SUBMITTED" "tx_status t' = CONFIRMING"
    | (fail) "tx_status t \<in> {PENDING, CONFIRMING}" "tx_status t' = FAILED"
    | (exp) "tx_status t \<in> {SUBMITTED, CONFIRMING}" "tx_status t' = EXPIRED"
    using assms(1) by (cases "tx_status t") (auto simp: legal_step_def canTransition_def)
  then show ?thesis
  proof cases
    case sub
    then obtain h where h: "tx_txHash t' = Some h" using assms(1,2) by (auto simp: legal_step_def tx_wf_def)
    have "tx_txHash t = None" using sub assms(2) by (simp add: tx_wf_def)
    with submitted_spec [OF assms(3), of h] assms(4) sub st h legal_step_entry(1) [OF assms(1)] show ?thesis by fastforce
  next
    case claim
    with spec_step.claimed [OF assms(3)] legal_step_entry(2) [OF assms(1)] st show ?thesis by auto
  next
    case fail
    with spec_step.failed [OF assms(3)] legal_step_entry(2) [OF assms(1)] st show ?thesis by auto
  next
    case exp
    with spec_step.expired [OF assms(3)] legal_step_entry(2) [OF assms(1)] st show ?thesis by auto
  qed
qed

section \<open>One statement that updates many rows\<close>

lemma row_hash_unique:
  assumes "distinct (tx_hashes ts)" "row tx_id ts i = Some a" "row tx_id ts j = Some b"
    and "tx_txHash a = Some h" "tx_txHash b = Some h"
  shows "i = j"
  using assms
proof (induction ts)
  case (Cons t ts)
  have "h \<in> set (tx_hashes ts)" if "row tx_id ts k = Some c" "tx_txHash c = Some h" for k c
    using that row_SomeD [OF that(1)] by (force simp: tx_hashes_def)
  with Cons show ?case by (auto simp: tx_hashes_def split: if_splits)
qed simp

definition partly :: "string set \<Rightarrow> store \<Rightarrow> store \<Rightarrow> spec_ledger" where
  "partly A d d' = (abstract_ledger d)\<lparr>sl_entries := (\<lambda>i. if i \<in> A then sl_entries (abstract_ledger d') i else sl_entries (abstract_ledger d) i)\<rparr>"

definition rows_step :: "store \<Rightarrow> store \<Rightarrow> bool" where
  "rows_step d d' \<longleftrightarrow> (\<forall>i. case row tx_id (transactions d) i of
       None \<Rightarrow> row tx_id (transactions d') i = None
     | Some t \<Rightarrow> (\<exists>t'. row tx_id (transactions d') i = Some t' \<and> (t' = t \<or> legal_step t t')))"

lemma rows_step_cases:
  assumes "rows_step d d'"
  obtains (absent) "row tx_id (transactions d) i = None" "row tx_id (transactions d') i = None"
  | (present) t t' where "row tx_id (transactions d) i = Some t" "row tx_id (transactions d') i = Some t'" "t' = t \<or> legal_step t t'"
  using assms [unfolded rows_step_def, rule_format, of i] by (auto split: option.splits)

lemma legal_step_hash: "legal_step t t' \<Longrightarrow> tx_wf t \<Longrightarrow> tx_txHash t = None \<or> tx_txHash t' = tx_txHash t"
proof (cases "tx_status t' = SUBMITTED")
  case True
  assume "legal_step t t'" "tx_wf t"
  with True have "tx_status t = PENDING" unfolding legal_step_def canTransition_def by (cases "tx_status t") auto
  with \<open>tx_wf t\<close> show ?thesis unfolding tx_wf_def by blast
qed (simp add: legal_step_def)

lemma partly_hash:
  assumes "ledger_ok d" "rows_step d d'" "sl_entries (partly A d d') j = Some y"
  shows "\<exists>b. row tx_id (transactions d') j = Some b \<and> (en_hash y = None \<or> en_hash y = tx_txHash b)"
proof -
  obtain t t' where t: "row tx_id (transactions d) j = Some t" "row tx_id (transactions d') j = Some t'" "t' = t \<or> legal_step t t'"
    using assms(3) by (cases rule: rows_step_cases [OF assms(2), of j]) (auto simp: partly_def abstract_ledger_def split: if_splits)
  have "tx_wf t" using row_SomeD [OF t(1)] assms(1) by (simp add: ledger_ok_def)
  with legal_step_hash t have "tx_txHash t = None \<or> tx_txHash t' = tx_txHash t" by blast
  with t assms(3) show ?thesis by (auto simp: partly_def abstract_ledger_def entry_of_def split: if_splits)
qed

lemma many_rows:
  assumes "finite A" and ok: "ledger_ok d" "ledger_ok d'" and steps: "rows_step d d'"
  shows "\<exists>evs. spec_run (abstract_ledger d) evs (partly A d d')"
  using assms(1)
proof (induction A rule: finite_induct)
  case empty
  have "partly {} d d' = abstract_ledger d" by (simp add: partly_def)
  then show ?case by (metis spec_run.idle)
next
  case (insert i A)
  then obtain evs where run: "spec_run (abstract_ledger d) evs (partly A d d')" by blast
  let ?L = "partly A d d'"
  show ?case
  proof (cases "row tx_id (transactions d') i = row tx_id (transactions d) i")
    case True
    then have "partly (insert i A) d d' = ?L" using insert.hyps by (auto simp: partly_def abstract_ledger_def fun_eq_iff)
    with run show ?thesis by metis
  next
    case False
    then obtain t t' where t: "row tx_id (transactions d) i = Some t" "row tx_id (transactions d') i = Some t'" "legal_step t t'"
      by (cases rule: rows_step_cases [OF steps, of i]) auto
    have old: "en_hash y = None \<or> en_hash y \<noteq> tx_txHash t'" if j: "j \<noteq> i" "sl_entries ?L j = Some y" for j y
    proof -
      obtain b where b: "row tx_id (transactions d') j = Some b" "en_hash y = None \<or> en_hash y = tx_txHash b"
        using partly_hash [OF ok(1) steps j(2)] by blast
      have "distinct (tx_hashes (transactions d'))" using ok(2) by (simp add: ledger_ok_def)
      from row_hash_unique [OF this b(1) t(2)] j(1) b(2) show ?thesis by (cases "tx_txHash t'") auto
    qed
    have "\<exists>ev. spec_step ?L ev (set_entry i (entry_of t') ?L)"
      by (rule legal_step_spec [OF t(3) _ _ old])
        (use t ok insert.hyps in \<open>auto simp: partly_def abstract_ledger_def ledger_ok_def dest: row_SomeD\<close>)
    moreover have "partly (insert i A) d d' = set_entry i (entry_of t') ?L"
      using t by (auto simp: partly_def abstract_ledger_def fun_eq_iff)
    ultimately show ?thesis using run spec_run_append spec_run_single by metis
  qed
qed

lemma rows_step_refines:
  assumes "ledger_ok d" "ledger_ok d'" "rows_step d d'" "confirmed_events d' = confirmed_events d"
  shows "refines d d'"
proof -
  let ?A = "tx_id ` set (transactions d)"
  have "sl_entries (abstract_ledger d') i = sl_entries (abstract_ledger d) i" if "i \<notin> ?A" for i
  proof -
    have "row tx_id (transactions d) i = None" using that row_SomeD by (cases "row tx_id (transactions d) i") force+
    then show ?thesis by (cases rule: rows_step_cases [OF assms(3), of i]) (simp_all add: abstract_ledger_def)
  qed
  then have "partly ?A d d' = abstract_ledger d'"
    using assms(4) by (auto simp: partly_def abstract_ledger_def fun_eq_iff)
  then show ?thesis using many_rows [of ?A d d'] assms refinesI by auto
qed

section \<open>The program refines the abstract ledger\<close>

lemma refines_update:
  assumes legal: "\<And>t. P t \<Longrightarrow> legal_step t (f t)" and u: "tx_updateMany P f d = Inr (n, d')"
  shows "refines d d'"
proof -
  have ids: "\<And>t. P t \<Longrightarrow> tx_id (f t) = tx_id t" using legal legal_step_id by simp
  have k: "kept ledger_ok d d'" using legal u by (rule ok.frame_update)
  have rows: "row tx_id (transactions d') i = map_option (\<lambda>t. if P t then f t else t) (row tx_id (transactions d) i)" for i
    by (rule tx_updateMany_rows(1) [OF u ids])
  have "rows_step d d'" unfolding rows_step_def rows using legal by (simp split: option.splits)
  moreover have "confirmed_events d' = confirmed_events d"
    using tx_updateMany_rows(2) [OF u ids] by (simp add: confirmed_events_def fun_eq_iff)
  ultimately show ?thesis using k rows_step_refines unfolding kept_def refines_def by blast
qed

lemma refines_create:
  assumes t: "tx_status t = PENDING" "tx_wf t" and c: "tx_create t d = Inr (t', d')"
  shows "refines d d'"
proof -
  have "kept ledger_ok d d'" using t c by (rule ok.frame_create)
  moreover have "abstract_ledger d' = set_entry (tx_id t) (entry_of t) (abstract_ledger d)"
    using tx_create_rows(2,3) [OF c] tx_create_rows(1) [OF c]
    by (auto simp: abstract_ledger_def confirmed_events_def fun_eq_iff split: option.splits)
  moreover have "spec_step (abstract_ledger d) (Opened (tx_id t) (entry_of t)) (set_entry (tx_id t) (entry_of t) (abstract_ledger d))"
    using t tx_create_rows(3) [OF c] by (intro spec_step.opened) (simp_all add: abstract_ledger_def entry_of_def tx_wf_def)
  ultimately show ?thesis unfolding refines_def kept_def by (metis spec_run_single)
qed

lemma refines_confirm:
  assumes c: "confirmation_commit d d'"
  shows "refines d d'"
  using c
proof (rule commit_rows)
  fix t t'
  assume a: "row tx_id (transactions d) (tx_id t) = Some t" "tx_status t = CONFIRMING" "advances t t'"
    "tx_status t' = CONFIRMED" "tx_txHash t' = tx_txHash t"
    "\<And>i. row tx_id (transactions d') i = (if i = tx_id t then Some t' else row tx_id (transactions d) i)"
    "\<And>i. confirmed_events d' i = confirmed_events d i + (if i = tx_id t then 1 else 0)"
  have e: "entry_of t' = (entry_of t)\<lparr>en_status := CONFIRMED\<rparr>"
    using a(3-5) by (simp add: advances_def same_terms_def entry_of_def)
  have "spec_step (abstract_ledger d) (Settled (tx_id t)) (abstract_ledger d')"
    unfolding spec_step_settled
    using a(1,2,6,7) by (auto simp: abstract_ledger_def e fun_eq_iff) (simp add: entry_of_def)
  with ok.frame_confirm [OF c] show "refines d d'" unfolding refines_def kept_def by (metis spec_run_single)
qed

lemma refines_trans: "refines a b \<Longrightarrow> refines b c \<Longrightarrow> refines a c"
  unfolding refines_def by (blast intro: spec_run_append)

lemma refines_elsewhere: "transactions d' = transactions d \<Longrightarrow> outbox d' = outbox d \<Longrightarrow> refines d d'"
  by (rule refines_same) (simp_all add: confirmed_events_def fun_eq_iff)

interpretation rf: transaction_frame refines
proof unfold_locales
  show "refines a b \<Longrightarrow> refines b c \<Longrightarrow> refines a c" for a b c by (rule refines_trans)
  show "(\<And>t. P t \<Longrightarrow> legal_step t (f t)) \<Longrightarrow> tx_updateMany P f d = Inr (n, d') \<Longrightarrow> refines d d'" for P f d n d'
    by (rule refines_update)
  show "tx_status t = PENDING \<Longrightarrow> tx_wf t \<Longrightarrow> tx_create t d = Inr (t', d') \<Longrightarrow> refines d d'" for t d t' d'
    by (rule refines_create)
  show "confirmation_commit d d' \<Longrightarrow> refines d d'" for d d' by (rule refines_confirm)
qed (simp_all add: refines_elsewhere)

lemma keeps_relay_refines: "rely refines e \<Longrightarrow> keeps refines e (relay n)"
  by (rule rf.keeps_relay_if) (auto intro!: refines_same simp: confirmed_events_of fun_eq_iff)

end
