(* ===== verification/System.thy ===== *)
theory System
  imports Api_Frame Worker_Process Envelope Ledger_Spec
begin

text \<open>
  The program as a whole: every entry point that touches the shared store is an
  \<open>operation\<close>, performed by some process in some environment. The locale \<open>ledger_frame\<close>
  adds the relay to the contract of the transaction repository; from it follows, once
  for all specifications, that every operation and every history of operations stays
  within the relation.
\<close>

section \<open>Operations\<close>

text \<open>What the processes are configured with: chain clients, keys, environment variables.\<close>

record platform =
  pf_evm :: int
  pf_evmVar :: "string option"
  pf_vars :: "string \<Rightarrow> string option"
  pf_evmClient :: evm_client
  pf_bitcoinClient :: bitcoin_client
  pf_solanaClient :: solana_client
  pf_kms :: kms_lib
  pf_logClient :: log_client
  pf_layers :: "exn \<Rightarrow> error_layer list"
  pf_publicKey :: "string \<Rightarrow> exn + bool"
  pf_crypto :: crypto_lib
  pf_zod :: zod_lib
  pf_lifetimes :: token_lifetimes
  pf_jwtSecret :: string

definition pf_registry :: "platform \<Rightarrow> adapter list" where
  "pf_registry p = blockchainAdapterRegistry (pf_evmClient p) (pf_bitcoinClient p) (pf_solanaClient p)
     (decryptWalletKey (pf_kms p) (pf_vars p))"

definition pf_api :: "platform \<Rightarrow> api_platform" where
  "pf_api p = \<lparr> ap_crypto = pf_crypto p, ap_zod = pf_zod p, ap_lifetimes = pf_lifetimes p, ap_jwtSecret = pf_jwtSecret p,
     ap_vars = pf_vars p, ap_evm = pf_evm p, ap_registry = pf_registry p, ap_isEvmAddress = ec_isAddress (pf_evmClient p),
     ap_publicKey = pf_publicKey p, ap_kmsKeyId = getWalletKmsKeyId (pf_vars p),
     ap_encrypt = encryptWalletKey (pf_kms p) (pf_vars p) \<rparr>"

datatype operation =
    Transfer transfer_request
  | ConfirmationJob string string
  | ExpirationTick string scheduler
  | SubmissionRecoveryTick string scheduler
  | PendingRecoveryTick int int int string scheduler
  | BalanceDriftTick nat nat nat string scheduler
  | OutboxRelayTick string scheduler
  | LeaseRenewal string string int
  | IndexerCycle
  | RegisterWallet string string int string
  | RegisterCustodialWallet string string int
  | RegisterToken string string "string option" int blockchain
  | Mint string string int
  | UpdateBalance string string int int
  | ApiRequest route http_request
  | SamplePending
  | AttachCustodyKey "string \<Rightarrow> string option"

definition completed :: "'a eff \<Rightarrow> unit eff" where
  "completed m = bindE m (\<lambda>_. returnE ())"

fun perform :: "platform \<Rightarrow> operation \<Rightarrow> unit eff" where
  "perform p (Transfer rq) = completed (transfer (pf_registry p) rq)"
| "perform p (ConfirmationJob i tn) = processTransaction (pf_registry p) i tn"
| "perform p (ExpirationTick ow s) = completed (so_run (ExpirationScheduler ow) s)"
| "perform p (SubmissionRecoveryTick ow s) = completed (so_run (SubmissionRecoveryScheduler ow) s)"
| "perform p (PendingRecoveryTick g f l ow s) = completed (so_run (PendingRecoveryScheduler g f l ow) s)"
| "perform p (BalanceDriftTick fuel page conc ow s) =
     completed (so_run (BalanceDriftScheduler fuel (pf_evm p) (pf_registry p) page conc ow) s)"
| "perform p (OutboxRelayTick ow s) = completed (so_run (OutboxRelayScheduler ow) s)"
| "perform p (LeaseRenewal ow n k) = renewLease ow n k"
| "perform p IndexerCycle =
     completed (processCycle (processTokenEvents (pf_vars p) (pf_logClient p) (pf_layers p) (pf_evmClient p) (pf_evmVar p)))"
| "perform p (RegisterWallet tn ow c a) =
     completed (createWallet (ec_isAddress (pf_evmClient p)) (pf_publicKey p) (pf_evm p) tn ow c a)"
| "perform p (RegisterCustodialWallet tn ow c) =
     completed (createCustodialWallet (pf_evm p) (pf_registry p) (getWalletKmsKeyId (pf_vars p)) (encryptWalletKey (pf_kms p) (pf_vars p)) tn ow c)"
| "perform p (RegisterToken n s ca dec b) = completed (registerToken (pf_registry p) n s ca dec b)"
| "perform p (Mint i r a) = completed (mintToken (pf_registry p) i r a)"
| "perform p (UpdateBalance wl tk x bn) = completed (updateBalance wl tk x bn)"
| "perform p (ApiRequest r rq) = completed (respond (pf_api p) r rq)"
| "perform p SamplePending = sample"
| "perform p (AttachCustodyKey vars) = attach_custody_key (pf_kms p) vars"

text \<open>
  A history: operations one after the other, each by its own process with its own module
  state, in its own environment. What other operations do in between and during each is
  part of the environments.
\<close>

fun history :: "platform \<Rightarrow> (operation \<times> env) list \<Rightarrow> store \<Rightarrow> store" where
  "history p [] d = d"
| "history p ((o1, e) # rest) d = history p rest (db (snd (perform p o1 e (world_of d))))"

text \<open>
  The closed system: whatever happens to the store while an operation waits is itself a
  history of operations of this program, each in an environment of the same kind.
\<close>

inductive program_env :: "platform \<Rightarrow> env \<Rightarrow> bool" for p where
  others: "(\<And>n d. \<exists>h. (\<forall>x \<in> set h. program_env p (snd x)) \<and> env_interfere e n d = history p h d) \<Longrightarrow> program_env p e"

section \<open>The relay and the tables of the indexer\<close>

lemma keeps_relay_elsewhere:
  assumes "store_frame R" "rely R e" and "\<And>d d'. same_index d d' \<Longrightarrow> R d d'"
  shows "keeps R e (relay n)"
proof -
  have s: "same_index d (d\<lparr>outbox := x\<rparr>)" "same_index d (d\<lparr>relayQueue := y\<rparr>)" for d x y
    by (simp_all add: same_index_def)
  show ?thesis
    unfolding relay_def claimUnpublished_def addBulk_def markPublished_def
    by (intro store_frame.keeps_bind [OF assms(1)] store_frame.keeps_query [OF assms(1)] store_frame.keeps_if [OF assms(1)]
        store_frame.keeps_return [OF assms(1)] store_frame.keeps_getNow [OF assms(1)]
        store_frame.keeps_statement [OF assms(1)] store_frame.keeps_let [OF assms(1)] safe_statementI assms(2))
      (auto intro!: assms(3) s)
qed

lemma keeps_relay_balances: "rely balance_order e \<Longrightarrow> keeps balance_order e (relay n)"
  by (rule keeps_relay_elsewhere [OF bo.store_frame_axioms]) (simp_all add: same_index_def balance_order_def)

lemma keeps_relay_index: "rely (index_order start chain ca i) e \<Longrightarrow> keeps (index_order start chain ca i) e (relay n)"
  by (rule keeps_relay_elsewhere [OF ix.store_frame_axioms]) (simp_all add: same_index_def index_order_same)

section \<open>The contract of the whole ledger\<close>

locale ledger_frame = transaction_frame R + balance_frame R for R :: "store \<Rightarrow> store \<Rightarrow> bool" +
  fixes p :: platform
  assumes frame_relay: "rely R e \<Longrightarrow> keeps R e (relay n)"
    and frame_indexer: "rely R e \<Longrightarrow>
      keeps R e (processTokenEvents (pf_vars p) (pf_logClient p) (pf_layers p) (pf_evmClient p) (pf_evmVar p) i)"
    and frame_keys: "key_step (pf_crypto p) d d' \<Longrightarrow> R d d'"

sublocale ledger_frame \<subseteq> identity_frame R "pf_crypto p"
  by unfold_locales (rule frame_keys)

context ledger_frame
begin

lemma keeps_completed [keeps_intros]: "keeps R e m \<Longrightarrow> keeps R e (completed m)"
  unfolding completed_def by (intro keeps_intros)

lemma keeps_ticks:
  assumes "rely R e"
  shows "keeps R e (so_run (ExpirationScheduler ow) s)" "keeps R e (so_run (SubmissionRecoveryScheduler ow) s)"
    "keeps R e (so_run (PendingRecoveryScheduler g f l ow) s)" "keeps R e (so_run (OutboxRelayScheduler ow) s)"
  unfolding ExpirationScheduler_def SubmissionRecoveryScheduler_def PendingRecoveryScheduler_def
    OutboxRelayScheduler_def leased_scheduler_def scheduler_object.simps expiration_cycle_def
  by (intro keeps_scheduler_run keeps_intros keeps_processExpired keeps_processSubmitted keeps_processOrphaned
      frame_relay assms)+

lemma keeps_drift_tick:
  assumes "rely R e" "sound_registry registry"
  shows "keeps R e (so_run (BalanceDriftScheduler fuel evm registry page conc ow) s)"
  unfolding BalanceDriftScheduler_def leased_scheduler_def scheduler_object.simps
  by (intro keeps_scheduler_run keeps_intros keeps_sweep assms)

lemma keeps_request:
  assumes "rely R e"
  shows "keeps R e (respond (pf_api p) r rq)"
proof -
  have "sound_registry (ap_registry (pf_api p))" unfolding pf_api_def pf_registry_def by (simp add: program_registry_sound)
  then show ?thesis by (intro keeps_respond assms) (simp_all add: pf_api_def)
qed

lemma keeps_sample: "rely R e \<Longrightarrow> keeps R e sample"
  unfolding sample_def countPending_def setGauge_def by (intro keeps_intros)

lemma keeps_attach:
  assumes "rely R e"
  shows "keeps R e (attach_custody_key km vars)"
  unfolding attach_custody_key_def using assms
  by (auto intro!: keeps_intros keeps_transaction_body keeps_elsewhere rely_isolated simp: same_index_def Let_def split: if_splits)

lemma keeps_perform:
  assumes "rely R e"
  shows "keeps R e (perform p op)"
proof -
  have sound: "sound_registry (pf_registry p)" unfolding pf_registry_def by (rule program_registry_sound)
  show ?thesis
    by (cases op)
      (simp_all add: assms sound keeps_completed keeps_transfer keeps_processTransaction keeps_ticks keeps_drift_tick
        keeps_renewLease keeps_processCycle frame_indexer keeps_createWallet keeps_createCustodialWallet
        keeps_registerToken keeps_mintToken updateBalance_def keeps_upsert keeps_request keeps_sample keeps_attach)
qed

lemma history_keeps:
  assumes "\<forall>(op, e) \<in> set h. rely R e"
  shows "R d (history p h d)"
  using assms
proof (induction h arbitrary: d)
  case Nil
  then show ?case by (simp add: frame_refl)
next
  case (Cons x h)
  obtain op e where x: "x = (op, e)" by fastforce
  have "R d (db (snd (perform p op e (world_of d))))"
    using keeps_snd [OF keeps_perform [of e op], of "world_of d"] Cons.prems x by (simp add: world_of_def)
  with Cons.IH [of "db (snd (perform p op e (world_of d)))"] Cons.prems x show ?case
    by (auto intro: frame_trans)
qed

lemma program_env_rely: "program_env p e \<Longrightarrow> rely R e"
proof (induction rule: program_env.induct)
  case (others e)
  have "R d (env_interfere e n d)" for n d
  proof -
    obtain h where "\<forall>x \<in> set h. rely R (snd x)" "env_interfere e n d = history p h d" using others by blast
    then show ?thesis using history_keeps [of h d] by (auto simp: case_prod_beta)
  qed
  then show ?case by (simp add: rely_def)
qed

end

lemma history_append: "history p (h @ h') d = history p h' (history p h d)"
  by (induction p h d rule: history.induct) simp_all

lemma quiet_program_env: "quiet e \<Longrightarrow> program_env p e"
  by (rule program_env.others, rule exI [of _ "[]"]) (simp add: quiet_def)

text \<open>Keys and tenants are not what the ledger is about.\<close>

lemma key_step_elsewhere:
  assumes "key_step c d d'"
  obtains ks ts where "d' = d\<lparr>apiKeys := ks, tenants := ts\<rparr>"
  using assms by (auto simp: key_step_def)

interpretation lcs: ledger_frame lifecycle p for p
  by unfold_locales (auto intro: keeps_relay_lifecycle lci.keeps_processTokenEvents elim!: key_step_elsewhere simp: lifecycle_def)

interpretation oks: ledger_frame "kept ledger_ok" p for p
  by unfold_locales (auto intro: keeps_relay_ledger_ok oki.keeps_processTokenEvents elim!: key_step_elsewhere
      simp: kept_def ledger_ok_def tx_hashes_def)

interpretation obs: ledger_frame "kept outbox_ok" p for p
  by unfold_locales (auto intro: keeps_relay_outbox_ok obi.keeps_processTokenEvents elim!: key_step_elsewhere
      simp: kept_def outbox_ok_def confirmed_events_def is_confirmed_def)

interpretation rls: ledger_frame relay_order p for p
  by unfold_locales (auto intro: keeps_relay_order rli.keeps_processTokenEvents elim!: key_step_elsewhere
      simp: relay_order_def relay_ok_def)

interpretation bos: ledger_frame balance_order p for p
  by unfold_locales (auto intro: keeps_relay_balances bo.keeps_processTokenEvents elim!: key_step_elsewhere simp: balance_order_def)

interpretation rfi: index_frame refines
  by unfold_locales (auto simp: balance_step_def confirmed_events_def fun_eq_iff intro!: refines_same)

interpretation rfs: ledger_frame refines p for p
  by unfold_locales (auto intro: keeps_relay_refines rfi.keeps_processTokenEvents elim!: key_step_elsewhere
      simp: confirmed_events_def fun_eq_iff intro!: refines_same)

text \<open>With a hash function whose digests are hexadecimal, the order of the keys is one more instance.\<close>

interpretation koi: index_frame key_order
  by unfold_locales (auto simp: balance_step_def intro: key_order_same)

lemma keeps_relay_keys: "rely key_order e \<Longrightarrow> keeps key_order e (relay n)"
  by (rule keeps_relay_elsewhere [OF ko.store_frame_axioms]) (simp_all add: same_index_def key_order_same)

lemma key_ledger_frame:
  assumes "sha256_hex (pf_crypto p)"
  shows "ledger_frame key_order p"
  by unfold_locales (use assms in \<open>auto intro: keeps_relay_keys koi.keeps_processTokenEvents simp: key_step_def\<close>)

text \<open>A node that answers every range completely makes the order of the index one more instance.\<close>

lemma index_ledger_frame:
  assumes "loadEvmIndexerConfig (pf_vars p) = Inr config" "complete_logs (pf_logClient p) chain ca"
  shows "ledger_frame (index_order (ic_startBlock config) chain ca i) p"
proof unfold_locales
  fix e n assume "rely (index_order (ic_startBlock config) chain ca i) e"
  then show "keeps (index_order (ic_startBlock config) chain ca i) e (relay n)" by (rule keeps_relay_index)
next
  fix e j assume r: "rely (index_order (ic_startBlock config) chain ca i) e"
  show "keeps (index_order (ic_startBlock config) chain ca i) e
      (processTokenEvents (pf_vars p) (pf_logClient p) (pf_layers p) (pf_evmClient p) (pf_evmVar p) j)"
    using keeps_processTokenEvents_index [OF r assms] keeps_processTokenEvents_other [OF r] by (cases "j = i") auto
next
  fix d d' assume "key_step (pf_crypto p) d d'"
  then show "index_order (ic_startBlock config) chain ca i d d'" by (auto elim!: key_step_elsewhere intro: index_order_same)
qed

end
