(* ===== verification/Delivery.thy ===== *)
theory Delivery
  imports Sample_Ledger
begin

text \<open>
  The outcome of one delivery of a confirmation job, by what the chain answers and by the
  status the transaction has when the job arrives. Every case ends either in a terminal row
  and a completed job, or in an error that makes the queue deliver the job again with the
  ledger untouched.
\<close>

section \<open>The error handler\<close>

lemma handled:
  "handleConfirmationError t x e w = (Inl x,
     if not_visible_yet x then w
     else w\<lparr>metrics := metrics w @ [(''transactions_failed_total'', tx_labels t @ [(''status'', ''CONFIRMATION_ERROR'')])]\<rparr>)"
  by (simp add: handleConfirmationError_def eff_simps incrementMetric_def)

lemma handled_failures:
  "failures (snd (handleConfirmationError t x e w)) = failures w + (if not_visible_yet x then 0 else 1)"
  by (simp add: handled failures_def)

lemma pending_not_visible [simp]: "not_visible_yet (TransactionPendingError h)"
  by (simp add: not_visible_yet_def)

text \<open>A lookup that fails is handled at once.\<close>

lemma processTransaction_unanswered:
  assumes "quiet e" "delivered registry (db w) i tn t h a" "answers e (ad_getTransaction a h) (Inl x)" "x \<noteq> Crashed"
  obtains w1 where "db w1 = db w" "failures w1 = failures w"
    "processTransaction registry i tn e w = handleConfirmationError t x e w1"
proof -
  from assms(2) obtain tk where d: "ledger_ok (db w)" "row tx_id (transactions (db w)) i = Some t" "tx_tenantId t = tn"
    "tx_txHash t = Some h" "h \<noteq> []" "row tk_id (tokens (db w)) (tx_tokenId t) = Some tk"
    "List.find (\<lambda>b. ad_chain b = toUpperCase (blockchain_name (tk_blockchain tk))) registry = Some a"
    by (auto simp: delivered_def)
  from assms(3) obtain w1 where w1: "ad_getTransaction a h e (w\<lparr>calls := Suc (calls w)\<rparr>) = (Inl x, w1)"
    "db w1 = db w" "failures w1 = failures w"
    unfolding answers_def by (metis (no_types, lifting) failures_def world.select_convs(1,3) world.surjective world.update_convs(2))
  have "processTransaction registry i tn e w = confirmTransaction registry (view_of (db w) t) h e (w\<lparr>calls := Suc (calls w)\<rparr>)"
    using findById_quiet [OF assms(1) d(1-3)] d(4,5) by (simp add: processTransaction_def bindE_def nonempty_def view_of_def)
  also have "\<dots> = handleConfirmationError t x e w1"
    using w1(1) d(6,7) assms(4)
    by (simp add: confirmTransaction_def getBlockchainTransaction_def required_def registry_get_def view_of_def
        catchE_def bindE_def returnE_def)
  finally show thesis using that w1(2,3) by blast
qed

lemma delivered_row:
  "delivered registry d i tn t h a \<Longrightarrow> ledger_ok d \<and> tx_id t = i \<and> row tx_id (transactions d) i = Some t \<and> tx_txHash t = Some h"
  by (auto simp: delivered_def dest!: row_SomeD)

lemma delivery_confirms_wf:
  assumes "quiet e" "delivered registry (db w) i tn t h a" "answers e (ad_getTransaction a h) (Inr bt)"
    and "bt_status bt = chain_confirmed" "bt_blockNumber bt = Some b"
    and "tx_status t = SUBMITTED \<or> tx_status t = CONFIRMING" "\<And>n. row ob_id (outbox (db w)) (env_uuid e n) = None"
  shows "\<exists>w' t' eid ct. processTransaction registry i tn e w = (Inr (), w') \<and>
    db w' = (put_tx t' (db w))\<lparr>outbox := outbox (db w) @ [confirmed_event eid t' ct]\<rparr> \<and>
    same_terms t t' \<and> tx_txHash t' = Some h \<and> tx_status t' = CONFIRMED \<and>
    tx_blockNumber t' = Some (Number_of_bigint b) \<and> tx_gasUsed t' = bt_gasUsed bt \<and> tx_wf t'"
proof -
  obtain w1 where w1: "db w1 = db w" "processTransaction registry i tn e w =
      catchE (handleSuccessfulTransaction t h bt) (handleConfirmationError t) e w1"
    using processTransaction_asks [OF assms(1-3)] assms(4) by (metis confirmation_status.simps(8))
  show ?thesis
    using handleSuccessful_done [of e w1 t h bt b] delivered_row [OF assms(2)] assms w1 by (fastforce simp: catchE_def)
qed

lemma delivery_confirms:
  assumes "quiet e" "delivered registry (db w) i tn t h a" "answers e (ad_getTransaction a h) (Inr bt)"
    and "bt_status bt = chain_confirmed" "bt_blockNumber bt = Some b"
    and "tx_status t = SUBMITTED \<or> tx_status t = CONFIRMING" "\<And>n. row ob_id (outbox (db w)) (env_uuid e n) = None"
  shows "\<exists>w' t' eid ct. processTransaction registry i tn e w = (Inr (), w') \<and>
    db w' = (put_tx t' (db w))\<lparr>outbox := outbox (db w) @ [confirmed_event eid t' ct]\<rparr> \<and>
    same_terms t t' \<and> tx_txHash t' = Some h \<and> tx_status t' = CONFIRMED \<and>
    tx_blockNumber t' = Some (Number_of_bigint b) \<and> tx_gasUsed t' = bt_gasUsed bt"
  using delivery_confirms_wf [OF assms] by blast

text \<open>The transaction is settled and the chain reports success or a revert.\<close>

lemma delivery_settled:
  assumes "quiet e" "delivered registry (db w) i tn t h a" "answers e (ad_getTransaction a h) (Inr bt)"
    and "terminal_status (tx_status t)" "bt_status bt \<noteq> chain_pending"
  shows "\<exists>w'. processTransaction registry i tn e w = (Inr (), w') \<and> db w' = db w \<and> failures w' = failures w"
proof -
  obtain w1 where w1: "db w1 = db w" "failures w1 = failures w" "processTransaction registry i tn e w =
       catchE (case bt_status bt of
            chain_confirmed \<Rightarrow> handleSuccessfulTransaction t h bt
          | chain_failed \<Rightarrow> handleRevertedTransaction t
          | chain_pending \<Rightarrow> throwE (TransactionPendingError h)) (handleConfirmationError t) e w1"
    using processTransaction_asks [OF assms(1-3)] by metis
  with handleSuccessful_settled [of e w1 t h bt] handleReverted_settled [of e w1 t] delivered_row [OF assms(2)] assms
  show ?thesis by (cases "bt_status bt") (simp_all add: catchE_def failures_def)
qed

text \<open>The chain still reports the transaction pending.\<close>

lemma delivery_pending:
  assumes "quiet e" "delivered registry (db w) i tn t h a" "answers e (ad_getTransaction a h) (Inr bt)"
    and "bt_status bt = chain_pending"
  shows "\<exists>w'. processTransaction registry i tn e w = (Inl (TransactionPendingError h), w') \<and>
    db w' = db w \<and> failures w' = failures w"
proof -
  obtain w1 where w1: "db w1 = db w" "failures w1 = failures w" "processTransaction registry i tn e w =
      catchE (throwE (TransactionPendingError h)) (handleConfirmationError t) e w1"
    using processTransaction_asks [OF assms(1-3)] assms(4) by (metis confirmation_status.simps(7))
  then show ?thesis by (simp add: catchE_def throwE_def handled)
qed

section \<open>Properties\<close>

text \<open>
  C6: the chain has confirmed the transaction and it is SUBMITTED, or CONFIRMING because an
  earlier delivery claimed it and died. The job completes; the row becomes CONFIRMED with the
  block number and gas of the receipt and the terms it had; exactly one event with the row's
  payload is appended to the outbox, in the same commit; no other table changes.
\<close>

theorem confirmed_delivery:
  assumes "quiet e" "delivered registry (db w) i tn t h a" "answers e (ad_getTransaction a h) (Inr bt)"
    and "bt_status bt = chain_confirmed" "bt_blockNumber bt = Some b"
    and "tx_status t = SUBMITTED \<or> tx_status t = CONFIRMING" "\<And>n. row ob_id (outbox (db w)) (env_uuid e n) = None"
  shows "\<exists>w' t' eid ct. processTransaction registry i tn e w = (Inr (), w') \<and>
    db w' = (put_tx t' (db w))\<lparr>outbox := outbox (db w) @ [confirmed_event eid t' ct]\<rparr> \<and>
    same_terms t t' \<and> tx_txHash t' = Some h \<and> tx_status t' = CONFIRMED \<and>
    tx_blockNumber t' = Some (Number_of_bigint b) \<and> tx_gasUsed t' = bt_gasUsed bt"
  using assms by (rule delivery_confirms)

theorem confirmed_delivery_witness:
  "\<exists>w' t' eid ct. processTransaction (sample_registry (Inr True) (Inr None)) ''tx-1'' ''acme'' sample_env
      (world_of (sample_store EVM [sample_tx SUBMITTED])) = (Inr (), w') \<and>
    outbox (db w') = [confirmed_event eid t' ct] \<and> tx_status t' = CONFIRMED \<and> tx_gasUsed t' = Some 21000"
  using confirmed_delivery [of sample_env "sample_registry (Inr True) (Inr None)" "world_of (sample_store EVM [sample_tx SUBMITTED])",
      OF quiet_sample _ sample_evm_answers [of True "Inr None"]] sample_delivered [of SUBMITTED "Inr True" "Inr None" EVM]
  by fastforce

text \<open>
  C7: the transaction is already terminal (an earlier delivery, the expiration pass or a
  redelivery got there first). The store is as it was and the failure counter is not touched, whatever the chain
  reports. The job completes when it reports success or a revert; while it still reports the transaction
  pending, as it may of one that expired, the job throws the pending error.
\<close>

theorem settled_delivery:
  assumes "quiet e" "delivered registry (db w) i tn t h a" "answers e (ad_getTransaction a h) (Inr bt)"
    and "terminal_status (tx_status t)"
  shows "\<exists>w'. processTransaction registry i tn e w =
      (if bt_status bt = chain_pending then Inl (TransactionPendingError h) else Inr (), w') \<and>
    db w' = db w \<and> failures w' = failures w"
  using delivery_settled [OF assms] delivery_pending [OF assms(1-3)] by (cases "bt_status bt = chain_pending") simp_all

theorem settled_delivery_witness:
  "\<exists>w'. processTransaction (sample_registry (Inr False) (Inr None)) ''tx-1'' ''acme'' sample_env
      (world_of (sample_store EVM [sample_tx EXPIRED])) = (Inr (), w') \<and> db w' = sample_store EVM [sample_tx EXPIRED]"
  using settled_delivery [of sample_env "sample_registry (Inr False) (Inr None)" "world_of (sample_store EVM [sample_tx EXPIRED])",
      OF quiet_sample _ sample_evm_answers [of False "Inr None"]] sample_delivered [of EXPIRED "Inr False" "Inr None" EVM]
  by fastforce

text \<open>
  The chain has not confirmed the transaction yet. The job ends with the pending error, so
  that the queue delivers it again; no table changes and the failure counter is not touched.
\<close>

theorem pending_delivery:
  assumes "quiet e" "delivered registry (db w) i tn t h a" "answers e (ad_getTransaction a h) (Inr bt)"
    and "bt_status bt = chain_pending"
  shows "\<exists>w'. processTransaction registry i tn e w = (Inl (TransactionPendingError h), w') \<and>
    db w' = db w \<and> failures w' = failures w"
  using assms by (rule delivery_pending)

theorem pending_delivery_witness:
  "\<exists>w'. processTransaction (sample_registry (Inr True) (Inr None)) ''tx-1'' ''acme'' sample_env
      (world_of (sample_store BITCOIN [sample_tx SUBMITTED])) = (Inl (TransactionPendingError ''0xfeed''), w') \<and>
    db w' = sample_store BITCOIN [sample_tx SUBMITTED] \<and> failures w' = 0"
  using pending_delivery [of sample_env "sample_registry (Inr True) (Inr None)" "world_of (sample_store BITCOIN [sample_tx SUBMITTED])",
      OF quiet_sample _ sample_bitcoin_answers [of "Inr None" "Inr True", simplified]]
    sample_delivered [of SUBMITTED "Inr True" "Inr None" BITCOIN]
  by (simp add: failures_def)

text \<open>
  The chain reports a revert and the transaction is CONFIRMING. The job completes and the
  row becomes FAILED with its reason and time; nothing else changes.
\<close>

theorem reverted_delivery:
  assumes "quiet e" "delivered registry (db w) i tn t h a" "answers e (ad_getTransaction a h) (Inr bt)"
    and "bt_status bt = chain_failed" "tx_status t = CONFIRMING"
  shows "\<exists>w' now. processTransaction registry i tn e w = (Inr (), w') \<and>
    db w' = put_tx (t\<lparr>tx_status := FAILED, tx_failureReason := Some ''FAILED'', tx_failedAt := Some now\<rparr>) (db w)"
proof -
  obtain w1 where w1: "db w1 = db w" "processTransaction registry i tn e w =
      catchE (handleRevertedTransaction t) (handleConfirmationError t) e w1"
    using processTransaction_asks [OF assms(1-3)] assms(4) by (metis confirmation_status.simps(9))
  with handleReverted_done [of e w1 t] delivered_row [OF assms(2)] assms show ?thesis by (fastforce simp: catchE_def)
qed

theorem reverted_delivery_witness:
  "\<exists>w' now. processTransaction (sample_registry (Inr False) (Inr None)) ''tx-1'' ''acme'' sample_env
      (world_of (sample_store EVM [sample_tx CONFIRMING])) = (Inr (), w') \<and>
    db w' = put_tx ((sample_tx CONFIRMING)\<lparr>tx_status := FAILED, tx_failureReason := Some ''FAILED'', tx_failedAt := Some now\<rparr>)
      (sample_store EVM [sample_tx CONFIRMING])"
  using reverted_delivery [of sample_env "sample_registry (Inr False) (Inr None)" "world_of (sample_store EVM [sample_tx CONFIRMING])",
      OF quiet_sample _ sample_evm_answers [of False "Inr None"]] sample_delivered [of CONFIRMING "Inr False" "Inr None" EVM]
  by fastforce

text \<open>
  C8: the chain reports a revert and the transaction is still SUBMITTED. Nothing moves it to
  FAILED: the guard of \<^verbatim>\<open>markFailed\<close> admits only PENDING and CONFIRMING, the job fails with the
  state conflict, and every table is as it was, so each redelivery of the job ends the same way.
\<close>

theorem reverted_submitted_stuck:
  assumes "quiet e" "delivered registry (db w) i tn t h a" "answers e (ad_getTransaction a h) (Inr bt)"
    and "bt_status bt = chain_failed" "tx_status t = SUBMITTED"
  shows "\<exists>w'. processTransaction registry i tn e w = (Inl (TransactionStateConflictError i SUBMITTED), w') \<and> db w' = db w"
proof -
  obtain w1 where w1: "db w1 = db w" "processTransaction registry i tn e w =
      catchE (handleRevertedTransaction t) (handleConfirmationError t) e w1"
    using processTransaction_asks [OF assms(1-3)] assms(4) by (metis confirmation_status.simps(9))
  with handleReverted_submitted [of e w1 t] delivered_row [OF assms(2)] assms show ?thesis
    by (simp add: catchE_def handled)
qed

theorem reverted_submitted_stuck_witness:
  "\<exists>w'. processTransaction (sample_registry (Inr False) (Inr None)) ''tx-1'' ''acme'' sample_env
      (world_of (sample_store EVM [sample_tx SUBMITTED])) = (Inl (TransactionStateConflictError ''tx-1'' SUBMITTED), w') \<and>
    db w' = sample_store EVM [sample_tx SUBMITTED]"
  using reverted_submitted_stuck [of sample_env "sample_registry (Inr False) (Inr None)" "world_of (sample_store EVM [sample_tx SUBMITTED])",
      OF quiet_sample _ sample_evm_answers [of False "Inr None"]] sample_delivered [of SUBMITTED "Inr False" "Inr None" EVM]
  by fastforce

text \<open>
  The chain cannot be asked. The job fails with the error of the lookup and no table
  changes; the failure counter counts it exactly when the message is not one of those that mean
  that the transaction is not visible yet.
\<close>

theorem unanswered_delivery:
  assumes "quiet e" "delivered registry (db w) i tn t h a" "answers e (ad_getTransaction a h) (Inl x)" "x \<noteq> Crashed"
  shows "\<exists>w'. processTransaction registry i tn e w = (Inl x, w') \<and> db w' = db w \<and>
    failures w' = failures w + (if not_visible_yet x then 0 else 1)"
proof -
  obtain w1 where w1: "db w1 = db w" "failures w1 = failures w"
    "processTransaction registry i tn e w = handleConfirmationError t x e w1"
    using processTransaction_unanswered [OF assms] by metis
  then show ?thesis by (simp add: handled failures_def)
qed

theorem unanswered_delivery_witness:
  "(\<exists>w'. processTransaction (sample_registry (Inr True) (Inl (PlainError ''boom''))) ''tx-1'' ''acme'' sample_env
      (world_of (sample_store BITCOIN [sample_tx SUBMITTED])) = (Inl (PlainError ''boom''), w') \<and>
    db w' = sample_store BITCOIN [sample_tx SUBMITTED] \<and> failures w' = 1)"
  using unanswered_delivery [of sample_env "sample_registry (Inr True) (Inl (PlainError ''boom''))"
      "world_of (sample_store BITCOIN [sample_tx SUBMITTED])",
      OF quiet_sample _ sample_bitcoin_answers [of "Inl (PlainError ''boom'')" "Inr True", simplified]]
    sample_delivered [of SUBMITTED "Inr True" "Inl (PlainError ''boom'')" BITCOIN]
  by (simp add: failures_def not_visible_yet_def is_Error_def)

end
