(* ===== verification/Passes.thy ===== *)
theory Passes
  imports Sample_Ledger
begin

text \<open>
  The exact outcome of one pass of each background processor over a ledger that nobody else
  touches meanwhile: which rows the expiration pass changes, which jobs the submission
  recovery enqueues, and what the pending recovery decides about an orphaned transaction.
\<close>

section \<open>Expiration\<close>

definition expired_row :: "transaction \<Rightarrow> int \<Rightarrow> transaction" where
  "expired_row t now = t\<lparr>tx_status := EXPIRED,
     tx_failureReason := Some ''Transaction confirmation timeout exceeded'', tx_failedAt := Some now\<rparr>"

lemma expired_row_id [simp]: "tx_id (expired_row t now) = tx_id t"
  by (simp add: expired_row_def)

lemma expire_one_done:
  assumes "quiet e" "ledger_ok (db w)" "row tx_id (transactions (db w)) (tx_id t) = Some t" "tx_status t = CONFIRMING"
  shows "\<exists>now w'. expire_one t e w = (Inr (), w') \<and> db w' = put_tx (expired_row t now) (db w) \<and> ledger_ok (db w')"
  using expire_done(1,2) [OF assms, of "''Transaction confirmation timeout exceeded''"]
  by (simp add: expire_one_def eff_simps expired_row_def) blast

lemma expire_all:
  assumes "quiet e" "ledger_ok (db w)" "distinct (map tx_id ts)"
    and "\<And>t. t \<in> set ts \<Longrightarrow> row tx_id (transactions (db w)) (tx_id t) = Some t \<and> tx_status t = CONFIRMING"
  shows "\<exists>w'. forE ts expire_one e w = (Inr (), w') \<and> ledger_ok (db w') \<and>
    db w' = (db w)\<lparr>transactions := transactions (db w')\<rparr> \<and>
    (\<forall>t \<in> set ts. \<exists>now. row tx_id (transactions (db w')) (tx_id t) = Some (expired_row t now)) \<and>
    (\<forall>i. i \<notin> tx_id ` set ts \<longrightarrow> row tx_id (transactions (db w')) i = row tx_id (transactions (db w)) i)"
  using assms(2-)
proof (induction ts arbitrary: w)
  case Nil
  then show ?case by (simp add: returnE_def)
next
  case (Cons t ts)
  obtain now w1 where x: "expire_one t e w = (Inr (), w1)" "db w1 = put_tx (expired_row t now) (db w)" "ledger_ok (db w1)"
    using expire_one_done [OF assms(1) Cons.prems(1)] Cons.prems(3) by (metis list.set_intros(1))
  have new: "tx_id r \<noteq> tx_id t" if "r \<in> set ts" for r using Cons.prems(2) that by (metis distinct.simps(2) image_eqI list.set_map list.simps(9))
  have rows: "row tx_id (transactions (db w1)) i =
      (if i = tx_id t then Some (expired_row t now) else row tx_id (transactions (db w)) i)" for i
    using Cons.prems(3) [of t] x(2) by (simp add: put_tx_row)
  have "\<exists>w'. forE ts expire_one e w1 = (Inr (), w') \<and> ledger_ok (db w') \<and>
    db w' = (db w1)\<lparr>transactions := transactions (db w')\<rparr> \<and>
    (\<forall>t \<in> set ts. \<exists>now. row tx_id (transactions (db w')) (tx_id t) = Some (expired_row t now)) \<and>
    (\<forall>i. i \<notin> tx_id ` set ts \<longrightarrow> row tx_id (transactions (db w')) i = row tx_id (transactions (db w1)) i)"
    using Cons.prems(2,3) by (intro Cons.IH x(3)) (simp_all add: rows new)
  then obtain w' where w': "forE ts expire_one e w1 = (Inr (), w')" "ledger_ok (db w')"
    "db w' = (db w1)\<lparr>transactions := transactions (db w')\<rparr>"
    "\<forall>t \<in> set ts. \<exists>now. row tx_id (transactions (db w')) (tx_id t) = Some (expired_row t now)"
    "\<forall>i. i \<notin> tx_id ` set ts \<longrightarrow> row tx_id (transactions (db w')) i = row tx_id (transactions (db w1)) i" by blast
  have "db w' = (db w)\<lparr>transactions := transactions (db w')\<rparr>" using w'(3) x(2) by (simp add: put_tx_def)
  moreover have "\<exists>at. row tx_id (transactions (db w')) (tx_id r) = Some (expired_row r at)" if "r \<in> set (t # ts)" for r
  proof (cases "r = t")
    case True
    have "tx_id t \<notin> tx_id ` set ts" using Cons.prems(2) by simp
    with w'(5) rows [of "tx_id t"] True show ?thesis by auto
  next
    case False
    with that w'(4) show ?thesis by simp
  qed
  moreover have "row tx_id (transactions (db w')) i = row tx_id (transactions (db w)) i" if "i \<notin> tx_id ` set (t # ts)" for i
    using that w'(5) rows [of i] by simp
  ultimately show ?case using w'(1,2) x(1) by (simp add: bindE_def)
qed

text \<open>What the pass selects: the first hundred CONFIRMING rows past the cutoff, oldest claim first.\<close>

definition expiration_candidates :: "int \<Rightarrow> store \<Rightarrow> transaction list" where
  "expiration_candidates cutoff d = take 100 (order_asc (\<lambda>t. nulls_last (tx_confirmationStartedAt t))
     (filter (\<lambda>t. tx_status t = CONFIRMING \<and>
        (case tx_confirmationStartedAt t of None \<Rightarrow> False | Some s \<Rightarrow> s \<le> cutoff)) (transactions d)))"

lemma filter_conj_length: "length (filter (\<lambda>x. P x \<and> Q x) xs) \<le> length (filter P xs)"
  by (induction xs) simp_all

lemma distinct_order_asc: "distinct (map key rs) \<Longrightarrow> distinct (map key (order_asc k rs))"
  by (simp add: distinct_map order_asc_def)

lemma findExpired_quiet:
  "quiet e \<Longrightarrow> findExpiredCandidates c 100 e w = (Inr (expiration_candidates c (db w)), w\<lparr>calls := Suc (calls w)\<rparr>)"
  by (simp add: findExpiredCandidates_def query_quiet expiration_candidates_def)

lemma candidates_distinct: "ledger_ok d \<Longrightarrow> distinct (map tx_id (expiration_candidates c d))"
  unfolding expiration_candidates_def take_map [symmetric]
  by (intro distinct_take distinct_order_asc distinct_map_filter) (simp add: ledger_ok_def keyed_def)

lemma candidates_rows:
  "ledger_ok d \<Longrightarrow> t \<in> set (expiration_candidates c d) \<Longrightarrow> row tx_id (transactions d) (tx_id t) = Some t \<and> tx_status t = CONFIRMING"
  by (auto simp: expiration_candidates_def ledger_ok_def row_member dest!: in_set_takeD)

text \<open>A CONFIRMING row of a well-formed ledger has a claim time, so no candidate is missed for want of one.\<close>

lemma candidates_exact:
  assumes "ledger_ok d" "length (filter (\<lambda>t. tx_status t = CONFIRMING) (transactions d)) \<le> 100"
  shows "set (expiration_candidates (now - k) d) = {t \<in> set (transactions d).
    tx_status t = CONFIRMING \<and> isTransactionExpired (the (tx_confirmationStartedAt t)) now k}"
proof -
  let ?P = "\<lambda>t. tx_status t = CONFIRMING \<and> (case tx_confirmationStartedAt t of None \<Rightarrow> False | Some s \<Rightarrow> s \<le> now - k)"
  have "length (filter ?P (transactions d)) \<le> length (filter (\<lambda>t. tx_status t = CONFIRMING) (transactions d))"
    by (rule filter_conj_length)
  then have "length (order_asc (\<lambda>t. nulls_last (tx_confirmationStartedAt t)) (filter ?P (transactions d))) \<le> 100"
    using assms(2) by (simp add: order_asc_def)
  then have "set (expiration_candidates (now - k) d) = set (filter ?P (transactions d))"
    by (simp add: expiration_candidates_def)
  also have "\<dots> = {t \<in> set (transactions d). tx_status t = CONFIRMING \<and>
      isTransactionExpired (the (tx_confirmationStartedAt t)) now k}"
  proof -
    have "?P t \<longleftrightarrow> tx_status t = CONFIRMING \<and> isTransactionExpired (the (tx_confirmationStartedAt t)) now k"
      if "t \<in> set (transactions d)" for t
    proof -
      have "tx_wf t" using assms(1) that by (simp add: ledger_ok_def)
      then show ?thesis by (cases "tx_confirmationStartedAt t") (auto simp: tx_wf_def isTransactionExpired_def)
    qed
    then show ?thesis by auto
  qed
  finally show ?thesis .
qed

text \<open>
  C15: one expiration pass. Exactly the selected rows become EXPIRED, with the reason and a
  time; every other transaction, of whatever status, is untouched, and so is every other table.
  The pass returns the number of rows it selected. When at most a hundred rows qualify, the
  selected ones are precisely the CONFIRMING rows for which \<^verbatim>\<open>isTransactionExpired\<close> holds at
  the moment the cutoff was computed.
\<close>

theorem expiration_pass:
  assumes "quiet e" "ledger_ok (db w)"
  shows "\<exists>w'. processExpiredTransactions (now - CONFIRMATION_TIMEOUT_MS) e w =
      (Inr (length (expiration_candidates (now - CONFIRMATION_TIMEOUT_MS) (db w))), w') \<and>
    db w' = (db w)\<lparr>transactions := transactions (db w')\<rparr> \<and>
    (\<forall>t \<in> set (expiration_candidates (now - CONFIRMATION_TIMEOUT_MS) (db w)).
       \<exists>at. row tx_id (transactions (db w')) (tx_id t) = Some (expired_row t at)) \<and>
    (\<forall>i. i \<notin> tx_id ` set (expiration_candidates (now - CONFIRMATION_TIMEOUT_MS) (db w)) \<longrightarrow>
       row tx_id (transactions (db w')) i = row tx_id (transactions (db w)) i) \<and>
    (length (filter (\<lambda>t. tx_status t = CONFIRMING) (transactions (db w))) \<le> 100 \<longrightarrow>
       set (expiration_candidates (now - CONFIRMATION_TIMEOUT_MS) (db w)) = {t \<in> set (transactions (db w)).
         tx_status t = CONFIRMING \<and> isTransactionExpired (the (tx_confirmationStartedAt t)) now CONFIRMATION_TIMEOUT_MS})"
  (is "\<exists>w'. ?run w' \<and> ?others w' \<and> ?expired w' \<and> ?rest w' \<and> ?exact")
proof -
  let ?c = "expiration_candidates (now - CONFIRMATION_TIMEOUT_MS) (db w)"
  have run: "processExpiredTransactions (now - CONFIRMATION_TIMEOUT_MS) e w =
      bindE (forE ?c expire_one) (\<lambda>_. returnE (length ?c)) e (w\<lparr>calls := Suc (calls w)\<rparr>)"
    using assms(1) by (simp add: processExpiredTransactions_def bindE_def findExpired_quiet)
  obtain w' where w': "forE ?c expire_one e (w\<lparr>calls := Suc (calls w)\<rparr>) = (Inr (), w')" "?others w'" "?expired w'" "?rest w'"
    using expire_all [of e "w\<lparr>calls := Suc (calls w)\<rparr>" ?c] assms candidates_distinct candidates_rows by auto
  then have "\<exists>w'. ?run w' \<and> ?others w' \<and> ?expired w' \<and> ?rest w'"
    unfolding run by (intro exI [of _ w']) (simp add: bindE_def returnE_def)
  moreover have ?exact
    using candidates_exact [OF assms(2)] by simp
  ultimately show ?thesis by blast
qed

theorem expiration_pass_witness:
  "\<exists>w' at. processExpiredTransactions (303000 - CONFIRMATION_TIMEOUT_MS) sample_env
      (world_of (sample_store EVM [sample_tx CONFIRMING])) = (Inr 1, w') \<and>
    row tx_id (transactions (db w')) ''tx-1'' = Some (expired_row (sample_tx CONFIRMING) at)"
proof -
  have "expiration_candidates (303000 - CONFIRMATION_TIMEOUT_MS) (sample_store EVM [sample_tx CONFIRMING]) = [sample_tx CONFIRMING]"
    by (simp add: expiration_candidates_def sample_store_def sample_tx_def CONFIRMATION_TIMEOUT_MS_def order_asc_def)
  with expiration_pass [of sample_env "world_of (sample_store EVM [sample_tx CONFIRMING])" 303000]
  show ?thesis by (auto simp: sample_ok)
qed

section \<open>Submission recovery\<close>

definition submission_candidates :: "store \<Rightarrow> transaction list" where
  "submission_candidates d = take 100 (order_asc (\<lambda>t. nulls_last (tx_submittedAt t))
     (filter (\<lambda>t. tx_status t = SUBMITTED \<and> tx_txHash t \<noteq> None) (transactions d)))"

lemma enqueue_all:
  "quiet e \<Longrightarrow> \<exists>w'. forE ts (\<lambda>t. catchE (confirmQueue_add (recovery_job t)) (\<lambda>error. returnE ())) e w = (Inr (), w') \<and>
     db w' = (db w)\<lparr>confirmQueue := confirmQueue (db w) @ map recovery_job ts\<rparr>"
proof (induction ts arbitrary: w)
  case Nil
  then show ?case by (simp add: returnE_def)
next
  case (Cons t ts)
  let ?w = "w\<lparr>calls := Suc (calls w), db := (db w)\<lparr>confirmQueue := confirmQueue (db w) @ [recovery_job t]\<rparr>\<rparr>"
  obtain w' where "forE ts (\<lambda>t. catchE (confirmQueue_add (recovery_job t)) (\<lambda>error. returnE ())) e ?w = (Inr (), w')"
    "db w' = (db ?w)\<lparr>confirmQueue := confirmQueue (db ?w) @ map recovery_job ts\<rparr>"
    using Cons.IH [OF Cons.prems, of ?w] by blast
  with Cons.prems show ?case by (simp add: bindE_def catchE_def confirmQueue_add_def statement_quiet)
qed

text \<open>
  One pass of the submission recovery. It changes nothing but the queue, to which it adds one
  confirmation job for each selected transaction, oldest submission first; when at most a hundred
  transactions are SUBMITTED, every one of them gets its job and no other transaction does.
\<close>

theorem submission_recovery_pass:
  assumes "quiet e" "ledger_ok (db w)"
  shows "\<exists>w'. processSubmittedTransactions e w = (Inr (), w') \<and>
    db w' = (db w)\<lparr>confirmQueue := confirmQueue (db w) @ map recovery_job (submission_candidates (db w))\<rparr> \<and>
    (length (filter (\<lambda>t. tx_status t = SUBMITTED) (transactions (db w))) \<le> 100 \<longrightarrow>
       set (submission_candidates (db w)) = {t \<in> set (transactions (db w)). tx_status t = SUBMITTED})"
proof -
  let ?P = "\<lambda>t. tx_status t = SUBMITTED \<and> tx_txHash t \<noteq> None"
  let ?ts = "submission_candidates (db w)"
  have "set ?ts = {t \<in> set (transactions (db w)). tx_status t = SUBMITTED}"
    if "length (filter (\<lambda>t. tx_status t = SUBMITTED) (transactions (db w))) \<le> 100"
  proof -
    have "length (filter ?P (transactions (db w))) \<le> 100"
      using that filter_conj_length [of "\<lambda>t. tx_status t = SUBMITTED" "\<lambda>t. tx_txHash t \<noteq> None" "transactions (db w)"] by simp
    then have "set ?ts = set (filter ?P (transactions (db w)))" by (simp add: submission_candidates_def order_asc_def)
    then show ?thesis using assms(2) by (auto simp: ledger_ok_def tx_wf_def)
  qed
  moreover have "processSubmittedTransactions e w =
      forE ?ts (\<lambda>t. catchE (confirmQueue_add (recovery_job t)) (\<lambda>error. returnE ())) e (w\<lparr>calls := Suc (calls w)\<rparr>)"
    using assms(1) by (simp add: processSubmittedTransactions_def findSubmittedCandidates_def bindE_def query_quiet
        submission_candidates_def)
  ultimately show ?thesis using enqueue_all [OF assms(1), of ?ts "w\<lparr>calls := Suc (calls w)\<rparr>"] by auto
qed

theorem submission_recovery_pass_witness:
  "\<exists>w'. processSubmittedTransactions sample_env (world_of (sample_store EVM [sample_tx SUBMITTED])) = (Inr (), w') \<and>
    confirmQueue (db w') = [recovery_job (sample_tx SUBMITTED)]"
proof -
  have "submission_candidates (sample_store EVM [sample_tx SUBMITTED]) = [sample_tx SUBMITTED]"
    "confirmQueue (sample_store EVM [sample_tx SUBMITTED]) = []"
    by (simp_all add: submission_candidates_def sample_store_def sample_tx_def order_asc_def empty_store_def)
  with submission_recovery_pass [of sample_env "world_of (sample_store EVM [sample_tx SUBMITTED])"]
  show ?thesis by (fastforce simp: sample_ok)
qed

section \<open>Pending recovery\<close>

text \<open>The evidence: the first stored transfer that has the orphan's token, wallets and amount and is not older.\<close>

definition evidence :: "store \<Rightarrow> transaction_view \<Rightarrow> token_transfer option" where
  "evidence d v = (case (tv_fromWallet v, tv_toWallet v) of
     (Some f, Some g) \<Rightarrow> (case order_asc tr_createdAt (filter (\<lambda>r. tr_tokenId r = tx_tokenId (tv_row v) \<and>
            tr_from r = wa_address f \<and> tr_to r = wa_address g \<and> tr_amount r = tx_amount (tv_row v) \<and>
            tr_createdAt r \<ge> tx_createdAt (tv_row v)) (transfers d)) of [] \<Rightarrow> None | r # rs \<Rightarrow> Some r)
   | _ \<Rightarrow> None)"

definition listener_healthy :: "store \<Rightarrow> string \<Rightarrow> int \<Rightarrow> int \<Rightarrow> bool" where
  "listener_healthy d token now staleness = (case row cu_tokenId (cursors d) token of None \<Rightarrow> False
     | Some c \<Rightarrow> (case cu_lastSuccessfulSync c of None \<Rightarrow> False | Some s \<Rightarrow> now - s \<le> staleness))"

definition orphan :: "store \<Rightarrow> transaction_view \<Rightarrow> bool" where
  "orphan d v \<longleftrightarrow> ledger_ok d \<and> row tx_id (transactions d) (tx_id (tv_row v)) = Some (tv_row v) \<and>
     tx_status (tv_row v) = PENDING \<and> tv_fromWallet v \<noteq> None \<and> tv_toWallet v \<noteq> None"

lemma recoverOne_looks:
  assumes "quiet e" "orphan (db w) v"
  shows "recoverOne f l v e w = catchE (case evidence (db w) v of
      Some r \<Rightarrow> adopt (tv_row v) (tr_transactionHash r)
    | None \<Rightarrow> bindE getNow (\<lambda>now. if now - tx_createdAt (tv_row v) < f then returnE ()
        else bindE (isEventListenerHealthy l (tx_tokenId (tv_row v))) (\<lambda>healthy.
          if \<not> healthy then returnE () else fail_orphan (tv_row v)))) (\<lambda>error. returnE ()) e (w\<lparr>calls := Suc (calls w)\<rparr>)"
  using assms
  by (auto simp: orphan_def recoverOne_def Let_def required_def findMatchingTransfer_def evidence_def catchE_def bindE_def
      returnE_def query_quiet split: list.splits)

lemma isEventListenerHealthy_quiet:
  assumes "quiet e"
  shows "\<exists>n. isEventListenerHealthy l token e w =
    (Inr (listener_healthy (db w) token (env_clock e (Suc (calls w))) l), w\<lparr>calls := n\<rparr>)"
  using assms
  by (auto simp: isEventListenerHealthy_def findByTokenId_def listener_healthy_def eff_simps query_quiet getNow_def
      split: option.splits)

text \<open>
  C14: an orphaned transaction for which no transfer was seen. It is marked FAILED if it is older
  than the configured limit and the listener of its token synchronised recently enough; otherwise
  nothing changes. Either way the pass goes on.
\<close>

theorem orphan_without_evidence:
  assumes "quiet e" "orphan (db w) v" "evidence (db w) v = None"
  shows "\<exists>w' at reason. recoverOne f l v e w = (Inr (), w') \<and>
    db w' = (if env_clock e (calls w + 1) - tx_createdAt (tv_row v) \<ge> f \<and>
        listener_healthy (db w) (tx_tokenId (tv_row v)) (env_clock e (calls w + 3)) l
      then put_tx ((tv_row v)\<lparr>tx_status := FAILED, tx_failureReason := Some reason, tx_failedAt := Some at\<rparr>) (db w)
      else db w)"
proof -
  let ?w = "w\<lparr>calls := Suc (Suc (calls w))\<rparr>"
  obtain n where h: "isEventListenerHealthy l (tx_tokenId (tv_row v)) e ?w =
      (Inr (listener_healthy (db w) (tx_tokenId (tv_row v)) (env_clock e (calls w + 3)) l), w\<lparr>calls := n\<rparr>)"
    using isEventListenerHealthy_quiet [OF assms(1), of l "tx_tokenId (tv_row v)" ?w] by (auto simp: eval_nat_numeral)
  have "markFailed (tx_id (tv_row v)) reason e (w\<lparr>calls := n\<rparr>) = (Inr ((tv_row v)\<lparr>tx_status := FAILED,
      tx_failureReason := Some reason, tx_failedAt := Some (env_clock e n)\<rparr>), w\<lparr>calls := n + 3,
      db := put_tx ((tv_row v)\<lparr>tx_status := FAILED, tx_failureReason := Some reason, tx_failedAt := Some (env_clock e n)\<rparr>) (db w)\<rparr>)"
    for reason
    using markFailed_done(1) [of e "w\<lparr>calls := n\<rparr>" "tx_id (tv_row v)" "tv_row v" reason] assms(1,2) by (simp add: orphan_def)
  then show ?thesis
    using h unfolding recoverOne_looks [OF assms(1,2)] assms(3)
    by (auto simp: catchE_def bindE_def returnE_def getNow_def fail_orphan_def)
qed

text \<open>
  A store in which the transfer of the orphan did happen: the listener has stored it, with the
  mixed-case address of the event, while the wallet row has the same address in lower case.
\<close>

definition sample_transfer :: "string \<Rightarrow> string \<Rightarrow> token_transfer" where
  "sample_transfer f g = \<lparr> tr_id = ''tr-1'', tr_tokenId = ''musdt'', tr_from = f, tr_to = g, tr_amount = 250,
     tr_transactionHash = ''0xfeed'', tr_logIndex = 0, tr_blockNumber = 80, tr_createdAt = 1500 \<rparr>"

definition sample_orphaned :: "token_transfer list \<Rightarrow> transaction list \<Rightarrow> store" where
  "sample_orphaned trs ts = (sample_store EVM (sample_tx PENDING # ts))\<lparr>transfers := trs,
     cursors := [\<lparr> cu_tokenId = ''musdt'', cu_lastProcessedBlock = 90, cu_lastProcessedLogIndex = 0,
       cu_lastSuccessfulSync = Some 9000, cu_lastFailedSync = None, cu_failureCount = 0 \<rparr>]\<rparr>"

definition sample_orphan :: transaction_view where
  "sample_orphan = \<lparr> tv_row = sample_tx PENDING, tv_token = Some (sample_token EVM),
     tv_fromWallet = Some (sample_wallet ''wallet-1'' ''0xaa'' CUSTODIAL),
     tv_toWallet = Some (sample_wallet ''wallet-2'' ''0xbb'' EXTERNAL) \<rparr>"

lemma sample_orphan_simps [simp]: "tv_row sample_orphan = sample_tx PENDING"
  by (simp add: sample_orphan_def)

lemma sample_orphaned_ok: "orphan (sample_orphaned trs []) sample_orphan"
  using sample_ok [of EVM PENDING]
  by (simp add: orphan_def sample_orphaned_def sample_orphan_def ledger_ok_def sample_store_def)

theorem orphan_without_evidence_witness:
  "\<exists>w' at reason. recoverOne 5000 2000 sample_orphan sample_env
      (world_of (sample_orphaned [sample_transfer ''0xAa'' ''0xBB''] [])) = (Inr (), w') \<and>
    db w' = put_tx ((sample_tx PENDING)\<lparr>tx_status := FAILED, tx_failureReason := Some reason, tx_failedAt := Some at\<rparr>)
      (sample_orphaned [sample_transfer ''0xAa'' ''0xBB''] [])"
proof -
  let ?d = "sample_orphaned [sample_transfer ''0xAa'' ''0xBB''] []"
  have "evidence ?d sample_orphan = None"
    by (simp add: evidence_def sample_orphan_def sample_orphaned_def sample_transfer_def sample_wallet_def order_asc_def)
  moreover have "listener_healthy ?d ''musdt'' (env_clock sample_env 3) 2000" "env_clock sample_env 1 - 1000 \<ge> 5000"
    by (simp_all add: listener_healthy_def sample_orphaned_def sample_env_def calm_def)
  ultimately show ?thesis
    using orphan_without_evidence [of sample_env "world_of ?d" sample_orphan 5000 2000] sample_orphaned_ok by simp
qed

text \<open>A hash that another row has cannot be given away: the unique column refuses the update.\<close>

lemma taken_hash:
  assumes "ledger_ok d" "row tx_id (transactions d) (tx_id t') = Some t" "tx_txHash t' = Some h"
    and "r \<in> set (transactions d)" "tx_id r \<noteq> tx_id t'" "tx_txHash r = Some h"
  shows "\<not> distinct (tx_hashes (transactions (put_tx t' d)))"
proof
  assume dist: "distinct (tx_hashes (transactions (put_tx t' d)))"
  have "t' \<in> set (transactions (put_tx t' d))" "r \<in> set (transactions (put_tx t' d))"
    using row_SomeD [OF assms(2)] assms(4,5) by (force simp: put_tx_def update_rows_def)+
  with row_by_hash [OF dist _ assms(3)] row_by_hash [OF dist _ assms(6)] assms(5) show False by simp
qed

lemma markSubmitted_taken:
  assumes "quiet e" "ledger_ok (db w)" "row tx_id (transactions (db w)) i = Some t" "tx_status t = PENDING"
    and "r \<in> set (transactions (db w))" "tx_id r \<noteq> i" "tx_txHash r = Some h"
  shows "\<exists>m n. markSubmitted i h e w = (Inl (PrismaKnownRequestError ''P2002'' m), w\<lparr>calls := n\<rparr>)"
proof -
  let ?f = "\<lambda>t. t\<lparr>tx_status := SUBMITTED, tx_txHash := Some h, tx_submittedAt := Some (env_clock e (calls w))\<rparr>"
  have id: "tx_id t = i" using ledger_row [OF assms(2,3)] by simp
  have "update_rows (\<lambda>r. tx_id r = i \<and> tx_status r = PENDING) ?f (transactions (db w)) = transactions (put_tx (?f t) (db w))"
    using assms(2-4) id by (intro update_is_put) (simp_all add: ledger_ok_def)
  moreover have "\<not> distinct (tx_hashes (transactions (put_tx (?f t) (db w))))"
    using assms id by (intro taken_hash [where t = t and r = r and h = h]) simp_all
  ultimately have "tx_updateMany (\<lambda>r. tx_id r = i \<and> tx_status r = PENDING) ?f (db w) = Inl P2002"
    by (simp add: tx_updateMany_def Let_def)
  then show ?thesis
    using assms(1) by (simp add: markSubmitted_def transition_def assertTransition_ok canTransition_def bindE_def getNow_def
        statement_quiet returnE_def) blast
qed

text \<open>The hash of the transfer is free: the orphan is adopted.\<close>

lemma adopts_orphan:
  assumes "quiet e" "orphan (db w) v" "evidence (db w) v = Some r"
    and "\<And>t. t \<in> set (transactions (db w)) \<Longrightarrow> tx_txHash t \<noteq> Some (tr_transactionHash r)"
  shows "\<exists>w' at. recoverOne f l v e w = (Inr (), w') \<and>
    db w' = (put_tx ((tv_row v)\<lparr>tx_status := SUBMITTED, tx_txHash := Some (tr_transactionHash r), tx_submittedAt := Some at\<rparr>) (db w))
      \<lparr>confirmQueue := confirmQueue (db w) @ [recovery_job (tv_row v)]\<rparr>"
proof -
  let ?w = "w\<lparr>calls := Suc (calls w)\<rparr>"
  have "tx_txHash (tv_row v) = None"
    using assms(2) ledger_row [of "db w" "tx_id (tv_row v)" "tv_row v"] by (auto simp: orphan_def tx_wf_def)
  then have "markSubmitted (tx_id (tv_row v)) (tr_transactionHash r) e ?w = (Inr ((tv_row v)\<lparr>tx_status := SUBMITTED,
      tx_txHash := Some (tr_transactionHash r), tx_submittedAt := Some (env_clock e (Suc (calls w)))\<rparr>), ?w\<lparr>calls := calls ?w + 3,
      db := put_tx ((tv_row v)\<lparr>tx_status := SUBMITTED, tx_txHash := Some (tr_transactionHash r),
        tx_submittedAt := Some (env_clock e (Suc (calls w)))\<rparr>) (db w)\<rparr>)"
    using markSubmitted_done(1) [of e ?w "tx_id (tv_row v)" "tv_row v" "tr_transactionHash r"] assms by (simp add: orphan_def)
  then show ?thesis
    unfolding recoverOne_looks [OF assms(1,2)] assms(3)
    using assms(1) by (auto simp: catchE_def bindE_def adopt_def confirmQueue_add_def statement_quiet)
qed

text \<open>
  An orphaned transaction whose only evidence is a transfer that another transaction already
  owns. The unique hash refuses the adoption, the error is swallowed and nothing changes: the
  transaction is neither adopted nor failed, whatever its age, and the next pass finds the same
  evidence again.
\<close>

lemma twin_stuck:
  assumes "quiet e" "orphan (db w) v" "evidence (db w) v = Some r"
    and "t \<in> set (transactions (db w))" "tx_id t \<noteq> tx_id (tv_row v)" "tx_txHash t = Some (tr_transactionHash r)"
  shows "\<exists>w'. recoverOne f l v e w = (Inr (), w') \<and> db w' = db w"
proof -
  let ?w = "w\<lparr>calls := Suc (calls w)\<rparr>"
  obtain m n where "markSubmitted (tx_id (tv_row v)) (tr_transactionHash r) e ?w =
      (Inl (PrismaKnownRequestError ''P2002'' m), ?w\<lparr>calls := n\<rparr>)"
    using markSubmitted_taken [of e ?w "tx_id (tv_row v)" "tv_row v" t] assms by (auto simp: orphan_def)
  then show ?thesis
    unfolding recoverOne_looks [OF assms(1,2)] assms(3) by (simp add: catchE_def bindE_def adopt_def returnE_def)
qed

text \<open>
  C13: an orphaned transaction for which a transfer was seen. When no transaction has the hash of the transfer, the
  orphan becomes SUBMITTED with that hash and its confirmation job is enqueued. When another transaction has it, the
  unique hash refuses the adoption, the error is swallowed and nothing changes: the orphan is neither adopted nor
  failed, whatever its age, and the next pass finds the same evidence again.
\<close>

theorem orphan_adopted:
  assumes "quiet e" "orphan (db w) v" "evidence (db w) v = Some r"
  shows "\<exists>w'. recoverOne f l v e w = (Inr (), w') \<and>
    (if list_ex (\<lambda>t. tx_txHash t = Some (tr_transactionHash r)) (transactions (db w)) then db w' = db w
     else \<exists>at. db w' = (put_tx ((tv_row v)\<lparr>tx_status := SUBMITTED, tx_txHash := Some (tr_transactionHash r), tx_submittedAt := Some at\<rparr>) (db w))
      \<lparr>confirmQueue := confirmQueue (db w) @ [recovery_job (tv_row v)]\<rparr>)"
proof (cases "list_ex (\<lambda>t. tx_txHash t = Some (tr_transactionHash r)) (transactions (db w))")
  case True
  then obtain t where t: "t \<in> set (transactions (db w))" "tx_txHash t = Some (tr_transactionHash r)" by (auto simp: list_ex_iff)
  have "tx_id t \<noteq> tx_id (tv_row v)"
  proof
    assume id: "tx_id t = tx_id (tv_row v)"
    have "keyed tx_id (transactions (db w))" "row tx_id (transactions (db w)) (tx_id (tv_row v)) = Some (tv_row v)"
      and "tx_txHash (tv_row v) = None"
      using assms(2) ledger_row [of "db w" "tx_id (tv_row v)" "tv_row v"] by (auto simp: orphan_def tx_wf_def ledger_ok_def)
    with row_member [OF _ t(1)] id t(2) show False by fastforce
  qed
  from twin_stuck [OF assms t(1) this t(2)] True show ?thesis by simp
next
  case False
  then have "\<And>t. t \<in> set (transactions (db w)) \<Longrightarrow> tx_txHash t \<noteq> Some (tr_transactionHash r)" by (auto simp: list_ex_iff)
  from adopts_orphan [OF assms this] False show ?thesis by fastforce
qed

theorem orphan_adopted_witness:
  "\<exists>w' at. recoverOne 5000 2000 sample_orphan sample_env (world_of (sample_orphaned [sample_transfer ''0xaa'' ''0xbb''] [])) = (Inr (), w') \<and>
    db w' = (put_tx ((sample_tx PENDING)\<lparr>tx_status := SUBMITTED, tx_txHash := Some ''0xfeed'', tx_submittedAt := Some at\<rparr>)
      (sample_orphaned [sample_transfer ''0xaa'' ''0xbb''] []))\<lparr>confirmQueue := [recovery_job (sample_tx PENDING)]\<rparr>"
proof -
  let ?d = "sample_orphaned [sample_transfer ''0xaa'' ''0xbb''] []"
  have "evidence ?d sample_orphan = Some (sample_transfer ''0xaa'' ''0xbb'')"
    by (simp add: evidence_def sample_orphan_def sample_orphaned_def sample_transfer_def sample_wallet_def sample_tx_def order_asc_def)
  moreover have "\<not> list_ex (\<lambda>t. tx_txHash t = Some (tr_transactionHash (sample_transfer ''0xaa'' ''0xbb''))) (transactions ?d)"
    "tr_transactionHash (sample_transfer ''0xaa'' ''0xbb'') = ''0xfeed''" "confirmQueue ?d = []"
    by (simp_all add: sample_orphaned_def sample_store_def sample_tx_def sample_transfer_def empty_store_def)
  ultimately show ?thesis
    using orphan_adopted [of sample_env "world_of ?d" sample_orphan "sample_transfer ''0xaa'' ''0xbb''" 5000 2000] sample_orphaned_ok
    by simp
qed

theorem twin_stuck_sample:
  "\<exists>w'. recoverOne 5000 2000 sample_orphan sample_env
      (world_of (sample_orphaned [sample_transfer ''0xaa'' ''0xbb''] [(sample_tx CONFIRMED)\<lparr>tx_id := ''tx-2''\<rparr>])) = (Inr (), w') \<and>
    db w' = sample_orphaned [sample_transfer ''0xaa'' ''0xbb''] [(sample_tx CONFIRMED)\<lparr>tx_id := ''tx-2''\<rparr>]"
proof -
  let ?t = "(sample_tx CONFIRMED)\<lparr>tx_id := ''tx-2''\<rparr>"
  let ?d = "sample_orphaned [sample_transfer ''0xaa'' ''0xbb''] [?t]"
  have ts: "transactions ?d = [sample_tx PENDING, ?t]" by (simp add: sample_orphaned_def sample_store_def)
  have "evidence ?d sample_orphan = Some (sample_transfer ''0xaa'' ''0xbb'')"
    by (simp add: evidence_def sample_orphan_def sample_orphaned_def sample_transfer_def sample_wallet_def sample_tx_def order_asc_def)
  moreover have "orphan ?d sample_orphan"
    unfolding orphan_def ledger_ok_def ts
    by (simp add: sample_orphan_def) (simp add: sample_tx_def tx_hashes_def tx_wf_def keyed_def)
  moreover have "tx_txHash ?t = Some (tr_transactionHash (sample_transfer ''0xaa'' ''0xbb''))"
    by (simp add: sample_tx_def sample_transfer_def)
  ultimately show ?thesis
    using twin_stuck [of sample_env "world_of ?d" sample_orphan "sample_transfer ''0xaa'' ''0xbb''" ?t 5000 2000] ts by simp
qed

end
