(* ===== verification/Transfer_Runs.thy ===== *)
theory Transfer_Runs
  imports Sample_Ledger
begin

text \<open>
  The outcome of \<^verbatim>\<open>TransferService.transfer\<close> on a store that nobody else touches meanwhile:
  rejected before anything is written, submitted, or failed at the submission.
\<close>

section \<open>When a transfer is admitted\<close>

definition custody_of :: "store \<Rightarrow> wallet \<Rightarrow> custody_status" where
  "custody_of d x = \<lparr> cs_custodyType = wa_custodyType x, cs_hasCustodyKey = (row ck_walletId (custodyKeys d) (wa_id x) \<noteq> None) \<rparr>"

text \<open>
  The token exists, the sending wallet exists and belongs to the tenant and user of the request,
  the receiving wallet exists, and the adapter of the token's chain can sign for the sender.
\<close>

definition admitted :: "adapter list \<Rightarrow> store \<Rightarrow> transfer_request \<Rightarrow> token \<Rightarrow> wallet \<Rightarrow> wallet \<Rightarrow> adapter \<Rightarrow> bool" where
  "admitted registry d rq tk f g a \<longleftrightarrow> row tk_id (tokens d) (rq_tokenId rq) = Some tk \<and>
     row wa_id (wallets d) (rq_fromWalletId rq) = Some f \<and> wa_tenantId f = rq_tenantId rq \<and> wa_ownerId f = rq_userId rq \<and>
     row wa_id (wallets d) (rq_toWalletId rq) = Some g \<and>
     List.find (\<lambda>b. ad_chain b = toUpperCase (blockchain_name (tk_blockchain tk))) registry = Some a \<and>
     ad_canSign a (custody_of d f)"

lemmas transfer_lookups = getToken_def token_findById_def getWalletById_def wallet_findById_def registry_get_def
  getCustodyStatus_def findCustodyStatusById_def bindE_def returnE_def throwE_def query_quiet

lemma row_key: "row key rs k = Some r \<Longrightarrow> key r = k"
  by (auto dest: row_SomeD)

lemma getCustodyStatus_quiet:
  assumes "quiet e" "row wa_id (wallets (db w)) i = Some x"
  shows "getCustodyStatus (wa_id x) e w = (Inr (custody_of (db w) x), w\<lparr>calls := Suc (calls w)\<rparr>)"
  using assms row_key [OF assms(2)]
  by (simp add: getCustodyStatus_def findCustodyStatusById_def bindE_def query_quiet returnE_def custody_of_def)

text \<open>A request over the concrete ledger.\<close>

definition sample_request :: "string \<Rightarrow> int \<Rightarrow> transfer_request" where
  "sample_request sender x = \<lparr> rq_tenantId = ''acme'', rq_userId = ''alice'', rq_tokenId = ''musdt'',
     rq_fromWalletId = sender, rq_toWalletId = ''wallet-2'', rq_amount = x \<rparr>"

lemma sample_admitted:
  "admitted (sample_registry r q) (sample_store b ts) (sample_request ''wallet-1'' x) (sample_token b)
     (sample_wallet ''wallet-1'' ''0xaa'' CUSTODIAL) (sample_wallet ''wallet-2'' ''0xbb'' EXTERNAL) (sample_adapter r q b)"
  using sample_find [of b r q]
  by (cases b) (simp_all add: admitted_def sample_request_def sample_store_def sample_token_def sample_wallet_def custody_of_def
      sample_adapter_def evm_adapter_def bitcoin_adapter_def solana_adapter_def per_wallet_canSign_def empty_store_def)

text \<open>
  C12: a request that is not admitted, because the token or a wallet is missing, the sending
  wallet is another tenant's or user's, or the chain's adapter cannot sign for it, fails with an
  error and leaves every table and queue as it was.
\<close>

theorem transfer_rejected:
  assumes "quiet e" "\<nexists>tk f g a. admitted registry (db w) rq tk f g a"
  shows "\<exists>x w'. transfer registry rq e w = (Inl x, w') \<and> db w' = db w"
proof (cases "row tk_id (tokens (db w)) (rq_tokenId rq)")
  case None
  then show ?thesis using assms(1) by (simp add: transfer_def transfer_lookups)
next
  case (Some tk)
  note tk = this
  show ?thesis
  proof (cases "row wa_id (wallets (db w)) (rq_fromWalletId rq)")
    case None
    then show ?thesis using assms(1) tk by (simp add: transfer_def transfer_lookups)
  next
    case (Some f)
    note f = this
    show ?thesis
    proof (cases "wa_tenantId f \<noteq> rq_tenantId rq \<or> wa_ownerId f \<noteq> rq_userId rq \<or> row wa_id (wallets (db w)) (rq_toWalletId rq) = None \<or>
        List.find (\<lambda>b. ad_chain b = toUpperCase (blockchain_name (tk_blockchain tk))) registry = None")
      case True
      then show ?thesis using assms(1) tk f by (auto simp: transfer_def transfer_lookups split: option.splits)
    next
      case False
      then obtain g a where g: "row wa_id (wallets (db w)) (rq_toWalletId rq) = Some g"
        "List.find (\<lambda>b. ad_chain b = toUpperCase (blockchain_name (tk_blockchain tk))) registry = Some a"
        "wa_tenantId f = rq_tenantId rq" "wa_ownerId f = rq_userId rq" by auto
      with assms(2) tk f have "\<not> ad_canSign a (custody_of (db w) f)" unfolding admitted_def by blast
      with assms(1) tk f g getCustodyStatus_quiet [OF assms(1), of "w\<lparr>calls := calls w + 3\<rparr>" _ f] show ?thesis
        by (simp add: transfer_def getToken_def token_findById_def getWalletById_def wallet_findById_def registry_get_def
            bindE_def returnE_def throwE_def query_quiet eval_nat_numeral)
    qed
  qed
qed

theorem transfer_rejected_witness:
  "\<exists>x w'. transfer (sample_registry (Inr True) (Inr None)) (sample_request ''wallet-2'' 5) sample_env (world_of (sample_store EVM [])) =
     (Inl x, w') \<and> db w' = sample_store EVM []"
proof -
  have "\<nexists>tk f g a. admitted (sample_registry (Inr True) (Inr None)) (sample_store EVM []) (sample_request ''wallet-2'' 5) tk f g a"
    using sample_find [of EVM "Inr True" "Inr None"]
    by (auto simp: admitted_def sample_request_def sample_store_def sample_token_def sample_wallet_def custody_of_def
        sample_adapter_def evm_adapter_def per_wallet_canSign_def)
  then show ?thesis
    using transfer_rejected [of sample_env "sample_registry (Inr True) (Inr None)" "world_of (sample_store EVM [])"] by simp
qed

section \<open>The admitted transfer\<close>

definition order_of :: "transfer_request \<Rightarrow> token \<Rightarrow> wallet \<Rightarrow> wallet \<Rightarrow> transfer_order" where
  "order_of rq tk f g = \<lparr> to_tenantId = rq_tenantId rq, to_walletId = wa_id f, to_toAddress = wa_address g,
     to_amount = rq_amount rq, to_assetIdentifier = tk_contractAddress tk \<rparr>"

definition pending_row :: "transfer_request \<Rightarrow> string \<Rightarrow> int \<Rightarrow> transaction" where
  "pending_row rq i now = \<lparr> tx_id = i, tx_tenantId = rq_tenantId rq, tx_tokenId = rq_tokenId rq,
     tx_fromWalletId = rq_fromWalletId rq, tx_toWalletId = rq_toWalletId rq, tx_txHash = None,
     tx_amount = rq_amount rq, tx_nonce = None, tx_gasUsed = None, tx_blockNumber = None,
     tx_status = PENDING, tx_createdAt = now, tx_submittedAt = None,
     tx_confirmationStartedAt = None, tx_confirmedAt = None, tx_failureReason = None, tx_failedAt = None \<rparr>"

lemma pending_row_simps [simp]:
  "tx_id (pending_row rq i now) = i" "tx_txHash (pending_row rq i now) = None" "tx_status (pending_row rq i now) = PENDING"
  "tx_tenantId (pending_row rq i now) = rq_tenantId rq"
  by (simp_all add: pending_row_def)

lemma ledger_ok_pending:
  assumes "ledger_ok d" "row tx_id (transactions d) i = None"
  shows "ledger_ok (d\<lparr>transactions := transactions d @ [pending_row rq i now]\<rparr>)"
  using assms by (auto simp: ledger_ok_def keyed_append_one tx_hashes_def tx_wf_def pending_row_def)

lemma put_pending:
  assumes "row tx_id (transactions d) i = None" "tx_id t' = i"
  shows "put_tx t' (d\<lparr>transactions := transactions d @ [pending_row rq i now]\<rparr>) = d\<lparr>transactions := transactions d @ [t']\<rparr>"
proof -
  have "update_rows (\<lambda>r. tx_id r = i) (\<lambda>_. t') (transactions d) = transactions d"
    using assms(1) by (intro update_rows_none) (auto simp: count_rows_0 row_None_iff)
  then show ?thesis using assms(2) by (simp add: put_tx_def update_rows_def)
qed

text \<open>The submission has this outcome as long as the wallets and their keys are as in the store.\<close>

definition submits :: "env \<Rightarrow> store \<Rightarrow> 'a eff \<Rightarrow> exn + 'a \<Rightarrow> bool" where
  "submits e d m r \<longleftrightarrow> (\<forall>w. wallets (db w) = wallets d \<and> custodyKeys (db w) = custodyKeys d \<longrightarrow> (\<exists>w'. m e w = (r, w') \<and> db w' = db w))"

lemma submitsD:
  "submits e d m r \<Longrightarrow> wallets (db w) = wallets d \<Longrightarrow> custodyKeys (db w) = custodyKeys d \<Longrightarrow> \<exists>w'. m e w = (r, w') \<and> db w' = db w"
  by (simp add: submits_def)

text \<open>The admitted request creates its row and goes on to the submission.\<close>

lemma transfer_admitted:
  assumes "quiet e" "ledger_ok (db w)" "admitted registry (db w) rq tk f g a"
    and "\<And>n. row tx_id (transactions (db w)) (env_uuid e n) = None"
  obtains w1 i now where "row tx_id (transactions (db w)) i = None" "failures w1 = failures w"
    "db w1 = (db w)\<lparr>transactions := transactions (db w) @ [pending_row rq i now]\<rparr>"
    "transfer registry rq e w = catchE (submit_created a tk f g rq (pending_row rq i now))
       (\<lambda>error. ledger_markFailed i (exn_message error)) e w1"
proof -
  have ids: "wa_id f = rq_fromWalletId rq" "wa_id g = rq_toWalletId rq"
    using assms(3) row_key by (auto simp: admitted_def)
  let ?i = "env_uuid e (calls w + 4)"
  let ?t = "pending_row rq ?i (env_clock e (calls w + 5))"
  let ?w1 = "w\<lparr>calls := calls w + 7, db := (db w)\<lparr>transactions := transactions (db w) @ [?t]\<rparr>,
     metrics := metrics w @ [(''transactions_created_total'', [(''tenantId'', rq_tenantId rq), (''tokenId'', rq_tokenId rq)])]\<rparr>"
  have ok: "ledger_ok ((db w)\<lparr>transactions := transactions (db w) @ [?t]\<rparr>)"
    using assms(2,4) by (intro ledger_ok_pending) simp_all
  then have create: "tx_create ?t (db w) = Inr (?t, (db w)\<lparr>transactions := transactions (db w) @ [?t]\<rparr>)"
    by (simp add: tx_create_def Let_def ledger_ok_def)
  have "createPending (rq_tenantId rq) (rq_tokenId rq) (wa_id f) (wa_id g) (rq_amount rq) e (w\<lparr>calls := calls w + 4\<rparr>) =
      (Inr ?t, ?w1)"
    using create assms(1) unfolding ids pending_row_def
    by (simp add: createPending_def Transaction_Repository.create_def bindE_def randomUUID_def getNow_def statement_quiet returnE_def incrementMetric_def
        eval_nat_numeral)
  moreover have "getCustodyStatus (wa_id f) e (w\<lparr>calls := calls w + 3\<rparr>) = (Inr (custody_of (db w) f), w\<lparr>calls := calls w + 4\<rparr>)"
    using getCustodyStatus_quiet [OF assms(1), of "w\<lparr>calls := calls w + 3\<rparr>" "rq_fromWalletId rq" f] assms(3)
    by (simp add: admitted_def eval_nat_numeral)
  ultimately have "transfer registry rq e w = catchE (submit_created a tk f g rq ?t)
       (\<lambda>error. ledger_markFailed ?i (exn_message error)) e ?w1"
    using assms(1,3)
    by (simp add: admitted_def transfer_def getToken_def token_findById_def getWalletById_def wallet_findById_def
        registry_get_def bindE_def returnE_def query_quiet eval_nat_numeral)
  moreover have "failures ?w1 = failures w" by (simp add: failures_def)
  ultimately show thesis using that [of ?i ?w1] assms(4) by simp
qed

lemma transfer_accepted:
  assumes "quiet e" "ledger_ok (db w)" "admitted registry (db w) rq tk f g a"
    and "\<And>n. row tx_id (transactions (db w)) (env_uuid e n) = None"
    and "submits e (db w) (ad_submitTransfer a (order_of rq tk f g)) (Inr h)"
    and "\<And>t. t \<in> set (transactions (db w)) \<Longrightarrow> tx_txHash t \<noteq> Some h"
  shows "\<exists>w' i created submitted. transfer registry rq e w = (Inr ((pending_row rq i created)\<lparr>tx_status := SUBMITTED,
      tx_txHash := Some h, tx_submittedAt := Some submitted\<rparr>), w') \<and>
    db w' = (db w)\<lparr>transactions := transactions (db w) @ [(pending_row rq i created)\<lparr>tx_status := SUBMITTED,
        tx_txHash := Some h, tx_submittedAt := Some submitted\<rparr>],
      confirmQueue := confirmQueue (db w) @ [\<lparr> cj_name = CONFIRM_TRANSACTION, cj_transactionId = i,
        cj_tenantId = rq_tenantId rq, cj_options = None \<rparr>]\<rparr> \<and> row tx_id (transactions (db w)) i = None"
proof -
  obtain w1 i now where t: "row tx_id (transactions (db w)) i = None"
    "db w1 = (db w)\<lparr>transactions := transactions (db w) @ [pending_row rq i now]\<rparr>"
    "transfer registry rq e w = catchE (submit_created a tk f g rq (pending_row rq i now))
       (\<lambda>error. ledger_markFailed i (exn_message error)) e w1"
    using transfer_admitted [OF assms(1-4)] by metis
  obtain w2 where w2: "ad_submitTransfer a (order_of rq tk f g) e w1 = (Inr h, w2)" "db w2 = db w1"
    using submitsD [OF assms(5), of w1] t(2) by auto
  let ?m = "[(''tenantId'', rq_tenantId rq), (''tokenId'', tx_tokenId (pending_row rq i now))]"
  let ?w3 = "w2\<lparr>metrics := metrics w2 @ [(''transactions_submitted_total'', ?m)]\<rparr>"
  let ?t' = "(pending_row rq i now)\<lparr>tx_status := SUBMITTED, tx_txHash := Some h, tx_submittedAt := Some (env_clock e (calls w2))\<rparr>"
  have fresh: "tx_txHash r \<noteq> Some h" if "r \<in> set (transactions (db w1))" for r using that assms(6) t(2) by auto
  have "markSubmitted i h e ?w3 = (Inr ?t', ?w3\<lparr>calls := calls w2 + 3, db := put_tx ?t' (db w1)\<rparr>)"
    using markSubmitted_done(1) [of e ?w3 i "pending_row rq i now" h] ledger_ok_pending [OF assms(2) t(1)] assms(1) fresh t(1,2) w2(2)
    by (simp add: row_append)
  moreover have "put_tx ?t' (db w1) = (db w)\<lparr>transactions := transactions (db w) @ [?t']\<rparr>"
    unfolding t(2) by (rule put_pending [OF t(1)]) simp
  ultimately show ?thesis
    using w2(1) assms(1) t(1) unfolding t(3)
    by (intro exI [of _ "snd (transfer registry rq e w)"] exI [of _ i] exI [of _ now] exI [of _ "env_clock e (calls w2)"])
      (simp add: t(3) catchE_def bindE_def submit_created_def order_of_def [symmetric] ledger_markSubmitted_def
        incrementMetric_def confirmQueue_add_def statement_quiet returnE_def)
qed

text \<open>
  C10: an admitted request whose submission the chain accepts. The caller gets the new
  transaction: SUBMITTED, with the hash, and the token, wallets, amount, tenant of the request;
  the row is appended to the ledger and one confirmation job for it to the queue; nothing else
  changes.
\<close>

theorem transfer_submitted:
  assumes "quiet e" "ledger_ok (db w)" "admitted registry (db w) rq tk f g a"
    and "\<And>n. row tx_id (transactions (db w)) (env_uuid e n) = None"
    and "submits e (db w) (ad_submitTransfer a (order_of rq tk f g)) (Inr h)"
    and "\<And>t. t \<in> set (transactions (db w)) \<Longrightarrow> tx_txHash t \<noteq> Some h"
  shows "\<exists>w' i created submitted. transfer registry rq e w = (Inr ((pending_row rq i created)\<lparr>tx_status := SUBMITTED,
      tx_txHash := Some h, tx_submittedAt := Some submitted\<rparr>), w') \<and>
    db w' = (db w)\<lparr>transactions := transactions (db w) @ [(pending_row rq i created)\<lparr>tx_status := SUBMITTED,
        tx_txHash := Some h, tx_submittedAt := Some submitted\<rparr>],
      confirmQueue := confirmQueue (db w) @ [\<lparr> cj_name = CONFIRM_TRANSACTION, cj_transactionId = i,
        cj_tenantId = rq_tenantId rq, cj_options = None \<rparr>]\<rparr>"
  using transfer_accepted [OF assms] by blast

text \<open>The EVM adapter signs for the custodial wallet and returns the node's hash.\<close>

lemma sample_evm_submits:
  "submits sample_env (sample_store EVM ts) (ad_submitTransfer (sample_adapter r q EVM) (order_of (sample_request ''wallet-1'' x) (sample_token EVM)
      (sample_wallet ''wallet-1'' ''0xaa'' CUSTODIAL) g)) (Inr ''0xbeef'')"
  unfolding submits_def
  by (simp add: sample_adapter_def evm_adapter_def evm_submitTransfer_def order_of_def sample_request_def sample_token_def
      nonempty_def signing_secret_def findByIdForTenantWithCustody_def bindE_def query_quiet sample_store_def sample_wallet_def
      external_quiet sample_keys_def sample_node_def getWalletClient_def returnE_def)

theorem transfer_submitted_witness:
  "\<exists>w' i created submitted. transfer (sample_registry (Inr True) (Inr None)) (sample_request ''wallet-1'' 5) sample_env
      (world_of (sample_store EVM [])) = (Inr ((pending_row (sample_request ''wallet-1'' 5) i created)\<lparr>tx_status := SUBMITTED,
      tx_txHash := Some ''0xbeef'', tx_submittedAt := Some submitted\<rparr>), w') \<and>
    transactions (db w') = [(pending_row (sample_request ''wallet-1'' 5) i created)\<lparr>tx_status := SUBMITTED,
        tx_txHash := Some ''0xbeef'', tx_submittedAt := Some submitted\<rparr>]"
proof -
  have "transactions (sample_store EVM []) = []" "ledger_ok (sample_store EVM [])"
    by (simp_all add: sample_store_def ledger_ok_def tx_hashes_def)
  then show ?thesis
    using transfer_submitted [of sample_env "world_of (sample_store EVM [])", OF quiet_sample] sample_admitted [of "Inr True" "Inr None" EVM "[]" 5]
      sample_evm_submits [of "[]" "Inr True" "Inr None" 5 "sample_wallet ''wallet-2'' ''0xbb'' EXTERNAL"]
    by fastforce
qed

text \<open>
  C11: an admitted request whose submission fails. The caller gets the new transaction, FAILED with
  the message of the error; the row is appended to the ledger and nothing else changes: no job is
  enqueued.
\<close>

theorem transfer_failed:
  assumes "quiet e" "ledger_ok (db w)" "admitted registry (db w) rq tk f g a"
    and "\<And>n. row tx_id (transactions (db w)) (env_uuid e n) = None"
    and "submits e (db w) (ad_submitTransfer a (order_of rq tk f g)) (Inl x)" "x \<noteq> Crashed"
  shows "\<exists>w' i created failed. transfer registry rq e w = (Inr ((pending_row rq i created)\<lparr>tx_status := FAILED,
      tx_failureReason := Some (exn_message x), tx_failedAt := Some failed\<rparr>), w') \<and>
    db w' = (db w)\<lparr>transactions := transactions (db w) @ [(pending_row rq i created)\<lparr>tx_status := FAILED,
        tx_failureReason := Some (exn_message x), tx_failedAt := Some failed\<rparr>]\<rparr>"
proof -
  obtain w1 i now where t: "row tx_id (transactions (db w)) i = None"
    "db w1 = (db w)\<lparr>transactions := transactions (db w) @ [pending_row rq i now]\<rparr>"
    "transfer registry rq e w = catchE (submit_created a tk f g rq (pending_row rq i now))
       (\<lambda>error. ledger_markFailed i (exn_message error)) e w1"
    using transfer_admitted [OF assms(1-4)] by metis
  obtain w2 where w2: "ad_submitTransfer a (order_of rq tk f g) e w1 = (Inl x, w2)" "db w2 = db w1"
    using submitsD [OF assms(5), of w1] t(2) by auto
  let ?t' = "(pending_row rq i now)\<lparr>tx_status := FAILED, tx_failureReason := Some (exn_message x), tx_failedAt := Some (env_clock e (calls w2))\<rparr>"
  have "markFailed i (exn_message x) e w2 = (Inr ?t', w2\<lparr>calls := calls w2 + 3, db := put_tx ?t' (db w1)\<rparr>)"
    using markFailed_done(1) [of e w2 i "pending_row rq i now" "exn_message x"] ledger_ok_pending [OF assms(2) t(1)] assms(1) t(1,2) w2(2)
    by (auto simp: row_append)
  moreover have "put_tx ?t' (db w1) = (db w)\<lparr>transactions := transactions (db w) @ [?t']\<rparr>"
    unfolding t(2) by (rule put_pending [OF t(1)]) simp
  ultimately show ?thesis
    using w2(1) assms(1,6)
    by (intro exI [of _ "snd (transfer registry rq e w)"] exI [of _ i] exI [of _ now] exI [of _ "env_clock e (calls w2)"])
      (simp add: t(3) catchE_def bindE_def submit_created_def order_of_def [symmetric] ledger_markFailed_def)
qed

text \<open>The Bitcoin adapter refuses a negative amount before it asks the node.\<close>

theorem transfer_failed_witness:
  "\<exists>w' i created failed. transfer (sample_registry (Inr True) (Inr None)) (sample_request ''wallet-1'' (- 5)) sample_env
      (world_of (sample_store BITCOIN [])) = (Inr ((pending_row (sample_request ''wallet-1'' (- 5)) i created)\<lparr>tx_status := FAILED,
      tx_failureReason := Some ''Bitcoin transfer amount cannot be negative'', tx_failedAt := Some failed\<rparr>), w')"
proof -
  have s: "transactions (sample_store BITCOIN []) = []" "ledger_ok (sample_store BITCOIN [])"
    by (simp_all add: sample_store_def ledger_ok_def tx_hashes_def)
  have "submits sample_env (sample_store BITCOIN []) (ad_submitTransfer (sample_adapter (Inr True) (Inr None) BITCOIN)
      (order_of (sample_request ''wallet-1'' (- 5)) tk f g)) (Inl (PlainError ''Bitcoin transfer amount cannot be negative''))" for tk f g
    by (simp add: submits_def sample_adapter_def bitcoin_adapter_def bitcoin_submitTransfer_def order_of_def sample_request_def
        satoshisToBtc_def liftE_def bindE_def throwE_def)
  from transfer_failed [of sample_env "world_of (sample_store BITCOIN [])", OF quiet_sample _ _ _ _, of "sample_registry (Inr True) (Inr None)",
      OF _ _ _ _, simplified, OF s(2) sample_admitted _ this] s
  show ?thesis by fastforce
qed

end
