(* ===== verification/Balance_Runs.thy ===== *)
theory Balance_Runs
  imports Balances Sample_Ledger
begin

text \<open>
  The outcome of a reconciliation and of a whole drift sweep on a store that nobody else
  touches meanwhile.
\<close>

section \<open>Properties\<close>

text \<open>
  C20: what a reconciliation answers. A wallet on another chain than the token is rejected before the
  chain is asked. Otherwise, with the adapter's answer: STALE_OBSERVATION if and only if a snapshot
  exists that is newer than the observation, MATCH if and only if a snapshot exists that is not newer
  and has the same balance, and MISMATCH in every other case, also when there is no snapshot.
\<close>

theorem reconcile_outcome:
  assumes "quiet e" "List.find (\<lambda>a. ad_chain a = toUpperCase (blockchain_name (rr_blockchain rq))) registry = Some a"
    and "ad_getTokenBalance a = Some read"
    and "\<And>w. \<exists>n m. read \<lparr> br_assetIdentifier = rr_assetIdentifier rq, br_walletAddress = rr_walletAddress rq,
        br_blockNumber = rr_blockNumber rq \<rparr> e w = (Inr ob, w\<lparr>calls := n, metrics := m\<rparr>)"
  shows "\<exists>r w'. reconcile evm registry rq e w = (r, w') \<and> db w' = db w \<and>
    (if blockchainForChainId evm (rr_walletChainId rq) \<noteq> Some (rr_blockchain rq)
     then r = Inl (walletTokenChainMismatch (rr_walletChainId rq) (blockchain_name (rr_blockchain rq))) \<and> w' = w
     else \<exists>re. r = Inr re \<and> re_chain re = ob \<and>
       (re_status re = STALE_OBSERVATION \<longleftrightarrow> (\<exists>x bn. snapshot (db w) (rr_walletId rq) (rr_tokenId rq) = Some (x, bn) \<and> tb_blockNumber ob < bn)) \<and>
       (re_status re = MATCH \<longleftrightarrow> (\<exists>x bn. snapshot (db w) (rr_walletId rq) (rr_tokenId rq) = Some (x, bn) \<and> bn \<le> tb_blockNumber ob \<and>
          x = tb_balance ob)))"
proof (cases "blockchainForChainId evm (rr_walletChainId rq) = Some (rr_blockchain rq)")
  case False
  then show ?thesis by (simp add: reconcile_def Let_def throwE_def)
next
  case True
  let ?p = "row bs_key (balances (db w)) (rr_walletId rq, rr_tokenId rq)"
  obtain n m where "read \<lparr> br_assetIdentifier = rr_assetIdentifier rq, br_walletAddress = rr_walletAddress rq,
      br_blockNumber = rr_blockNumber rq \<rparr> e (w\<lparr>calls := Suc (calls w)\<rparr>) = (Inr ob, w\<lparr>calls := n, metrics := m\<rparr>)"
    using assms(4) [of "w\<lparr>calls := Suc (calls w)\<rparr>"] by auto
  with True assms(1-3) show ?thesis
    by (cases ?p) (auto simp: reconcile_def Let_def registry_get_def balance_find_def bindE_def returnE_def query_quiet snapshot_def)
qed

lemma sample_balance_read:
  "\<exists>n m. evm_getTokenBalance (sample_node r) \<lparr> br_assetIdentifier = Some ''0xc0ffee'', br_walletAddress = a, br_blockNumber = Some b \<rparr>
     sample_env w = (Inr \<lparr> tb_balance = 1000, tb_blockNumber = b \<rparr>, w\<lparr>calls := n, metrics := m\<rparr>)"
  by (intro exI [of _ "Suc (calls w)"] exI [of _ "metrics w"])
    (simp add: evm_getTokenBalance_def nonempty_def bindE_def external_quiet sample_node_def returnE_def)

definition sample_reconciliation :: reconciliation_request where
  "sample_reconciliation = \<lparr> rr_walletId = ''wallet-1'', rr_walletAddress = ''0xaa'', rr_walletChainId = 11155111, rr_tokenId = ''musdt'',
     rr_blockchain = EVM, rr_assetIdentifier = Some ''0xc0ffee'', rr_blockNumber = Some 90 \<rparr>"

definition sample_snapshots :: store where
  "sample_snapshots = (sample_store EVM [])\<lparr>balances := [\<lparr> bs_id = ''b1'', bs_walletId = ''wallet-1'', bs_tokenId = ''musdt'',
     bs_balance = 900, bs_blockNumber = 80 \<rparr>]\<rparr>"

theorem reconcile_outcome_witness:
  "\<exists>re w'. reconcile 11155111 (sample_registry (Inr True) (Inr None)) sample_reconciliation sample_env (world_of sample_snapshots) = (Inr re, w') \<and>
     re_status re \<noteq> MATCH \<and> re_status re \<noteq> STALE_OBSERVATION"
proof -
  have "ad_getTokenBalance (sample_adapter (Inr True) (Inr None) EVM) = Some (evm_getTokenBalance (sample_node (Inr True)))"
    by (simp add: sample_adapter_def evm_adapter_def)
  from reconcile_outcome [OF quiet_sample _ this, of sample_reconciliation "sample_registry (Inr True) (Inr None)"
      "\<lparr> tb_balance = 1000, tb_blockNumber = 90 \<rparr>" 11155111 "world_of sample_snapshots"]
  show ?thesis
    using sample_find [of EVM "Inr True" "Inr None"] sample_balance_read [of "Inr True" "''0xaa''" 90]
    by (auto simp: sample_reconciliation_def blockchainForChainId_def isEvmChainId_def snapshot_def sample_snapshots_def bs_key_def)
qed

text \<open>
  C21: a drift sweep misses no snapshot and counts none twice. With enough pages allowed for, the sweep
  ends; its summary is the tally of one result for each snapshot, in the order of their ids, whatever
  the page size and the concurrency, also when single checks fail; and the store is as it was.
\<close>

theorem sweep_complete:
  assumes "quiet e" "answering e registry" "0 < psize" "0 < conc" "keyed bs_id (balances (db w))"
    and "\<forall>b \<in> set (balances (db w)). bs_id b \<noteq> []" "length (balances (db w)) < fuel"
  shows "\<exists>rs w'. sweep fuel evm registry psize conc e w =
      (Inr (Some (tally_all (zip (map (snapshot_view_of (db w)) (order_asc bs_id (balances (db w)))) rs)
         \<lparr> sw_checked = 0, sw_byBlockchain = (\<lambda>_. None) \<rparr>)), w') \<and>
    length rs = length (balances (db w)) \<and> db w' = db w"
proof -
  have "distinct (map bs_id (order_asc bs_id (balances (db w))))"
    using assms(5) by (simp add: keyed_def distinct_map order_asc_def)
  from sweep_loop_quiet [OF assms(1-4) this assms(6), of 0 fuel None evm "\<lambda>_. None" "\<lparr> sw_checked = 0, sw_byBlockchain = (\<lambda>_. None) \<rparr>"] assms(7)
  obtain rs w1 where r: "sweep_loop fuel evm registry psize conc None (\<lambda>_. None) \<lparr> sw_checked = 0, sw_byBlockchain = (\<lambda>_. None) \<rparr> e w =
      (Inr (Some (tally_all (zip (map (snapshot_view_of (db w)) (order_asc bs_id (balances (db w)))) rs)
         \<lparr> sw_checked = 0, sw_byBlockchain = (\<lambda>_. None) \<rparr>)), w1)" "db w1 = db w" "length rs = length (balances (db w))" by auto
  obtain w2 where "publish (tally_all (zip (map (snapshot_view_of (db w)) (order_asc bs_id (balances (db w)))) rs)
         \<lparr> sw_checked = 0, sw_byBlockchain = (\<lambda>_. None) \<rparr>) e w1 = (Inr (), w2)" "db w2 = db w1"
    using publish_quiet by blast
  with r show ?thesis by (auto simp: sweep_def bindE_def returnE_def)
qed

lemma readonly_lift: "r \<noteq> Inl Crashed \<Longrightarrow> readonly e (liftE r)"
  by (auto simp: liftE_def readonly_def throwE_def returnE_def split: sum.split)

lemma sum_utxos_ends: "sum_utxos us acc \<noteq> Inl Crashed"
  by (induction us acc rule: sum_utxos.induct) (auto simp: btcToSatoshis_def split: sum.splits btc_number.splits if_splits)

lemma sample_answering: "answering sample_env (sample_registry r q)"
proof -
  have "readonly sample_env (evm_getTokenBalance (sample_node r) b)" for b
    unfolding evm_getTokenBalance_def
    by (intro readonly_intros readonly_external quiet_sample) (simp_all add: sample_node_def)
  moreover have "readonly sample_env (bitcoin_getTokenBalance (sample_bitcoin q) b)" for b
    unfolding bitcoin_getTokenBalance_def
    by (intro readonly_intros readonly_external readonly_lift quiet_sample) (simp_all add: sample_bitcoin_def sum_utxos_ends)
  moreover have "readonly sample_env (solana_getTokenBalance sample_solana b)" for b
    unfolding solana_getTokenBalance_def
    by (intro readonly_intros readonly_external readonly_lift quiet_sample) (simp_all add: sample_solana_def toSafeSolanaSlot_def)
  ultimately show ?thesis
    by (auto simp: answering_def sample_registry_def blockchainAdapterRegistry_def evm_adapter_def bitcoin_adapter_def solana_adapter_def)
qed

theorem sweep_complete_witness:
  "\<exists>s w'. sweep 3 11155111 (sample_registry (Inr True) (Inr None)) 1 5 sample_env (world_of sample_snapshots) = (Inr (Some s), w') \<and> sw_checked s = 1"
  using sweep_complete [of sample_env "sample_registry (Inr True) (Inr None)" 1 5 "world_of sample_snapshots" 3 11155111]
    sample_answering [of "Inr True" "Inr None"]
  by (fastforce simp: sample_snapshots_def keyed_def tally_all_checked order_asc_def)

end
