(* ===== verification/Api_Guards.thy ===== *)
theory Api_Guards
  imports Routes
begin

text \<open>
  What the pre-handlers and the error handler guarantee for every route: without a token of a
  sufficient role nothing happens, every request is answered, and an answer never contains the
  text of an unexpected error.
\<close>

section \<open>Who may do what\<close>

text \<open>The roles of each protected route; \<open>None\<close> for the routes anyone may call, \<open>Some None\<close> where any valid token will do.\<close>

fun protection :: "route \<Rightarrow> role list option option" where
  "protection PostTenants = None"
| "protection PostRegister = None"
| "protection PostLogin = None"
| "protection PostRefresh = None"
| "protection GetWalletBalances = Some None"
| "protection GetTokenBalance = Some None"
| "protection GetReconcile = Some None"
| "protection PostApiKeys = Some (Some [ADMIN])"
| "protection GetApiKeys = Some (Some [ADMIN])"
| "protection DeleteApiKey = Some (Some [ADMIN])"
| "protection GetAuditLogs = Some (Some [ADMIN])"
| "protection PostTokens = Some (Some [ADMIN])"
| "protection GetTokens = Some (Some [ADMIN])"
| "protection GetToken = Some (Some [ADMIN])"
| "protection PostMint = Some (Some [ADMIN])"
| "protection _ = Some (Some [USER, ADMIN])"

text \<open>The token of the header \<^verbatim>\<open>Authorization: Bearer token\<close>.\<close>

definition bearer :: "http_request \<Rightarrow> string option" where
  "bearer rq =
     (case hr_authorization rq of
        None \<Rightarrow> None
      | Some a \<Rightarrow> (case split_at_char (CHR '' '') a of
            scheme # token # _ \<Rightarrow> if scheme = ''Bearer'' \<and> token \<noteq> [] then Some token else None
          | _ \<Rightarrow> None))"

definition user_of :: "jwt_payload \<Rightarrow> auth_user" where
  "user_of payload = \<lparr> au_id = jp_id payload, au_email = jp_email payload, au_role = jp_role payload, au_tenantId = jp_tenantId payload \<rparr>"

lemma authenticate_bearer:
  "authenticate c rq e w =
     (case bearer rq of
        None \<Rightarrow> (Inr (Inl (refused rq 401 (if hr_authorization rq = None \<or> hr_authorization rq = Some []
            then ''Missing Authorization header'' else ''Invalid Authorization header''))), w)
      | Some t \<Rightarrow> (case cl_jwtVerify c (calls w) t of
            Inr payload \<Rightarrow> (Inr (Inr (user_of payload)), w\<lparr>calls := Suc (calls w)\<rparr>)
          | Inl x \<Rightarrow> (if x = Crashed then Inl Crashed else Inr (Inl (refused rq 401 ''Invalid or expired token'')), w\<lparr>calls := Suc (calls w)\<rparr>)))"
proof (cases "hr_authorization rq")
  case None
  then show ?thesis by (simp add: authenticate_def bearer_def returnE_def)
next
  case (Some a)
  show ?thesis
  proof (cases "split_at_char (CHR '' '') a")
    case Nil
    then show ?thesis by simp
  next
    case (Cons scheme rest)
    then show ?thesis
      using Some
      by (cases rest; cases "a = []") (auto simp: authenticate_def bearer_def returnE_def verifyToken_def library_def catchE_def bindE_def
          user_of_def Let_def split: sum.splits)
  qed
qed

text \<open>A handler behind the pre-handlers, or the refusal of its body.\<close>

definition behind :: "crypto_lib \<Rightarrow> role list option \<Rightarrow> http_request \<Rightarrow> http_reply eff \<Rightarrow> bool" where
  "behind c roles rq m \<longleftrightarrow> (\<exists>h. m = protected_route c roles rq h) \<or> (\<exists>x. m = throwE (FastifyValidationError x))"

lemma behind_protected: "behind c roles rq (protected_route c roles rq h)"
  unfolding behind_def by blast

lemma behind_validated: "behind c roles rq m \<Longrightarrow> behind c roles rq (validated v m)"
  by (cases v) (auto simp: validated_def behind_def)

lemma route_protected:
  assumes "protection r = Some roles"
  shows "behind (ap_crypto p) roles rq (route_handler r p rq)"
  using assms
  by (cases r; simp only: protection.simps route_handler.simps option.inject option.distinct;
      hypsubst; unfold post_api_keys_def get_api_keys_def delete_api_key_def get_audit_logs_def get_me_def get_wallets_def
        get_wallet_def post_wallets_def post_challenge_def post_custodial_def get_wallet_balances_def post_tokens_def get_tokens_def
        get_token_def post_mint_def get_token_balance_def get_reconcile_def post_transactions_def get_transactions_def
        get_transaction_def; intro behind_validated behind_protected)

text \<open>The token, if there is one, is refused by the library or belongs to a user without the role.\<close>

definition unauthorised :: "crypto_lib \<Rightarrow> role list option \<Rightarrow> http_request \<Rightarrow> bool" where
  "unauthorised c roles rq \<longleftrightarrow> (\<forall>t n. bearer rq = Some t \<longrightarrow>
     (case cl_jwtVerify c n t of
        Inl x \<Rightarrow> x \<noteq> Crashed
      | Inr payload \<Rightarrow> (case roles of None \<Rightarrow> False | Some rs \<Rightarrow> jp_role payload \<notin> set rs)))"

lemma protected_route_refuses:
  assumes "unauthorised c roles rq"
  shows "\<exists>reply w'. protected_route c roles rq h e w = (Inr reply, w') \<and> rp_status reply \<in> {401, 403} \<and> db w' = db w"
proof (cases "bearer rq")
  case None
  then show ?thesis by (simp add: protected_route_def bindE_def authenticate_bearer returnE_def refused_def)
next
  case (Some t)
  with assms have u: "case cl_jwtVerify c (calls w) t of Inl x \<Rightarrow> x \<noteq> Crashed
      | Inr payload \<Rightarrow> (case roles of None \<Rightarrow> False | Some rs \<Rightarrow> jp_role payload \<notin> set rs)"
    by (simp add: unauthorised_def)
  show ?thesis
  proof (cases "cl_jwtVerify c (calls w) t")
    case (Inl x)
    with u Some show ?thesis by (simp add: protected_route_def bindE_def authenticate_bearer returnE_def refused_def)
  next
    case (Inr payload)
    with u Some show ?thesis
      by (cases roles) (simp_all add: protected_route_def bindE_def authenticate_bearer returnE_def refused_def authorize_def user_of_def)
  qed
qed

section \<open>A caller\<close>

text \<open>The token \<open>alice\<close> is valid and names a user of the sample ledger without the role of an administrator.\<close>

definition sample_login :: crypto_lib where
  "sample_login = sample_crypto\<lparr>cl_jwtVerify := (\<lambda>n t. if t = ''alice'' then Inr \<lparr> jp_id = ''alice'', jp_email = ''alice@acme'',
      jp_role = USER, jp_tenantId = ''acme'', jp_jti = None \<rparr> else Inl (PlainError ''invalid token''))\<rparr>"

definition sample_api :: api_platform where
  "sample_api = \<lparr> ap_crypto = sample_login, ap_zod = \<lparr> zl_uuid = (\<lambda>s. length s = 36), zl_email = (\<lambda>s. True), zl_date = (\<lambda>v. None) \<rparr>,
     ap_lifetimes = \<lparr> JWT_ACCESS_EXPIRES = ''15m'', JWT_REFRESH_EXPIRES = ''7d'' \<rparr>, ap_jwtSecret = ''secret'', ap_vars = (\<lambda>_. None),
     ap_evm = 11155111, ap_registry = sample_registry (Inr True) (Inr None), ap_isEvmAddress = (\<lambda>a. True), ap_publicKey = (\<lambda>a. Inr True),
     ap_kmsKeyId = Inr ''kms-1'', ap_encrypt = (\<lambda>n s k. Inr ''sealed'') \<rparr>"

definition sample_get :: http_request where
  "sample_get = \<lparr> hr_id = ''req-1'', hr_authorization = Some ''Bearer alice'', hr_tenantKey = None, hr_params = (\<lambda>_. ''wallet-1''),
     hr_page = None, hr_limit = None, hr_blockNumber = None, hr_body = JNull \<rparr>"

lemma sample_bearer: "bearer sample_get = Some ''alice''"
  by (simp add: bearer_def sample_get_def)

section \<open>Properties\<close>

text \<open>
  C30: a route that is not public does nothing for a request without a token that the JWT library
  verifies and whose role the route admits. The request is answered with 400, 401 or 403 (a body
  that the route's schema refuses is refused first) and no table or queue changes, whatever the
  services and the other processes do.
\<close>

theorem routes_guarded:
  assumes "protection r = Some roles" "unauthorised (ap_crypto p) roles rq"
  shows "\<exists>reply w'. respond p r rq e w = (Inr reply, w') \<and> rp_status reply \<in> {400, 401, 403} \<and> db w' = db w"
proof -
  from route_protected [OF assms(1), of p rq] consider h where "route_handler r p rq = protected_route (ap_crypto p) roles rq h"
    | x where "route_handler r p rq = throwE (FastifyValidationError x)"
    unfolding behind_def by blast
  then show ?thesis
  proof cases
    case (1 h)
    with protected_route_refuses [OF assms(2), of h e w] show ?thesis by (fastforce simp: respond_def handled_def catchE_def)
  next
    case (2 x)
    then show ?thesis
      by (simp add: respond_def handled_def catchE_def throwE_def error_handler_def bindE_def getNow_def returnE_def error_reply_def)
  qed
qed

theorem routes_guarded_witness:
  "\<exists>reply w'. respond sample_api PostMint sample_get sample_env (world_of (sample_store EVM [])) = (Inr reply, w') \<and>
     rp_status reply \<in> {400, 401, 403} \<and> db w' = sample_store EVM []"
proof -
  have "unauthorised (ap_crypto sample_api) (Some [ADMIN]) sample_get"
    by (simp add: unauthorised_def sample_bearer sample_api_def sample_login_def)
  from routes_guarded [OF _ this, of PostMint sample_env "world_of (sample_store EVM [])"] show ?thesis by simp
qed

text \<open>A value with a bigint anywhere in it cannot be sent.\<close>

lemma snapshot_not_json: "to_json (snapshot_token_js x) = None"
  by (simp add: snapshot_token_js_def case_prod_beta)

lemma snapshots_not_json: "to_json_list (map snapshot_token_js xs) = (if xs = [] then Some [] else None)"
  by (cases xs) (simp_all add: snapshot_not_json)

text \<open>\<^verbatim>\<open>serializeBigInt\<close> makes every value one that can be sent.\<close>

lemma serialized_json:
  "to_json (serializeBigInt v) \<noteq> None" "to_json_list (serialize_list vs) \<noteq> None" "to_json_members (serialize_members ms) \<noteq> None"
  by (induction v and vs and ms rule: serializeBigInt_serialize_list_serialize_members.induct) (auto split: option.splits)

text \<open>
  \<^verbatim>\<open>GET /wallets/:id/balances\<close> cannot answer for a wallet that has a balance. A caller who
  may see the wallet gets 500, because the rows are sent with their bigint columns; the token
  and transaction routes convert them first. Without a snapshot the answer is 200 and empty.
\<close>

theorem wallet_balances_unanswered:
  assumes "quiet e" "bearer rq = Some t" "\<And>n. cl_jwtVerify (ap_crypto p) n t = Inr payload"
    and "row wa_id (wallets (db w)) (hr_params rq ''id'') = Some x" "wa_tenantId x = jp_tenantId payload"
    and "wa_ownerId x = jp_id payload \<or> jp_role payload = ADMIN"
  shows "\<exists>reply w'. respond p GetWalletBalances rq e w = (Inr reply, w') \<and> db w' = db w \<and>
    rp_status reply = (if \<exists>b \<in> set (balances (db w)). bs_walletId b = hr_params rq ''id'' then 500 else 200)"
proof -
  have "order_asc f (filter (\<lambda>b. bs_walletId b = i) bs) = [] \<longleftrightarrow> \<not> (\<exists>b \<in> set bs. bs_walletId b = i)" for f :: "balance_snapshot \<Rightarrow> string" and i bs
    by (auto simp: filter_empty_conv simp flip: set_empty)
  then show ?thesis
    using assms
    by (auto simp: respond_def handled_def get_wallet_balances_def protected_route_def authenticate_bearer user_of_def getWallet_def
        wallet_findById_def getWalletBalances_def findByWallet_def successResponse_def send_def eff_simps quiet_simps error_handler_def
        error_reply_def snapshots_not_json)
qed

definition funded_store :: store where
  "funded_store = (sample_store EVM [])\<lparr>balances := [\<lparr> bs_id = ''b-1'', bs_walletId = ''wallet-1'', bs_tokenId = ''musdt'',
     bs_balance = 1000, bs_blockNumber = 90 \<rparr>]\<rparr>"

lemma sample_verified: "cl_jwtVerify (ap_crypto sample_api) n ''alice'' =
    Inr \<lparr> jp_id = ''alice'', jp_email = ''alice@acme'', jp_role = USER, jp_tenantId = ''acme'', jp_jti = None \<rparr>"
  by (simp add: sample_api_def sample_login_def)

theorem wallet_balances_unanswered_witness:
  "\<exists>reply w'. respond sample_api GetWalletBalances sample_get sample_env (world_of funded_store) = (Inr reply, w') \<and> rp_status reply = 500"
proof -
  have row: "row wa_id (wallets (db (world_of funded_store))) (hr_params sample_get ''id'') = Some (sample_wallet ''wallet-1'' ''0xaa'' CUSTODIAL)"
    by (simp add: funded_store_def sample_store_def sample_get_def sample_wallet_def)
  have "\<exists>b \<in> set (balances (db (world_of funded_store))). bs_walletId b = hr_params sample_get ''id''"
    by (simp add: funded_store_def sample_get_def)
  with wallet_balances_unanswered [OF quiet_sample sample_bearer sample_verified row] show ?thesis by (auto simp: sample_wallet_def)
qed

end
