(* ===== verification/Tenant_Isolation.thy ===== *)
theory Tenant_Isolation
  imports Api_Guards
begin

text \<open>
  What a tenant's reading routes may depend on. Two runs on stores that agree on the rows of one
  tenant cannot be told apart by an operation that is \<open>blind\<close> to all other tenants; the rules
  below follow the shape of an operation, and the routes that list transactions, keys and audit
  entries are instances.
\<close>

section \<open>Stores that agree on a tenant\<close>

text \<open>
  The rows of the tenant: its transactions, API keys and audit entries. A transaction is read together with the
  token and the two wallets it names, so these rows belong to what the tenant may see, also where the receiving
  wallet is one of another tenant; no other row of the wallets and of the tokens does.
\<close>

definition same_tenant :: "string \<Rightarrow> store \<Rightarrow> store \<Rightarrow> bool" where
  "same_tenant T d d' \<longleftrightarrow>
     filter (\<lambda>t. tx_tenantId t = T) (transactions d) = filter (\<lambda>t. tx_tenantId t = T) (transactions d') \<and>
     (\<forall>t \<in> set (transactions d). tx_tenantId t = T \<longrightarrow>
        row tk_id (tokens d) (tx_tokenId t) = row tk_id (tokens d') (tx_tokenId t) \<and>
        row wa_id (wallets d) (tx_fromWalletId t) = row wa_id (wallets d') (tx_fromWalletId t) \<and>
        row wa_id (wallets d) (tx_toWalletId t) = row wa_id (wallets d') (tx_toWalletId t)) \<and>
     filter (\<lambda>k. ak_tenantId k = T) (apiKeys d) = filter (\<lambda>k. ak_tenantId k = T) (apiKeys d') \<and>
     filter (\<lambda>x. al_tenantId x = Some T) (auditLogs d) = filter (\<lambda>x. al_tenantId x = Some T) (auditLogs d')"

lemma same_tenant_views:
  assumes "same_tenant T d d'" "\<And>ts. set (f ts) \<subseteq> set ts"
  shows "map (view_of d) (f (filter (\<lambda>t. tx_tenantId t = T) (transactions d))) = map (view_of d') (f (filter (\<lambda>t. tx_tenantId t = T) (transactions d')))"
proof -
  have eq: "filter (\<lambda>t. tx_tenantId t = T) (transactions d) = filter (\<lambda>t. tx_tenantId t = T) (transactions d')"
    using assms(1) by (simp add: same_tenant_def)
  have "view_of d t = view_of d' t" if "t \<in> set (f (filter (\<lambda>t. tx_tenantId t = T) (transactions d)))" for t
  proof -
    have "t \<in> set (filter (\<lambda>t. tx_tenantId t = T) (transactions d))" using that assms(2) by blast
    then have "t \<in> set (transactions d)" "tx_tenantId t = T" by simp_all
    with assms(1) show ?thesis unfolding same_tenant_def view_of_def by simp
  qed
  then show ?thesis unfolding eq by (simp add: map_eq_conv)
qed

text \<open>What the other processes do to the rows of the tenant does not depend on the rows of others.\<close>

definition unbiased :: "string \<Rightarrow> env \<Rightarrow> bool" where
  "unbiased T e \<longleftrightarrow> (\<forall>n d d'. same_tenant T d d' \<longrightarrow> same_tenant T (env_interfere e n d) (env_interfere e n d'))"

definition alike :: "string \<Rightarrow> world \<Rightarrow> world \<Rightarrow> bool" where
  "alike T w w' \<longleftrightarrow> calls w = calls w' \<and> same_tenant T (db w) (db w')"

definition blind :: "string \<Rightarrow> env \<Rightarrow> 'a eff \<Rightarrow> bool" where
  "blind T e m \<longleftrightarrow> (\<forall>w w'. alike T w w' \<longrightarrow> fst (m e w) = fst (m e w') \<and> alike T (snd (m e w)) (snd (m e w')))"

named_theorems blind_intros "rules that follow the shape of an operation"

lemma blindI:
  "(\<And>w w'. alike T w w' \<Longrightarrow> fst (m e w) = fst (m e w') \<and> alike T (snd (m e w)) (snd (m e w'))) \<Longrightarrow> blind T e m"
  by (simp add: blind_def)

lemma blindD: "blind T e m \<Longrightarrow> alike T w w' \<Longrightarrow> m e w = (r, v) \<Longrightarrow> \<exists>v'. m e w' = (r, v') \<and> alike T v v'"
  unfolding blind_def by (metis fst_conv prod.collapse snd_conv)

lemma blind_return [blind_intros]: "blind T e (returnE a)"
  by (simp add: blind_def returnE_def)

lemma blind_throw [blind_intros]: "blind T e (throwE x)"
  by (simp add: blind_def throwE_def)

lemma blind_getNow [blind_intros]: "blind T e getNow"
  by (simp add: blind_def getNow_def alike_def)

lemma blind_library [blind_intros]: "blind T e (library g)"
  by (simp add: blind_def library_def alike_def)

lemma blind_bind [blind_intros]:
  assumes m: "blind T e m" and f: "\<And>a. blind T e (f a)"
  shows "blind T e (bindE m f)"
proof (rule blindI)
  fix w w' assume a: "alike T w w'"
  obtain r v where r: "m e w = (r, v)" by fastforce
  with blindD [OF m a] obtain v' where v': "m e w' = (r, v')" "alike T v v'" by blast
  with r f show "fst (bindE m f e w) = fst (bindE m f e w') \<and> alike T (snd (bindE m f e w)) (snd (bindE m f e w'))"
    by (cases r) (simp_all add: bindE_def blind_def)
qed

lemma blind_bind_yields:
  assumes m: "blind T e m" and "yields Q m" and f: "\<And>a. Q a \<Longrightarrow> blind T e (f a)"
  shows "blind T e (bindE m f)"
proof -
  have "blind T e (bindE m (\<lambda>a. if Q a then f a else throwE Crashed))" by (auto intro!: blind_intros m f)
  moreover have "bindE m (\<lambda>a. if Q a then f a else throwE Crashed) e w = bindE m f e w" for w
    using yieldsD [OF assms(2)] by (auto simp: bindE_def split: prod.splits sum.splits)
  ultimately show ?thesis by (simp add: blind_def)
qed

lemma blind_catch [blind_intros]:
  assumes m: "blind T e m" and h: "\<And>x. blind T e (h x)"
  shows "blind T e (catchE m h)"
proof (rule blindI)
  fix w w' assume a: "alike T w w'"
  obtain r v where r: "m e w = (r, v)" by fastforce
  with blindD [OF m a] obtain v' where v': "m e w' = (r, v')" "alike T v v'" by blast
  with r h show "fst (catchE m h e w) = fst (catchE m h e w') \<and> alike T (snd (catchE m h e w)) (snd (catchE m h e w'))"
    by (cases r) (simp_all add: catchE_def blind_def)
qed

lemma blind_query:
  assumes "unbiased T e" "\<And>d d'. same_tenant T d d' \<Longrightarrow> f d = f d'"
  shows "blind T e (query f)"
proof (rule blindI)
  fix w w' assume a: "alike T w w'"
  then have "same_tenant T (env_interfere e (calls w) (db w)) (env_interfere e (calls w') (db w'))"
    using assms(1) by (simp add: alike_def unbiased_def)
  with assms(2) a show "fst (query f e w) = fst (query f e w') \<and> alike T (snd (query f e w)) (snd (query f e w'))"
    by (auto simp: query_def statement_def arrive_def alike_def Let_def split: fault.split)
qed

lemma blind_case_option [blind_intros]:
  "(x = None \<Longrightarrow> blind T e m) \<Longrightarrow> (\<And>a. x = Some a \<Longrightarrow> blind T e (f a)) \<Longrightarrow> blind T e (case x of None \<Rightarrow> m | Some a \<Rightarrow> f a)"
  by (cases x) simp_all

lemma blind_case_sum [blind_intros]:
  "(\<And>a. x = Inl a \<Longrightarrow> blind T e (g a)) \<Longrightarrow> (\<And>a. x = Inr a \<Longrightarrow> blind T e (f a)) \<Longrightarrow> blind T e (case x of Inl a \<Rightarrow> g a | Inr a \<Rightarrow> f a)"
  by (cases x) simp_all

lemma blind_if [blind_intros]: "blind T e m \<Longrightarrow> blind T e m' \<Longrightarrow> blind T e (if b then m else m')"
  by simp

lemma blind_send [blind_intros]: "blind T e (send s v)" "blind T e (successResponse rq v s)"
  unfolding successResponse_def send_def by (intro blind_intros)+

lemma blind_lift [blind_intros]: "blind T e (liftE r)"
  unfolding liftE_def by (intro blind_intros)

lemma blind_handled [blind_intros]: "blind T e m \<Longrightarrow> blind T e (handled rq m)"
  unfolding handled_def error_handler_def by (auto intro!: blind_intros split: exn.split)

section \<open>The caller's tenant\<close>

text \<open>Whatever token the request carries is one of the tenant.\<close>

definition caller_of :: "crypto_lib \<Rightarrow> string \<Rightarrow> http_request \<Rightarrow> bool" where
  "caller_of c T rq \<longleftrightarrow> (\<forall>t n payload. bearer rq = Some t \<longrightarrow> cl_jwtVerify c n t = Inr payload \<longrightarrow> jp_tenantId payload = T)"

lemma blind_authenticate: "blind T e (authenticate c rq)"
  unfolding blind_def authenticate_bearer by (auto simp: alike_def split: option.split sum.split)

lemma authenticate_tenant:
  "caller_of c T rq \<Longrightarrow> yields (\<lambda>r. \<forall>u. r = Inr u \<longrightarrow> au_tenantId u = T) (authenticate c rq)"
  unfolding yields_def authenticate_bearer caller_of_def by (auto simp: user_of_def split: option.splits sum.splits if_splits)

lemma blind_protected:
  assumes "caller_of c T rq" "\<And>u. au_tenantId u = T \<Longrightarrow> blind T e (h u)"
  shows "blind T e (protected_route c roles rq h)"
  unfolding protected_route_def
  by (rule blind_bind_yields [OF blind_authenticate authenticate_tenant [OF assms(1)]])
    (auto intro!: blind_intros assms(2) split: sum.split option.split)

lemma find_filter: "List.find (\<lambda>x. P x \<and> Q x) xs = List.find P (filter Q xs)"
  by (induction xs) auto

lemma same_tenant_page:
  assumes "same_tenant T d d'"
  shows "map (view_of d) (page_rows page limit (order_desc tx_createdAt (filter (\<lambda>t. tx_tenantId t = T) (transactions d)))) =
    map (view_of d') (page_rows page limit (order_desc tx_createdAt (filter (\<lambda>t. tx_tenantId t = T) (transactions d'))))"
  by (rule same_tenant_views [OF assms, of "\<lambda>ts. page_rows page limit (order_desc tx_createdAt ts)"])
    (auto simp: page_rows_def order_desc_def dest!: in_set_takeD in_set_dropD)

lemma same_tenant_found:
  assumes "same_tenant T d d'"
  shows "map_option (view_of d) (List.find (\<lambda>t. tx_id t = i \<and> tx_tenantId t = T) (transactions d)) =
    map_option (view_of d') (List.find (\<lambda>t. tx_id t = i \<and> tx_tenantId t = T) (transactions d'))"
proof -
  have one: "map_option g (List.find P ts) = (case map g (filter P ts) of [] \<Rightarrow> None | v # _ \<Rightarrow> Some v)"
    for g :: "transaction \<Rightarrow> transaction_view" and P ts by (induction ts) auto
  have "map (view_of d) (filter (\<lambda>t. tx_id t = i) (filter (\<lambda>t. tx_tenantId t = T) (transactions d))) =
      map (view_of d') (filter (\<lambda>t. tx_id t = i) (filter (\<lambda>t. tx_tenantId t = T) (transactions d')))"
    by (rule same_tenant_views [OF assms]) auto
  then show ?thesis unfolding one by (simp add: filter_filter conj_commute)
qed

lemma blind_reads:
  assumes "unbiased T e"
  shows "blind T e (list_transactions T page limit)" "blind T e (getById i T)" "blind T e (listKeys T)" "blind T e (listForTenant T page limit)"
proof -
  show "blind T e (list_transactions T page limit)" unfolding list_transactions_def findAll_def
    by (rule blind_query [OF assms same_tenant_page])
  show "blind T e (getById i T)" unfolding getById_def findById_def by (rule blind_query [OF assms same_tenant_found])
  show "blind T e (listKeys T)" "blind T e (listForTenant T page limit)"
    unfolding listKeys_def listByTenant_def listForTenant_def audit_listByTenant_def
    by (auto intro!: blind_intros blind_query [OF assms] simp: same_tenant_def)
qed

section \<open>Property\<close>

text \<open>
  C31: tenants are isolated in what they read. For a request whose token is one of the tenant, the
  listing of transactions, a single transaction, the listing of API keys and the audit log are
  answered alike from any two stores that agree on the rows of the tenant and on the tokens and wallets that its
  transactions name, whatever transactions, wallets, keys and audit entries the other tenants have, and whatever fails
  meanwhile. The wallets named include the one that receives a transfer, which may be of another tenant.
\<close>

theorem tenant_isolation:
  assumes "r \<in> {GetTransactions, GetTransaction, GetApiKeys, GetAuditLogs}" "caller_of (ap_crypto p) T rq" "unbiased T e"
    and "calls w = calls w'" "same_tenant T (db w) (db w')"
  shows "fst (respond p r rq e w) = fst (respond p r rq e w')"
proof -
  have "blind T e (route_handler r p rq)"
    using assms(1,3)
    by (auto simp: get_transactions_def get_transaction_def get_api_keys_def get_audit_logs_def
        intro!: blind_protected [OF assms(2)] blind_intros blind_reads)
  then have "blind T e (respond p r rq)" unfolding respond_def by (rule blind_handled)
  with assms(4,5) show ?thesis by (simp add: blind_def alike_def)
qed

text \<open>A second tenant with a transaction and a wallet of its own.\<close>

definition other_tx :: transaction where
  "other_tx = (sample_tx PENDING)\<lparr>tx_id := ''tx-9'', tx_tenantId := ''rival''\<rparr>"

definition shared_store :: store where
  "shared_store = (sample_store EVM [other_tx, sample_tx SUBMITTED])\<lparr>wallets :=
     (sample_wallet ''wallet-9'' ''0xcc'' CUSTODIAL)\<lparr>wa_tenantId := ''rival''\<rparr> # wallets (sample_store EVM [])\<rparr>"

theorem tenant_isolation_witness:
  "fst (respond sample_api GetTransactions sample_get sample_env (world_of (sample_store EVM [sample_tx SUBMITTED]))) =
   fst (respond sample_api GetTransactions sample_get sample_env (world_of shared_store))"
proof (rule tenant_isolation [where T = "''acme''"])
  show "caller_of (ap_crypto sample_api) ''acme'' sample_get"
    by (simp add: caller_of_def sample_api_def sample_login_def)
  show "unbiased ''acme'' sample_env" by (simp add: unbiased_def sample_env_def)
  show "same_tenant ''acme'' (db (world_of (sample_store EVM [sample_tx SUBMITTED]))) (db (world_of shared_store))"
    by (simp add: same_tenant_def sample_store_def shared_store_def other_tx_def sample_wallet_def) (simp add: sample_tx_def)
qed simp_all

end
