(* ===== verification/Settlement.thy ===== *)
theory Settlement
  imports Delivery Transfer_Runs
begin

text \<open>
  The path of a transfer through the processes when nothing fails: the API process creates and
  submits it, a worker confirms it, the relay announces it.
\<close>

section \<open>The relay drains the outbox\<close>

lemma relay_drains:
  assumes "quiet e" "length (filter (\<lambda>ev. \<not> ob_published ev) (outbox (db w))) \<le> n"
  shows "\<exists>k w' ts. relay n e w = (Inr k, w') \<and> transactions (db w') = transactions (db w) \<and>
    outbox (db w') = update_rows (\<lambda>ev. ob_id ev \<in> ob_id ` {ev \<in> set (outbox (db w)). \<not> ob_published ev})
      (\<lambda>ev. ev\<lparr>ob_published := True, ob_publishedAt := Some ts\<rparr>) (outbox (db w)) \<and>
    set (relayQueue (db w')) = set (relayQueue (db w)) \<union> relay_job_of ` {ev \<in> set (outbox (db w)). \<not> ob_published ev}"
proof -
  let ?evs = "take n (order_asc ob_createdAt (filter (\<lambda>ev. \<not> ob_published ev) (outbox (db w))))"
  have all: "?evs = order_asc ob_createdAt (filter (\<lambda>ev. \<not> ob_published ev) (outbox (db w)))"
    using assms(2) by (simp add: order_asc_def)
  then have set: "set ?evs = {ev \<in> set (outbox (db w)). \<not> ob_published ev}" by simp
  show ?thesis
  proof (cases "?evs = []")
    case True
    then have none: "{ev \<in> set (outbox (db w)). \<not> ob_published ev} = {}" using set by (metis list.set(1))
    have "relay n e w = (Inr 0, w\<lparr>calls := Suc (calls w)\<rparr>)"
      using assms(1) True by (simp add: relay_def claimUnpublished_def eff_simps quiet_simps)
    then show ?thesis unfolding none by (simp add: update_rows_def)
  next
    case False
    then have "\<exists>w'. relay n e w = (Inr (length ?evs), w') \<and> transactions (db w') = transactions (db w) \<and>
        outbox (db w') = update_rows (\<lambda>ev. ob_id ev \<in> set (map ob_id ?evs))
          (\<lambda>ev. ev\<lparr>ob_published := True, ob_publishedAt := Some (env_clock e (Suc (Suc (calls w))))\<rparr>) (outbox (db w)) \<and>
        relayQueue (db w') = relayQueue (db w) @ map relay_job_of ?evs"
      using assms(1) by (simp add: relay_def claimUnpublished_def addBulk_def markPublished_def eff_simps quiet_simps Let_def)
    then obtain w' where w': "relay n e w = (Inr (length ?evs), w')" "transactions (db w') = transactions (db w)"
        "outbox (db w') = update_rows (\<lambda>ev. ob_id ev \<in> set (map ob_id ?evs))
          (\<lambda>ev. ev\<lparr>ob_published := True, ob_publishedAt := Some (env_clock e (Suc (Suc (calls w))))\<rparr>) (outbox (db w))"
        "relayQueue (db w') = relayQueue (db w) @ map relay_job_of ?evs" by blast
    have q: "set (relayQueue (db w')) = set (relayQueue (db w)) \<union> relay_job_of ` {ev \<in> set (outbox (db w)). \<not> ob_published ev}"
      unfolding w'(4) set_append set_map set ..
    show ?thesis using w'(1,2) w'(3) [unfolded set_map set] q by blast
  qed
qed

lemma relay_announces:
  assumes "quiet e" "length (filter (\<lambda>ev. \<not> ob_published ev) (outbox (db w))) \<le> n" "ev \<in> set (outbox (db w))" "\<not> ob_published ev"
  shows "\<exists>k w' ts. relay n e w = (Inr k, w') \<and> transactions (db w') = transactions (db w) \<and>
    ev\<lparr>ob_published := True, ob_publishedAt := Some ts\<rparr> \<in> set (outbox (db w')) \<and> relay_job_of ev \<in> set (relayQueue (db w'))"
proof -
  obtain k w' ts where r: "relay n e w = (Inr k, w')" "transactions (db w') = transactions (db w)"
    "outbox (db w') = update_rows (\<lambda>ev. ob_id ev \<in> ob_id ` {ev \<in> set (outbox (db w)). \<not> ob_published ev})
      (\<lambda>ev. ev\<lparr>ob_published := True, ob_publishedAt := Some ts\<rparr>) (outbox (db w))"
    "set (relayQueue (db w')) = set (relayQueue (db w)) \<union> relay_job_of ` {ev \<in> set (outbox (db w)). \<not> ob_published ev}"
    using relay_drains [OF assms(1,2)] by blast
  have unp: "ev \<in> {ev \<in> set (outbox (db w)). \<not> ob_published ev}" using assms(3,4) by simp
  have "ev\<lparr>ob_published := True, ob_publishedAt := Some ts\<rparr> \<in> set (outbox (db w'))"
    unfolding r(3) update_rows_def set_map by (rule image_eqI [OF _ assms(3)]) (use unp in auto)
  moreover have "relay_job_of ev \<in> set (relayQueue (db w'))" unfolding r(4) using unp by blast
  ultimately show ?thesis using r(1,2) by blast
qed

section \<open>Property\<close>

text \<open>
  C32: an admitted transfer settles. When the submission is accepted, the chain confirms, and
  nothing fails, the transfer returns a SUBMITTED transaction and queues its job; the worker that
  takes the job makes it CONFIRMED with the same terms and hash; and one run of the relay, whose
  batch holds the unpublished events, publishes its event and puts the event's job in the queue
  of the subscribers. Each step runs in a process of its own, with its own clock.
\<close>

theorem transfer_settles:
  assumes "quiet e1" "quiet e2" "quiet e3" "ledger_ok d" "admitted registry d rq tk f g a"
    and "\<And>n. row tx_id (transactions d) (env_uuid e1 n) = None" "\<And>n. row ob_id (outbox d) (env_uuid e2 n) = None"
    and "submits e1 d (ad_submitTransfer a (order_of rq tk f g)) (Inr h)" "h \<noteq> []"
    and "\<And>t. t \<in> set (transactions d) \<Longrightarrow> tx_txHash t \<noteq> Some h"
    and "answers e2 (ad_getTransaction a h) (Inr bt)" "bt_status bt = chain_confirmed" "bt_blockNumber bt = Some b"
    and "length (filter (\<lambda>ev. \<not> ob_published ev) (outbox d)) < n"
  shows "\<exists>t w1 w2 k w3 t' ev. transfer registry rq e1 (world_of d) = (Inr t, w1) \<and>
    \<lparr> cj_name = CONFIRM_TRANSACTION, cj_transactionId = tx_id t, cj_tenantId = rq_tenantId rq, cj_options = None \<rparr> \<in> set (confirmQueue (db w1)) \<and>
    processTransaction registry (tx_id t) (rq_tenantId rq) e2 (world_of (db w1)) = (Inr (), w2) \<and>
    relay n e3 (world_of (db w2)) = (Inr k, w3) \<and>
    row tx_id (transactions (db w3)) (tx_id t) = Some t' \<and> tx_status t' = CONFIRMED \<and> same_terms t t' \<and> tx_txHash t' = Some h \<and>
    ev \<in> set (outbox (db w3)) \<and> ob_aggregateId ev = tx_id t \<and> ob_type ev = ''transaction.confirmed'' \<and> ob_published ev \<and>
    relay_job_of ev \<in> set (relayQueue (db w3))"
proof -
  have pre: "ledger_ok (db (world_of d))" "admitted registry (db (world_of d)) rq tk f g a"
    "\<And>n. row tx_id (transactions (db (world_of d))) (env_uuid e1 n) = None"
    "submits e1 (db (world_of d)) (ad_submitTransfer a (order_of rq tk f g)) (Inr h)"
    "\<And>t. t \<in> set (transactions (db (world_of d))) \<Longrightarrow> tx_txHash t \<noteq> Some h"
    using assms(4-6,8,10) by simp_all
  obtain w1 i c s where w1: "transfer registry rq e1 (world_of d) = (Inr ((pending_row rq i c)\<lparr>tx_status := SUBMITTED,
      tx_txHash := Some h, tx_submittedAt := Some s\<rparr>), w1)"
    "db w1 = d\<lparr>transactions := transactions d @ [(pending_row rq i c)\<lparr>tx_status := SUBMITTED,
        tx_txHash := Some h, tx_submittedAt := Some s\<rparr>],
      confirmQueue := confirmQueue d @ [\<lparr> cj_name = CONFIRM_TRANSACTION, cj_transactionId = i,
        cj_tenantId = rq_tenantId rq, cj_options = None \<rparr>]\<rparr>" "row tx_id (transactions d) i = None"
    using transfer_accepted [OF assms(1) pre] unfolding world_of_simps by blast
  define t where "t = (pending_row rq i c)\<lparr>tx_status := SUBMITTED, tx_txHash := Some h, tx_submittedAt := Some s\<rparr>"
  note w1 = w1 [folded t_def]
  have t: "tx_id t = i" "tx_tenantId t = rq_tenantId rq" "tx_txHash t = Some h" "tx_status t = SUBMITTED" "tx_tokenId t = rq_tokenId rq" "tx_wf t"
    by (simp_all add: t_def pending_row_def tx_wf_def)
  have "h \<notin> set (tx_hashes (transactions d))" using assms(10) by (auto simp: tx_hashes_mem)
  moreover have "tx_hashes (transactions d @ [t]) = tx_hashes (transactions d) @ [h]" using t(3) by (simp add: tx_hashes_def)
  ultimately have ok: "ledger_ok (db w1)"
    using assms(4) w1(3) t(1,6) by (auto simp: w1(2) ledger_ok_def keyed_append_one)
  have del: "delivered registry (db (world_of (db w1))) i (rq_tenantId rq) t h a"
    using ok assms(5,9) t w1(3) by (auto simp: delivered_def admitted_def row_append w1(2))
  have fresh: "\<And>n. row ob_id (outbox (db (world_of (db w1)))) (env_uuid e2 n) = None" using assms(7) by (simp add: w1(2))
  have sub: "tx_status t = SUBMITTED \<or> tx_status t = CONFIRMING" using t by simp
  obtain w2 t' eid ct where w2: "processTransaction registry i (rq_tenantId rq) e2 (world_of (db w1)) = (Inr (), w2)"
    "db w2 = (put_tx t' (db w1))\<lparr>outbox := outbox (db w1) @ [confirmed_event eid t' ct]\<rparr>"
    "same_terms t t'" "tx_txHash t' = Some h" "tx_status t' = CONFIRMED"
    using delivery_confirms [OF assms(2) del assms(11-13) sub fresh] unfolding world_of_simps by blast
  let ?ev = "confirmed_event eid t' ct"
  have id': "tx_id t' = i" using w2(3) t(1) by (simp add: same_terms_def)
  have out: "outbox (db w2) = outbox d @ [?ev]" by (simp add: w2(2) w1(2))
  obtain k w3 ts where w3: "relay n e3 (world_of (db w2)) = (Inr k, w3)" "transactions (db w3) = transactions (db w2)"
    "?ev\<lparr>ob_published := True, ob_publishedAt := Some ts\<rparr> \<in> set (outbox (db w3))" "relay_job_of ?ev \<in> set (relayQueue (db w3))"
    using relay_announces [OF assms(3), of "world_of (db w2)" n ?ev] assms(14) out by (auto simp: confirmed_event_def)
  have "row tx_id (transactions (db w3)) i = Some t'"
    using put_tx_row [of t' "db w1" i] id' t(1) w1(3) by (simp add: w3(2) w2(2) w1(2) row_append)
  moreover have "ob_aggregateId ?ev = i" "ob_type ?ev = ''transaction.confirmed''" using id' by (simp_all add: confirmed_event_def)
  ultimately show ?thesis
    using w1(1) w2 w3 t(1)
    by (intro exI [of _ t] exI [of _ w1] exI [of _ w2] exI [of _ k] exI [of _ w3] exI [of _ t']
        exI [of _ "?ev\<lparr>ob_published := True, ob_publishedAt := Some ts\<rparr>"]) (simp add: w1(2))
qed

theorem transfer_settles_witness:
  "\<exists>t w1 w2 k w3 t'. transfer (sample_registry (Inr True) (Inr None)) (sample_request ''wallet-1'' 5) sample_env
       (world_of (sample_store EVM [])) = (Inr t, w1) \<and>
     processTransaction (sample_registry (Inr True) (Inr None)) (tx_id t) ''acme'' sample_env (world_of (db w1)) = (Inr (), w2) \<and>
     relay 50 sample_env (world_of (db w2)) = (Inr k, w3) \<and>
     row tx_id (transactions (db w3)) (tx_id t) = Some t' \<and> tx_status t' = CONFIRMED"
proof -
  let ?a = "sample_adapter (Inr True) (Inr None) EVM"
  let ?r = "receipt_of ''0xbeef'' \<lparr> er_success = True, er_blockNumber = 90, er_gasUsed = 21000, er_transactionHash = ''0xbeef'' \<rparr>"
  have ans: "answers sample_env (ad_getTransaction ?a ''0xbeef'') (Inr ?r)"
    unfolding sample_adapter_def by simp (rule evm_answers, simp_all add: sample_node_def)
  have st: "transactions (sample_store EVM []) = []" "ledger_ok (sample_store EVM [])" "outbox (sample_store EVM []) = []"
    by (simp_all add: sample_store_def ledger_ok_def tx_hashes_def empty_store_def)
  have req: "rq_tenantId (sample_request ''wallet-1'' 5) = ''acme''" by (simp add: sample_request_def)
  show ?thesis
    using transfer_settles [OF quiet_sample quiet_sample quiet_sample st(2) sample_admitted _ _ sample_evm_submits _ _ ans, of 90 50] st req
    by (fastforce simp: receipt_of_def)
qed

end
