(* ===== verification/Custody.thy ===== *)
theory Custody
  imports Envelope Transfer_Runs
begin

text \<open>
  The keys of custodial wallets from their creation to a signature: \<^verbatim>\<open>custodial-wallet.service.ts\<close>
  stores what \<^verbatim>\<open>crypto/envelope.ts\<close> sealed, and the signers open it again.
\<close>

section \<open>A sample of the key service\<close>

definition sample_kms :: kms_lib where
  "sample_kms = \<lparr> km_encrypt = (\<lambda>n k m. Inr (Some m)), km_decrypt = (\<lambda>n k c. Inr (Some c)),
     km_randomBytes = (\<lambda>n k. replicate k (n mod 256)), km_gcmSeal = (\<lambda>key iv m. (m, replicate 16 7)),
     km_gcmOpen = (\<lambda>key iv t c. if t = replicate 16 7 then Inr c else Inl (PlainError ''unable to authenticate data'')),
     km_text = (\<lambda>bs. ''?'') \<rparr>"

lemma sample_cipher_laws: "cipher_laws sample_kms"
  by (simp add: cipher_laws_def sample_kms_def bytes_ok_def)

definition local_vars :: "string \<Rightarrow> string option" where
  "local_vars k = (if k = ''KMS_PROVIDER'' then Some ''local'' else if k = ''LOCAL_KMS_MASTER_KEY'' then Some (replicate 64 (CHR ''a'')) else None)"

section \<open>Creation and signature\<close>

text \<open>The columns of wallets and keys that are unique.\<close>

definition wallets_ok :: "store \<Rightarrow> bool" where
  "wallets_ok d \<longleftrightarrow> keyed wa_id (wallets d) \<and> keyed wa_address (wallets d) \<and> keyed ck_walletId (custodyKeys d)"

lemma createCustodial_quiet:
  assumes "quiet e" "wallets_ok (db w)" "\<And>n. row wa_id (wallets (db w)) (env_uuid e n) = None"
    and "\<And>n. row ck_walletId (custodyKeys (db w)) (env_uuid e n) = None"
    and "row wa_address (wallets (db w)) (normalizeWalletAddress evm cid addr) = None"
  obtains x k w1 where "createCustodial evm tn ow cid addr c kid e w = (Inr x, w1)"
    "db w1 = (db w)\<lparr>wallets := wallets (db w) @ [x], custodyKeys := custodyKeys (db w) @ [k]\<rparr>"
    "wa_tenantId x = tn" "wa_ownerId x = ow" "wa_chainId x = cid" "wa_address x = normalizeWalletAddress evm cid addr" "wa_custodyType x = CUSTODIAL"
    "row wa_id (wallets (db w)) (wa_id x) = None" "ck_walletId k = wa_id x" "ck_encryptedKey k = c" "ck_kmsKeyId k = kid"
    "row ck_walletId (custodyKeys (db w)) (wa_id x) = None"
  using assms that
  by (simp add: createCustodial_def wallet_insert_def wallets_ok_def keyed_append_one bindE_def randomUUID_def getNow_def statement_quiet)

lemma signing_quiet:
  assumes "quiet e" "row wa_id (wallets (db w)) i = None" "wa_id x = i" "wa_custodyType x = CUSTODIAL" "ck_walletId k = i"
    and "row ck_walletId (custodyKeys (db w)) i = None"
    and "db w1 = (db w)\<lparr>wallets := wallets (db w) @ [x], custodyKeys := custodyKeys (db w) @ [k]\<rparr>"
  shows "fst (signing_secret decrypt i tn e w1) =
    (if wa_tenantId x = tn then decrypt (Suc (calls w1)) (ck_encryptedKey k) (ck_kmsKeyId k) else Inl (walletNotFound None))"
proof -
  have "List.find (\<lambda>y. wa_id y = i \<and> wa_tenantId y = tn) (wallets (db w)) = None"
    using assms(2) by (auto simp: find_None_iff row_None_iff)
  then show ?thesis
    using assms by (simp add: signing_secret_def findByIdForTenantWithCustody_def bindE_def query_quiet external_quiet throwE_def find_append row_append)
qed

text \<open>
  A key that was attached signs: whatever the wallet was before, and also on a second run, opening
  its key gives the key of the script to the wallet's tenant.
\<close>

lemma keyed_filter: "keyed key rs \<Longrightarrow> keyed key (filter P rs)"
  by (induction rs) (auto simp: keyed_def)

lemma row_filter_other: "row key (filter (\<lambda>r. key r \<noteq> i) rs) i = None"
  by (induction rs) auto

lemma attach_runs:
  assumes "quiet e" "wallets_ok (db w)" "row wa_id (wallets (db w)) i = Some x" "vars ''WALLET_ID'' = Some i" "vars ''PRIVATE_KEY_HEX'' = Some s"
    and "i \<noteq> []" "s \<noteq> []" "kid = (case vars ''KMS_KEY_ID'' of None \<Rightarrow> ''test-key'' | Some k \<Rightarrow> k)" "encryptWalletKey km vars (calls w) s kid = Inr c"
  shows "\<exists>w1 keyId. attach_custody_key km vars e w = (Inr (), w1) \<and>
    db w1 = (db w)\<lparr>wallets := update_rows (\<lambda>x. wa_id x = i) (\<lambda>x. x\<lparr>wa_custodyType := CUSTODIAL\<rparr>) (wallets (db w)),
      custodyKeys := filter (\<lambda>k. ck_walletId k \<noteq> i) (custodyKeys (db w)) @
        [\<lparr> ck_id = keyId, ck_walletId = i, ck_encryptedKey = c, ck_kmsKeyId = kid \<rparr>]\<rparr>"
proof -
  have "keyed ck_walletId (filter (\<lambda>k. ck_walletId k \<noteq> i) (custodyKeys (db w)) @
      [\<lparr> ck_id = z, ck_walletId = i, ck_encryptedKey = c, ck_kmsKeyId = kid \<rparr>])" for z
    using assms(2) by (simp add: wallets_ok_def keyed_append_one keyed_filter row_filter_other)
  then show ?thesis
    using assms by (simp add: attach_custody_key_def present_def bindE_def Let_def quiet_simps) blast
qed

theorem attached_key_signs:
  assumes "quiet e" "cipher_laws km" "wallets_ok (db w)" "row wa_id (wallets (db w)) i = Some x" "vars ''WALLET_ID'' = Some i"
    and "vars ''PRIVATE_KEY_HEX'' = Some s" "i \<noteq> []" "s \<noteq> []" "kid = (case vars ''KMS_KEY_ID'' of None \<Rightarrow> ''test-key'' | Some k \<Rightarrow> k)"
    and "encryptWalletKey km vars (calls w) s kid = Inr c"
  shows "\<exists>w1. attach_custody_key km vars e w = (Inr (), w1) \<and> wallets_ok (db w1) \<and>
    fst (signing_secret (decryptWalletKey km vars) i (wa_tenantId x) e (world_of (db w1))) = Inr s"
proof -
  obtain w1 keyId where r: "attach_custody_key km vars e w = (Inr (), w1)"
    "db w1 = (db w)\<lparr>wallets := update_rows (\<lambda>x. wa_id x = i) (\<lambda>x. x\<lparr>wa_custodyType := CUSTODIAL\<rparr>) (wallets (db w)),
      custodyKeys := filter (\<lambda>k. ck_walletId k \<noteq> i) (custodyKeys (db w)) @
        [\<lparr> ck_id = keyId, ck_walletId = i, ck_encryptedKey = c, ck_kmsKeyId = kid \<rparr>]\<rparr>"
    using attach_runs [OF assms(1,3-10)] by blast
  have ok: "wallets_ok (db w1)" using assms(3) by (simp add: r(2) wallets_ok_def keyed_append_one keyed_filter row_filter_other)
  have wx: "row wa_id (wallets (db w1)) i = Some (x\<lparr>wa_custodyType := CUSTODIAL\<rparr>)"
    using assms(4) row_SomeD [OF assms(4)] by (simp add: r(2) row_update)
  have "List.find (\<lambda>y. wa_id y = i \<and> wa_tenantId y = wa_tenantId x) (wallets (db w1)) = Some (x\<lparr>wa_custodyType := CUSTODIAL\<rparr>)"
    using find_keyed [of wa_id "wallets (db w1)" i "\<lambda>y. wa_tenantId y = wa_tenantId x"] ok wx by (simp add: wallets_ok_def)
  moreover have "row ck_walletId (custodyKeys (db w1)) i = Some \<lparr> ck_id = keyId, ck_walletId = i, ck_encryptedKey = c, ck_kmsKeyId = kid \<rparr>"
    by (simp add: r(2) row_append row_filter_other)
  ultimately have "fst (signing_secret (decryptWalletKey km vars) i (wa_tenantId x) e (world_of (db w1))) = Inr s"
    using assms(1) row_SomeD [OF assms(4)] envelope_round_trip [OF assms(2,10)]
    by (simp add: signing_secret_def findByIdForTenantWithCustody_def bindE_def query_quiet external_quiet)
  then show ?thesis using r(1) ok by blast
qed

section \<open>Property\<close>

text \<open>
  C33: a custodial wallet can sign. When nothing fails, the creation of a custodial wallet stores a
  wallet of the caller and, sealed by the configured provider, the secret the adapter generated;
  from then on the wallet counts as one the platform can sign for, opening its key gives exactly
  that secret, and a request of any other tenant for it is refused as if there were no such wallet.
  The provider is assumed to open what it sealed.
\<close>

theorem custody_round_trip:
  assumes "quiet e" "cipher_laws km" "blockchainForChainId evm cid = Some b"
    and "List.find (\<lambda>a. ad_chain a = toUpperCase (blockchain_name b)) registry = Some a" "ad_createCustodialWallet a = Some generate"
    and "\<And>w. \<exists>w'. generate e w = (Inr (addr, secret), w') \<and> db w' = db w"
    and "getWalletKmsKeyId vars = Inr kid" "\<And>n. \<exists>c. encryptWalletKey km vars n secret kid = Inr c"
    and "wallets_ok (db w)" "\<And>n. row wa_id (wallets (db w)) (env_uuid e n) = None"
    and "\<And>n. row ck_walletId (custodyKeys (db w)) (env_uuid e n) = None"
    and "row wa_address (wallets (db w)) (normalizeWalletAddress evm cid addr) = None"
  shows "\<exists>x w1. createCustodialWallet evm registry (getWalletKmsKeyId vars) (encryptWalletKey km vars) tn ow cid e w = (Inr x, w1) \<and>
    wa_tenantId x = tn \<and> wa_ownerId x = ow \<and> wa_chainId x = cid \<and> wa_address x = normalizeWalletAddress evm cid addr \<and>
    row wa_id (wallets (db w1)) (wa_id x) = Some x \<and> per_wallet_canSign (custody_of (db w1) x) \<and>
    (\<forall>e' w' tn'. quiet e' \<longrightarrow> db w' = db w1 \<longrightarrow>
       fst (signing_secret (decryptWalletKey km vars) (wa_id x) tn' e' w') = (if tn' = tn then Inr secret else Inl (walletNotFound None)))"
proof -
  obtain w0 where w0: "generate e w = (Inr (addr, secret), w0)" "db w0 = db w" using assms(6) by blast
  obtain c where c: "encryptWalletKey km vars (calls w0) secret kid = Inr c" using assms(8) by blast
  let ?w = "w0\<lparr>calls := Suc (calls w0)\<rparr>"
  have dbw: "db ?w = db w" using w0(2) by simp
  note pre = assms(9-12) [folded dbw]
  obtain x k w1 where x': "createCustodial evm tn ow cid addr c kid e ?w = (Inr x, w1)"
    "db w1 = (db ?w)\<lparr>wallets := wallets (db ?w) @ [x], custodyKeys := custodyKeys (db ?w) @ [k]\<rparr>"
    "wa_tenantId x = tn" "wa_ownerId x = ow" "wa_chainId x = cid" "wa_address x = normalizeWalletAddress evm cid addr" "wa_custodyType x = CUSTODIAL"
    "row wa_id (wallets (db ?w)) (wa_id x) = None" "ck_walletId k = wa_id x" "ck_encryptedKey k = c" "ck_kmsKeyId k = kid"
    "row ck_walletId (custodyKeys (db ?w)) (wa_id x) = None"
    by (rule createCustodial_quiet [OF assms(1) pre(1) pre(2) pre(3) pre(4)])
  note x = x' [unfolded dbw]
  have create: "createCustodialWallet evm registry (getWalletKmsKeyId vars) (encryptWalletKey km vars) tn ow cid e w = (Inr x, w1)"
    using assms(1,3-5,7) w0(1) c x(1)
    by (simp add: createCustodialWallet_def registry_get_def liftE_def bindE_def returnE_def external_quiet)
  have sign: "fst (signing_secret (decryptWalletKey km vars) (wa_id x) tn' e' w') = (if tn' = tn then Inr secret else Inl (walletNotFound None))"
    if "quiet e'" "db w' = db w1" for e' w' tn'
    using signing_quiet [OF that(1) x(8) refl x(7,9,12), of w'] envelope_round_trip [OF assms(2) c] that(2) x(2,3,10,11) by auto
  have "per_wallet_canSign (custody_of (db w1) x)"
    using x(2,7,9,12) by (simp add: per_wallet_canSign_def custody_of_def row_append)
  moreover have "row wa_id (wallets (db w1)) (wa_id x) = Some x" using x(2,8) by (simp add: row_append)
  ultimately show ?thesis using create sign x(3-6) by blast
qed

theorem custody_round_trip_witness:
  "\<exists>x w1. createCustodialWallet 11155111 (sample_registry (Inr True) (Inr None)) (getWalletKmsKeyId local_vars) (encryptWalletKey sample_kms local_vars)
      ''acme'' ''alice'' 11155111 sample_env (world_of (sample_store EVM [])) = (Inr x, w1) \<and>
     fst (signing_secret (decryptWalletKey sample_kms local_vars) (wa_id x) ''acme'' sample_env (world_of (db w1))) = Inr ''secret'' \<and>
     fst (signing_secret (decryptWalletKey sample_kms local_vars) (wa_id x) ''rival'' sample_env (world_of (db w1))) = Inl (walletNotFound None)"
proof -
  have b: "blockchainForChainId 11155111 11155111 = Some EVM" by (simp add: blockchainForChainId_def isEvmChainId_def)
  have gen: "ad_createCustodialWallet (sample_adapter (Inr True) (Inr None) EVM) = Some (evm_createCustodialWallet (sample_node (Inr True)))"
    by (simp add: sample_adapter_def evm_adapter_def)
  have run: "\<exists>w'. evm_createCustodialWallet (sample_node (Inr True)) sample_env w = (Inr (''0xcc'', ''secret''), w') \<and> db w' = db w" for w
    by (simp add: evm_createCustodialWallet_def sample_node_def eff_simps external_quiet)
  have kid: "getWalletKmsKeyId local_vars = Inr ''local''"
    by (simp add: getWalletKmsKeyId_def local_vars_def isLocalProvider_def)
  have enc: "\<exists>c. encryptWalletKey sample_kms local_vars n ''secret'' ''local'' = Inr c" for n
    by (simp add: encryptWalletKey_def encryptLocal_def getLocalMasterKey_def parseLocalMasterKey_def local_vars_def sample_kms_def
        isLocalProvider_def Let_def trim_def is_space_def hex_nibble_def list_all_iff)
  have st: "wallets_ok (db (world_of (sample_store EVM [])))"
    by (simp add: wallets_ok_def sample_store_def sample_wallet_def keyed_def)
  have ids: "row wa_id (wallets (db (world_of (sample_store EVM [])))) (env_uuid sample_env n) = None"
    "row ck_walletId (custodyKeys (db (world_of (sample_store EVM [])))) (env_uuid sample_env n) = None" for n
    by (simp_all add: sample_store_def sample_env_def sample_ids_def sample_wallet_def)
  have fresh: "row wa_address (wallets (db (world_of (sample_store EVM [])))) (normalizeWalletAddress 11155111 11155111 ''0xcc'') = None"
    by (simp add: sample_store_def sample_wallet_def normalizeWalletAddress_def isCaseInsensitiveWalletAddress_def isEvmChainId_def toLowerCase_def lower_char_def Let_def)
  obtain x w1 where x: "createCustodialWallet 11155111 (sample_registry (Inr True) (Inr None)) (getWalletKmsKeyId local_vars)
      (encryptWalletKey sample_kms local_vars) ''acme'' ''alice'' 11155111 sample_env (world_of (sample_store EVM [])) = (Inr x, w1)"
    and sign: "\<And>e' w' tn'. quiet e' \<Longrightarrow> db w' = db w1 \<Longrightarrow> fst (signing_secret (decryptWalletKey sample_kms local_vars) (wa_id x) tn' e' w') =
       (if tn' = ''acme'' then Inr ''secret'' else Inl (walletNotFound None))"
    using custody_round_trip [OF quiet_sample sample_cipher_laws b sample_find gen run kid enc st ids fresh, of "''acme''" "''alice''"] by blast
  have "fst (signing_secret (decryptWalletKey sample_kms local_vars) (wa_id x) ''acme'' sample_env (world_of (db w1))) = Inr ''secret''"
    by (subst sign) simp_all
  moreover have "fst (signing_secret (decryptWalletKey sample_kms local_vars) (wa_id x) ''rival'' sample_env (world_of (db w1))) =
    Inl (walletNotFound None)"
    by (subst sign) simp_all
  ultimately show ?thesis using x by blast
qed

end
