(* ===== verification/Deploy_Safety.thy ===== *)
theory Deploy_Safety
  imports Chains Base64url
begin

text \<open>
  The guards of a live deployment, \<^verbatim>\<open>blockchain/evm/deploy-safety.ts\<close>, and what a failed call to
  a provider may print. An error of a provider is an object of which only \<^verbatim>\<open>shortMessage\<close>,
  \<^verbatim>\<open>details\<close>, \<^verbatim>\<open>message\<close> and its conversion to a string are read. The origin of a URL, as computed
  by \<^verbatim>\<open>new URL(url).origin\<close>, and the accounts derived from a mnemonic are parameters.
\<close>

section \<open>Errors and accounts\<close>

record raw_error =
  re_shortMessage :: "string option"
  re_details :: "string option"
  re_message :: "string option"
  re_string :: string

datatype deploy_error = DeploySafetyError string | RawError raw_error

definition plain_error :: "string \<Rightarrow> raw_error" where
  "plain_error m = \<lparr> re_shortMessage = None, re_details = None, re_message = Some m, re_string = ''Error: '' @ m \<rparr>"

definition DEV_MNEMONIC :: string where
  "DEV_MNEMONIC = ''test test test test test test test test test test test junk''"

definition DEV_ACCOUNT_COUNT :: nat where "DEV_ACCOUNT_COUNT = 20"

definition wellKnownDevAddresses :: "(string \<Rightarrow> nat \<Rightarrow> string) \<Rightarrow> string list" where
  "wellKnownDevAddresses mnemonicToAccount = map (\<lambda>i. toLowerCase (mnemonicToAccount DEV_MNEMONIC i)) [0..<DEV_ACCOUNT_COUNT]"

definition isWellKnownDevAccount :: "(string \<Rightarrow> nat \<Rightarrow> string) \<Rightarrow> string \<Rightarrow> bool" where
  "isWellKnownDevAccount mnemonicToAccount address =
     list_ex (\<lambda>a. a = toLowerCase address) (wellKnownDevAddresses mnemonicToAccount)"

text \<open>\<^verbatim>\<open>/^0x[0-9a-fA-F]{64}$/\<close> after the prefix has been put in place.\<close>

definition parseDeployerKey :: "string option \<Rightarrow> deploy_error + string" where
  "parseDeployerKey raw =
     (let trimmed = (case raw of None \<Rightarrow> [] | Some v \<Rightarrow> trim v) in
      if trimmed = [] then Inl (DeploySafetyError ''PRIVATE_KEY is not set'')
      else let withPrefix = (if startsWith trimmed ''0x'' then trimmed else ''0x'' @ trimmed) in
        if \<not> (length withPrefix = 66 \<and> list_all (\<lambda>c. hex_nibble c \<noteq> None) (drop 2 withPrefix))
        then Inl (DeploySafetyError ''PRIVATE_KEY is not a 32-byte hex private key'')
        else Inr withPrefix)"

section \<open>Redaction\<close>

text \<open>\<^verbatim>\<open>[^\s"'<>)]\<close>: white space includes the no-break space.\<close>

definition url_char :: "char \<Rightarrow> bool" where
  "url_char c = (\<not> (is_space c \<or> c = CHR 0xA0 \<or> c = CHR 0x22 \<or> c = CHR 0x27 \<or> c = CHR ''<'' \<or> c = CHR ''>'' \<or> c = CHR '')''))"

text \<open>Whether \<^verbatim>\<open>/https?:\/\/[^\s"'<>)]+/\<close> matches at the start of a text, and the match.\<close>

fun url_at :: "string \<Rightarrow> string \<Rightarrow> bool" where
  "url_at p [] = False"
| "url_at [] (c # s) = url_char c"
| "url_at (x # p) (c # s) = (x = c \<and> url_at p s)"

definition schemes :: "string list" where
  "schemes = [''http://'', ''https://'']"

definition url_match :: "string \<Rightarrow> nat option" where
  "url_match s = map_option (\<lambda>p. length p + length (takeWhile url_char (drop (length p) s))) (List.find (\<lambda>p. url_at p s) schemes)"

definition redactRpcUrl :: "(string \<Rightarrow> string option) \<Rightarrow> string \<Rightarrow> string" where
  "redactRpcUrl origin url = (case origin url of Some b \<Rightarrow> b | None \<Rightarrow> ''<invalid RPC_URL>'')"

text \<open>Sentence punctuation, \<^verbatim>\<open>/[.,;:!?]+$/\<close>.\<close>

definition punctuation :: "char \<Rightarrow> bool" where
  "punctuation c = (c \<in> {CHR ''.'', CHR '','', CHR '';'', CHR '':'', CHR ''!'', CHR ''?''})"

definition redact_match :: "(string \<Rightarrow> string option) \<Rightarrow> string \<Rightarrow> string" where
  "redact_match origin m =
     (let trailing = rev (takeWhile punctuation (rev m)); url = take (length m - length trailing) m in redactRpcUrl origin url @ trailing)"

lemma url_match_pos: "url_match s = Some n \<Longrightarrow> 0 < n"
  by (auto simp: url_match_def schemes_def split: if_splits)

lemma url_match_nonempty: "url_match [] = None"
  by (simp add: url_match_def schemes_def)

function redactUrlsInText :: "(string \<Rightarrow> string option) \<Rightarrow> string \<Rightarrow> string" where
  "redactUrlsInText origin s =
     (case url_match s of
        Some n \<Rightarrow> redact_match origin (take n s) @ redactUrlsInText origin (drop n s)
      | None \<Rightarrow> (case s of [] \<Rightarrow> [] | c # cs \<Rightarrow> c # redactUrlsInText origin cs))"
  by pat_completeness auto
termination
proof (relation "measure (\<lambda>(f, s). length s)")
  fix origin :: "string \<Rightarrow> string option" and s n
  assume "url_match s = Some n"
  then show "((origin, drop n s), origin, s) \<in> measure (\<lambda>(f, s). length s)"
    using url_match_pos [of s n] url_match_nonempty by (cases s) auto
qed auto

declare redactUrlsInText.simps [simp del]

definition first_line :: "string \<Rightarrow> string" where
  "first_line s = takeWhile (\<lambda>c. c \<noteq> CHR 0x0A) s"

definition describeRpcError :: "(string \<Rightarrow> string option) \<Rightarrow> raw_error \<Rightarrow> string" where
  "describeRpcError origin e =
     (let parts = map first_line (filter (\<lambda>p. p \<noteq> []) (map the (filter (\<lambda>p. p \<noteq> None) [re_shortMessage e, re_details e])));
          shown = (case parts of
             [a, b] \<Rightarrow> a @ '': '' @ b
           | [a] \<Rightarrow> a
           | _ \<Rightarrow> (case re_message e of Some m \<Rightarrow> first_line m | None \<Rightarrow> re_string e))
      in take 300 (redactUrlsInText origin shown))"

section \<open>The guard\<close>

record deploy_check =
  dc_configuredChainId :: int
  dc_rpcChainId :: int
  dc_deployerAddress :: string
  dc_balance :: int
  dc_estimatedCost :: int

definition isLocalChain :: "int \<Rightarrow> bool" where
  "isLocalChain chainId = (chainId = ANVIL_CHAIN_ID)"

definition assertDeployAllowed :: "(string \<Rightarrow> nat \<Rightarrow> string) \<Rightarrow> deploy_check \<Rightarrow> deploy_error + unit" where
  "assertDeployAllowed mnemonicToAccount i =
     (if dc_rpcChainId i \<noteq> dc_configuredChainId i then
        Inl (DeploySafetyError (''RPC_URL serves chain '' @ show_int (dc_rpcChainId i) @ '' but EVM_CHAIN_ID is '' @
          show_int (dc_configuredChainId i) @ ''. Refusing to deploy to a network you did not configure. Set EVM_CHAIN_ID to the '' @
          ''chain you mean to deploy to, and check RPC_URL points at it.''))
      else if \<not> isLocalChain (dc_configuredChainId i) \<and> isWellKnownDevAccount mnemonicToAccount (dc_deployerAddress i) then
        Inl (DeploySafetyError (dc_deployerAddress i @ '' is a well-known development account (Anvil/Hardhat default). '' @
          ''Its private key is public, so anyone could mint or pause a token it owns. Generate a fresh key for this network.''))
      else if dc_balance i = 0 then
        Inl (DeploySafetyError (dc_deployerAddress i @ '' has no funds on chain '' @ show_int (dc_configuredChainId i) @
          ''. Send it enough native token to pay for deployment gas, then re-run.''))
      else if dc_balance i < dc_estimatedCost i then
        Inl (DeploySafetyError (dc_deployerAddress i @ '' holds '' @ show_int (dc_balance i) @
          '' wei but deployment is estimated to cost about '' @ show_int (dc_estimatedCost i) @ '' wei. Add funds and re-run.''))
      else Inr ())"

section \<open>What redaction leaves\<close>

text \<open>
  What a printed text may show of an address, written from the syntax of URLs and not from the pattern above. The
  characters of an address are those of RFC 3986 (letters, digits and some signs), less the apostrophe and the closing parenthesis, which end an
  address in running text. An address shows its origin only when what follows its scheme has no path, query,
  fragment or user: none of the characters that begin these, but for question marks among the punctuation of the
  sentence at its end.
\<close>

definition address_char :: "char \<Rightarrow> bool" where
  "address_char c \<longleftrightarrow> (let n = of_char c :: nat in 97 \<le> n \<and> n \<le> 122 \<or> 65 \<le> n \<and> n \<le> 90 \<or> 48 \<le> n \<and> n \<le> 57) \<or>
     c \<in> set ''-._~:/?#[]@!$&(*+,;=%''"

definition origin_only :: "string \<Rightarrow> bool" where
  "origin_only r \<longleftrightarrow> (\<exists>h p. r = h @ p \<and> set h \<inter> set ''/?#@'' = {} \<and> set p \<subseteq> set ''.,;:!?'')"

definition shows_origins :: "string \<Rightarrow> bool" where
  "shows_origins y \<longleftrightarrow> (\<forall>a s x. y = a @ s @ x \<longrightarrow> s \<in> {''http://'', ''https://''} \<longrightarrow> origin_only (takeWhile address_char x))"

text \<open>The origin of a URL is its scheme, its host and perhaps its port.\<close>

definition origin_law :: "(string \<Rightarrow> string option) \<Rightarrow> bool" where
  "origin_law origin \<longleftrightarrow> (\<forall>p r b. p \<in> {''http://'', ''https://''} \<longrightarrow> origin (p @ r) = Some b \<longrightarrow>
     (\<exists>s h. b = s @ h \<and> s \<in> {''http://'', ''https://''} \<and> set h \<inter> set ''/?#@'' = {}))"

lemma redact_steps [simp]:
  "redactUrlsInText origin [] = []"
  "url_match (c # cs) = None \<Longrightarrow> redactUrlsInText origin (c # cs) = c # redactUrlsInText origin cs"
  by (simp_all add: redactUrlsInText.simps [of origin "[]"] redactUrlsInText.simps [of origin "c # cs"] url_match_nonempty)

lemma redact_hit: "url_match s = Some n \<Longrightarrow> redactUrlsInText origin s = redact_match origin (take n s) @ redactUrlsInText origin (drop n s)"
  by (simp add: redactUrlsInText.simps [of origin s])

lemma url_char_facts [simp]: "url_char (CHR ''h'')" "\<not> url_char (CHR ''<'')" "\<not> punctuation (CHR ''h'')" "\<not> punctuation (CHR ''/'')"
  by (simp_all add: url_char_def is_space_def punctuation_def)

text \<open>The pattern stops at no character of an address.\<close>

lemma address_char_matched: "address_char c \<Longrightarrow> url_char c"
  by (auto simp: address_char_def url_char_def is_space_def Let_def)

lemma scheme_set: "set schemes = {''http://'', ''https://''}"
  by (simp add: schemes_def)

lemma scheme_cases: "p \<in> set schemes \<Longrightarrow> p = ''http://'' \<or> p = ''https://''"
  by (simp add: schemes_def)

lemma scheme_head: "p \<in> set schemes \<Longrightarrow> \<exists>q. p = CHR ''h'' # q \<and> CHR ''h'' \<notin> set q \<and> CHR ''<'' \<notin> set q"
  by (auto dest!: scheme_cases)

lemma scheme_chars: "p \<in> set schemes \<Longrightarrow> list_all url_char p"
  by (auto dest!: scheme_cases simp: url_char_def is_space_def)

lemma scheme_last: "p \<in> set schemes \<Longrightarrow> last p = CHR ''/'' \<and> p \<noteq> []"
  by (auto dest!: scheme_cases)

lemma takeWhile_stop: "r = [] \<or> \<not> P (hd r) \<Longrightarrow> takeWhile P (b @ r) = takeWhile P b"
  by (induction b) (cases r; auto)+

lemma url_at_split: "url_at p s \<Longrightarrow> \<exists>c r. s = p @ c # r \<and> url_char c"
  by (induction p s rule: url_at.induct) auto

lemma url_at_append: "url_char c \<Longrightarrow> url_at p (p @ c # r)"
  by (induction p) auto

lemma url_match_cases:
  assumes "url_match s = Some n"
  obtains p b r where "p \<in> set schemes" "list_all url_char b" "s = p @ b @ r" "n = length p + length b"
    "r = [] \<or> \<not> url_char (hd r)"
proof -
  obtain p where f: "List.find (\<lambda>p. url_at p s) schemes = Some p"
    and n: "n = length p + length (takeWhile url_char (drop (length p) s))"
    using assms by (auto simp: url_match_def)
  have p: "p \<in> set schemes" "url_at p s" using f by (auto simp: find_Some_iff)
  obtain c r where s: "s = p @ c # r" "url_char c" using url_at_split [OF p(2)] by blast
  show thesis
  proof (rule that [of p "takeWhile url_char (c # r)" "dropWhile url_char (c # r)"])
    show "dropWhile url_char (c # r) = [] \<or> \<not> url_char (hd (dropWhile url_char (c # r)))"
      using hd_dropWhile [of url_char "c # r"] by blast
    show "list_all url_char (takeWhile url_char (c # r))" by (auto simp: list_all_iff dest: set_takeWhileD)
  qed (use p(1) s n in auto)
qed

lemma url_match_None_iff: "url_match s = None \<longleftrightarrow> (\<forall>p \<in> set schemes. \<not> url_at p s)"
  by (auto simp: url_match_def find_None_iff)

lemma url_match_head: "url_match s = Some n \<Longrightarrow> \<exists>r. s = CHR ''h'' # r"
  by (erule url_match_cases) (auto dest!: scheme_head)

text \<open>A replacement is an origin with punctuation, or the text for an invalid URL.\<close>

lemma redact_match_cases:
  assumes "origin_law origin" "p \<in> set schemes"
  obtains s h t where "redact_match origin (p @ b) = s @ h @ t" "s \<in> set schemes" "set h \<inter> set ''/?#@'' = {}" "list_all punctuation t"
  | t where "redact_match origin (p @ b) = ''<invalid RPC_URL>'' @ t" "list_all punctuation t"
proof -
  define t where "t = rev (takeWhile punctuation (rev b))"
  define u where "u = rev (dropWhile punctuation (rev b))"
  have b: "b = u @ t" unfolding t_def u_def by (metis rev_append rev_rev_ident takeWhile_dropWhile_id)
  have "\<not> punctuation (hd (rev p))" using scheme_cases [OF assms(2)] by auto
  then have "takeWhile punctuation (rev b @ rev p) = takeWhile punctuation (rev b)" by (intro takeWhile_stop [where P = punctuation] disjI2)
  then have tr: "rev (takeWhile punctuation (rev (p @ b))) = t" by (simp add: t_def)
  have "take (length (p @ b) - length t) (p @ b) = p @ u" by (simp add: b)
  then have m: "redact_match origin (p @ b) = redactRpcUrl origin (p @ u) @ t" unfolding redact_match_def Let_def tr by simp
  have t: "list_all punctuation t" by (auto simp: t_def list_all_iff dest: set_takeWhileD)
  show thesis
  proof (cases "origin (p @ u)")
    case None
    then show thesis using that(2) [of t] m t by (simp add: redactRpcUrl_def)
  next
    case (Some o')
    obtain s h where "o' = s @ h" "s \<in> set schemes" "set h \<inter> set ''/?#@'' = {}"
      using assms Some unfolding origin_law_def scheme_set by blast
    then show thesis using that(1) [of s h t] m t Some by (simp add: redactRpcUrl_def)
  qed
qed

text \<open>Redaction creates no URL: what is between replacements is as it was.\<close>

lemma url_at_redact:
  "CHR ''h'' \<notin> set q \<Longrightarrow> CHR ''<'' \<notin> set q \<Longrightarrow> origin_law origin \<Longrightarrow> url_at q (redactUrlsInText origin s) \<Longrightarrow> url_at q s"
proof (induction q arbitrary: s)
  case Nil
  then show ?case
  proof (cases "url_match s")
    case (Some n)
    then show ?thesis using url_match_head [OF Some] by auto
  next
    case None
    then show ?thesis using Nil.prems(4) by (cases s) simp_all
  qed
next
  case (Cons x q)
  show ?case
  proof (cases "url_match s")
    case (Some n)
    then obtain p b r where s: "p \<in> set schemes" "list_all url_char b" "s = p @ b @ r" "n = length p + length b"
      by (rule url_match_cases)
    have red: "redactUrlsInText origin s = redact_match origin (p @ b) @ redactUrlsInText origin r"
      using redact_hit [OF Some, of origin] s(3,4) by simp
    have "\<exists>c z. redact_match origin (p @ b) = c # z \<and> (c = CHR ''h'' \<or> c = CHR ''<'')"
      using Cons.prems(3) s(1) by (rule redact_match_cases) (auto dest!: scheme_head)
    then show ?thesis using Cons.prems(1,2,4) red by auto
  next
    case None
    then show ?thesis using Cons by (cases s) auto
  qed
qed

lemma redacted_stop:
  assumes "r = [] \<or> \<not> url_char (hd r)"
  shows "redactUrlsInText origin r = [] \<or> \<not> url_char (hd (redactUrlsInText origin r))"
proof (cases r)
  case Nil
  then show ?thesis by simp
next
  case (Cons c r')
  then have "url_match r = None" using assms url_match_head [of r] by (cases "url_match r") auto
  then show ?thesis using Cons assms by simp
qed

lemma redact_creates_none:
  assumes "url_match (c # cs) = None" "origin_law origin"
  shows "url_match (c # redactUrlsInText origin cs) = None"
proof (rule ccontr)
  assume "url_match (c # redactUrlsInText origin cs) \<noteq> None"
  then obtain p where p: "p \<in> set schemes" "url_at p (c # redactUrlsInText origin cs)" by (auto simp: url_match_None_iff)
  obtain q where q: "p = CHR ''h'' # q" "CHR ''h'' \<notin> set q" "CHR ''<'' \<notin> set q" using scheme_head [OF p(1)] by blast
  then have "url_at p (c # cs)" using p(2) url_at_redact [OF q(2,3) assms(2)] by simp
  then show False using assms(1) p(1) by (auto simp: url_match_None_iff)
qed

section \<open>Addresses in a text\<close>

lemma shows_originsI:
  "(\<And>a s x. y = a @ s @ x \<Longrightarrow> s \<in> set schemes \<Longrightarrow> origin_only (takeWhile address_char x)) \<Longrightarrow> shows_origins y"
  unfolding shows_origins_def scheme_set by blast

lemma shows_originsD: "shows_origins y \<Longrightarrow> y = a @ s @ x \<Longrightarrow> s \<in> set schemes \<Longrightarrow> origin_only (takeWhile address_char x)"
  unfolding shows_origins_def scheme_set by blast

lemma origin_only_take: "origin_only r \<Longrightarrow> origin_only (take k r)"
proof -
  assume "origin_only r"
  then obtain h p where "r = h @ p" "set h \<inter> set ''/?#@'' = {}" "set p \<subseteq> set ''.,;:!?''" unfolding origin_only_def by blast
  then have "take k r = take k h @ take (k - length h) p" "set (take k h) \<inter> set ''/?#@'' = {}" "set (take (k - length h) p) \<subseteq> set ''.,;:!?''"
    by (simp, blast dest: in_set_takeD, blast dest: in_set_takeD)
  then show ?thesis unfolding origin_only_def by blast
qed

lemma origin_only_run: "origin_only r \<Longrightarrow> origin_only (takeWhile P r)"
  using origin_only_take [of r "length (takeWhile P r)"] by (simp add: takeWhile_eq_take [symmetric])

lemma origin_only_Nil: "origin_only []"
  unfolding origin_only_def by simp

lemma shows_origins_Nil: "shows_origins []"
  by (rule shows_originsI) (auto dest!: scheme_head)

lemma shows_origins_Cons:
  assumes "url_match (c # r) = None" "shows_origins r"
  shows "shows_origins (c # r)"
proof (rule shows_originsI)
  fix a s x assume y: "c # r = a @ s @ x" and s: "s \<in> set schemes"
  show "origin_only (takeWhile address_char x)"
  proof (cases a)
    case Nil
    have "\<not> url_at s (c # r)" using assms(1) s by (simp add: url_match_None_iff)
    then have "x = [] \<or> \<not> url_char (hd x)" using y Nil url_at_append [of "hd x" s "tl x"] by (cases x) auto
    then have "takeWhile address_char x = []" using address_char_matched by (cases x) auto
    then show ?thesis by (simp add: origin_only_Nil)
  next
    case (Cons c' a')
    then show ?thesis using shows_originsD [OF assms(2) _ s] y by simp
  qed
qed

lemma append_split:
  assumes "xs @ ys = zs @ ts"
  shows "(\<exists>u. xs = zs @ u \<and> ts = u @ ys) \<or> (\<exists>v. v \<noteq> [] \<and> zs = xs @ v \<and> ys = v @ ts)"
proof -
  from assms consider u where "xs = zs @ u" "ts = u @ ys" | v where "zs = xs @ v" "ys = v @ ts" by (auto simp: append_eq_append_conv2)
  then show ?thesis by cases (blast, metis append_Nil append_Nil2)
qed

text \<open>An address in front of a character that ends addresses.\<close>

lemma shows_origins_append:
  assumes m: "\<And>a s x. m = a @ s @ x \<Longrightarrow> s \<in> set schemes \<Longrightarrow> origin_only (takeWhile address_char x)"
    and stop: "r = [] \<or> \<not> url_char (hd r)" and r: "shows_origins r"
  shows "shows_origins (m @ r)"
proof (rule shows_originsI)
  fix a s x assume y: "m @ r = a @ s @ x" and s: "s \<in> set schemes"
  from y consider z where "m = a @ z" "z @ r = s @ x" | z where "r = z @ s @ x" by (auto simp: append_eq_append_conv2)
  then show "origin_only (takeWhile address_char x)"
  proof cases
    case (1 z)
    from 1(2) consider x' where "z = s @ x'" "x = x' @ r" | v where "s = z @ v" "r = v @ x" "v \<noteq> []"
      using append_split [of z r s x] by blast
    then show ?thesis
    proof cases
      case (1 x')
      have "r = [] \<or> \<not> address_char (hd r)" using stop address_char_matched by blast
      then have "takeWhile address_char x = takeWhile address_char x'" unfolding 1(2) by (rule takeWhile_stop)
      then show ?thesis using m [of a s x'] \<open>m = a @ z\<close> 1(1) s by simp
    next
      case (2 v)
      then have "url_char (hd r)" "r \<noteq> []" using scheme_chars [OF s] by (cases v; simp)+
      then show ?thesis using stop by blast
    qed
  next
    case (2 z)
    then show ?thesis using shows_originsD [OF r _ s] by blast
  qed
qed

lemma scheme_within:
  assumes "q \<in> set schemes" "s \<in> set schemes" "q = a @ s @ v"
  shows "a = [] \<and> v = []"
proof -
  obtain q' where q': "q = CHR ''h'' # q'" "CHR ''h'' \<notin> set q'" using scheme_head [OF assms(1)] by blast
  obtain s' where s': "s = CHR ''h'' # s'" using scheme_head [OF assms(2)] by blast
  have "a = []" using q' s' assms(3) by (cases a) auto
  then show ?thesis using assms(3) scheme_cases [OF assms(1)] scheme_cases [OF assms(2)] by auto
qed

text \<open>The replacement itself: its only address is its origin.\<close>

lemma redact_match_origin:
  assumes "origin_law origin" "p \<in> set schemes" "redact_match origin (p @ b) = a @ s @ x" "s \<in> set schemes"
  shows "origin_only (takeWhile address_char x)"
  using assms(1,2)
proof (cases rule: redact_match_cases [where b = b])
  case (1 q h t)
  have t: "set t \<subseteq> set ''.,;:!?''" using 1(4) by (auto simp: list_all_iff punctuation_def)
  have ht: "CHR ''/'' \<notin> set (h @ t)" using 1(3) t by auto
  have eq: "a @ s @ x = q @ h @ t" using assms(3) 1(1) by simp
  from eq consider v where "a @ s = q @ v" "h @ t = v @ x" "v \<noteq> []" | v where "q = a @ s @ v" "x = v @ h @ t"
    using append_split [of q "h @ t" "a @ s" x] by (metis append_assoc)
  then have "x = h @ t"
  proof cases
    case (1 v)
    then have "last s = last v" using scheme_last [OF assms(4)] by (metis last_appendR)
    then have "CHR ''/'' \<in> set (h @ t)" using scheme_last [OF assms(4)] 1(2,3) by (metis Un_iff last_in_set set_append)
    then show ?thesis using ht by blast
  next
    case (2 v)
    then show ?thesis using scheme_within [OF \<open>q \<in> set schemes\<close> assms(4) 2(1)] by simp
  qed
  moreover have "origin_only (h @ t)" using 1(3) t unfolding origin_only_def by blast
  ultimately show ?thesis using origin_only_run by simp
next
  case (2 t)
  have "CHR ''h'' \<notin> set (''<invalid RPC_URL>'' @ t)" using 2(2) by (auto simp: list_all_iff)
  moreover have "CHR ''h'' \<in> set (a @ s @ x)" using scheme_head [OF assms(4)] by auto
  ultimately show ?thesis unfolding assms(3) [symmetric] 2(1) by blast
qed

lemma redacted_origins: "origin_law origin \<Longrightarrow> shows_origins (redactUrlsInText origin s)"
proof (induction origin s rule: redactUrlsInText.induct)
  case (1 origin s)
  show ?case
  proof (cases "url_match s")
    case None
    show ?thesis
    proof (cases s)
      case Nil
      then show ?thesis by (simp add: shows_origins_Nil)
    next
      case (Cons c cs)
      show ?thesis
        using shows_origins_Cons [OF redact_creates_none [OF None [unfolded Cons] 1(3)] 1(1) [OF None Cons 1(3)]] None Cons by simp
    qed
  next
    case (Some n)
    then obtain p b r where s: "p \<in> set schemes" "s = p @ b @ r" "n = length p + length b" "r = [] \<or> \<not> url_char (hd r)"
      by (rule url_match_cases)
    have red: "redactUrlsInText origin s = redact_match origin (p @ b) @ redactUrlsInText origin r"
      using redact_hit [OF Some, of origin] s(2,3) by simp
    have "shows_origins (redactUrlsInText origin r)" using 1(2) [OF Some 1(3)] s(2,3) by simp
    then show ?thesis unfolding red
      using redact_match_origin [OF 1(3) s(1)] redacted_stop [OF s(4)] by (intro shows_origins_append)
  qed
qed

lemma takeWhile_prefix_take: "take (length (takeWhile P x)) (takeWhile P (x @ z)) = takeWhile P x"
  by (induction x) auto

lemma shows_origins_take:
  assumes "shows_origins y"
  shows "shows_origins (take n y)"
proof (rule shows_originsI)
  fix a s x assume t: "take n y = a @ s @ x" and s: "s \<in> set schemes"
  have "y = a @ s @ (x @ drop n y)" using t by (metis append_assoc append_take_drop_id)
  then have "origin_only (takeWhile address_char (x @ drop n y))" using shows_originsD [OF assms _ s] by blast
  moreover have "takeWhile address_char x = take (length (takeWhile address_char x)) (takeWhile address_char (x @ drop n y))"
    by (simp add: takeWhile_prefix_take)
  ultimately show "origin_only (takeWhile address_char x)" using origin_only_take by metis
qed

section \<open>Property\<close>

text \<open>
  C35: what the deployment prints about a failed call shows no more of a URL than its origin. Whatever text the
  provider's error has, wherever \<^verbatim>\<open>http://\<close> or \<^verbatim>\<open>https://\<close> stands in the description, what follows it of the
  address has no path, query, fragment or user, where an API key would be, but at most sentence punctuation at its end; and the
  description is cut to 300 characters. The origin of a URL is assumed to be as the URL standard has it. A scheme in
  capital letters is not recognised.
\<close>

theorem provider_errors_redacted:
  assumes "origin_law origin"
  shows "shows_origins (describeRpcError origin e) \<and> length (describeRpcError origin e) \<le> 300"
  using shows_origins_take [OF redacted_origins [OF assms]] by (simp add: describeRpcError_def Let_def)

text \<open>An origin for witnesses: the scheme and the characters up to the first one that ends a host.\<close>

definition sample_origin :: "string \<Rightarrow> string option" where
  "sample_origin u = (case List.find (\<lambda>p. startsWith u p) schemes of
     Some p \<Rightarrow> (let h = takeWhile (\<lambda>c. c \<notin> set ''/?#@'') (drop (length p) u) in if h = [] then None else Some (p @ h))
   | None \<Rightarrow> None)"

lemma sample_origin_law: "origin_law sample_origin"
proof -
  have "\<exists>s h. b = s @ h \<and> s \<in> set schemes \<and> set h \<inter> set ''/?#@'' = {}" if su: "sample_origin u = Some b" for u b
  proof -
    obtain p where p: "List.find (\<lambda>p. startsWith u p) schemes = Some p"
      using su by (cases "List.find (\<lambda>p. startsWith u p) schemes") (auto simp: sample_origin_def)
    let ?h = "takeWhile (\<lambda>c. c \<notin> set ''/?#@'') (drop (length p) u)"
    have "p \<in> set schemes" using p by (auto simp: find_Some_iff)
    moreover have "b = p @ ?h" using su p by (auto simp: sample_origin_def Let_def split: if_splits)
    moreover have "set ?h \<inter> set ''/?#@'' = {}" by (blast dest: set_takeWhileD)
    ultimately show ?thesis by blast
  qed
  then show ?thesis unfolding origin_law_def scheme_set by blast
qed

theorem provider_errors_redacted_witness:
  "shows_origins (describeRpcError sample_origin (plain_error ''POST https://host?key=1 failed.'')) \<and>
   describeRpcError sample_origin (plain_error ''POST https://host?key=1 failed.'') = ''POST https://host failed.''"
proof -
  have "describeRpcError sample_origin (plain_error ''POST https://host?key=1 failed.'') = ''POST https://host failed.''" by code_simp
  then show ?thesis using provider_errors_redacted [OF sample_origin_law, of "plain_error ''POST https://host?key=1 failed.''"] by blast
qed

end
