(* ===== verification/Deploy.thy ===== *)
theory Deploy
  imports Deploy_Safety Json
begin

text \<open>
  The script that deploys the token contract to a live network,
  \<^verbatim>\<open>scripts/deploy-mini-usdt-live.ts\<close>. A run is a function of the environment variables, the
  arguments and of what the node, the file system and viem answer; it leaves what was printed,
  which deployments were sent, which files were written, and the exit code. A deployment counts as
  sent from the moment it is requested, whatever the node answers.
\<close>

section \<open>Chains, node and files\<close>

record evm_chain =
  ch_id :: int
  ch_name :: string
  ch_explorer :: "string option"
  ch_nativeCurrency :: "string \<times> string \<times> nat"
  ch_rpcUrls :: "string list"

text \<open>viem's definitions of the known chains are a parameter, in the order of the table.\<close>

definition KNOWN_CHAINS :: "evm_chain list \<Rightarrow> int \<Rightarrow> evm_chain option" where
  "KNOWN_CHAINS viem chainId = List.find (\<lambda>c. ch_id c = chainId) (rev viem)"

definition getEvmChain :: "evm_chain list \<Rightarrow> (string \<Rightarrow> string option) \<Rightarrow> exn + evm_chain" where
  "getEvmChain viem vars =
     (case getEvmChainId (vars ''EVM_CHAIN_ID'') of
        Inl x \<Rightarrow> Inl x
      | Inr chainId \<Rightarrow> Inr (case KNOWN_CHAINS viem chainId of
            Some c \<Rightarrow> c
          | None \<Rightarrow> \<lparr> ch_id = chainId, ch_name = ''EVM chain '' @ show_int chainId, ch_explorer = None,
              ch_nativeCurrency = (''Ether'', ''ETH'', 18),
              ch_rpcUrls = (case vars ''RPC_URL'' of Some u \<Rightarrow> (if u = [] then [] else [u]) | None \<Rightarrow> []) \<rparr>))"

record deploy_receipt =
  dr_success :: bool
  dr_contractAddress :: "string option"
  dr_blockNumber :: int

record deploy_world =
  dw_chains :: "evm_chain list"
  dw_origin :: "string \<Rightarrow> string option"
  dw_mnemonic :: "string \<Rightarrow> nat \<Rightarrow> string"
  dw_account :: "string \<Rightarrow> raw_error + string"
  dw_artifact :: "string option"
  dw_syntaxError :: "string \<Rightarrow> raw_error"
  dw_typeError :: raw_error
  dw_encode :: "json \<Rightarrow> string \<Rightarrow> raw_error + string"
  dw_getChainId :: "raw_error + int"
  dw_getBalance :: "string \<Rightarrow> raw_error + int"
  dw_getGasPrice :: "raw_error + int"
  dw_estimateGas :: "string \<Rightarrow> string \<Rightarrow> raw_error + int"
  dw_deploy :: "raw_error + string"
  dw_receipt :: "string \<Rightarrow> raw_error + deploy_receipt"
  dw_getCode :: "string \<Rightarrow> raw_error + string option"
  dw_readString :: "string \<Rightarrow> string \<Rightarrow> raw_error + string"
  dw_readDecimals :: "string \<Rightarrow> raw_error + int"
  dw_writeFile :: "string \<Rightarrow> raw_error option"

text \<open>A deployment that was sent: the signer, the chain it is signed for, the code.\<close>

record deployment =
  dp_from :: string
  dp_chain :: int
  dp_bytecode :: string

record script_state =
  ss_out :: "string list"
  ss_sent :: "deployment list"
  ss_files :: "(string \<times> string) list"

type_synonym 'a script = "script_state \<Rightarrow> (deploy_error + 'a) \<times> script_state"

definition returnS :: "'a \<Rightarrow> 'a script" where
  "returnS a = (\<lambda>s. (Inr a, s))"

definition failS :: "string \<Rightarrow> 'a script" where
  "failS m = (\<lambda>s. (Inl (DeploySafetyError m), s))"

definition bindS :: "'a script \<Rightarrow> ('a \<Rightarrow> 'b script) \<Rightarrow> 'b script" where
  "bindS m f = (\<lambda>s. case m s of (Inl x, t) \<Rightarrow> (Inl x, t) | (Inr a, t) \<Rightarrow> f a t)"

definition callS :: "raw_error + 'a \<Rightarrow> 'a script" where
  "callS r = (\<lambda>s. (map_sum RawError id r, s))"

definition checkS :: "deploy_error + 'a \<Rightarrow> 'a script" where
  "checkS r = (\<lambda>s. (r, s))"

text \<open>An error of the program's own configuration code.\<close>

definition configS :: "exn + 'a \<Rightarrow> 'a script" where
  "configS r = (\<lambda>s. (case r of Inl (PlainError m) \<Rightarrow> Inl (RawError (plain_error m)) | Inl _ \<Rightarrow> Inl (RawError (plain_error []))
     | Inr a \<Rightarrow> Inr a, s))"

definition print :: "string list \<Rightarrow> unit script" where
  "print ls = (\<lambda>s. (Inr (), s\<lparr>ss_out := ss_out s @ ls\<rparr>))"

section \<open>The script\<close>

definition flag :: "string list \<Rightarrow> string \<Rightarrow> bool" where
  "flag argv name = list_ex (\<lambda>a. a = name) argv"

fun option_of :: "string list \<Rightarrow> string \<Rightarrow> string option" where
  "option_of [] name = None"
| "option_of (a # argv) name =
     (if a = name then (case argv of [] \<Rightarrow> None | v # _ \<Rightarrow> Some v) else option_of argv name)"

definition ARTIFACT_PATH :: string where
  "ARTIFACT_PATH = ''artifacts/contracts/MiniUSDT.sol/MiniUSDT.json''"

definition RECEIPT_TIMEOUT_MS :: int where "RECEIPT_TIMEOUT_MS = 120000"

text \<open>\<^verbatim>\<open>!value\<close> of a member that may be missing.\<close>

definition falsy :: "json option \<Rightarrow> bool" where
  "falsy v = (case v of None \<Rightarrow> True | Some JNull \<Rightarrow> True | Some (JBool b) \<Rightarrow> \<not> b | Some (JNum n) \<Rightarrow> n = 0
     | Some (JStr s) \<Rightarrow> s = [] | Some _ \<Rightarrow> False)"

text \<open>A bytecode that is not a string is taken as the text viem would make of it.\<close>

definition loadArtifact :: "deploy_world \<Rightarrow> (json \<times> string) script" where
  "loadArtifact dw = (case dw_artifact dw of
      None \<Rightarrow> failS (ARTIFACT_PATH @ '' not found. Run `npm run compile` first.'')
    | Some raw \<Rightarrow> (case json_parse raw of
          None \<Rightarrow> callS (Inl (dw_syntaxError dw raw))
        | Some JNull \<Rightarrow> callS (Inl (dw_typeError dw))
        | Some artifact \<Rightarrow>
            (let abi = json_member artifact ''abi''; bytecode = json_member artifact ''bytecode'' in
             if falsy abi \<or> falsy bytecode \<or> bytecode = Some (JStr ''0x'')
             then failS (ARTIFACT_PATH @ '' has no ABI/bytecode. Re-run `npm run compile`.'')
             else returnS (the abi, case bytecode of Some (JStr b) \<Rightarrow> b | Some v \<Rightarrow> stringify v | None \<Rightarrow> []))))"

text \<open>\<^verbatim>\<open>/\<close> on bigints rounds towards zero.\<close>

definition bigint_div :: "int \<Rightarrow> int \<Rightarrow> int" where
  "bigint_div a b = sgn a * sgn b * (\<bar>a\<bar> div \<bar>b\<bar>)"

text \<open>The request to deploy: it is out before its answer is.\<close>

definition deployContract :: "deploy_world \<Rightarrow> deployment \<Rightarrow> string script" where
  "deployContract dw d = (\<lambda>s. (map_sum RawError id (dw_deploy dw), s\<lparr>ss_sent := ss_sent s @ [d]\<rparr>))"

definition writeFile :: "deploy_world \<Rightarrow> string \<Rightarrow> string \<Rightarrow> unit script" where
  "writeFile dw name content = (\<lambda>s. case dw_writeFile dw name of
      Some x \<Rightarrow> (Inl (RawError x), s)
    | None \<Rightarrow> (Inr (), s\<lparr>ss_files := ss_files s @ [(name, content)]\<rparr>))"

text \<open>\<^verbatim>\<open>JSON.stringify(v, null, 2)\<close> of an object whose members are strings and numbers.\<close>

definition stringify_flat :: "(string \<times> json) list \<Rightarrow> string" where
  "stringify_flat ms = ''{'' @ [CHR 0x0A] @
     concat (map (\<lambda>(i, k, v). ''  '' @ json_string k @ '': '' @ stringify v @ (if Suc i < length ms then '','' else []) @ [CHR 0x0A])
       (zip [0..<length ms] ms)) @ ''}''"

text \<open>The part before the request: the account, the plan and the checks.\<close>

definition plan :: "deploy_world \<Rightarrow> (string \<Rightarrow> string option) \<Rightarrow> (string \<times> int \<times> evm_chain \<times> int \<times> string) script" where
  "plan dw vars =
     (let rpcUrl = (case vars ''RPC_URL'' of None \<Rightarrow> [] | Some u \<Rightarrow> trim u) in
      if rpcUrl = [] then failS ''RPC_URL is not set'' else
      bindS (checkS (parseDeployerKey (vars ''PRIVATE_KEY''))) (\<lambda>key.
      bindS (callS (dw_account dw key)) (\<lambda>address.
      bindS (configS (getEvmChainId (vars ''EVM_CHAIN_ID''))) (\<lambda>configuredChainId.
      bindS (configS (getEvmChain (dw_chains dw) vars)) (\<lambda>chain.
      bindS (case dw_getChainId dw of
          Inl x \<Rightarrow> failS (''Cannot reach the RPC at '' @ redactRpcUrl (dw_origin dw) rpcUrl @ '': '' @ describeRpcError (dw_origin dw) x)
        | Inr i \<Rightarrow> returnS i) (\<lambda>rpcChainId.
      bindS (loadArtifact dw) (\<lambda>(abi, bytecode).
      bindS (callS (dw_encode dw abi bytecode)) (\<lambda>data.
      bindS (callS (dw_getBalance dw address)) (\<lambda>balance.
      bindS (callS (dw_getGasPrice dw)) (\<lambda>gasPrice.
      bindS (callS (dw_estimateGas dw address data)) (\<lambda>gas.
      let estimatedCost = bigint_div (gas * gasPrice * 12) 10 in
      bindS (print [''MiniUSDT deployment plan'',
        ''  network:   '' @ ch_name chain @ '' (chain id '' @ show_int rpcChainId @ '')'',
        ''  rpc:       '' @ redactRpcUrl (dw_origin dw) rpcUrl,
        ''  deployer:  '' @ address @ ''  (becomes owner: the only account that can mint)'',
        ''  balance:   '' @ show_int balance @ '' wei'',
        ''  est. cost: ~'' @ show_int estimatedCost @ '' wei (gas '' @ show_int gas @ '', incl. 20% headroom)'']) (\<lambda>_.
      bindS (checkS (assertDeployAllowed (dw_mnemonic dw) \<lparr> dc_configuredChainId = configuredChainId, dc_rpcChainId = rpcChainId,
        dc_deployerAddress = address, dc_balance = balance, dc_estimatedCost = estimatedCost \<rparr>)) (\<lambda>_.
      returnS (address, configuredChainId, chain, rpcChainId, bytecode))))))))))))))"

text \<open>The part after it: the receipt, the contract read back, the report.\<close>

definition report :: "deploy_world \<Rightarrow> string list \<Rightarrow> string \<Rightarrow> evm_chain \<Rightarrow> int \<Rightarrow> string \<Rightarrow> unit script" where
  "report dw argv account chain rpcChainId hash =
     bindS (print [[CHR 0x0A] @ ''Deployment tx sent: '' @ hash, ''Waiting for it to be mined...'']) (\<lambda>_.
     bindS (case dw_receipt dw hash of
         Inl x \<Rightarrow> failS (''No receipt for '' @ hash @ '' within '' @ show_int (RECEIPT_TIMEOUT_MS div 1000) @
           ''s. It may still be mined: check the explorer before deploying again.'')
       | Inr r \<Rightarrow> returnS r) (\<lambda>receipt.
     let address = (case dr_contractAddress receipt of Some a \<Rightarrow> a | None \<Rightarrow> []) in
     if \<not> dr_success receipt \<or> address = [] then failS (''Deployment transaction '' @ hash @ '' did not succeed'') else
     bindS (callS (dw_getCode dw address)) (\<lambda>code.
     if code = None \<or> code = Some [] \<or> code = Some ''0x'' then failS (''No contract code at '' @ address @ '' after deployment'') else
     bindS (callS (dw_readString dw address ''owner'')) (\<lambda>owner.
     bindS (callS (dw_readString dw address ''name'')) (\<lambda>name.
     bindS (callS (dw_readString dw address ''symbol'')) (\<lambda>symbol.
     bindS (callS (dw_readDecimals dw address)) (\<lambda>decimals.
     if toLowerCase owner \<noteq> toLowerCase account then failS (''Contract owner '' @ owner @ '' is not the deployer '' @ account) else
     let block = show_int (dr_blockNumber receipt);
         result = [(''address'', JStr address), (''transactionHash'', JStr hash), (''deploymentBlock'', JStr block),
           (''chainId'', JNum rpcChainId), (''owner'', JStr account), (''name'', JStr name), (''symbol'', JStr symbol),
           (''decimals'', JNum decimals)] in
     bindS (print ([[CHR 0x0A] @ ''MiniUSDT deployed'', ''  address:          '' @ address, ''  deployment block: '' @ block,
         ''  owner:            '' @ owner] @
         (case ch_explorer chain of Some u \<Rightarrow> (if u = [] then [] else [''  explorer:         '' @ u @ ''/address/'' @ address]) | None \<Rightarrow> []) @
         [[CHR 0x0A] @ ''Next steps'', ''  1. API and worker environment:'', ''       EVM_CHAIN_ID='' @ show_int rpcChainId,
          ''       RPC_URL=<same RPC>'', ''       PRIVATE_KEY=<the key you just deployed with, from your secret store>'',
          ''  2. Worker environment (skip the empty history when indexing):'', ''       EVM_INDEX_START_BLOCK='' @ block,
          ''  3. Register the token (POST /api/v1/tokens, ADMIN):'',
          ''       '' @ stringify (JObj [(''tokenId'', JStr ''<any new uuid>''), (''name'', JStr name), (''symbol'', JStr symbol),
             (''blockchain'', JStr ''EVM''), (''contractAddress'', JStr address), (''decimals'', JNum decimals)])])) (\<lambda>_.
     case option_of argv ''--out'' of
       Some f \<Rightarrow> (if f = [] then returnS ()
         else bindS (writeFile dw f (stringify_flat result @ [CHR 0x0A])) (\<lambda>_. print [[CHR 0x0A] @ ''Wrote '' @ f]))
     | None \<Rightarrow> returnS ()))))))))"

definition main :: "deploy_world \<Rightarrow> (string \<Rightarrow> string option) \<Rightarrow> string list \<Rightarrow> unit script" where
  "main dw vars argv =
     bindS (plan dw vars) (\<lambda>(address, configuredChainId, chain, rpcChainId, bytecode).
     if \<not> isLocalChain configuredChainId \<and> \<not> flag argv ''--yes''
     then print [[CHR 0x0A] @ ''DRY RUN: nothing was deployed. Re-run with --yes to deploy.'']
     else bindS (deployContract dw \<lparr> dp_from = address, dp_chain = ch_id chain, dp_bytecode = bytecode \<rparr>) (\<lambda>hash.
       report dw argv address chain rpcChainId hash))"

text \<open>The whole run, \<^verbatim>\<open>main().catch(...)\<close>: what goes to the error stream, and the exit code.\<close>

definition deploy_live :: "deploy_world \<Rightarrow> (string \<Rightarrow> string option) \<Rightarrow> string list \<Rightarrow> int \<times> string list \<times> script_state" where
  "deploy_live dw vars argv =
     (case main dw vars argv \<lparr> ss_out = [], ss_sent = [], ss_files = [] \<rparr> of
        (Inr _, s) \<Rightarrow> (0, [], s)
      | (Inl (DeploySafetyError m), s) \<Rightarrow> (1, [[CHR 0x0A] @ ''Refusing to deploy: '' @ m], s)
      | (Inl (RawError x), s) \<Rightarrow> (1, [[CHR 0x0A] @ ''Deployment failed: '' @ describeRpcError (dw_origin dw) x], s))"

section \<open>What is sent\<close>

text \<open>When the checks allow a deployment from an account on a chain.\<close>

definition deployable :: "deploy_world \<Rightarrow> (string \<Rightarrow> string option) \<Rightarrow> string \<Rightarrow> int \<Rightarrow> bool" where
  "deployable dw vars address chain \<longleftrightarrow>
     getEvmChainId (vars ''EVM_CHAIN_ID'') = Inr chain \<and> dw_getChainId dw = Inr chain \<and>
     (\<exists>key. parseDeployerKey (vars ''PRIVATE_KEY'') = Inr key \<and> dw_account dw key = Inr address) \<and>
     (chain = ANVIL_CHAIN_ID \<or> \<not> isWellKnownDevAccount (dw_mnemonic dw) address) \<and>
     (\<exists>balance price gas abi code data. dw_getBalance dw address = Inr balance \<and> balance \<noteq> 0 \<and> dw_getGasPrice dw = Inr price \<and>
        dw_encode dw abi code = Inr data \<and> dw_estimateGas dw address data = Inr gas \<and> bigint_div (gas * price * 12) 10 \<le> balance)"

lemma bindS_Inr: "bindS m f s = (Inr b, t) \<longleftrightarrow> (\<exists>a u. m s = (Inr a, u) \<and> f a u = (Inr b, t))"
  by (auto simp: bindS_def split: prod.splits sum.splits)

text \<open>Only the request to deploy sends anything, and only the report writes a file: parts that leave a field alone.\<close>

definition leaves :: "(script_state \<Rightarrow> 'f) \<Rightarrow> 'a script \<Rightarrow> bool" where
  "leaves f m \<longleftrightarrow> (\<forall>s. f (snd (m s)) = f s)"

lemma leavesD: "leaves f m \<Longrightarrow> m s = (r, t) \<Longrightarrow> f t = f s"
  unfolding leaves_def by (metis snd_conv)

lemma leaves_basic: "leaves f (returnS a)" "leaves f (failS x)" "leaves f (callS r)" "leaves f (checkS c)" "leaves f (configS g)"
  "leaves ss_sent (print ls)" "leaves ss_files (print ls)" "leaves ss_sent (writeFile dw n t)"
  by (simp_all add: leaves_def returnS_def failS_def callS_def checkS_def configS_def print_def writeFile_def split: option.splits)

lemma leaves_bind: "leaves f m \<Longrightarrow> (\<And>a. leaves f (g a)) \<Longrightarrow> leaves f (bindS m g)"
  by (auto simp: leaves_def bindS_def split: prod.splits sum.splits) (metis snd_conv)+

lemma leaves_if: "leaves f m \<Longrightarrow> leaves f n \<Longrightarrow> leaves f (if b then m else n)"
  by simp

lemma leaves_let: "(\<And>x. leaves f (g x)) \<Longrightarrow> leaves f (Let a g)"
  by (simp add: Let_def)

lemma leaves_prod: "(\<And>a b. leaves f (g a b)) \<Longrightarrow> leaves f (case p of (a, b) \<Rightarrow> g a b)"
  by (cases p) simp

lemma leaves_option: "leaves f m \<Longrightarrow> (\<And>a. leaves f (g a)) \<Longrightarrow> leaves f (case x of None \<Rightarrow> m | Some a \<Rightarrow> g a)"
  by (cases x) simp_all

lemma leaves_sum: "(\<And>a. leaves f (g a)) \<Longrightarrow> (\<And>a. leaves f (h a)) \<Longrightarrow> leaves f (case x of Inl a \<Rightarrow> g a | Inr a \<Rightarrow> h a)"
  by (cases x) simp_all

lemma leaves_json: "leaves f a \<Longrightarrow> (\<And>x. leaves f (b x)) \<Longrightarrow> (\<And>x. leaves f (c x)) \<Longrightarrow> (\<And>x. leaves f (d x)) \<Longrightarrow> (\<And>x. leaves f (g x)) \<Longrightarrow>
    (\<And>x. leaves f (h x)) \<Longrightarrow> leaves f (case v of JNull \<Rightarrow> a | JBool x \<Rightarrow> b x | JNum x \<Rightarrow> c x | JStr x \<Rightarrow> d x | JArr x \<Rightarrow> g x | JObj x \<Rightarrow> h x)"
  by (cases v) simp_all

lemmas leaves_rules = leaves_basic leaves_bind leaves_if leaves_let leaves_prod leaves_option leaves_sum leaves_json

lemma plan_leaves: "leaves ss_sent (plan dw vars)" "leaves ss_files (plan dw vars)"
  unfolding plan_def loadArtifact_def by (intro leaves_rules)+

lemma report_leaves: "leaves ss_sent (report dw argv a c i h)"
  unfolding report_def by (intro leaves_rules)

lemma basic_Inr:
  "returnS a s = (Inr b, t) \<longleftrightarrow> b = a \<and> t = s" "failS m s \<noteq> (Inr b, t)" "checkS c s = (Inr b, t) \<longleftrightarrow> c = Inr b \<and> t = s"
  "callS r s = (Inr b, t) \<longleftrightarrow> r = Inr b \<and> t = s" "configS g s = (Inr b, t) \<longleftrightarrow> g = Inr b \<and> t = s"
  by (auto simp: returnS_def failS_def callS_def checkS_def configS_def split: sum.splits exn.splits) (cases r; simp)+

lemma assert_ok:
  "assertDeployAllowed mn i = Inr u \<Longrightarrow> dc_rpcChainId i = dc_configuredChainId i \<and>
     (dc_configuredChainId i = ANVIL_CHAIN_ID \<or> \<not> isWellKnownDevAccount mn (dc_deployerAddress i)) \<and>
     dc_balance i \<noteq> 0 \<and> dc_estimatedCost i \<le> dc_balance i"
  unfolding assertDeployAllowed_def isLocalChain_def by (simp split: if_splits)

lemma chain_of_id: "getEvmChainId (vars ''EVM_CHAIN_ID'') = Inr i \<Longrightarrow> getEvmChain viem vars = Inr c \<Longrightarrow> ch_id c = i"
  by (auto simp: getEvmChain_def KNOWN_CHAINS_def find_Some_iff split: option.splits)

lemma plan_deployable:
  assumes "plan dw vars s = (Inr (address, cid, chain, rpc, bytecode), t)"
  shows "deployable dw vars address cid \<and> ch_id chain = cid"
proof -
  define url where "url = (case vars ''RPC_URL'' of None \<Rightarrow> [] | Some u \<Rightarrow> trim u)"
  have "url \<noteq> []" using assms by (auto simp: plan_def url_def [symmetric] basic_Inr)
  then obtain key abi data balance price gas u where
    k: "parseDeployerKey (vars ''PRIVATE_KEY'') = Inr key" "dw_account dw key = Inr address"
    and c: "getEvmChainId (vars ''EVM_CHAIN_ID'') = Inr cid" "getEvmChain (dw_chains dw) vars = Inr chain"
    and n: "(case dw_getChainId dw of
          Inl x \<Rightarrow> failS (''Cannot reach the RPC at '' @ redactRpcUrl (dw_origin dw) url @ '': '' @ describeRpcError (dw_origin dw) x)
        | Inr i \<Rightarrow> returnS i) s = (Inr rpc, s)"
    and q: "dw_encode dw abi bytecode = Inr data" "dw_getBalance dw address = Inr balance" "dw_getGasPrice dw = Inr price"
      "dw_estimateGas dw address data = Inr gas"
    and a: "assertDeployAllowed (dw_mnemonic dw) \<lparr> dc_configuredChainId = cid, dc_rpcChainId = rpc,
        dc_deployerAddress = address, dc_balance = balance, dc_estimatedCost = bigint_div (gas * price * 12) 10 \<rparr> = Inr u"
    using assms unfolding plan_def url_def [symmetric] Let_def bindS_Inr by (auto simp: bindS_Inr basic_Inr split: sum.splits)
  have "dw_getChainId dw = Inr rpc" using n by (cases "dw_getChainId dw") (simp_all add: basic_Inr)
  then show ?thesis using assert_ok [OF a] k c q chain_of_id [OF c] unfolding deployable_def by auto
qed

text \<open>The contract that a successful run has read back.\<close>

definition deployed_at :: "deploy_world \<Rightarrow> string \<Rightarrow> string \<Rightarrow> bool" where
  "deployed_at dw account address \<longleftrightarrow>
     (\<exists>hash receipt code owner. dw_deploy dw = Inr hash \<and> dw_receipt dw hash = Inr receipt \<and> dr_success receipt \<and>
        dr_contractAddress receipt = Some address \<and> dw_getCode dw address = Inr (Some code) \<and> code \<noteq> [] \<and> code \<noteq> ''0x'' \<and>
        dw_readString dw address ''owner'' = Inr owner \<and> toLowerCase owner = toLowerCase account)"

lemma if_fail_Inr: "(if b then failS m else k) s = (Inr x, t) \<longleftrightarrow> \<not> b \<and> k s = (Inr x, t)"
  by (simp add: basic_Inr)

lemma sum_fail_Inr: "(case r of Inl x \<Rightarrow> failS (m x) | Inr i \<Rightarrow> returnS i) s = (Inr a, t) \<longleftrightarrow> r = Inr a \<and> t = s"
  by (cases r) (auto simp: basic_Inr)

lemma report_deployed:
  assumes "report dw argv account chain rpc hash s = (Inr (), t)" "dw_deploy dw = Inr hash"
  shows "\<exists>address. deployed_at dw account address"
proof -
  obtain receipt address code owner where "dw_receipt dw hash = Inr receipt" "dr_success receipt" "address \<noteq> []"
    "address = (case dr_contractAddress receipt of Some a \<Rightarrow> a | None \<Rightarrow> [])" "dw_getCode dw address = Inr code"
    "\<not> (code = None \<or> code = Some [] \<or> code = Some ''0x'')" "dw_readString dw address ''owner'' = Inr owner"
    "\<not> toLowerCase owner \<noteq> toLowerCase account"
    using assms(1) unfolding report_def Let_def bindS_Inr if_fail_Inr sum_fail_Inr basic_Inr by blast
  then show ?thesis using assms(2) unfolding deployed_at_def by (cases "dr_contractAddress receipt"; cases code) auto
qed

section \<open>Property\<close>

text \<open>
  C34: no deployment by mistake. A run of the script sends at most one deployment, whatever the
  node, the file system and viem answer, and sends it only from the account of the configured key,
  for the configured chain, when the node reports that very chain, the account is funded for the
  estimated cost with its margin, and, except on the local chain, the account is not one whose key
  is public and the operator confirmed with \<^verbatim>\<open>--yes\<close>. A run that ends well without the
  confirmation sent and wrote nothing; any other run that ends well read the contract back and found
  the deployer to own it.
\<close>

theorem deployment_guarded:
  assumes "deploy_live dw vars argv = (code, err, s)"
  shows "(ss_sent s = [] \<or> (\<exists>d. ss_sent s = [d] \<and> deployable dw vars (dp_from d) (dp_chain d) \<and>
       (dp_chain d = ANVIL_CHAIN_ID \<or> ''--yes'' \<in> set argv) \<and> (code = 0 \<longrightarrow> (\<exists>address. deployed_at dw (dp_from d) address)))) \<and>
     (code = 0 \<longrightarrow> ss_sent s = [] \<longrightarrow> ''--yes'' \<notin> set argv \<and> getEvmChainId (vars ''EVM_CHAIN_ID'') \<noteq> Inr ANVIL_CHAIN_ID \<and> ss_files s = [])"
proof -
  let ?s0 = "\<lparr> ss_out = [], ss_sent = [], ss_files = [] \<rparr>"
  obtain r where m: "main dw vars argv ?s0 = (r, s)" "code = 0 \<longleftrightarrow> r = Inr ()"
    using assms by (auto simp: deploy_live_def split: prod.splits sum.splits deploy_error.splits)
  obtain rp t where p: "plan dw vars ?s0 = (rp, t)" by (cases "plan dw vars ?s0")
  have t: "ss_sent t = []" using leavesD [OF plan_leaves(1) p] by simp
  show ?thesis
  proof (cases rp)
    case (Inl x)
    then have "r = Inl x" "s = t" using m(1) p by (simp_all add: main_def bindS_def)
    then show ?thesis using t m(2) by simp
  next
    case (Inr v)
    obtain a cid ch rpc bc where v: "v = (a, cid, ch, rpc, bc)" by (cases v)
    have dep: "deployable dw vars a cid" "ch_id ch = cid" using plan_deployable p Inr v by blast+
    have cid: "getEvmChainId (vars ''EVM_CHAIN_ID'') = Inr cid" using dep(1) by (simp add: deployable_def)
    have yes: "flag argv ''--yes'' \<longleftrightarrow> ''--yes'' \<in> set argv" by (auto simp: flag_def list_ex_iff)
    let ?d = "\<lparr> dp_from = a, dp_chain = ch_id ch, dp_bytecode = bc \<rparr>"
    show ?thesis
    proof (cases "\<not> isLocalChain cid \<and> \<not> flag argv ''--yes''")
      case True
      have "ss_files t = []" using leavesD [OF plan_leaves(2) p] by simp
      then show ?thesis using True m(1) p Inr v t cid yes by (auto simp: main_def bindS_def print_def isLocalChain_def)
    next
      case False
      define t1 where "t1 = t\<lparr>ss_sent := ss_sent t @ [?d]\<rparr>"
      have run: "(r, s) = bindS (checkS (map_sum RawError id (dw_deploy dw))) (report dw argv a ch rpc) t1"
        using False m(1) p Inr v by (auto simp: main_def bindS_def deployContract_def t1_def checkS_def)
      then have "ss_sent s = ss_sent t1"
        using leavesD [OF leaves_bind [OF leaves_basic(4) report_leaves] run [symmetric]] by simp
      then have sent: "ss_sent s = [?d]" using t by (simp add: t1_def)
      have "\<exists>address. deployed_at dw a address" if ok: "r = Inr ()"
      proof -
        obtain h u where "map_sum RawError id (dw_deploy dw) = Inr h" "report dw argv a ch rpc h u = (Inr (), s)"
          using run [symmetric] unfolding ok bindS_Inr basic_Inr by blast
        then show ?thesis using report_deployed by (cases "dw_deploy dw") auto
      qed
      then show ?thesis using sent dep False yes m(2) by (auto simp: isLocalChain_def)
    qed
  qed
qed

text \<open>A node of chain 46630 on which the deployment succeeds.\<close>

definition sample_deploy :: deploy_world where
  "sample_deploy = \<lparr> dw_chains = [], dw_origin = sample_origin, dw_mnemonic = (\<lambda>m i. ''0xDE'' @ show_nat i), dw_account = (\<lambda>k. Inr ''0xAb''),
     dw_artifact = Some (stringify (JObj [(''abi'', JArr []), (''bytecode'', JStr ''0x60'')])), dw_syntaxError = plain_error,
     dw_typeError = plain_error [], dw_encode = (\<lambda>a b. Inr b), dw_getChainId = Inr 46630, dw_getBalance = (\<lambda>a. Inr 100),
     dw_getGasPrice = Inr 2, dw_estimateGas = (\<lambda>a d. Inr 10), dw_deploy = Inr ''0xfeed'',
     dw_receipt = (\<lambda>h. Inr \<lparr> dr_success = True, dr_contractAddress = Some ''0xc0'', dr_blockNumber = 7 \<rparr>),
     dw_getCode = (\<lambda>a. Inr (Some ''0x60'')), dw_readString = (\<lambda>a f. Inr (if f = ''owner'' then ''0xaB'' else ''MUSDT'')),
     dw_readDecimals = (\<lambda>a. Inr 6), dw_writeFile = (\<lambda>f. None) \<rparr>"

definition sample_deploy_vars :: "string \<Rightarrow> string option" where
  "sample_deploy_vars v = (if v = ''RPC_URL'' then Some ''https://host/key'' else if v = ''EVM_CHAIN_ID'' then Some ''46630''
     else if v = ''PRIVATE_KEY'' then Some (''0x'' @ replicate 64 (CHR ''7'')) else None)"

lemma sample_deploy_fields:
  "dw_chains sample_deploy = []" "dw_account sample_deploy k = Inr ''0xAb''" "dw_encode sample_deploy abi b = Inr b"
  "dw_getChainId sample_deploy = Inr 46630" "dw_getBalance sample_deploy a = Inr 100" "dw_getGasPrice sample_deploy = Inr 2"
  "dw_estimateGas sample_deploy a b = Inr 10" "dw_deploy sample_deploy = Inr ''0xfeed''"
  "dw_receipt sample_deploy h = Inr \<lparr> dr_success = True, dr_contractAddress = Some ''0xc0'', dr_blockNumber = 7 \<rparr>"
  "dw_getCode sample_deploy a = Inr (Some ''0x60'')" "dw_readString sample_deploy a f = Inr (if f = ''owner'' then ''0xaB'' else ''MUSDT'')"
  "dw_readDecimals sample_deploy a = Inr 6"
  by (simp_all add: sample_deploy_def)

lemma sample_deploy_artifact: "loadArtifact sample_deploy = returnS (JArr [], ''0x60'')"
  by (simp add: loadArtifact_def sample_deploy_def json_round_trip json_member_def falsy_def Let_def del: stringify.simps)

lemma sample_deploy_owner: "toLowerCase ''0xaB'' = toLowerCase ''0xAb''"
  by code_simp

lemma sample_deploy_key: "parseDeployerKey (sample_deploy_vars ''PRIVATE_KEY'') = Inr (''0x'' @ replicate 64 (CHR ''7''))"
  by (simp add: parseDeployerKey_def sample_deploy_vars_def Let_def trim_def is_space_def hex_nibble_def list_all_iff)

lemma sample_deploy_chain: "getEvmChainId (sample_deploy_vars ''EVM_CHAIN_ID'') = Inr 46630"
  by code_simp

lemma sample_deploy_url: "sample_deploy_vars ''RPC_URL'' = Some ''https://host/key''" "trim ''https://host/key'' = ''https://host/key''"
  by (simp add: sample_deploy_vars_def) code_simp

lemma sample_deploy_allowed:
  "assertDeployAllowed (dw_mnemonic sample_deploy) \<lparr> dc_configuredChainId = 46630, dc_rpcChainId = 46630, dc_deployerAddress = ''0xAb'',
     dc_balance = 100, dc_estimatedCost = 24 \<rparr> = Inr ()"
  by code_simp

theorem deployment_guarded_witness:
  "\<exists>d. ss_sent (snd (snd (deploy_live sample_deploy sample_deploy_vars [''--yes'']))) = [d] \<and>
     deployable sample_deploy sample_deploy_vars (dp_from d) (dp_chain d) \<and> (\<exists>address. deployed_at sample_deploy (dp_from d) address)"
proof -
  obtain code err s where r: "deploy_live sample_deploy sample_deploy_vars [''--yes''] = (code, err, s)"
    by (cases "deploy_live sample_deploy sample_deploy_vars [''--yes'']")
  have "fst (deploy_live sample_deploy sample_deploy_vars [''--yes'']) = 0"
    using sample_deploy_allowed
    by (simp add: deploy_live_def main_def bindS_def plan_def sample_deploy_key sample_deploy_chain sample_deploy_url checkS_def callS_def configS_def
        returnS_def sample_deploy_artifact print_def getEvmChain_def KNOWN_CHAINS_def flag_def bigint_div_def report_def deployContract_def Let_def
        sample_deploy_fields sample_deploy_owner)
  then have code: "code = 0" using r by simp
  moreover have "ss_sent s \<noteq> []" using deployment_guarded [OF r] code by auto
  ultimately show ?thesis using deployment_guarded [OF r] r by auto
qed

end
