(* ===== verification/Readiness.thy ===== *)
theory Readiness
  imports Routes
begin

text \<open>
  The probes of the API: \<^verbatim>\<open>api/health/readiness.service.ts\<close> and \<^verbatim>\<open>api/routes/health.routes.ts\<close>. The
  node's answers are parameters that depend on the number of the call.
\<close>

section \<open>Checks\<close>

record chain_probe =
  cp_getBlockNumber :: "nat \<Rightarrow> exn + int"
  cp_getChainId :: "nat \<Rightarrow> exn + int"

record readiness =
  rd_healthy :: bool
  rd_status :: string
  rd_checks :: "(string \<times> string) list"
  rd_timestamp :: string

definition database_check :: "string eff" where
  "database_check = catchE (bindE (query (\<lambda>d. ())) (\<lambda>_. returnE ''ok'')) (\<lambda>error. returnE ''failed'')"

definition rpc_check :: "chain_probe \<Rightarrow> string option \<Rightarrow> string eff" where
  "rpc_check probe evmVar =
     catchE
       (bindE (external (cp_getBlockNumber probe)) (\<lambda>_.
        bindE (case getEvmChainId evmVar of Inl x \<Rightarrow> throwE x | Inr i \<Rightarrow> returnE i) (\<lambda>expectedChainId.
        bindE (external (cp_getChainId probe)) (\<lambda>actualChainId.
        returnE (if actualChainId = expectedChainId then ''ok'' else ''chain_mismatch'')))))
       (\<lambda>error. returnE ''failed'')"

definition checkReadiness :: "chain_probe \<Rightarrow> string option \<Rightarrow> readiness eff" where
  "checkReadiness probe evmVar =
     bindE database_check (\<lambda>database.
     bindE (rpc_check probe evmVar) (\<lambda>rpc.
     let checks = [(''redis'', ''ok''), (''database'', database), (''rpc'', rpc)]; healthy = list_all (\<lambda>(k, v). v = ''ok'') checks in
     bindE getNow (\<lambda>now. returnE \<lparr> rd_healthy = healthy, rd_status = (if healthy then ''ready'' else ''not_ready''), rd_checks = checks,
       rd_timestamp = toISOString now \<rparr>)))"

section \<open>Routes\<close>

definition readiness_js :: "readiness \<Rightarrow> js" where
  "readiness_js r = JsObj [(''healthy'', JsBool (rd_healthy r)), (''status'', JsStr (rd_status r)),
     (''checks'', JsObj (map (\<lambda>(k, v). (k, JsStr v)) (rd_checks r))), (''timestamp'', JsStr (rd_timestamp r))]"

definition var_or_unknown :: "(string \<Rightarrow> string option) \<Rightarrow> string \<Rightarrow> js" where
  "var_or_unknown vars name = JsStr (case vars name of Some v \<Rightarrow> v | None \<Rightarrow> ''unknown'')"

definition health_route :: "(string \<Rightarrow> string option) \<Rightarrow> http_reply eff" where
  "health_route vars = bindE getNow (\<lambda>now. send 200 (JsObj [(''status'', JsStr ''ok''), (''service'', JsStr ''blockchain-transaction-api''),
     (''version'', var_or_unknown vars ''APP_VERSION''), (''commit'', var_or_unknown vars ''GIT_SHA''),
     (''deploymentId'', var_or_unknown vars ''DEPLOYMENT_ID''), (''deploymentCreatedAt'', var_or_unknown vars ''DEPLOYMENT_CREATED_AT''),
     (''timestamp'', JsStr (toISOString now))]))"

definition ready_route :: "chain_probe \<Rightarrow> string option \<Rightarrow> http_reply eff" where
  "ready_route probe evmVar = bindE (checkReadiness probe evmVar) (\<lambda>readiness.
     if \<not> rd_healthy readiness then send 503 (readiness_js readiness) else send 200 (readiness_js readiness))"

section \<open>What the checks find\<close>

lemma database_check_run:
  assumes "env_fault e (calls w) \<noteq> FailBefore Crashed" "env_fault e (calls w) \<noteq> FailAfter Crashed"
  obtains w1 where "database_check e w = (Inr (if env_fault e (calls w) = NoFault then ''ok'' else ''failed''), w1)" "calls w1 = Suc (calls w)"
  using assms that
  by (cases "env_fault e (calls w)") (simp_all add: database_check_def query_def statement_def arrive_def catchE_def bindE_def returnE_def Let_def)

lemma rpc_check_run:
  assumes "cp_getBlockNumber probe (calls w) \<noteq> Inl Crashed" "cp_getChainId probe (Suc (calls w)) \<noteq> Inl Crashed"
  obtains v w1 where "rpc_check probe evmVar e w = (Inr v, w1)"
    "v = ''ok'' \<longleftrightarrow> (\<exists>n. cp_getBlockNumber probe (calls w) = Inr n) \<and>
       (\<exists>c. getEvmChainId evmVar = Inr c \<and> cp_getChainId probe (Suc (calls w)) = Inr c)"
proof -
  have nc: "getEvmChainId evmVar \<noteq> Inl Crashed" by (simp add: getEvmChainId_def Let_def split: option.splits)
  show thesis
    using that assms nc
    by (cases "cp_getBlockNumber probe (calls w)"; cases "getEvmChainId evmVar"; cases "cp_getChainId probe (Suc (calls w))")
      (simp_all add: rpc_check_def external_def arrive_def catchE_def bindE_def returnE_def throwE_def split: if_splits)
qed

lemma readiness_sent: "send k (readiness_js r) e w = (Inr \<lparr> rp_status = k, rp_body = the (to_json (readiness_js r)) \<rparr>, w)"
proof -
  have "\<exists>j. to_json_members (map (\<lambda>(k, v). (k, JsStr v)) cs) = Some j" for cs by (induction cs) auto
  then obtain j where "to_json_members (map (\<lambda>(k, v). (k, JsStr v)) (rd_checks r)) = Some j" by blast
  then show ?thesis by (simp add: send_def readiness_js_def returnE_def)
qed

section \<open>Property\<close>

text \<open>
  Readiness is about this chain. Unless the process dies, the probe always answers, and it
  answers 200 exactly when the database answered its query, the node answered both calls, and the
  chain the node reports is the one the deployment is configured for; in every other case, with a
  malformed \<^verbatim>\<open>EVM_CHAIN_ID\<close> among them, it answers 503.
\<close>

theorem readiness_answer:
  assumes "env_fault e (calls w) \<noteq> FailBefore Crashed" "env_fault e (calls w) \<noteq> FailAfter Crashed"
    and "cp_getBlockNumber probe (Suc (calls w)) \<noteq> Inl Crashed" "cp_getChainId probe (Suc (Suc (calls w))) \<noteq> Inl Crashed"
  shows "\<exists>reply w'. ready_route probe evmVar e w = (Inr reply, w') \<and>
    rp_status reply = (if env_fault e (calls w) = NoFault \<and> (\<exists>n. cp_getBlockNumber probe (Suc (calls w)) = Inr n) \<and>
      (\<exists>c. getEvmChainId evmVar = Inr c \<and> cp_getChainId probe (Suc (Suc (calls w))) = Inr c) then 200 else 503)"
proof -
  obtain w1 where d: "database_check e w = (Inr (if env_fault e (calls w) = NoFault then ''ok'' else ''failed''), w1)" "calls w1 = Suc (calls w)"
    using assms(1,2) by (rule database_check_run)
  obtain v w2 where r: "rpc_check probe evmVar e w1 = (Inr v, w2)"
    "v = ''ok'' \<longleftrightarrow> (\<exists>n. cp_getBlockNumber probe (calls w1) = Inr n) \<and>
       (\<exists>c. getEvmChainId evmVar = Inr c \<and> cp_getChainId probe (Suc (calls w1)) = Inr c)"
    using assms(3,4) unfolding d(2) [symmetric] by (rule rpc_check_run)
  show ?thesis
    using d(1) r(1) unfolding r(2) [unfolded d(2), symmetric]
    by (simp add: ready_route_def checkReadiness_def bindE_def getNow_def returnE_def Let_def readiness_sent)
qed

theorem readiness_answer_witness:
  "(\<exists>reply w'. ready_route \<lparr> cp_getBlockNumber = (\<lambda>n. Inr 7), cp_getChainId = (\<lambda>n. Inr 31337) \<rparr> None (calm (\<lambda>_. 0) (\<lambda>_. [])) (world_of empty_store) =
     (Inr reply, w') \<and> rp_status reply = 200) \<and>
   (\<exists>reply w'. ready_route \<lparr> cp_getBlockNumber = (\<lambda>n. Inr 7), cp_getChainId = (\<lambda>n. Inr 1) \<rparr> None (calm (\<lambda>_. 0) (\<lambda>_. [])) (world_of empty_store) =
     (Inr reply, w') \<and> rp_status reply = 503)"
proof -
  let ?e = "calm (\<lambda>_. 0) (\<lambda>_. [])" and ?w = "world_of empty_store"
  have f: "env_fault ?e n = NoFault" for n by (simp add: calm_def)
  have c: "getEvmChainId None = Inr 31337" by (simp add: getEvmChainId_def chain_id_defs)
  show ?thesis
    using readiness_answer [of ?e ?w "\<lparr> cp_getBlockNumber = (\<lambda>n. Inr 7), cp_getChainId = (\<lambda>n. Inr 31337) \<rparr>" None]
      readiness_answer [of ?e ?w "\<lparr> cp_getBlockNumber = (\<lambda>n. Inr 7), cp_getChainId = (\<lambda>n. Inr 1) \<rparr>" None]
    by (simp add: f c)
qed

end
