(* ===== verification/Redelivery.thy ===== *)
theory Redelivery
  imports Delivery
begin

text \<open>
  The handler of the confirmation queue, \<^verbatim>\<open>workers/confirmation.queue.worker.ts\<close>, called more than once
  for one job. When and how often BullMQ calls it (the attempts and the backoff of
  \<^verbatim>\<open>queues/transaction.queue.ts\<close>, a stalled job, a second job of the recovery) is not modelled: what is shown
  holds for every sequence of calls. Each is made by some worker in an environment of its own and against the
  chain as it is then, so the calls are a list of registries and environments.
\<close>

section \<open>The handler and its calls\<close>

definition confirmation_handler :: "adapter list \<Rightarrow> confirmation_job \<Rightarrow> unit eff" where
  "confirmation_handler registry j = processTransaction registry (cj_transactionId j) (cj_tenantId j)"

text \<open>What each call returns or throws, and the store they leave.\<close>

fun deliveries :: "(adapter list \<times> env) list \<Rightarrow> confirmation_job \<Rightarrow> store \<Rightarrow> (exn + unit) list \<times> store" where
  "deliveries [] j d = ([], d)"
| "deliveries (x # xs) j d =
     (case confirmation_handler (fst x) j (snd x) (world_of d) of (q, w) \<Rightarrow>
        (case deliveries xs j (db w) of (qs, d') \<Rightarrow> (q # qs, d')))"

section \<open>What a call finds\<close>

text \<open>The call asks the chain for the transaction and gets this answer.\<close>

definition asked :: "store \<Rightarrow> string \<Rightarrow> string \<Rightarrow> transaction \<Rightarrow> string \<Rightarrow> adapter list \<times> env \<Rightarrow> exn + blockchain_transaction \<Rightarrow> bool" where
  "asked d i tn t h x r \<longleftrightarrow> quiet (snd x) \<and>
     (\<exists>a. delivered (fst x) d i tn t h a \<and> answers (snd x) (ad_getTransaction a h) r)"

text \<open>The chain cannot be asked, or reports the transaction pending; or it reports it confirmed in a block.\<close>

definition unsettled :: "exn + blockchain_transaction \<Rightarrow> bool" where
  "unsettled r \<longleftrightarrow> (case r of Inl x \<Rightarrow> x \<noteq> Crashed | Inr bt \<Rightarrow> bt_status bt = chain_pending)"

definition reports_confirmed :: "exn + blockchain_transaction \<Rightarrow> bool" where
  "reports_confirmed r \<longleftrightarrow> (case r of Inl x \<Rightarrow> False | Inr bt \<Rightarrow> bt_status bt = chain_confirmed \<and> bt_blockNumber bt \<noteq> None)"

lemma unsettled_not_confirmed: "unsettled r \<Longrightarrow> \<not> reports_confirmed r"
  by (auto simp: unsettled_def reports_confirmed_def split: sum.splits)

lemma unsettled_call:
  assumes "asked d i tn t h x r" "unsettled r" "cj_transactionId j = i" "cj_tenantId j = tn"
  shows "\<exists>y w. confirmation_handler (fst x) j (snd x) (world_of d) = (Inl y, w) \<and> db w = d"
proof -
  obtain a where q: "quiet (snd x)" "delivered (fst x) (db (world_of d)) i tn t h a" "answers (snd x) (ad_getTransaction a h) r"
    using assms(1) by (auto simp: asked_def)
  show ?thesis
  proof (cases r)
    case (Inl y)
    then have "y \<noteq> Crashed" using assms(2) by (simp add: unsettled_def)
    from unanswered_delivery [OF q(1,2) q(3) [unfolded Inl] this] show ?thesis
      using assms(3,4) by (auto simp: confirmation_handler_def)
  next
    case (Inr bt)
    then have "bt_status bt = chain_pending" using assms(2) by (simp add: unsettled_def)
    from pending_delivery [OF q(1,2) q(3) [unfolded Inr] this] show ?thesis
      using assms(3,4) by (auto simp: confirmation_handler_def)
  qed
qed

lemma confirming_call:
  assumes "asked d i tn t h x r" "reports_confirmed r" "cj_transactionId j = i" "cj_tenantId j = tn"
    and "tx_status t = SUBMITTED \<or> tx_status t = CONFIRMING" "\<And>n. row ob_id (outbox d) (env_uuid (snd x) n) = None"
  obtains w t' eid ct where "confirmation_handler (fst x) j (snd x) (world_of d) = (Inr (), w)"
    "db w = (put_tx t' d)\<lparr>outbox := outbox d @ [confirmed_event eid t' ct]\<rparr>"
    "same_terms t t'" "tx_txHash t' = Some h" "tx_status t' = CONFIRMED" "tx_wf t'"
proof -
  obtain a bt b where q: "quiet (snd x)" "delivered (fst x) (db (world_of d)) i tn t h a" "answers (snd x) (ad_getTransaction a h) (Inr bt)"
    "bt_status bt = chain_confirmed" "bt_blockNumber bt = Some b"
    using assms(1,2) by (auto simp: asked_def reports_confirmed_def split: sum.splits)
  show thesis
    using delivery_confirms_wf [OF q assms(5)] assms(3,4,6) by (auto simp: confirmation_handler_def intro: that)
qed

lemma settled_call:
  assumes "asked d i tn t h x r" "reports_confirmed r" "cj_transactionId j = i" "cj_tenantId j = tn" "tx_status t = CONFIRMED"
  shows "\<exists>w. confirmation_handler (fst x) j (snd x) (world_of d) = (Inr (), w) \<and> db w = d"
proof -
  obtain a bt where q: "quiet (snd x)" "delivered (fst x) (db (world_of d)) i tn t h a" "answers (snd x) (ad_getTransaction a h) (Inr bt)"
    "bt_status bt \<noteq> chain_pending"
    using assms(1,2) by (auto simp: asked_def reports_confirmed_def split: sum.splits)
  show ?thesis
    using delivery_settled [OF q(1-3) _ q(4)] assms(3-5) by (auto simp: confirmation_handler_def terminal_status_def)
qed

text \<open>A later call finds the confirmed row.\<close>

lemma asked_after:
  assumes "asked d i tn t h x r" "same_terms t t'" "tx_txHash t' = Some h" "tx_wf t'"
  shows "asked ((put_tx t' d)\<lparr>outbox := evs\<rparr>) i tn t' h x r"
proof -
  have id: "tx_id t' = tx_id t" "tx_tenantId t' = tx_tenantId t" "tx_tokenId t' = tx_tokenId t" using assms(2) by (simp_all add: same_terms_def)
  have "delivered (fst x) ((put_tx t' d)\<lparr>outbox := evs\<rparr>) i tn t' h a" if del: "delivered (fst x) d i tn t h a" for a
  proof -
    from delivered_row [OF del] have "ledger_ok d" "tx_id t = i" "row tx_id (transactions d) i = Some t" "tx_txHash t = Some h" by auto
    then have "ledger_ok (put_tx t' d)" "row tx_id (transactions (put_tx t' d)) i = Some t'"
      using assms(3,4) id by (auto intro!: ledger_ok_put simp: put_tx_row)
    with del id assms(3) show ?thesis by (auto simp: delivered_def ledger_ok_def)
  qed
  with assms(1) show ?thesis by (auto simp: asked_def)
qed

section \<open>Sequences of calls\<close>

text \<open>Once the transaction is confirmed no call changes anything.\<close>

lemma deliveries_settled:
  assumes "list_all2 (asked d i tn t h) xs rs" "\<forall>r \<in> set rs. unsettled r \<or> reports_confirmed r"
    and "cj_transactionId j = i" "cj_tenantId j = tn" "tx_status t = CONFIRMED"
  shows "\<exists>qs. deliveries xs j d = (qs, d) \<and> list_all2 (\<lambda>q r. (q = Inr ()) = reports_confirmed r) qs rs"
  using assms(1,2)
proof (induction xs rs rule: list_all2_induct)
  case (Cons x xs r rs)
  have "\<exists>q w. confirmation_handler (fst x) j (snd x) (world_of d) = (q, w) \<and> db w = d \<and> (q = Inr ()) = reports_confirmed r"
    using unsettled_call [OF Cons.hyps(1) _ assms(3,4)] settled_call [OF Cons.hyps(1) _ assms(3-5)] Cons.prems unsettled_not_confirmed
    by fastforce
  with Cons show ?case by fastforce
qed simp

lemma deliveries_once:
  assumes "list_all2 (asked d i tn t h) xs rs" "\<forall>r \<in> set rs. unsettled r \<or> reports_confirmed r"
    and j: "cj_transactionId j = i" "cj_tenantId j = tn" and st: "tx_status t = SUBMITTED \<or> tx_status t = CONFIRMING"
    and "\<forall>x \<in> set xs. \<forall>n. row ob_id (outbox d) (env_uuid (snd x) n) = None"
  shows "\<exists>qs d'. deliveries xs j d = (qs, d') \<and> list_all2 (\<lambda>q r. (q = Inr ()) = reports_confirmed r) qs rs \<and>
    (if list_ex reports_confirmed rs
     then \<exists>t' eid ct. d' = (put_tx t' d)\<lparr>outbox := outbox d @ [confirmed_event eid t' ct]\<rparr> \<and>
       same_terms t t' \<and> tx_txHash t' = Some h \<and> tx_status t' = CONFIRMED
     else d' = d)"
  using assms(1,2,6)
proof (induction xs rs rule: list_all2_induct)
  case (Cons x xs r rs)
  show ?case
  proof (cases "reports_confirmed r")
    case True
    have fresh: "row ob_id (outbox d) (env_uuid (snd x) n) = None" for n using Cons.prems(2) by simp
    obtain w t' eid ct where w: "confirmation_handler (fst x) j (snd x) (world_of d) = (Inr (), w)"
      "db w = (put_tx t' d)\<lparr>outbox := outbox d @ [confirmed_event eid t' ct]\<rparr>"
      "same_terms t t'" "tx_txHash t' = Some h" "tx_status t' = CONFIRMED" "tx_wf t'"
      by (rule confirming_call [OF Cons.hyps(1) True j st fresh])
    have "list_all2 (asked (db w) i tn t' h) xs rs"
      using Cons.hyps(2) asked_after [OF _ w(3,4,6)] unfolding w(2) by (rule list_all2_mono)
    then obtain qs where "deliveries xs j (db w) = (qs, db w)" "list_all2 (\<lambda>q r. (q = Inr ()) = reports_confirmed r) qs rs"
      using deliveries_settled [OF _ _ j w(5)] Cons.prems(1) by (metis list.set_intros(2))
    with w True show ?thesis by auto
  next
    case False
    then obtain y w where "confirmation_handler (fst x) j (snd x) (world_of d) = (Inl y, w)" "db w = d"
      using unsettled_call [OF Cons.hyps(1) _ j] Cons.prems(1) by auto
    with Cons False show ?thesis by fastforce
  qed
qed simp

section \<open>Property\<close>

text \<open>
  C9: a confirmation job may be delivered any number of times. The calls of the handler for a SUBMITTED or
  CONFIRMING transaction, one after the other, each find the chain unreachable, the transaction pending, or the
  transaction confirmed. A call completes exactly when the chain reports the transaction confirmed, and throws otherwise, which is
  what makes the queue call again; as long as no call finds it confirmed, the store is as it was; and when one has,
  the store is, however many calls follow, the old one with the transaction CONFIRMED, its terms and hash kept,
  and exactly one event.
\<close>

theorem redelivered_once:
  assumes "cj_transactionId j = i" "cj_tenantId j = tn" "tx_status t = SUBMITTED \<or> tx_status t = CONFIRMING"
    and "list_all2 (asked d i tn t h) xs rs" "\<forall>r \<in> set rs. unsettled r \<or> reports_confirmed r"
    and "\<forall>x \<in> set xs. \<forall>n. row ob_id (outbox d) (env_uuid (snd x) n) = None"
  shows "\<exists>qs d'. deliveries xs j d = (qs, d') \<and> list_all2 (\<lambda>q r. (q = Inr ()) = reports_confirmed r) qs rs \<and>
    (if list_ex reports_confirmed rs
     then \<exists>t' eid ct. d' = (put_tx t' d)\<lparr>outbox := outbox d @ [confirmed_event eid t' ct]\<rparr> \<and>
       same_terms t t' \<and> tx_txHash t' = Some h \<and> tx_status t' = CONFIRMED
     else d' = d)"
  by (rule deliveries_once [OF assms(4,5,1,2,3,6)])

lemma sample_bitcoin_confirmed:
  "\<exists>bt. answers sample_env (ad_getTransaction (sample_adapter r (Inr (Some 3)) BITCOIN) ''0xfeed'') (Inr bt) \<and>
     bt_status bt = chain_confirmed \<and> bt_blockNumber bt = Some 799"
  by (simp add: answers_def sample_adapter_def bitcoin_adapter_def bitcoin_getTransaction_def sample_bitcoin_def eff_simps external_quiet failures_def nonempty_def)

theorem redelivered_once_witness:
  "\<exists>t' eid ct y. deliveries [(sample_registry (Inr True) (Inl (PlainError ''boom'')), sample_env),
       (sample_registry (Inr True) (Inr (Some 3)), sample_env), (sample_registry (Inr True) (Inr (Some 3)), sample_env)]
     \<lparr> cj_name = ''confirm-transaction'', cj_transactionId = ''tx-1'', cj_tenantId = ''acme'', cj_options = None \<rparr> (sample_store BITCOIN [sample_tx SUBMITTED]) =
     ([Inl y, Inr (), Inr ()], (put_tx t' (sample_store BITCOIN [sample_tx SUBMITTED]))\<lparr>outbox := [confirmed_event eid t' ct]\<rparr>) \<and>
   tx_status t' = CONFIRMED \<and> tx_txHash t' = Some ''0xfeed''"
proof -
  let ?d = "sample_store BITCOIN [sample_tx SUBMITTED]"
  let ?j = "\<lparr> cj_name = ''confirm-transaction'', cj_transactionId = ''tx-1'', cj_tenantId = ''acme'', cj_options = None \<rparr>"
  let ?x = "\<lambda>q. (sample_registry (Inr True) q, sample_env)"
  have del: "delivered (sample_registry (Inr True) q) ?d ''tx-1'' ''acme'' (sample_tx SUBMITTED) ''0xfeed'' (sample_adapter (Inr True) q BITCOIN)" for q
    by (rule sample_delivered) simp
  obtain bt where bt: "answers sample_env (ad_getTransaction (sample_adapter (Inr True) (Inr (Some 3)) BITCOIN) ''0xfeed'') (Inr bt)"
    "bt_status bt = chain_confirmed" "bt_blockNumber bt = Some 799" using sample_bitcoin_confirmed by blast
  have boom: "asked ?d ''tx-1'' ''acme'' (sample_tx SUBMITTED) ''0xfeed'' (?x (Inl (PlainError ''boom''))) (Inl (PlainError ''boom''))"
    using del sample_bitcoin_answers [of "Inl (PlainError ''boom'')" "Inr True"] by (fastforce simp: asked_def)
  have ok: "asked ?d ''tx-1'' ''acme'' (sample_tx SUBMITTED) ''0xfeed'' (?x (Inr (Some 3))) (Inr bt)"
    using del bt(1) by (auto simp: asked_def)
  let ?xs = "[?x (Inl (PlainError ''boom'')), ?x (Inr (Some 3)), ?x (Inr (Some 3))]"
  let ?rs = "[Inl (PlainError ''boom''), Inr bt, Inr bt]"
  have rs: "unsettled (Inl (PlainError ''boom''))" "reports_confirmed (Inr bt)" using bt by (simp_all add: unsettled_def reports_confirmed_def)
  have calls: "list_all2 (asked ?d ''tx-1'' ''acme'' (sample_tx SUBMITTED) ''0xfeed'') ?xs ?rs" using boom ok by simp
  have some: "list_ex reports_confirmed ?rs" using rs by simp
  have fresh: "\<forall>x \<in> set ?xs. \<forall>n. row ob_id (outbox ?d) (env_uuid (snd x) n) = None" by simp
  have "\<exists>qs d'. deliveries ?xs ?j ?d = (qs, d') \<and> list_all2 (\<lambda>q r. (q = Inr ()) = reports_confirmed r) qs ?rs \<and>
    (if list_ex reports_confirmed ?rs
     then \<exists>t' eid ct. d' = (put_tx t' ?d)\<lparr>outbox := outbox ?d @ [confirmed_event eid t' ct]\<rparr> \<and>
       same_terms (sample_tx SUBMITTED) t' \<and> tx_txHash t' = Some ''0xfeed'' \<and> tx_status t' = CONFIRMED
     else d' = ?d)"
    by (rule redelivered_once [OF _ _ _ calls _ fresh]) (use rs in simp_all)
  then obtain qs d' where run: "deliveries ?xs ?j ?d = (qs, d')"
    and qs: "list_all2 (\<lambda>q r. (q = Inr ()) = reports_confirmed r) qs ?rs"
    and d': "\<exists>t' eid ct. d' = (put_tx t' ?d)\<lparr>outbox := outbox ?d @ [confirmed_event eid t' ct]\<rparr> \<and>
       same_terms (sample_tx SUBMITTED) t' \<and> tx_txHash t' = Some ''0xfeed'' \<and> tx_status t' = CONFIRMED"
    unfolding if_P [OF some] by blast
  have "\<exists>y. qs = [Inl y, Inr (), Inr ()]"
    using qs rs by (auto simp: list_all2_Cons2 dest!: unsettled_not_confirmed) (metis obj_sumE old.unit.exhaust)
  with run d' show ?thesis by (auto simp del: deliveries.simps)
qed

end
