(* ===== verification/Metrics.thy ===== *)
theory Metrics
  imports Rpc "HOL-Library.Multiset"
begin

text \<open>
  The metrics of the processes: the counters, histograms and gauges they declare
  (\<^verbatim>\<open>observability/*.metrics.ts\<close>, \<^verbatim>\<open>metrics/event-listener.metrics.ts\<close>), how a process
  registers them, and the guarded calls by which the rest of the code updates them
  (\<^verbatim>\<open>observability/metrics.ts\<close>). The library \<^verbatim>\<open>prom-client\<close> is a parameter; what is relied
  on is named: it refuses a second metric of the same name, and it refuses a label that the
  metric does not declare.
\<close>

section \<open>The declared metrics\<close>

datatype metric_kind = CounterMetric | HistogramMetric | GaugeMetric

text \<open>Buckets are given in thousandths; the empty list leaves the default of the library.\<close>

record metric_def =
  md_kind :: metric_kind
  md_name :: string
  md_labelNames :: "string list"
  md_buckets :: "int list"

definition counter :: "string \<Rightarrow> string list \<Rightarrow> metric_def" where
  "counter n ls = \<lparr> md_kind = CounterMetric, md_name = n, md_labelNames = ls, md_buckets = [] \<rparr>"

definition gauge :: "string \<Rightarrow> string list \<Rightarrow> metric_def" where
  "gauge n ls = \<lparr> md_kind = GaugeMetric, md_name = n, md_labelNames = ls, md_buckets = [] \<rparr>"

definition histogram :: "string \<Rightarrow> string list \<Rightarrow> int list \<Rightarrow> metric_def" where
  "histogram n ls bs = \<lparr> md_kind = HistogramMetric, md_name = n, md_labelNames = ls, md_buckets = bs \<rparr>"

definition transaction_metrics :: "metric_def list" where
  "transaction_metrics = [
     counter ''transactions_created_total'' [''tenantId'', ''tokenId''],
     counter ''transactions_submitted_total'' [''tenantId'', ''tokenId''],
     counter ''transactions_confirmed_total'' [''tenantId'', ''tokenId''],
     counter ''transactions_failed_total'' [''tenantId'', ''tokenId'', ''status''],
     counter ''transactions_reverted_total'' [''tenantId'', ''tokenId''],
     histogram ''transaction_submission_duration_seconds'' [''tenantId'', ''tokenId''] [100, 500, 1000, 2000, 5000, 10000, 30000],
     histogram ''transaction_confirmation_duration_seconds'' [''tenantId'', ''tokenId''] [1000, 5000, 10000, 30000, 60000, 120000, 300000]]"

definition worker_metrics :: "metric_def list" where
  "worker_metrics = [
     counter ''worker_cycles_total'' [''worker_name''],
     counter ''worker_failures_total'' [''worker_name''],
     histogram ''worker_duration_seconds'' [''worker_name''] [100, 500, 1000, 5000, 10000, 30000, 60000],
     gauge ''worker_ready'' [''worker_name''],
     gauge ''confirmation_worker_pending_transactions'' []]"

definition http_metrics :: "metric_def list" where
  "http_metrics = [
     counter ''http_requests_total'' [''method'', ''route'', ''status_code''],
     histogram ''http_request_duration_seconds'' [''method'', ''route'', ''status_code''] [10, 25, 50, 100, 250, 500, 1000, 2500, 5000]]"

definition reconciliation_metrics :: "metric_def list" where
  "reconciliation_metrics = [
     gauge ''balance_reconciliation_snapshots'' [''blockchain'', ''result''],
     gauge ''balance_reconciliation_last_sweep_timestamp_seconds'' []]"

definition rpc_metrics :: "metric_def list" where
  "rpc_metrics = [
     counter ''blockchain_rpc_requests_total'' [''method'', ''status''],
     counter ''blockchain_rpc_failures_total'' [''method'', ''reason''],
     counter ''blockchain_rpc_retries_total'' [''method''],
     histogram ''blockchain_rpc_duration_seconds'' [''method''] [50, 100, 250, 500, 1000, 2000, 5000]]"

definition event_listener_metrics :: "metric_def list" where
  "event_listener_metrics = [
     counter ''event_listener_cycles_total'' [],
     counter ''event_listener_failures_total'' [],
     counter ''event_listener_events_processed_total'' [],
     counter ''event_listener_events_skipped_total'' [],
     histogram ''event_listener_processing_duration_seconds'' [] [],
     gauge ''event_listener_lag_blocks'' [''token_id'']]"

definition health_metrics :: "metric_def list" where
  "health_metrics = [gauge ''deployment_info'' [''version'', ''commit'', ''deployment_id'', ''deployment_created_at'']]"

definition declared_metrics :: "metric_def list" where
  "declared_metrics = rpc_metrics @ transaction_metrics @ worker_metrics @ health_metrics @ http_metrics @
     reconciliation_metrics @ event_listener_metrics"

section \<open>Registration and guarded updates\<close>

text \<open>
  The library: registering a metric in a registry, and the check that a call with the given
  labels passes. \<^verbatim>\<open>None\<close> is acceptance.
\<close>

record prom_lib =
  pl_register :: "metric_def list \<Rightarrow> metric_def \<Rightarrow> exn option"
  pl_check :: "metric_def \<Rightarrow> (string \<times> string) list \<Rightarrow> exn option"

definition registerMetric :: "prom_lib \<Rightarrow> metric_def \<Rightarrow> metric_def list \<Rightarrow> exn + metric_def list" where
  "registerMetric lib m registry =
     (case pl_register lib registry m of Some x \<Rightarrow> Inl x | None \<Rightarrow> Inr (registry @ [m]))"

text \<open>The modules of a process are loaded one after the other; an error ends the process.\<close>

fun load_metrics :: "prom_lib \<Rightarrow> metric_def list \<Rightarrow> metric_def list \<Rightarrow> exn + metric_def list" where
  "load_metrics lib [] registry = Inr registry"
| "load_metrics lib (m # ms) registry =
     (case registerMetric lib m registry of Inl x \<Rightarrow> Inl x | Inr r \<Rightarrow> load_metrics lib ms r)"

record metric_log =
  ml_samples :: "metric list"
  ml_observed :: "(metric \<times> int) list"
  ml_warnings :: "string list"

definition metric_inc :: "prom_lib \<Rightarrow> metric_def \<Rightarrow> (string \<times> string) list \<Rightarrow> metric_log \<Rightarrow> (exn + unit) \<times> metric_log" where
  "metric_inc lib m labels l = (case pl_check lib m labels of
       Some x \<Rightarrow> (Inl x, l)
     | None \<Rightarrow> (Inr (), l\<lparr>ml_samples := ml_samples l @ [(md_name m, labels)]\<rparr>))"

definition metric_observe :: "prom_lib \<Rightarrow> metric_def \<Rightarrow> (string \<times> string) list \<Rightarrow> int \<Rightarrow> metric_log \<Rightarrow> (exn + unit) \<times> metric_log" where
  "metric_observe lib m labels x l = (case pl_check lib m labels of
       Some y \<Rightarrow> (Inl y, l)
     | None \<Rightarrow> (Inr (), l\<lparr>ml_observed := ml_observed l @ [((md_name m, labels), x)]\<rparr>))"

text \<open>\<^verbatim>\<open>try { ... } catch (error) { getLogger().warn(...) }\<close> around a call of the library.\<close>

definition or_warn :: "string \<Rightarrow> (metric_log \<Rightarrow> (exn + unit) \<times> metric_log) \<Rightarrow> metric_log \<Rightarrow> metric_log" where
  "or_warn msg f l = (case f l of (Inl x, l') \<Rightarrow> l'\<lparr>ml_warnings := ml_warnings l' @ [msg]\<rparr> | (Inr _, l') \<Rightarrow> l')"

definition incrementMetric_guarded :: "prom_lib \<Rightarrow> metric_def \<Rightarrow> (string \<times> string) list option \<Rightarrow> metric_log \<Rightarrow> metric_log" where
  "incrementMetric_guarded lib m labels = or_warn ''metric.increment.failed''
     (case labels of Some ls \<Rightarrow> metric_inc lib m ls | None \<Rightarrow> metric_inc lib m [])"

definition observeMetric :: "prom_lib \<Rightarrow> metric_def \<Rightarrow> int \<Rightarrow> (string \<times> string) list option \<Rightarrow> metric_log \<Rightarrow> metric_log" where
  "observeMetric lib m x labels = or_warn ''metric.observe.failed''
     (case labels of Some ls \<Rightarrow> metric_observe lib m ls x | None \<Rightarrow> metric_observe lib m [] x)"

definition safeObserve :: "prom_lib \<Rightarrow> metric_def \<Rightarrow> int \<Rightarrow> (string \<times> string) list option \<Rightarrow> metric_log \<Rightarrow> metric_log" where
  "safeObserve lib m x labels = or_warn ''metric.observe.failed''
     (metric_observe lib m (case labels of Some ls \<Rightarrow> ls | None \<Rightarrow> []) x)"

text \<open>What the calls that a process made, as its world records them, leave in the library.\<close>

fun recorded :: "prom_lib \<Rightarrow> metric_def list \<Rightarrow> metric list \<Rightarrow> metric_log \<Rightarrow> metric_log" where
  "recorded lib ms [] l = l"
| "recorded lib ms ((n, ls) # cs) l = recorded lib ms cs
     (case List.find (\<lambda>m. md_name m = n) ms of None \<Rightarrow> l | Some m \<Rightarrow> incrementMetric_guarded lib m (Some ls) l)"

definition no_metrics :: metric_log where
  "no_metrics = \<lparr> ml_samples = [], ml_observed = [], ml_warnings = [] \<rparr>"

section \<open>What is relied on\<close>

definition fresh_names :: "prom_lib \<Rightarrow> bool" where
  "fresh_names lib \<longleftrightarrow> (\<forall>r m. pl_register lib r m = None \<longleftrightarrow> md_name m \<notin> md_name ` set r)"

definition declared_labels :: "prom_lib \<Rightarrow> bool" where
  "declared_labels lib \<longleftrightarrow> (\<forall>m ls. pl_check lib m ls = None \<longleftrightarrow> fst ` set ls \<subseteq> set (md_labelNames m))"

section \<open>Registration\<close>

lemma load_metrics_distinct:
  assumes "fresh_names lib" "distinct (map md_name (r @ ms))"
  shows "load_metrics lib ms r = Inr (r @ ms)"
  using assms(2)
proof (induction ms arbitrary: r)
  case (Cons m ms)
  then have "pl_register lib r m = None" using assms(1) by (auto simp: fresh_names_def)
  with Cons.IH [of "r @ [m]"] Cons.prems show ?case by (simp add: registerMetric_def)
qed simp

lemmas metric_lists = declared_metrics_def rpc_metrics_def transaction_metrics_def worker_metrics_def health_metrics_def
  http_metrics_def reconciliation_metrics_def event_listener_metrics_def counter_def gauge_def histogram_def

lemma declared_names_distinct: "distinct (map md_name declared_metrics)"
  by (simp add: metric_lists)

text \<open>
  The names are pairwise different, so with a library that refuses only a name it has, loading
  the modules succeeds in every order and the registry holds every metric.
\<close>

lemma metrics_load:
  assumes "fresh_names lib" "mset ms = mset declared_metrics"
  shows "load_metrics lib ms [] = Inr ms"
proof -
  have "mset (map md_name ms) = mset (map md_name declared_metrics)" using assms(2) by (simp add: mset_map)
  then have "distinct (map md_name ms)" using declared_names_distinct mset_eq_imp_distinct_iff by blast
  then show ?thesis using load_metrics_distinct [OF assms(1), of "[]" ms] by simp
qed

section \<open>The samples of a request\<close>

lemma recorded_append: "recorded lib ms (cs @ cs') l = recorded lib ms cs' (recorded lib ms cs l)"
  by (induction lib ms cs l rule: recorded.induct) simp_all

lemma find_rpc:
  "List.find (\<lambda>m. md_name m = ''blockchain_rpc_requests_total'') declared_metrics =
     Some (counter ''blockchain_rpc_requests_total'' [''method'', ''status''])"
  "List.find (\<lambda>m. md_name m = ''blockchain_rpc_failures_total'') declared_metrics =
     Some (counter ''blockchain_rpc_failures_total'' [''method'', ''reason''])"
  "List.find (\<lambda>m. md_name m = ''blockchain_rpc_retries_total'') declared_metrics =
     Some (counter ''blockchain_rpc_retries_total'' [''method''])"
  by (simp_all add: declared_metrics_def rpc_metrics_def counter_def)

lemma increment_accepted:
  assumes "declared_labels lib" "fst ` set ls \<subseteq> set (md_labelNames m)"
  shows "incrementMetric_guarded lib m (Some ls) l = l\<lparr>ml_samples := ml_samples l @ [(md_name m, ls)]\<rparr>"
proof -
  have "pl_check lib m ls = None" using assms by (simp add: declared_labels_def)
  then show ?thesis by (simp add: incrementMetric_guarded_def or_warn_def metric_inc_def)
qed

lemma increment_refused:
  assumes "declared_labels lib" "\<not> fst ` set ls \<subseteq> set (md_labelNames m)"
  shows "incrementMetric_guarded lib m (Some ls) l = l\<lparr>ml_warnings := ml_warnings l @ [''metric.increment.failed'']\<rparr>"
proof -
  obtain x where "pl_check lib m ls = Some x" using assms unfolding declared_labels_def by (metis option.exhaust)
  then show ?thesis by (simp add: incrementMetric_guarded_def or_warn_def metric_inc_def)
qed

lemma find_named: "m \<in> set ms \<Longrightarrow> distinct (map md_name ms) \<Longrightarrow> List.find (\<lambda>x. md_name x = md_name m) ms = Some m"
  by (induction ms) force+

lemma recorded_declared:
  assumes "declared_labels lib" "m \<in> set declared_metrics" "fst ` set ls \<subseteq> set (md_labelNames m)"
  shows "recorded lib declared_metrics [(md_name m, ls)] l = l\<lparr>ml_samples := ml_samples l @ [(md_name m, ls)]\<rparr>"
  using assms by (simp add: find_named declared_names_distinct increment_accepted)

lemma recorded_requests:
  "declared_labels lib \<Longrightarrow> recorded lib declared_metrics [(''blockchain_rpc_requests_total'', [(''method'', m), (''status'', s)])] l =
     l\<lparr>ml_samples := ml_samples l @ [(''blockchain_rpc_requests_total'', [(''method'', m), (''status'', s)])]\<rparr>"
  by (simp add: find_rpc increment_accepted counter_def)

lemma recorded_failures_reason:
  "declared_labels lib \<Longrightarrow> recorded lib declared_metrics [(''blockchain_rpc_failures_total'', [(''method'', m), (''reason'', s)])] l =
     l\<lparr>ml_samples := ml_samples l @ [(''blockchain_rpc_failures_total'', [(''method'', m), (''reason'', s)])]\<rparr>"
  by (simp add: find_rpc increment_accepted counter_def)

lemma recorded_failures_status:
  "declared_labels lib \<Longrightarrow> recorded lib declared_metrics [(''blockchain_rpc_failures_total'', [(''method'', m), (''status'', s)])] l =
     l\<lparr>ml_warnings := ml_warnings l @ [''metric.increment.failed'']\<rparr>"
  by (simp add: find_rpc increment_refused counter_def)

lemma recorded_retries:
  "declared_labels lib \<Longrightarrow> recorded lib declared_metrics (replicate k (retry_sample m)) l = l\<lparr>ml_samples := ml_samples l @ replicate k (retry_sample m)\<rparr>"
  by (induction k arbitrary: l) (simp_all add: find_rpc increment_accepted counter_def)

text \<open>The calls that one request makes.\<close>

definition rpc_calls :: "string \<Rightarrow> exn + 'a \<Rightarrow> metric list" where
  "rpc_calls m r = (case r of
       Inr _ \<Rightarrow> [(''blockchain_rpc_requests_total'', [(''method'', m), (''status'', ''success'')])]
     | Inl Crashed \<Rightarrow> []
     | Inl (RpcError c _) \<Rightarrow> [(''blockchain_rpc_failures_total'', [(''method'', m), (''status'', ''error'')]),
         (''blockchain_rpc_failures_total'', [(''method'', m), (''reason'', rpc_reason c)])]
     | Inl _ \<Rightarrow> [(''blockchain_rpc_failures_total'', [(''method'', m), (''status'', ''error'')])])"

lemma executeRpc_metrics:
  "\<exists>w'. executeRpc m (external g) e w = (last (rpc_tries e g w), w') \<and> calls w' = calls w + length (rpc_tries e g w) \<and>
     metrics w' = metrics w @ replicate (length (rpc_tries e g w) - 1) (retry_sample m) @ rpc_calls m (last (rpc_tries e g w))"
proof -
  obtain w1 where w1: "retry (catchE (withTimeout (external g)) (\<lambda>error. throwE (classifyRpcError error)))
       (RPC_MAX_RETRIES e) (RPC_RETRY_DELAY_MS e) 2 (\<lambda>error attempt nextDelay. recordRpcRetry m) shouldRetry e w = (last (rpc_tries e g w), w1)"
    "calls w1 = calls w + length (rpc_tries e g w)"
    "metrics w1 = metrics w @ replicate (length (rpc_tries e g w) - 1) (retry_sample m)" using request_outcomes by blast
  then show ?thesis
    by (cases "last (rpc_tries e g w)") (auto simp: executeRpc_def instrumentRpc_def rpc_calls_def recordRpcFailure_def catchE_def bindE_def
        throwE_def returnE_def incrementMetric_def split: exn.split)
qed

text \<open>A request ends with a classified error, unless the process died.\<close>

lemma rpc_tries_errors:
  assumes "last (rpc_tries e g w) = Inl x"
  shows "x = Crashed \<or> (\<exists>c text. x = RpcError c text)"
proof -
  let ?os = "rpc_tries e g w"
  have "last ?os = rpc_outcome e g (calls w + (length ?os - 1))"
    by (metis attempts_are_calls attempts_nonempty diff_less last_conv_nth length_greater_0_conv zero_less_one)
  with assms show ?thesis
    by (auto simp: rpc_outcome_def classifyRpcError_def is_RpcError_def split: if_splits sum.splits exn.splits)
qed

section \<open>Properties\<close>

text \<open>
  C40: what the counters say of a request to a chain node. With a metrics library that refuses
  undeclared labels, a request that succeeds adds one success to
  \<^verbatim>\<open>blockchain_rpc_requests_total\<close>, one that fails adds one failure with its reason to
  \<^verbatim>\<open>blockchain_rpc_failures_total\<close>, every attempt but the first adds one to \<^verbatim>\<open>blockchain_rpc_retries_total\<close>
  (each attempt is one call to the node, and there are at most \<^verbatim>\<open>RPC_MAX_RETRIES\<close> retries), and nothing else is counted:
  a failed request is never counted as a request, with the label \<^verbatim>\<open>status\<close> or without, and the call by
  which \<^verbatim>\<open>instrumentRpc\<close> means to count it is refused and ends as a warning.
\<close>

theorem rpc_samples:
  assumes "declared_labels lib" "executeRpc m (external g) e w = (r, w')" "metrics w' = metrics w @ cs"
  shows "\<exists>k \<le> nat (RPC_MAX_RETRIES e). calls w' = calls w + Suc k \<and> recorded lib declared_metrics cs no_metrics = no_metrics\<lparr>
    ml_samples := replicate k (retry_sample m) @ (case r of
        Inr _ \<Rightarrow> [(''blockchain_rpc_requests_total'', [(''method'', m), (''status'', ''success'')])]
      | Inl (RpcError c text) \<Rightarrow> [(''blockchain_rpc_failures_total'', [(''method'', m), (''reason'', rpc_reason c)])]
      | Inl _ \<Rightarrow> []),
    ml_warnings := (case r of Inl (RpcError c text) \<Rightarrow> [''metric.increment.failed''] | _ \<Rightarrow> [])\<rparr>"
proof -
  let ?k = "length (rpc_tries e g w) - 1"
  have cs: "cs = replicate ?k (retry_sample m) @ rpc_calls m r" and r: "r = last (rpc_tries e g w)"
    and calls: "calls w' = calls w + length (rpc_tries e g w)"
    using executeRpc_metrics [of m g e w] assms(2,3) by auto
  have "length (rpc_tries e g w) \<noteq> 0" by simp
  then have n: "length (rpc_tries e g w) = Suc ?k" by linarith
  with attempts_length [of shouldRetry "rpc_outcome e g" "calls w" "nat (RPC_MAX_RETRIES e)"] have k: "?k \<le> nat (RPC_MAX_RETRIES e)" by linarith
  have shape: "r = Inl Crashed \<or> (\<exists>c text. r = Inl (RpcError c text)) \<or> (\<exists>a. r = Inr a)"
    using rpc_tries_errors [of e g w] unfolding r [symmetric] by (cases r) blast+
  show ?thesis
  proof (intro exI conjI)
    show "?k \<le> nat (RPC_MAX_RETRIES e)" by (rule k)
    show "calls w' = calls w + Suc ?k" using calls n by linarith
  next
    show "recorded lib declared_metrics cs no_metrics = no_metrics\<lparr>
        ml_samples := replicate ?k (retry_sample m) @ (case r of
            Inr _ \<Rightarrow> [(''blockchain_rpc_requests_total'', [(''method'', m), (''status'', ''success'')])]
          | Inl (RpcError c text) \<Rightarrow> [(''blockchain_rpc_failures_total'', [(''method'', m), (''reason'', rpc_reason c)])]
          | Inl _ \<Rightarrow> []),
        ml_warnings := (case r of Inl (RpcError c text) \<Rightarrow> [''metric.increment.failed''] | _ \<Rightarrow> [])\<rparr>"
      using shape recorded_retries [OF assms(1)] recorded_requests [OF assms(1)] recorded_failures_reason [OF assms(1)]
        recorded_failures_status [OF assms(1)]
      by (auto simp: cs recorded_append rpc_calls_def no_metrics_def)
  qed
qed

text \<open>A metrics library in the sense of the hypotheses.\<close>

definition sample_prom :: prom_lib where
  "sample_prom = \<lparr>
     pl_register = (\<lambda>r m. if list_ex (\<lambda>x. md_name x = md_name m) r then Some (PlainError ''already registered'') else None),
     pl_check = (\<lambda>m ls. if list_all (\<lambda>(k, v). k \<in> set (md_labelNames m)) ls then None else Some (PlainError ''unknown label'')) \<rparr>"

lemma sample_prom_lib: "fresh_names sample_prom" "declared_labels sample_prom"
  by (auto simp: fresh_names_def declared_labels_def sample_prom_def list_ex_iff list_all_iff intro: rev_image_eqI)

theorem rpc_samples_witness:
  "\<exists>w' k. executeRpc ''getBlock'' (external (\<lambda>_. Inl (RpcError RpcRevertedError ''reverted'') :: exn + int)) (calm (\<lambda>_. 0) (\<lambda>_. ''''))
       (world_of empty_store) = (Inl (RpcError RpcRevertedError ''reverted''), w') \<and>
     calls w' = Suc k \<and> ml_samples (recorded sample_prom declared_metrics (metrics w') no_metrics) =
       replicate k (retry_sample ''getBlock'') @ [(''blockchain_rpc_failures_total'', [(''method'', ''getBlock''), (''reason'', ''reverted'')])]"
proof -
  let ?g = "\<lambda>_. Inl (RpcError RpcRevertedError ''reverted'') :: exn + int"
  have "\<exists>w'. executeRpc ''getBlock'' (external ?g) (calm (\<lambda>_. 0) (\<lambda>_. '''')) (world_of empty_store) =
      (Inl (RpcError RpcRevertedError ''reverted''), w')"
    by (simp add: executeRpc_def instrumentRpc_def retry_def retry_loop.simps [of _ _ _ _ _ 0] withTimeout_def external_def catchE_def bindE_def
        throwE_def returnE_def incrementMetric_def recordRpcFailure_def classifyRpcError_def is_RpcError_def shouldRetry_def calm_def)
  then obtain w' where w': "executeRpc ''getBlock'' (external ?g) (calm (\<lambda>_. 0) (\<lambda>_. '''')) (world_of empty_store) =
      (Inl (RpcError RpcRevertedError ''reverted''), w')" by blast
  have "metrics w' = metrics (world_of empty_store) @ metrics w'" by (simp add: world_of_def)
  from rpc_samples [OF sample_prom_lib(2) w' this] w' show ?thesis by (auto simp: no_metrics_def)
qed

end
