(* ===== verification/Observability.thy ===== *)
theory Observability
  imports Metrics Delivery
begin

text \<open>
  What the processes report about their work (\<^verbatim>\<open>observability/\<close>,
  \<^verbatim>\<open>api/plugins/observability.plugin.ts\<close>): the ambient context of the log lines, spans and
  the guards around every call of the tracing library, the start of the tracing SDK, and the
  two hooks that observe a request. The rest of the development leaves these calls out of the
  operations; here the confirmation of a transaction is taken with all of them, and shown to
  do what it does without. The tracing library is a parameter that may refuse any call.
\<close>

section \<open>State\<close>

datatype span_call =
    StartSpan nat "nat option" string "(string \<times> string) list"
  | EndSpan nat
  | SetAttribute nat string string
  | AddEvent nat string "(string \<times> string) list"
  | RecordException nat exn
  | SetStatus nat bool

type_synonym obs_context = "string \<rightharpoonup> string"

text \<open>
  Calls the tracing library accepted, lines written to the log with the context they carry,
  the active span, the ambient context if one was opened, and the metrics library.
\<close>

record telemetry =
  te_calls :: "span_call list"
  te_logs :: "(string \<times> obs_context) list"
  te_active :: "nat option"
  te_context :: "obs_context option"
  te_metrics :: metric_log

text \<open>An operation on some state of its own that may also report.\<close>

type_synonym ('s, 'a) observed = "telemetry \<times> 's \<Rightarrow> (exn + 'a) \<times> telemetry \<times> 's"

record otel_lib =
  ol_start :: "span_call list \<Rightarrow> string \<Rightarrow> exn + nat"
  ol_refuses :: "span_call list \<Rightarrow> span_call \<Rightarrow> exn option"
  ol_spanContext :: "nat \<Rightarrow> exn + (string \<times> string)"
  ol_valid :: "string \<Rightarrow> string \<Rightarrow> bool"

section \<open>The ambient context\<close>

definition runWithContext :: "obs_context \<Rightarrow> ('s, 'a) observed \<Rightarrow> ('s, 'a) observed" where
  "runWithContext context callback = (\<lambda>(t, s). case callback (t\<lparr>te_context := Some context\<rparr>, s) of
     (r, t', s') \<Rightarrow> (r, t'\<lparr>te_context := te_context t\<rparr>, s'))"

definition getContext :: "telemetry \<Rightarrow> obs_context" where
  "getContext t = (case te_context t of None \<Rightarrow> Map.empty | Some c \<Rightarrow> c)"

text \<open>\<^verbatim>\<open>Object.assign\<close>: a key that is given as \<^verbatim>\<open>undefined\<close> is one that is gone from the log line.\<close>

fun assign :: "(string \<times> string option) list \<Rightarrow> obs_context \<Rightarrow> obs_context" where
  "assign [] c = c"
| "assign ((k, v) # kvs) c = assign kvs (c(k := v))"

definition updateContext :: "(string \<times> string option) list \<Rightarrow> telemetry \<Rightarrow> telemetry" where
  "updateContext values t = (case te_context t of None \<Rightarrow> t | Some c \<Rightarrow> t\<lparr>te_context := Some (assign values c)\<rparr>)"

definition clearContext :: "telemetry \<Rightarrow> telemetry" where
  "clearContext t = t\<lparr>te_context := None\<rparr>"

definition log_line :: "string \<Rightarrow> telemetry \<Rightarrow> telemetry" where
  "log_line msg t = t\<lparr>te_logs := te_logs t @ [(msg, getContext t)]\<rparr>"

text \<open>The members of a lifecycle line; \<^verbatim>\<open>error\<close> is accepted by the type of the argument and not written.\<close>

definition logTransactionEvent :: "string \<Rightarrow> obs_context \<Rightarrow> telemetry \<Rightarrow> telemetry" where
  "logTransactionEvent operation data t = t\<lparr>te_logs := te_logs t @ [(''transaction lifecycle event'',
     getContext t ++ (data |` {''tenantId'', ''transactionId'', ''tokenId'', ''walletId'', ''txHash'', ''blockNumber'', ''status'', ''amount'',
       ''durationMs'', ''worker'', ''cycleId''})(''operation'' \<mapsto> operation))]\<rparr>"

section \<open>Spans\<close>

datatype span = OtelSpanAdapter nat | NoopSpan

definition sdk_call :: "otel_lib \<Rightarrow> string \<Rightarrow> span_call \<Rightarrow> telemetry \<Rightarrow> telemetry" where
  "sdk_call lib warning c t = (case ol_refuses lib (te_calls t) c of
       Some x \<Rightarrow> log_line warning t
     | None \<Rightarrow> t\<lparr>te_calls := te_calls t @ [c]\<rparr>)"

fun span_end :: "otel_lib \<Rightarrow> span \<Rightarrow> telemetry \<Rightarrow> telemetry" where
  "span_end lib (OtelSpanAdapter n) t = sdk_call lib ''tracing.span.end.failed'' (EndSpan n) t"
| "span_end lib NoopSpan t = t"

fun span_setAttribute :: "otel_lib \<Rightarrow> span \<Rightarrow> string \<Rightarrow> string \<Rightarrow> telemetry \<Rightarrow> telemetry" where
  "span_setAttribute lib (OtelSpanAdapter n) k v t = sdk_call lib ''tracing.span.setAttribute.failed'' (SetAttribute n k v) t"
| "span_setAttribute lib NoopSpan k v t = t"

fun span_addEvent :: "otel_lib \<Rightarrow> span \<Rightarrow> string \<Rightarrow> (string \<times> string) list \<Rightarrow> telemetry \<Rightarrow> telemetry" where
  "span_addEvent lib (OtelSpanAdapter n) name attributes t = sdk_call lib ''tracing.span.addEvent.failed'' (AddEvent n name attributes) t"
| "span_addEvent lib NoopSpan name attributes t = t"

fun span_recordException :: "otel_lib \<Rightarrow> span \<Rightarrow> exn \<Rightarrow> telemetry \<Rightarrow> telemetry" where
  "span_recordException lib (OtelSpanAdapter n) error t =
     sdk_call lib ''tracing.span.recordException.failed''
       (RecordException n (if is_Error error then error else PlainError (exn_message error))) t"
| "span_recordException lib NoopSpan error t = t"

fun span_setStatus :: "otel_lib \<Rightarrow> span \<Rightarrow> bool \<Rightarrow> telemetry \<Rightarrow> telemetry" where
  "span_setStatus lib (OtelSpanAdapter n) ok t = sdk_call lib ''tracing.span.setStatus.failed'' (SetStatus n ok) t"
| "span_setStatus lib NoopSpan ok t = t"

definition tracer_startSpan :: "otel_lib \<Rightarrow> string \<Rightarrow> (string \<times> string) list \<Rightarrow> telemetry \<Rightarrow> (exn + nat) \<times> telemetry" where
  "tracer_startSpan lib name attributes t = (case ol_start lib (te_calls t) name of
       Inl x \<Rightarrow> (Inl x, t)
     | Inr n \<Rightarrow> (Inr n, t\<lparr>te_calls := te_calls t @ [StartSpan n (te_active t) name attributes]\<rparr>))"

definition startSpan :: "otel_lib \<Rightarrow> string \<Rightarrow> (string \<times> string) list \<Rightarrow> telemetry \<Rightarrow> span \<times> telemetry" where
  "startSpan lib name attributes t = (case tracer_startSpan lib name attributes t of
       (Inl x, t') \<Rightarrow> (NoopSpan, log_line ''tracing.span.start.failed'' t')
     | (Inr n, t') \<Rightarrow> (OtelSpanAdapter n, t'))"

text \<open>
  \<^verbatim>\<open>otelContext.with\<close> makes the span active for the callback and restores the one before. The
  start of the span is not guarded. A process that dies runs neither handler.
\<close>

definition withSpan :: "otel_lib \<Rightarrow> string \<Rightarrow> (span \<Rightarrow> ('s, 'a) observed) \<Rightarrow> (string \<times> string) list \<Rightarrow> ('s, 'a) observed" where
  "withSpan lib name fn attributes = (\<lambda>(t, s). case tracer_startSpan lib name attributes t of
       (Inl x, t1) \<Rightarrow> (Inl x, t1, s)
     | (Inr n, t1) \<Rightarrow> (let sp = OtelSpanAdapter n in
         case fn sp (t1\<lparr>te_active := Some n\<rparr>, s) of
           (Inr a, t2, s') \<Rightarrow>
             (Inr a, (span_end lib sp (span_setStatus lib sp True t2))\<lparr>te_active := te_active t\<rparr>, s')
         | (Inl x, t2, s') \<Rightarrow>
             (if x = Crashed then (Inl x, t2, s')
              else (Inl x, (span_end lib sp (span_setStatus lib sp False (span_recordException lib sp x t2)))
                \<lparr>te_active := te_active t\<rparr>, s'))))"

definition getActiveTraceContext :: "otel_lib \<Rightarrow> telemetry \<Rightarrow> (string \<times> string) option" where
  "getActiveTraceContext lib t = (case te_active t of
       None \<Rightarrow> None
     | Some n \<Rightarrow> (case ol_spanContext lib n of
           Inl x \<Rightarrow> None
         | Inr (traceId, spanId) \<Rightarrow> if \<not> ol_valid lib traceId spanId then None else Some (traceId, spanId)))"

section \<open>The start of the SDK\<close>

definition nullish :: "string option \<Rightarrow> string \<Rightarrow> string" where
  "nullish v d = (case v of None \<Rightarrow> d | Some x \<Rightarrow> x)"

definition otel_enabled :: "(string \<Rightarrow> string option) \<Rightarrow> bool" where
  "otel_enabled vars =
     (nullish (vars ''OTEL_TRACES_ENABLED'') (if vars ''NODE_ENV'' = Some ''test'' then ''false'' else ''true'') = ''true'')"

record otel_config =
  oc_serviceName :: string
  oc_serviceVersion :: string
  oc_environment :: string
  oc_url :: string
  oc_instrumentations :: "string list"
  oc_diagnostics :: bool

definition otel_sdk_config :: "(string \<Rightarrow> string option) \<Rightarrow> otel_config" where
  "otel_sdk_config vars = \<lparr> oc_serviceName = nullish (vars ''OTEL_SERVICE_NAME'') ''blockchain-transaction-simulator'',
     oc_serviceVersion = nullish (vars ''APP_VERSION'') ''unknown'', oc_environment = nullish (vars ''NODE_ENV'') ''development'',
     oc_url = (if nonempty (vars ''OTEL_EXPORTER_OTLP_ENDPOINT'') then the (vars ''OTEL_EXPORTER_OTLP_ENDPOINT'')
        else ''http://localhost:4318'') @ ''/v1/traces'',
     oc_instrumentations = [''http'', ''undici'', ''fastify'', ''ioredis''],
     oc_diagnostics = (vars ''OTEL_DIAG_LOGGING'' = Some ''true'') \<rparr>"

text \<open>A started SDK is shut down by the first SIGTERM and the first SIGINT.\<close>

datatype otel_start = TracingDisabled | TracingStarted otel_config "string list" | TracingFailed exn

definition otel_preload :: "(otel_config \<Rightarrow> exn option) \<Rightarrow> (string \<Rightarrow> string option) \<Rightarrow> otel_start" where
  "otel_preload sdk_start vars =
     (if otel_enabled vars
      then (case sdk_start (otel_sdk_config vars) of
              None \<Rightarrow> TracingStarted (otel_sdk_config vars) [''SIGTERM'', ''SIGINT'']
            | Some x \<Rightarrow> TracingFailed x)
      else TracingDisabled)"

text \<open>The labels of the one sample of \<^verbatim>\<open>deployment_info\<close>, set without a guard when the application is built.\<close>

definition deployment_labels :: "(string \<Rightarrow> string option) \<Rightarrow> (string \<times> string) list" where
  "deployment_labels vars = [(''version'', nullish (vars ''APP_VERSION'') ''unknown''), (''commit'', nullish (vars ''GIT_SHA'') ''unknown''),
     (''deployment_id'', nullish (vars ''DEPLOYMENT_ID'') ''unknown''),
     (''deployment_created_at'', nullish (vars ''DEPLOYMENT_CREATED_AT'') ''unknown'')]"

definition initializeDeploymentMetrics :: "prom_lib \<Rightarrow> (string \<Rightarrow> string option) \<Rightarrow> metric_log \<Rightarrow> (exn + unit) \<times> metric_log" where
  "initializeDeploymentMetrics prom vars = metric_observe prom
     (gauge ''deployment_info'' [''version'', ''commit'', ''deployment_id'', ''deployment_created_at'']) (deployment_labels vars) 1"

section \<open>The hooks of a request\<close>

record observed_request =
  or_xRequestId :: "string option"
  or_id :: string
  or_method :: string
  or_url :: string
  or_routeUrl :: "string option"

definition onRequest :: "observed_request \<Rightarrow> ('s, 'a) observed \<Rightarrow> ('s, string \<times> 'a) observed" where
  "onRequest rq rest = (let requestId = nullish (or_xRequestId rq) (or_id rq) in
     (\<lambda>ts. case runWithContext [''correlationId'' \<mapsto> requestId, ''requestId'' \<mapsto> requestId]
              (\<lambda>(t, s). rest (log_line ''request started'' t, s)) ts of
       (Inl x, ts') \<Rightarrow> (Inl x, ts') | (Inr a, ts') \<Rightarrow> (Inr (requestId, a), ts')))"

definition request_labels :: "observed_request \<Rightarrow> int \<Rightarrow> (string \<times> string) list" where
  "request_labels rq statusCode =
     [(''method'', or_method rq), (''route'', nullish (or_routeUrl rq) (or_url rq)), (''status_code'', show_int statusCode)]"

definition httpRequestsTotal :: metric_def where
  "httpRequestsTotal = counter ''http_requests_total'' [''method'', ''route'', ''status_code'']"

definition httpRequestDurationSeconds :: metric_def where
  "httpRequestDurationSeconds = histogram ''http_request_duration_seconds'' [''method'', ''route'', ''status_code'']
     [10, 25, 50, 100, 250, 500, 1000, 2500, 5000]"

definition onResponse :: "prom_lib \<Rightarrow> observed_request \<Rightarrow> int \<Rightarrow> int \<Rightarrow> telemetry \<Rightarrow> telemetry" where
  "onResponse prom rq statusCode durationMs t =
     (let t1 = log_line ''request completed'' t; labels = request_labels rq statusCode in
      t1\<lparr>te_metrics := observeMetric prom httpRequestDurationSeconds durationMs (Some labels)
           (incrementMetric_guarded prom httpRequestsTotal (Some labels) (te_metrics t1))\<rparr>)"

section \<open>The confirmation, observed\<close>

definition setContext :: "transaction \<Rightarrow> telemetry \<Rightarrow> telemetry" where
  "setContext tx = updateContext [(''transactionId'', Some (tx_id tx)), (''txHash'', tx_txHash tx),
     (''tenantId'', Some (tx_tenantId tx)), (''tokenId'', Some (tx_tokenId tx))]"

definition clear_context :: "telemetry \<Rightarrow> telemetry" where
  "clear_context = updateContext [(''transactionId'', None), (''tenantId'', None), (''tokenId'', None), (''txHash'', None)]"

definition logConfirmationStarted :: "telemetry \<Rightarrow> telemetry" where
  "logConfirmationStarted = log_line ''transaction.confirmation.started''"

definition observeConfirmationDuration :: "prom_lib \<Rightarrow> transaction \<Rightarrow> int \<Rightarrow> telemetry \<Rightarrow> telemetry" where
  "observeConfirmationDuration prom tx elapsed t = t\<lparr>te_metrics := observeMetric prom
     (histogram ''transaction_confirmation_duration_seconds'' [''tenantId'', ''tokenId''] [1000, 5000, 10000, 30000, 60000, 120000, 300000])
     elapsed (Some (tx_labels tx)) (te_metrics t)\<rparr>"

definition confirm_switch :: "adapter list \<Rightarrow> transaction_view \<Rightarrow> string \<Rightarrow> unit eff" where
  "confirm_switch registry tx txHash =
     bindE (getBlockchainTransaction registry tx txHash) (\<lambda>blockchainTransaction.
       case bt_status blockchainTransaction of
         chain_confirmed \<Rightarrow> handleSuccessfulTransaction (tv_row tx) txHash blockchainTransaction
       | chain_failed \<Rightarrow> handleRevertedTransaction (tv_row tx)
       | chain_pending \<Rightarrow> throwE (TransactionPendingError txHash))"

text \<open>An operation that reports nothing of its own.\<close>

definition silently :: "'a eff \<Rightarrow> env \<Rightarrow> (world, 'a) observed" where
  "silently m e = (\<lambda>(t, w). case m e w of (r, w') \<Rightarrow> (r, t, w'))"

definition span_attributes :: "transaction \<Rightarrow> (string \<times> string) list" where
  "span_attributes tx = [(''transaction.id'', tx_id tx), (''transaction.tenant_id'', tx_tenantId tx), (''transaction.token_id'', tx_tokenId tx)]"

definition confirmTransaction_observed ::
  "otel_lib \<Rightarrow> prom_lib \<Rightarrow> int \<Rightarrow> adapter list \<Rightarrow> transaction_view \<Rightarrow> string \<Rightarrow> env \<Rightarrow> (world, unit) observed" where
  "confirmTransaction_observed lib prom elapsed registry tx txHash e = (\<lambda>(t, w).
     let tx1 = tv_row tx; after = (\<lambda>t. observeConfirmationDuration prom tx1 elapsed (clear_context t)) in
     case withSpan lib ''transaction.confirm'' (\<lambda>_. silently (confirm_switch registry tx txHash) e) (span_attributes tx1)
            (logConfirmationStarted (setContext tx1 t), w) of
       (Inr _, t1, w1) \<Rightarrow> (Inr (), after t1, w1)
     | (Inl x, t1, w1) \<Rightarrow>
         (if x = Crashed then (Inl x, t1, w1)
          else case handleConfirmationError tx1 x e w1 of (r, w2) \<Rightarrow> (r, after t1, w2)))"

section \<open>The guards\<close>

text \<open>The calls that a library takes of those it is asked for, one after the other.\<close>

fun accepted :: "otel_lib \<Rightarrow> span_call list \<Rightarrow> span_call list \<Rightarrow> span_call list" where
  "accepted lib cs [] = cs"
| "accepted lib cs (c # rest) = accepted lib (case ol_refuses lib cs c of None \<Rightarrow> cs @ [c] | Some x \<Rightarrow> cs) rest"

lemma sdk_call_fields [simp]:
  "te_active (sdk_call lib m c t) = te_active t" "te_context (sdk_call lib m c t) = te_context t"
  "te_metrics (sdk_call lib m c t) = te_metrics t" "te_calls (sdk_call lib m c t) = accepted lib (te_calls t) [c]"
  by (simp_all add: sdk_call_def log_line_def split: option.splits)

lemma log_line_fields [simp]:
  "te_active (log_line m t) = te_active t" "te_context (log_line m t) = te_context t"
  "te_metrics (log_line m t) = te_metrics t" "te_calls (log_line m t) = te_calls t"
  by (simp_all add: log_line_def)

lemma updateContext_fields [simp]:
  "te_active (updateContext vs t) = te_active t" "te_calls (updateContext vs t) = te_calls t"
  "te_metrics (updateContext vs t) = te_metrics t" "te_context (updateContext vs t) = map_option (assign vs) (te_context t)"
  by (simp_all add: updateContext_def split: option.splits)

lemma getContext_run: "fst (runWithContext c (\<lambda>(t, s). (Inr (getContext t), t, s)) ts) = Inr c"
  by (simp add: runWithContext_def getContext_def case_prod_beta)

lemma run_restores: "te_context (fst (snd (runWithContext c m (t, s)))) = te_context t"
  by (simp add: runWithContext_def case_prod_beta)

text \<open>\<^verbatim>\<open>startSpan\<close> never throws, and neither does any method of the span it returns: a telemetry is all they leave.\<close>

lemma startSpan_noop:
  "ol_start lib (te_calls t) name = Inl x \<Longrightarrow> startSpan lib name as t = (NoopSpan, log_line ''tracing.span.start.failed'' t)"
  by (simp add: startSpan_def tracer_startSpan_def)

lemma withSpan_runs:
  assumes "ol_start lib (te_calls t) name = Inr n"
    and "fn (OtelSpanAdapter n) (t\<lparr>te_calls := te_calls t @ [StartSpan n (te_active t) name as], te_active := Some n\<rparr>, s) = (r, t2, s')"
    and "r \<noteq> Inl Crashed"
  shows "\<exists>t'. withSpan lib name fn as (t, s) = (r, t', s') \<and> te_active t' = te_active t \<and> te_context t' = te_context t2 \<and>
    te_metrics t' = te_metrics t2 \<and> te_calls t' = accepted lib (te_calls t2) (case r of
      Inr _ \<Rightarrow> [SetStatus n True, EndSpan n]
    | Inl x \<Rightarrow> [RecordException n (if is_Error x then x else PlainError (exn_message x)), SetStatus n False, EndSpan n])"
  using assms by (cases r) (simp_all add: withSpan_def tracer_startSpan_def Let_def)

lemma confirmTransaction_switch:
  "confirmTransaction registry tx txHash = catchE (confirm_switch registry tx txHash) (handleConfirmationError (tv_row tx))"
  by (simp add: confirmTransaction_def confirm_switch_def)

lemma handleConfirmationError_rethrows: "fst (handleConfirmationError tx x e w) = Inl x"
  by (simp add: handleConfirmationError_def throwE_def bindE_def incrementMetric_def)

lemma request_labels_declared: "fst ` set (request_labels rq c) \<subseteq> set (md_labelNames httpRequestsTotal)"
  by (simp add: request_labels_def httpRequestsTotal_def counter_def)

lemma observeMetric_accepted:
  assumes "declared_labels lib" "fst ` set ls \<subseteq> set (md_labelNames m)"
  shows "observeMetric lib m x (Some ls) l = l\<lparr>ml_observed := ml_observed l @ [((md_name m, ls), x)]\<rparr>"
proof -
  have "pl_check lib m ls = None" using assms by (simp add: declared_labels_def)
  then show ?thesis by (simp add: observeMetric_def or_warn_def metric_observe_def)
qed

text \<open>The application can be built: the labels of the deployment are the declared ones.\<close>

lemma deployment_reported:
  assumes "declared_labels prom"
  shows "fst (initializeDeploymentMetrics prom vars l) = Inr ()"
proof -
  have "pl_check prom (gauge ''deployment_info'' [''version'', ''commit'', ''deployment_id'', ''deployment_created_at'']) (deployment_labels vars) = None"
    using assms by (simp add: declared_labels_def gauge_def deployment_labels_def)
  then show ?thesis by (simp add: initializeDeploymentMetrics_def metric_observe_def)
qed

text \<open>The counters of the transactions take the labels they are given, and so do those of the workers.\<close>

lemma transaction_counters_accepted:
  assumes "declared_labels lib" "m \<in> set transaction_metrics"
  shows "recorded lib declared_metrics [(md_name m, tx_labels tx)] l = l\<lparr>ml_samples := ml_samples l @ [(md_name m, tx_labels tx)]\<rparr>"
proof (rule recorded_declared [OF assms(1)])
  show "m \<in> set declared_metrics" using assms(2) by (simp add: declared_metrics_def)
  have "\<forall>m \<in> set transaction_metrics. {''tenantId'', ''tokenId''} \<subseteq> set (md_labelNames m)"
    by (simp add: transaction_metrics_def counter_def histogram_def)
  then show "fst ` set (tx_labels tx) \<subseteq> set (md_labelNames m)" using assms(2) by (simp add: tx_labels_def)
qed

lemma worker_counters_accepted:
  assumes "declared_labels lib" "m \<in> set worker_metrics" "md_labelNames m = [''worker_name'']"
  shows "recorded lib declared_metrics [(md_name m, [(''worker_name'', n)])] l = l\<lparr>ml_samples := ml_samples l @ [(md_name m, [(''worker_name'', n)])]\<rparr>"
  using assms by (intro recorded_declared) (simp_all add: declared_metrics_def)

text \<open>Every answered request is counted once and its duration observed once, under one set of labels.\<close>

lemma onResponse_counted:
  assumes "declared_labels prom"
  shows "te_metrics (onResponse prom rq c ms t) = (te_metrics t)\<lparr>
    ml_samples := ml_samples (te_metrics t) @ [(''http_requests_total'', request_labels rq c)],
    ml_observed := ml_observed (te_metrics t) @ [((''http_request_duration_seconds'', request_labels rq c), ms)]\<rparr>"
proof -
  have "fst ` set (request_labels rq c) \<subseteq> set (md_labelNames httpRequestDurationSeconds)"
    by (simp add: request_labels_def httpRequestDurationSeconds_def histogram_def)
  then show ?thesis
    by (simp add: onResponse_def Let_def increment_accepted [OF assms request_labels_declared] observeMetric_accepted [OF assms])
      (simp add: httpRequestsTotal_def counter_def httpRequestDurationSeconds_def histogram_def)
qed

text \<open>Once its span is started, a confirmation is only observed.\<close>

lemma started_confirm:
  assumes "ol_start lib (te_calls t) ''transaction.confirm'' = Inr n"
    and "confirmTransaction registry tx txHash e w = (r, w')" "r \<noteq> Inl Crashed"
  shows "\<exists>t'. confirmTransaction_observed lib prom elapsed registry tx txHash e (t, w) = (r, t', w') \<and>
    te_active t' = te_active t \<and>
    te_context t' = map_option (\<lambda>c. c(''transactionId'' := None, ''tenantId'' := None, ''tokenId'' := None, ''txHash'' := None)) (te_context t) \<and>
    te_calls t' = accepted lib (te_calls t @ [StartSpan n (te_active t) ''transaction.confirm'' (span_attributes (tv_row tx))]) (case r of
      Inr _ \<Rightarrow> [SetStatus n True, EndSpan n]
    | Inl x \<Rightarrow> [RecordException n (if is_Error x then x else PlainError (exn_message x)), SetStatus n False, EndSpan n])"
proof -
  let ?t = "logConfirmationStarted (setContext (tv_row tx) t)"
  let ?as = "span_attributes (tv_row tx)"
  let ?s = "?t\<lparr>te_calls := te_calls t @ [StartSpan n (te_active t) ''transaction.confirm'' ?as], te_active := Some n\<rparr>"
  have f: "te_calls ?t = te_calls t" "te_active ?t = te_active t" by (simp_all add: logConfirmationStarted_def setContext_def)
  obtain q v where q: "confirm_switch registry tx txHash e w = (q, v)" by fastforce
  have same: "q = r" "q = Inr () \<Longrightarrow> w' = v" "\<And>x. q = Inl x \<Longrightarrow> handleConfirmationError (tv_row tx) x e v = (r, w')"
    using assms(2,3) q handleConfirmationError_rethrows [of "tv_row tx" _ e v]
    by (auto simp: confirmTransaction_switch catchE_def split: sum.splits if_splits) (metis fst_conv)
  have "silently (confirm_switch registry tx txHash) e (?s, w) = (q, ?s, v)" by (simp add: silently_def q)
  from withSpan_runs [of lib ?t "''transaction.confirm''" n "\<lambda>_. silently (confirm_switch registry tx txHash) e" ?as w q ?s v] this
  obtain t1 where t1: "withSpan lib ''transaction.confirm'' (\<lambda>_. silently (confirm_switch registry tx txHash) e) ?as (?t, w) = (q, t1, v)"
    "te_active t1 = te_active t" "te_context t1 = te_context ?s"
    "te_calls t1 = accepted lib (te_calls ?s) (case q of
      Inr _ \<Rightarrow> [SetStatus n True, EndSpan n]
    | Inl x \<Rightarrow> [RecordException n (if is_Error x then x else PlainError (exn_message x)), SetStatus n False, EndSpan n])"
    using assms(1,3) same(1) f by auto
  let ?t' = "observeConfirmationDuration prom (tv_row tx) elapsed (clear_context t1)"
  have "confirmTransaction_observed lib prom elapsed registry tx txHash e (t, w) = (r, ?t', w')"
    using t1(1) same assms(3) by (cases q) (auto simp: confirmTransaction_observed_def Let_def split: if_splits prod.splits)
  moreover have "te_active ?t' = te_active t" "te_calls ?t' = te_calls t1"
    using t1(2) by (simp_all add: observeConfirmationDuration_def clear_context_def)
  moreover have "te_context ?t' = map_option (\<lambda>c. c(''transactionId'' := None, ''tenantId'' := None, ''tokenId'' := None, ''txHash'' := None)) (te_context t)"
    using t1(3) by (cases "te_context t") (auto simp: observeConfirmationDuration_def clear_context_def logConfirmationStarted_def setContext_def fun_eq_iff)
  ultimately show ?thesis using t1(4) same(1) by (intro exI [of _ ?t']) simp
qed

text \<open>
  The start of the span is the one call without a guard: a library that refuses it ends the
  attempt with its error, and the chain is not asked.
\<close>

lemma unguarded_start:
  assumes "ol_start lib (te_calls t) ''transaction.confirm'' = Inl x" "x \<noteq> Crashed"
  shows "\<exists>t' w'. confirmTransaction_observed lib prom elapsed registry tx txHash e (t, w) = (Inl x, t', w') \<and> db w' = db w \<and> calls w' = calls w"
  using assms by (simp add: confirmTransaction_observed_def withSpan_def tracer_startSpan_def logConfirmationStarted_def setContext_def
      handleConfirmationError_def throwE_def bindE_def incrementMetric_def Let_def)

section \<open>Properties\<close>

text \<open>
  C39: what observing does to a confirmation. When the tracing library starts the span, then whatever it and the metrics
  library refuse later, the confirmation with its context, span, log lines and
  metrics returns the same result or error, leaves the same world, restores the span that was
  active, removes its keys from the context, and asks for the end of its span once, after the
  status that fits the outcome. When the library refuses to start the span, the attempt ends with the library's error before
  the chain is asked, and the store is as it was.
\<close>

theorem confirm_observed:
  assumes "confirmTransaction registry tx txHash e w = (r, w')" "r \<noteq> Inl Crashed" "ol_start lib (te_calls t) ''transaction.confirm'' \<noteq> Inl Crashed"
  shows "case ol_start lib (te_calls t) ''transaction.confirm'' of
      Inr n \<Rightarrow> \<exists>t'. confirmTransaction_observed lib prom elapsed registry tx txHash e (t, w) = (r, t', w') \<and>
        te_active t' = te_active t \<and>
        te_context t' = map_option (\<lambda>c. c(''transactionId'' := None, ''tenantId'' := None, ''tokenId'' := None, ''txHash'' := None)) (te_context t) \<and>
        te_calls t' = accepted lib (te_calls t @ [StartSpan n (te_active t) ''transaction.confirm'' (span_attributes (tv_row tx))]) (case r of
          Inr _ \<Rightarrow> [SetStatus n True, EndSpan n]
        | Inl x \<Rightarrow> [RecordException n (if is_Error x then x else PlainError (exn_message x)), SetStatus n False, EndSpan n])
    | Inl x \<Rightarrow> \<exists>t' w''. confirmTransaction_observed lib prom elapsed registry tx txHash e (t, w) = (Inl x, t', w'') \<and> db w'' = db w \<and> calls w'' = calls w"
proof (cases "ol_start lib (te_calls t) ''transaction.confirm''")
  case (Inl x)
  then show ?thesis using unguarded_start [OF Inl] assms(3) by simp
next
  case (Inr n)
  then show ?thesis using started_confirm [OF Inr assms(1,2)] by simp
qed

definition sample_otel :: otel_lib where
  "sample_otel = \<lparr> ol_start = (\<lambda>cs name. Inr (length cs)), ol_refuses = (\<lambda>cs c. None),
     ol_spanContext = (\<lambda>n. Inr (''trace'', show_nat n)), ol_valid = (\<lambda>t s. True) \<rparr>"

definition silence :: telemetry where
  "silence = \<lparr> te_calls = [], te_logs = [], te_active = None, te_context = None, te_metrics = no_metrics \<rparr>"

theorem confirm_observed_witness:
  "\<exists>t' w'. confirmTransaction_observed sample_otel sample_prom 1500 (sample_registry (Inr True) (Inr None))
      (view_of (sample_store EVM [sample_tx SUBMITTED]) (sample_tx SUBMITTED)) ''0xfeed'' sample_env
      (silence, (world_of (sample_store EVM [sample_tx SUBMITTED]))\<lparr>calls := 1\<rparr>) = (Inr (), t', w') \<and>
    te_calls t' = [StartSpan 0 None ''transaction.confirm'' (span_attributes (sample_tx SUBMITTED)), SetStatus 0 True, EndSpan 0]"
proof -
  let ?w = "world_of (sample_store EVM [sample_tx SUBMITTED])"
  let ?reg = "sample_registry (Inr True) (Inr None)"
  let ?v = "view_of (sample_store EVM [sample_tx SUBMITTED]) (sample_tx SUBMITTED)"
  have d: "delivered ?reg (db ?w) ''tx-1'' ''acme'' (sample_tx SUBMITTED) ''0xfeed'' (sample_adapter (Inr True) (Inr None) EVM)"
    using sample_delivered [of SUBMITTED "Inr True" "Inr None" EVM] by simp
  have ok: "ledger_ok (db ?w)" "row tx_id (transactions (db ?w)) ''tx-1'' = Some (sample_tx SUBMITTED)" "tx_tenantId (sample_tx SUBMITTED) = ''acme''"
    using sample_ok [of EVM SUBMITTED] by (simp_all add: sample_store_def)
  have "processTransaction ?reg ''tx-1'' ''acme'' sample_env ?w = confirmTransaction ?reg ?v ''0xfeed'' sample_env (?w\<lparr>calls := 1\<rparr>)"
    using findById_quiet [OF quiet_sample ok]
    by (simp add: processTransaction_def bindE_def nonempty_def view_of_def world_of_def) (simp add: sample_tx_def)
  moreover obtain w' where "processTransaction ?reg ''tx-1'' ''acme'' sample_env ?w = (Inr (), w')"
    using delivery_confirms [of sample_env ?reg ?w "''tx-1''" "''acme''",
        OF quiet_sample d sample_evm_answers [of True "Inr None"]] by fastforce
  ultimately have c: "confirmTransaction ?reg ?v ''0xfeed'' sample_env (?w\<lparr>calls := 1\<rparr>) = (Inr (), w')" by simp
  have s: "ol_start sample_otel (te_calls silence) ''transaction.confirm'' = Inr 0" by (simp add: sample_otel_def silence_def)
  show ?thesis
    using confirm_observed [OF c, of sample_otel silence sample_prom 1500] s by (auto simp: sample_otel_def silence_def view_of_def)
qed

text \<open>No context is opened for a job, so the lines of a confirmation carry none of its keys.\<close>

lemma worker_lines_bare: "te_context t = None \<Longrightarrow> te_logs (logConfirmationStarted (setContext tx t)) =
    te_logs t @ [(''transaction.confirmation.started'', Map.empty)]"
  by (simp add: logConfirmationStarted_def setContext_def log_line_def getContext_def updateContext_def)

end
