(* ===== verification/Bitcoin_Rpc.thy ===== *)
theory Bitcoin_Rpc
  imports Base64url Json Confirmation
begin

text \<open>
  The transport to Bitcoin Core (\<^verbatim>\<open>blockchain/bitcoin/rpc.client.ts\<close>) and the settings of the
  two chains that are configured by the environment (\<^verbatim>\<open>bitcoin/config.ts\<close>,
  \<^verbatim>\<open>solana/config.ts\<close>, \<^verbatim>\<open>blockchain/config.ts\<close>). \<^verbatim>\<open>fetch\<close> and the check of a URL by zod are
  parameters.
\<close>

section \<open>Settings\<close>

record setting_lib =
  sl_url :: "string \<Rightarrow> bool"
  sl_message :: "string list \<Rightarrow> string"

definition z_text :: "(string \<Rightarrow> bool) \<Rightarrow> string option \<Rightarrow> string option" where
  "z_text P v = (case v of None \<Rightarrow> None | Some s \<Rightarrow> if P s then Some s else None)"

definition z_enum :: "string list \<Rightarrow> string \<Rightarrow> string option \<Rightarrow> string option" where
  "z_enum names other v = (case v of None \<Rightarrow> Some other | Some s \<Rightarrow> if s \<in> set names then Some s else None)"

text \<open>The fields that \<^verbatim>\<open>safeParse\<close> finds at fault are named by its message.\<close>

definition at_fault :: "(string \<times> string option) list \<Rightarrow> string list" where
  "at_fault fs = map fst (filter (\<lambda>f. snd f = None) fs)"

record bitcoin_config =
  bf_url :: string
  bf_user :: string
  bf_password :: string
  bf_wallet :: string
  bf_network :: string

definition getBitcoinConfig :: "setting_lib \<Rightarrow> (string \<Rightarrow> string option) \<Rightarrow> exn + bitcoin_config" where
  "getBitcoinConfig lib vars =
     (let url = z_text (sl_url lib) (vars ''BITCOIN_RPC_URL'');
          user = z_text (\<lambda>s. s \<noteq> []) (vars ''BITCOIN_RPC_USER'');
          password = z_text (\<lambda>s. s \<noteq> []) (vars ''BITCOIN_RPC_PASSWORD'');
          wallet = z_text (\<lambda>s. s \<noteq> []) (vars ''BITCOIN_RPC_WALLET'');
          network = z_enum [''regtest'', ''testnet'', ''mainnet''] ''regtest'' (vars ''BITCOIN_NETWORK'') in
      case (url, user, password, wallet, network) of
        (Some u, Some us, Some pw, Some wl, Some n) \<Rightarrow>
          Inr \<lparr> bf_url = u, bf_user = us, bf_password = pw, bf_wallet = wl, bf_network = n \<rparr>
      | _ \<Rightarrow> Inl (PlainError (''Invalid Bitcoin configuration: '' @ sl_message lib (at_fault [(''BITCOIN_RPC_URL'', url),
          (''BITCOIN_RPC_USER'', user), (''BITCOIN_RPC_PASSWORD'', password), (''BITCOIN_RPC_WALLET'', wallet), (''BITCOIN_NETWORK'', network)]))))"

definition getSolanaConfig :: "setting_lib \<Rightarrow> (string \<Rightarrow> string option) \<Rightarrow> exn + string \<times> string" where
  "getSolanaConfig lib vars =
     (let url = z_text (sl_url lib) (vars ''SOLANA_RPC_URL'');
          network = z_enum [''localnet'', ''devnet'', ''testnet'', ''mainnet-beta''] ''localnet'' (vars ''SOLANA_NETWORK'') in
      case (url, network) of
        (Some u, Some n) \<Rightarrow> Inr (u, n)
      | _ \<Rightarrow> Inl (PlainError (''Invalid Solana configuration: '' @ sl_message lib (at_fault [(''SOLANA_RPC_URL'', url), (''SOLANA_NETWORK'', network)]))))"

definition hex_char :: "char \<Rightarrow> bool" where
  "hex_char c = (hex_value c \<noteq> None)"

definition getBlockchainConfig :: "setting_lib \<Rightarrow> (string \<Rightarrow> string option) \<Rightarrow> exn + string \<times> string" where
  "getBlockchainConfig lib vars =
     (let url = z_text (sl_url lib) (vars ''RPC_URL'');
          key = z_text (\<lambda>s. take 2 s = ''0x'' \<and> length s = 66 \<and> list_all hex_char (drop 2 s)) (vars ''DEPLOYER_PRIVATE_KEY'') in
      case (url, key) of
        (Some u, Some k) \<Rightarrow> Inr (u, k)
      | _ \<Rightarrow> Inl (PlainError (''Invalid blockchain configuration: '' @ sl_message lib (at_fault [(''RPC_URL'', url), (''DEPLOYER_PRIVATE_KEY'', key)]))))"

section \<open>Encodings of the request\<close>

text \<open>\<^verbatim>\<open>buffer.toString('base64')\<close>: the other alphabet, and padding.\<close>

definition base64 :: "bytes \<Rightarrow> string" where
  "base64 bs = (let s = map (\<lambda>c. if c = CHR ''-'' then CHR ''+'' else if c = CHR ''_'' then CHR ''/'' else c) (base64url bs)
     in s @ replicate ((4 - length s mod 4) mod 4) (CHR ''=''))"

definition unreserved :: "char \<Rightarrow> bool" where
  "unreserved c = (let n = (of_char c :: nat) in 65 \<le> n \<and> n \<le> 90 \<or> 97 \<le> n \<and> n \<le> 122 \<or> 48 \<le> n \<and> n \<le> 57 \<or>
     c \<in> {CHR ''-'', CHR ''_'', CHR ''.'', CHR ''!'', CHR ''~'', CHR ''*'', CHR 0x27, CHR ''('', CHR '')''})"

definition upper_hex :: "nat \<Rightarrow> char" where
  "upper_hex n = char_of (if n < 10 then 48 + n else 55 + n)"

definition uri_char :: "char \<Rightarrow> string" where
  "uri_char c = (if unreserved c then [c]
     else concat (map (\<lambda>b. [CHR ''%'', upper_hex (b div 16), upper_hex (b mod 16)]) (utf8_char c)))"

definition encodeURIComponent :: "string \<Rightarrow> string" where
  "encodeURIComponent s = concat (map uri_char s)"

text \<open>\<^verbatim>\<open>url.replace(/\/$/, '')\<close>.\<close>

definition without_slash :: "string \<Rightarrow> string" where
  "without_slash s = (if s \<noteq> [] \<and> last s = CHR ''/'' then butlast s else s)"

section \<open>The client\<close>

record http_post =
  po_url :: string
  po_authorization :: string
  po_body :: json

text \<open>An answer that arrived: its status, its text and, read as JSON, the result or the error in it.\<close>

record 'a rpc_response =
  rs_status :: int
  rs_text :: string
  rs_result :: 'a
  rs_error :: "(int \<times> string) option"

definition rpc_request :: "bitcoin_config \<Rightarrow> int \<Rightarrow> string \<Rightarrow> json list \<Rightarrow> bool \<Rightarrow> http_post" where
  "rpc_request config i m params wallet = \<lparr>
     po_url = (if wallet then without_slash (bf_url config) @ ''/wallet/'' @ encodeURIComponent (bf_wallet config) else bf_url config),
     po_authorization = ''Basic '' @ base64 (utf8 (bf_user config @ '':'' @ bf_password config)),
     po_body = JObj [(''jsonrpc'', JStr ''1.0''), (''id'', JNum i), (''method'', JStr m), (''params'', JArr params)] \<rparr>"

definition rpc_answer :: "'a rpc_response \<Rightarrow> exn + 'a" where
  "rpc_answer r =
     (if \<not> (200 \<le> rs_status r \<and> rs_status r \<le> 299)
      then Inl (PlainError (''Bitcoin RPC HTTP '' @ show_int (rs_status r) @ '': '' @ rs_text r))
      else case rs_error r of
        Some (code, message) \<Rightarrow> Inl (PlainError (''Bitcoin RPC '' @ show_int code @ '': '' @ message))
      | None \<Rightarrow> Inr (rs_result r))"

text \<open>
  \<^verbatim>\<open>call\<close>: the state is the module's counter of requests; what was sent is returned with the
  result. \<^verbatim>\<open>fetch\<close> gives an error when there is no answer, or none that can be read.
\<close>

definition bitcoin_call :: "setting_lib \<Rightarrow> (string \<Rightarrow> string option) \<Rightarrow> (http_post \<Rightarrow> exn + 'a rpc_response) \<Rightarrow> string \<Rightarrow> json list \<Rightarrow> bool \<Rightarrow>
    int \<Rightarrow> (exn + 'a) \<times> http_post list \<times> int" where
  "bitcoin_call lib vars fetch m params wallet requestId = (case getBitcoinConfig lib vars of
       Inl x \<Rightarrow> (Inl x, [], requestId)
     | Inr config \<Rightarrow> (let rq = rpc_request config (requestId + 1) m params wallet in
         (case fetch rq of Inl x \<Rightarrow> Inl x | Inr r \<Rightarrow> rpc_answer r, [rq], requestId + 1)))"

text \<open>Calls one after the other, from any part of the process.\<close>

fun bitcoin_calls :: "setting_lib \<Rightarrow> (string \<Rightarrow> string option) \<Rightarrow> (http_post \<Rightarrow> exn + 'a rpc_response) \<Rightarrow> (string \<times> json list \<times> bool) list \<Rightarrow>
    int \<Rightarrow> http_post list \<times> int" where
  "bitcoin_calls lib vars fetch [] n = ([], n)"
| "bitcoin_calls lib vars fetch ((m, ps, w) # cs) n = (case bitcoin_call lib vars fetch m ps w n of
     (_, sent, n') \<Rightarrow> (case bitcoin_calls lib vars fetch cs n' of (rest, n'') \<Rightarrow> (sent @ rest, n'')))"

section \<open>Properties of the transport\<close>

definition po_id :: "http_post \<Rightarrow> json option" where
  "po_id rq = (case po_body rq of JObj ms \<Rightarrow> map_of ms ''id'' | _ \<Rightarrow> None)"

lemma calls_numbered:
  "bitcoin_calls lib vars fetch cs n = (sent, n') \<Longrightarrow> map po_id sent = map (\<lambda>i. Some (JNum i)) [n + 1..n'] \<and> n \<le> n'"
proof (induction cs arbitrary: n sent)
  case (Cons c cs)
  obtain m ps w where c: "c = (m, ps, w)" by (cases c)
  obtain r q k where q: "bitcoin_call lib vars fetch m ps w n = (r, q, k)" by (cases "bitcoin_call lib vars fetch m ps w n")
  obtain rest n2 where rest: "bitcoin_calls lib vars fetch cs k = (rest, n2)" by fastforce
  from Cons.prems c q rest have e: "sent = q @ rest" "n2 = n'" by auto
  have "map po_id q = map (\<lambda>i. Some (JNum i)) [n + 1..k] \<and> n \<le> k"
    using q by (auto simp: bitcoin_call_def rpc_request_def po_id_def Let_def split: sum.splits)
  moreover have "map po_id rest = map (\<lambda>i. Some (JNum i)) [k + 1..n'] \<and> k \<le> n'" using Cons.IH rest e by blast
  moreover from calculation have "[n + 1..n'] = [n + 1..k] @ [k + 1..n']"
    using upto_split2 [of "n + 1" k n'] by (cases "n = k") auto
  ultimately show ?case using e(1) by simp
qed simp

text \<open>Ids are not used twice.\<close>

lemma calls_distinct: "bitcoin_calls lib vars fetch cs n = (sent, n') \<Longrightarrow> distinct (map po_id sent)"
  by (drule calls_numbered) (simp add: distinct_map inj_on_def)

text \<open>The header carries the credentials, and a trailing slash of the URL makes no difference.\<close>

lemma base64_round_trip:
  assumes "bytes_ok bs"
  shows "from_base64url (base64 bs) = bs"
proof -
  have alpha: "char_sextet (if c = CHR ''-'' then CHR ''+'' else if c = CHR ''_'' then CHR ''/'' else c) = char_sextet c" for c
    by (auto simp: char_sextet_def)
  have "List.map_filter char_sextet (map (\<lambda>c. if c = CHR ''-'' then CHR ''+'' else if c = CHR ''_'' then CHR ''/'' else c) s) =
      List.map_filter char_sextet s" for s
    by (induction s) (simp_all only: list.map map_filter_simps alpha)
  moreover have "List.map_filter char_sextet (s @ replicate k (CHR ''='')) = List.map_filter char_sextet s" for s k
    by (induction s; induction k) (auto simp: map_filter_simps char_sextet_def split: option.splits)
  ultimately have "from_base64url (base64 bs) = from_base64url (base64url bs)"
    by (simp add: from_base64url_def base64_def Let_def)
  then show ?thesis using assms by (simp add: base64url_round_trip)
qed

lemma authorization_round_trip:
  "utf8_decode (from_base64url (drop 6 (po_authorization (rpc_request config i m ps w)))) = Some (bf_user config @ '':'' @ bf_password config)"
  by (simp add: rpc_request_def base64_round_trip utf8_ok utf8_round_trip)

lemma without_slash_same: "s = [] \<or> last s \<noteq> CHR ''/'' \<Longrightarrow> without_slash (s @ ''/'') = without_slash s"
  by (auto simp: without_slash_def)

text \<open>The name of the wallet stays one segment of the path.\<close>

lemma upper_hex_slash: "n < 16 \<Longrightarrow> upper_hex n \<noteq> CHR ''/''"
  by (auto simp: upper_hex_def dest!: arg_cong [of _ _ "of_char :: char \<Rightarrow> nat"])

lemma uri_char_slash: "CHR ''/'' \<notin> set (uri_char c)"
proof (cases "unreserved c")
  case True
  then have "c \<noteq> CHR ''/''" by (auto simp: unreserved_def)
  with True show ?thesis by (simp add: uri_char_def)
next
  case False
  have "CHR ''/'' \<notin> set [CHR ''%'', upper_hex (b div 16), upper_hex (b mod 16)]" if "b \<in> set (utf8_char c)" for b
  proof -
    have "b < 256" using utf8_ok [of "[c]"] that by (simp add: bytes_ok_def utf8_def)
    then have "b div 16 < 16" "b mod 16 < 16" by linarith+
    from upper_hex_slash [OF this(1)] upper_hex_slash [OF this(2)] show ?thesis by auto
  qed
  with False show ?thesis by (auto simp: uri_char_def)
qed

lemma encoded_segment: "CHR ''/'' \<notin> set (encodeURIComponent s)"
  using uri_char_slash by (auto simp: encodeURIComponent_def)

text \<open>
  What the node says about a transaction it does not know reaches the confirmation worker as
  \<^emph>\<open>not there yet\<close>, with a status of its own or in the body.
\<close>

lemma unknown_transaction_waits:
  assumes "\<not> (200 \<le> rs_status r \<and> rs_status r \<le> 299) \<and> includes_str (rs_text r) ''No such mempool or blockchain transaction'' \<or>
    (\<exists>c msg. 200 \<le> rs_status r \<and> rs_status r \<le> 299 \<and> rs_error r = Some (c, msg) \<and>
       includes_str msg ''No such mempool or blockchain transaction'')"
  shows "\<exists>x. rpc_answer r = Inl x \<and> not_visible_yet x"
proof -
  have "includes_str (a @ s) p" if "includes_str s p" for a s p
    using that unfolding includes_str_iff by (metis append.assoc)
  with assms show ?thesis by (auto simp: rpc_answer_def not_visible_yet_def is_Error_def)
qed

end
