(* ===== verification/Processes.thy ===== *)
theory Processes
  imports Routes Worker_Process
begin

text \<open>
  What surrounds the components in a process: the settings read when it starts
  (\<^verbatim>\<open>config/env.ts\<close>), the addresses of the routes (\<^verbatim>\<open>api/app.ts\<close>), the nonce managers of the
  EVM client (\<^verbatim>\<open>blockchain/client.ts\<close>), the sampler's timer, and the two smaller processes, the
  API server (\<^verbatim>\<open>api/server.ts\<close>) and the event listener on its own
  (\<^verbatim>\<open>workers/event-listener.runner.ts\<close>).
\<close>

section \<open>Settings\<close>

record app_config =
  cf_NODE_ENV :: string
  cf_PORT :: int
  cf_API_PREFIX :: string
  cf_JWT_SECRET :: string
  cf_JWT_ACCESS_EXPIRES :: string
  cf_JWT_REFRESH_EXPIRES :: string
  cf_REDIS_URL :: string
  cf_CONFIRMATION_BACKOFF_DELAY_MS :: int
  cf_CONFIRMATION_LOCK_DURATION_MS :: int
  cf_CONFIRMATION_STALLED_INTERVAL_MS :: int
  cf_CONFIRMATION_MAX_STALLED_COUNT :: int

definition env_text :: "(string \<Rightarrow> string option) \<Rightarrow> string \<Rightarrow> string \<Rightarrow> string" where
  "env_text vars name other = (case vars name of None \<Rightarrow> other | Some v \<Rightarrow> v)"

text \<open>\<^verbatim>\<open>configSchema.parse\<close>: a number that is none ends the process at import.\<close>

definition load_env :: "(string \<Rightarrow> string option) \<Rightarrow> exn + app_config" where
  "load_env vars =
     (case (env_number vars ''PORT'' 3000, env_number vars ''CONFIRMATION_BACKOFF_DELAY_MS'' 5000,
            env_number vars ''CONFIRMATION_LOCK_DURATION_MS'' 30000, env_number vars ''CONFIRMATION_STALLED_INTERVAL_MS'' 10000,
            env_number vars ''CONFIRMATION_MAX_STALLED_COUNT'' 1) of
        (Some port, Some backoff, Some lock, Some stalled, Some count) \<Rightarrow>
          if count < 0 then Inl (ZodError ''CONFIRMATION_MAX_STALLED_COUNT'')
          else Inr \<lparr> cf_NODE_ENV = env_text vars ''NODE_ENV'' ''development'', cf_PORT = port,
            cf_API_PREFIX = env_text vars ''API_PREFIX'' ''/api/v1'', cf_JWT_SECRET = env_text vars ''JWT_SECRET'' ''development-secret'',
            cf_JWT_ACCESS_EXPIRES = env_text vars ''JWT_ACCESS_EXPIRES'' ''15m'',
            cf_JWT_REFRESH_EXPIRES = env_text vars ''JWT_REFRESH_EXPIRES'' ''7d'',
            cf_REDIS_URL = env_text vars ''REDIS_URL'' ''redis://localhost:6379'', cf_CONFIRMATION_BACKOFF_DELAY_MS = backoff,
            cf_CONFIRMATION_LOCK_DURATION_MS = lock, cf_CONFIRMATION_STALLED_INTERVAL_MS = stalled,
            cf_CONFIRMATION_MAX_STALLED_COUNT = count \<rparr>
      | _ \<Rightarrow> Inl (ZodError ''NaN''))"

section \<open>The addresses of the routes\<close>

datatype segment = Lit string | Param string

datatype http_method = GET | POST | DELETE

definition API_PREFIX :: "segment list" where
  "API_PREFIX = [Lit ''api'', Lit ''v1'']"

fun prefix_of :: "route \<Rightarrow> segment list" where
  "prefix_of PostTenants = [Lit ''tenants'']"
| "prefix_of PostApiKeys = [Lit ''tenants'', Lit ''me'', Lit ''api-keys'']"
| "prefix_of GetApiKeys = [Lit ''tenants'', Lit ''me'', Lit ''api-keys'']"
| "prefix_of DeleteApiKey = [Lit ''tenants'', Lit ''me'', Lit ''api-keys'']"
| "prefix_of GetAuditLogs = [Lit ''audit-logs'']"
| "prefix_of PostRegister = [Lit ''auth'']"
| "prefix_of PostLogin = [Lit ''auth'']"
| "prefix_of PostRefresh = [Lit ''auth'']"
| "prefix_of GetMe = [Lit ''wallets'']"
| "prefix_of GetWallets = [Lit ''wallets'']"
| "prefix_of GetWallet = [Lit ''wallets'']"
| "prefix_of PostWallets = [Lit ''wallets'']"
| "prefix_of PostChallenge = [Lit ''wallets'']"
| "prefix_of PostCustodial = [Lit ''wallets'']"
| "prefix_of GetWalletBalances = [Lit ''wallets'']"
| "prefix_of PostTokens = [Lit ''tokens'']"
| "prefix_of GetTokens = [Lit ''tokens'']"
| "prefix_of GetToken = [Lit ''tokens'']"
| "prefix_of PostMint = [Lit ''tokens'']"
| "prefix_of GetTokenBalance = [Lit ''tokens'']"
| "prefix_of GetReconcile = [Lit ''tokens'']"
| "prefix_of PostTransactions = [Lit ''transactions'']"
| "prefix_of GetTransactions = [Lit ''transactions'']"
| "prefix_of GetTransaction = [Lit ''transactions'']"

fun local_path :: "route \<Rightarrow> http_method \<times> segment list" where
  "local_path PostTenants = (POST, [])"
| "local_path PostApiKeys = (POST, [])"
| "local_path GetApiKeys = (GET, [])"
| "local_path DeleteApiKey = (DELETE, [Param ''id''])"
| "local_path GetAuditLogs = (GET, [])"
| "local_path PostRegister = (POST, [Lit ''register''])"
| "local_path PostLogin = (POST, [Lit ''login''])"
| "local_path PostRefresh = (POST, [Lit ''refresh''])"
| "local_path GetMe = (GET, [Lit ''me''])"
| "local_path GetWallets = (GET, [])"
| "local_path GetWallet = (GET, [Param ''id''])"
| "local_path PostWallets = (POST, [])"
| "local_path PostChallenge = (POST, [Lit ''challenge''])"
| "local_path PostCustodial = (POST, [Lit ''custodial''])"
| "local_path GetWalletBalances = (GET, [Param ''id'', Lit ''balances''])"
| "local_path PostTokens = (POST, [])"
| "local_path GetTokens = (GET, [])"
| "local_path GetToken = (GET, [Param ''id''])"
| "local_path PostMint = (POST, [Param ''id'', Lit ''mint''])"
| "local_path GetTokenBalance = (GET, [Param ''tokenId'', Lit ''balance'', Param ''walletId''])"
| "local_path GetReconcile = (GET, [Param ''tokenId'', Lit ''balance'', Param ''walletId'', Lit ''reconcile''])"
| "local_path PostTransactions = (POST, [])"
| "local_path GetTransactions = (GET, [])"
| "local_path GetTransaction = (GET, [Param ''id''])"

definition endpoint :: "route \<Rightarrow> http_method \<times> segment list" where
  "endpoint r = (fst (local_path r), API_PREFIX @ prefix_of r @ snd (local_path r))"

text \<open>
  \<^verbatim>\<open>buildApp\<close>: what is registered, in order. A hook applies to the routes registered after it.
\<close>

datatype registration = Plugin string | Compilers | ErrorHandler | RoutesAt string "segment list"

definition buildApp :: "registration list" where
  "buildApp = [Plugin ''observability'', Compilers, Plugin ''swagger'', ErrorHandler, Plugin ''jwt'',
     RoutesAt ''health'' API_PREFIX,
     RoutesAt ''tenant'' (API_PREFIX @ [Lit ''tenants'']),
     RoutesAt ''api-key'' (API_PREFIX @ [Lit ''tenants'', Lit ''me'', Lit ''api-keys'']),
     RoutesAt ''audit-log'' (API_PREFIX @ [Lit ''audit-logs'']),
     RoutesAt ''wallet'' (API_PREFIX @ [Lit ''wallets'']),
     RoutesAt ''token'' (API_PREFIX @ [Lit ''tokens'']),
     RoutesAt ''transaction'' (API_PREFIX @ [Lit ''transactions'']),
     RoutesAt ''auth'' (API_PREFIX @ [Lit ''auth'']),
     RoutesAt ''metrics'' (API_PREFIX @ [Lit ''metrics'']),
     Plugin ''swagger-ui'']"

text \<open>The registrations in force for the routes of a file.\<close>

definition in_force :: "string \<Rightarrow> registration list" where
  "in_force file = takeWhile (\<lambda>g. case g of RoutesAt f p \<Rightarrow> f \<noteq> file | _ \<Rightarrow> True) buildApp"

text \<open>A path matches an address segment by segment; a parameter matches any text but the empty one.\<close>

fun matches :: "segment list \<Rightarrow> string list \<Rightarrow> bool" where
  "matches [] [] = True"
| "matches (Lit s # ps) (x # xs) = (s = x \<and> matches ps xs)"
| "matches (Param n # ps) (x # xs) = (x \<noteq> [] \<and> matches ps xs)"
| "matches _ _ = False"

definition routed :: "http_method \<Rightarrow> string list \<Rightarrow> route \<Rightarrow> bool" where
  "routed m path r \<longleftrightarrow> fst (endpoint r) = m \<and> matches (snd (endpoint r)) path"

section \<open>Nonce managers\<close>

text \<open>
  The module's map from addresses to managers, and the number of managers created so far, which
  names the next one.
\<close>

record nonce_state =
  nm_managers :: "string \<rightharpoonup> nat"
  nm_created :: nat

definition nonceManager_for :: "string \<Rightarrow> nonce_state \<Rightarrow> nat \<times> nonce_state" where
  "nonceManager_for address s = (case nm_managers s address of
       Some k \<Rightarrow> (k, s)
     | None \<Rightarrow> (nm_created s, s\<lparr>nm_managers := (nm_managers s)(address \<mapsto> nm_created s), nm_created := Suc (nm_created s)\<rparr>))"

definition resetNonceManagers :: "nonce_state \<Rightarrow> nonce_state" where
  "resetNonceManagers s = s\<lparr>nm_managers := Map.empty\<rparr>"

text \<open>The managers handed out for a sequence of signing addresses.\<close>

fun managers_for :: "string list \<Rightarrow> nonce_state \<Rightarrow> nat list \<times> nonce_state" where
  "managers_for [] s = ([], s)"
| "managers_for (a # as) s = (case nonceManager_for a s of (k, s1) \<Rightarrow> case managers_for as s1 of (ks, s2) \<Rightarrow> (k # ks, s2))"

section \<open>The sampler\<close>

record sampler =
  sm_timer :: "nat option"
  sm_live :: "nat list"
  sm_made :: nat
  sm_samples :: nat

definition sampler_start :: "sampler \<Rightarrow> sampler" where
  "sampler_start s = s\<lparr>sm_samples := Suc (sm_samples s), sm_timer := Some (sm_made s), sm_live := sm_live s @ [sm_made s], sm_made := Suc (sm_made s)\<rparr>"

definition sampler_stop :: "sampler \<Rightarrow> sampler" where
  "sampler_stop s = (case sm_timer s of None \<Rightarrow> s | Some t \<Rightarrow> s\<lparr>sm_live := removeAll t (sm_live s), sm_timer := None\<rparr>)"

section \<open>The API server\<close>

text \<open>An error nobody catches ends the process with code 1.\<close>

record server =
  sv_port :: "int option"
  sv_closed :: bool
  sv_handlers :: "string list"
  sv_exit :: "int option"

definition server_start :: "exn option \<Rightarrow> (int \<Rightarrow> exn option) \<Rightarrow> app_config \<Rightarrow> server" where
  "server_start build listen config =
     (let s = \<lparr> sv_port = None, sv_closed = False, sv_handlers = [], sv_exit = None \<rparr> in
      case build of
        Some x \<Rightarrow> s\<lparr>sv_exit := Some 1\<rparr>
      | None \<Rightarrow> (case listen (cf_PORT config) of
            Some x \<Rightarrow> s\<lparr>sv_exit := Some 1\<rparr>
          | None \<Rightarrow> s\<lparr>sv_port := Some (cf_PORT config), sv_handlers := [''SIGTERM'', ''SIGINT'']\<rparr>))"

definition server_signal :: "exn option \<Rightarrow> string \<Rightarrow> server \<Rightarrow> server" where
  "server_signal close sig s =
     (if sv_exit s \<noteq> None \<or> sig \<notin> set (sv_handlers s) then s
      else case close of
        None \<Rightarrow> s\<lparr>sv_closed := True, sv_port := None, sv_exit := Some 0\<rparr>
      | Some x \<Rightarrow> s\<lparr>sv_exit := Some 1\<rparr>)"

section \<open>The event listener as a process\<close>

record listener_process =
  lp_listener :: listener
  lp_handlers :: "string list"
  lp_exit :: "int option"

definition startEventListenerWorker :: "(string \<Rightarrow> string option) \<Rightarrow> listener_process" where
  "startEventListenerWorker vars =
     (let s = \<lparr> lp_listener = \<lparr> ln_running = False, ln_stopping = False \<rparr>, lp_handlers = [''SIGTERM'', ''SIGINT''], lp_exit = None \<rparr> in
      if vars ''DISABLE_WORKERS'' = Some ''true'' then s
      else case listener_start (vars ''EVENT_LISTENER_INTERVAL_MS'') (env_number vars ''EVENT_LISTENER_INTERVAL_MS'' 5000) (lp_listener s) of
        Inl x \<Rightarrow> s\<lparr>lp_exit := Some 1\<rparr>
      | Inr l \<Rightarrow> s\<lparr>lp_listener := l\<rparr>)"

definition listener_signal :: "string \<Rightarrow> listener_process \<Rightarrow> listener_process" where
  "listener_signal sig s =
     (if lp_exit s \<noteq> None \<or> sig \<notin> set (lp_handlers s) then s
      else s\<lparr>lp_listener := listener_stop (lp_listener s), lp_exit := Some 0\<rparr>)"

section \<open>What holds of them\<close>

text \<open>Two addresses with a common path.\<close>

fun overlap :: "segment list \<Rightarrow> segment list \<Rightarrow> bool" where
  "overlap [] [] = True"
| "overlap (Lit a # p) (Lit b # q) = (a = b \<and> overlap p q)"
| "overlap (Lit a # p) (Param n # q) = (a \<noteq> [] \<and> overlap p q)"
| "overlap (Param n # p) (Lit b # q) = (b \<noteq> [] \<and> overlap p q)"
| "overlap (Param n # p) (Param k # q) = overlap p q"
| "overlap _ _ = False"

lemma matches_overlap: "matches p xs \<Longrightarrow> matches q xs \<Longrightarrow> overlap p q"
  by (induction p xs arbitrary: q rule: matches.induct; case_tac q; (simp; fail)?; case_tac a) auto

lemma endpoint_overlap:
  assumes "fst (endpoint r) = fst (endpoint r')" "overlap (snd (endpoint r)) (snd (endpoint r'))"
  shows "r = r' \<or> {r, r'} = {GetMe, GetWallet}"
proof -
  have "fst (local_path r) = fst (local_path r')" "overlap (prefix_of r @ snd (local_path r)) (prefix_of r' @ snd (local_path r'))"
    using assms by (simp_all add: endpoint_def API_PREFIX_def)
  then show ?thesis by (cases r; cases r'; simp add: insert_commute)
qed

text \<open>Every route is registered under its prefix, after the hooks, the error handler and the tokens.\<close>

fun file_of :: "route \<Rightarrow> string" where
  "file_of r = (if r = PostTenants then ''tenant'' else if r \<in> {PostApiKeys, GetApiKeys, DeleteApiKey} then ''api-key''
     else if r = GetAuditLogs then ''audit-log'' else if r \<in> {PostRegister, PostLogin, PostRefresh} then ''auth''
     else if r \<in> {GetMe, GetWallets, GetWallet, PostWallets, PostChallenge, PostCustodial, GetWalletBalances} then ''wallet''
     else if r \<in> {PostTransactions, GetTransactions, GetTransaction} then ''transaction'' else ''token'')"

lemma route_registered:
  "RoutesAt (file_of r) (API_PREFIX @ prefix_of r) \<in> set buildApp"
  "{Plugin ''observability'', ErrorHandler, Plugin ''jwt''} \<subseteq> set (in_force (file_of r))"
  by (cases r; simp add: buildApp_def in_force_def)+

text \<open>A request reaches one route at most, but for the address of the own wallets, which is a wallet id as well.\<close>

lemma routed_once:
  assumes "routed m path r" "routed m path r'"
  shows "r = r' \<or> {r, r'} = {GetMe, GetWallet}"
  using assms matches_overlap [of "snd (endpoint r)" path "snd (endpoint r')"]
  by (intro endpoint_overlap) (simp_all add: routed_def)

text \<open>One nonce manager for each address, for as long as the process does not reset them.\<close>

definition nonces_ok :: "nonce_state \<Rightarrow> bool" where
  "nonces_ok s \<longleftrightarrow> inj_on (nm_managers s) (dom (nm_managers s)) \<and> (\<forall>k \<in> ran (nm_managers s). k < nm_created s)"

lemma nonces_ok_for:
  assumes "nonceManager_for a s = (k, s')" "nonces_ok s"
  shows "nonces_ok s'" "nm_managers s' a = Some k" "nm_managers s \<subseteq>\<^sub>m nm_managers s'"
proof -
  have fresh: "nm_managers s b \<noteq> Some (nm_created s)" for b
    using assms(2) by (auto simp: nonces_ok_def ran_def)
  show "nm_managers s' a = Some k" "nm_managers s \<subseteq>\<^sub>m nm_managers s'"
    using assms(1) by (auto simp: nonceManager_for_def map_le_def split: option.splits)
  show "nonces_ok s'"
  proof (cases "nm_managers s a")
    case None
    then have s': "s' = s\<lparr>nm_managers := (nm_managers s)(a \<mapsto> nm_created s), nm_created := Suc (nm_created s)\<rparr>"
      using assms(1) by (auto simp: nonceManager_for_def)
    have "inj_on (nm_managers s') (dom (nm_managers s'))"
      using assms(2) fresh unfolding s' nonces_ok_def inj_on_def by (auto simp: dom_def)
    moreover have "k < nm_created s'" if "k \<in> ran (nm_managers s')" for k
      using that assms(2) None unfolding s' nonces_ok_def by (auto simp: ran_map_upd intro: less_SucI)
    ultimately show ?thesis by (simp add: nonces_ok_def)
  next
    case (Some j)
    then show ?thesis using assms by (simp add: nonceManager_for_def)
  qed
qed

lemma managers_stable:
  assumes "managers_for as s = (ks, s')" "nonces_ok s"
  shows "nonces_ok s' \<and> nm_managers s \<subseteq>\<^sub>m nm_managers s' \<and> map (nm_managers s') as = map Some ks"
  using assms
proof (induction as arbitrary: s ks)
  case (Cons a as)
  obtain k s1 where k: "nonceManager_for a s = (k, s1)" by fastforce
  obtain ks' s2 where ks': "managers_for as s1 = (ks', s2)" by fastforce
  from Cons.prems(1) k ks' have e: "ks = k # ks'" "s' = s2" by auto
  note n = nonces_ok_for [OF k Cons.prems(2)]
  from Cons.IH [of s1 ks'] ks' n(1) e(2) have "nonces_ok s' \<and> nm_managers s1 \<subseteq>\<^sub>m nm_managers s' \<and> map (nm_managers s') as = map Some ks'"
    by simp
  moreover from this n(2) have "nm_managers s' a = Some k" by (metis domI map_le_def)
  ultimately show ?case using e(1) n(3) map_le_trans by auto
qed simp

lemma manager_per_address:
  assumes "managers_for as s = (ks, s')" "nonces_ok s" "i < length as" "j < length as"
  shows "(ks ! i = ks ! j) = (as ! i = as ! j)"
proof -
  note m = managers_stable [OF assms(1,2)]
  have l: "length ks = length as" using m by (metis length_map)
  have at: "nm_managers s' (as ! n) = Some (ks ! n)" if "n < length as" for n
    using m that l by (metis nth_map)
  have "inj_on (nm_managers s') (dom (nm_managers s'))" using m by (simp add: nonces_ok_def)
  then show ?thesis using at [OF assms(3)] at [OF assms(4)] by (metis domI inj_on_eq_iff option.inject)
qed

text \<open>The processes end with 0 only when what they run is closed.\<close>

lemma server_exits_closed:
  "sv_exit (server_signal close sig (server_start build listen config)) = Some 0 \<Longrightarrow>
   sv_closed (server_signal close sig (server_start build listen config)) \<and> build = None \<and> listen (cf_PORT config) = None"
  by (auto simp: server_signal_def server_start_def Let_def split: option.splits if_splits)

lemma listener_exits_stopped:
  "lp_exit (listener_signal sig (startEventListenerWorker vars)) = Some 0 \<Longrightarrow>
   \<not> ln_running (lp_listener (listener_signal sig (startEventListenerWorker vars)))"
  by (auto simp: listener_signal_def startEventListenerWorker_def listener_start_def listener_stop_def Let_def split: option.splits sum.splits if_splits)

lemma sampler_stops: "sm_live s = [] \<Longrightarrow> sm_live (sampler_stop (sampler_start s)) = []"
  by (simp add: sampler_start_def sampler_stop_def)

end
