(* ===== verification/Spec2Isabelle.thy ===== *)
theory Spec2Isabelle
  imports System Delivery Passes Transfer_Runs Balance_Runs Tenant_Isolation Settlement Custody Deploy Worker_Process Readiness Redelivery Observability Bitcoin_Rpc Processes
begin

text \<open>
  A verification of the custodial token ledger of this repository: a Fastify HTTP API and a set of
  background workers over one PostgreSQL database, Redis queues and three chains (EVM, Bitcoin,
  Solana).

  \<^bold>\<open>The program and how it is modelled.\<close>
  A request to the API, a confirmation job, one tick of a scheduler and one cycle of the event
  listener are the \<^emph>\<open>operations\<close> of the program (\<^verbatim>\<open>System.operation\<close>). Processes share nothing but
  the database and the queues, which are the record \<open>store\<close> of theory \<open>Schema\<close>: one list of rows per
  table of \<^verbatim>\<open>prisma/schema.prisma\<close> and one list of jobs per queue. Every asynchronous method is an
  \<open>'a eff\<close> (theory \<open>Effects\<close>): a function of an environment and a world that returns a value or the
  error it throws. Each \<^verbatim>\<open>await\<close> on PostgreSQL, Redis, a chain node or a library is a numbered call,
  at which the environment says what other processes did to the store meanwhile, whether the service
  failed before or after the request took effect, whether the process died, what the clock and the
  id generator returned, and whether a racing timer fired first; it also holds the settings of the retry loop. A theorem for all environments is
  thus a theorem for all interleavings at the \<^verbatim>\<open>await\<close>s, all crash points and all lost connections.
  The interface between specifications and operations is a tower of locales: \<open>store_frame\<close> (any
  preorder on stores), \<open>transaction_frame\<close> (it allows the legal writes of the transaction
  repository), \<open>balance_frame\<close>, \<open>index_frame\<close>, \<open>key_frame\<close>, \<open>identity_frame\<close> and \<open>ledger_frame\<close>. Each
  operation is shown once, inside a locale, to stay within the relation; the lifecycle of
  transactions, the well-formedness of the ledger, the outbox, the relay, balances, the index, API
  keys and the refinement of the abstract ledger are interpretations.

  \<^bold>\<open>Theories, and the files under \<^verbatim>\<open>src/\<close> they translate.\<close>
  \<^item> \<open>Js_Std\<close>, \<open>Json\<close>, \<open>Base64url\<close>: the parts of the language and its library that the code uses
    (string functions, numbers, dates, JSON text, UTF-8, hexadecimal, base64url), with their round trips.
  \<^item> \<open>Schema\<close>, \<open>Tables\<close>, \<open>Effects\<close>: rows, errors and the store; list tables with keys; effects, the
    locale \<open>store_frame\<close> and the rules every later proof uses.
  \<^item> \<open>Transaction_Machine\<close> (\<^verbatim>\<open>domain/transaction/*\<close>), \<open>Transaction_Repository\<close>
    (\<^verbatim>\<open>repositories/transaction.repository.ts\<close>), \<open>Lifecycle\<close>: the state machine, the guarded
    transitions, and the specifications \<open>lifecycle\<close>, \<open>ledger_ok\<close>, \<open>outbox_ok\<close>. \<open>Ledger_Spec\<close>: the
    ledger as its clients see it, an event system over entries and announcements, and the relation
    \<open>refines\<close> between two stores: what happened in between is a run of it.
  \<^item> \<open>Rpc\<close> (\<^verbatim>\<open>blockchain/rpc.*.ts\<close>, \<^verbatim>\<open>utils/retry.ts\<close>), \<open>Chains\<close> (\<^verbatim>\<open>blockchain/chain-ids.ts\<close>,
    \<^verbatim>\<open>evm/chain.ts\<close>, \<^verbatim>\<open>wallet-address.ts\<close>, \<^verbatim>\<open>token-identifier.ts\<close>), \<open>Wallets\<close> (wallet and token
    repositories, \<^verbatim>\<open>wallet.service.ts\<close>), \<open>Adapters\<close> (the three adapters, registry, signers, mint),
    \<open>Bitcoin_Rpc\<close> (\<^verbatim>\<open>bitcoin/rpc.client.ts\<close>, the \<^verbatim>\<open>config.ts\<close> of the chains).
  \<^item> \<open>Metrics\<close> (\<^verbatim>\<open>observability/metrics.ts\<close>, \<^verbatim>\<open>observability/*.metrics.ts\<close>,
    \<^verbatim>\<open>metrics/event-listener.metrics.ts\<close>): the declared metrics, their registration, the guarded updates
    and what the counters say of an RPC request. \<open>Observability\<close> (\<^verbatim>\<open>observability/tracing.ts\<close>,
    \<^verbatim>\<open>context.ts\<close>, \<^verbatim>\<open>otel-preload.ts\<close>, \<^verbatim>\<open>bootstrap.ts\<close>, \<^verbatim>\<open>transaction.logger.ts\<close>,
    \<^verbatim>\<open>api/plugins/observability.plugin.ts\<close>): context, spans, the start of the tracing SDK, the request
    hooks, and the confirmation of a transaction with all of its observation.
  \<^item> \<open>Outbox\<close> (\<^verbatim>\<open>outbox-event.*.ts\<close>), \<open>Transfer_Service\<close> (transfer, ledger, token, transaction and
    custodial wallet services), \<open>Confirmation\<close> (\<^verbatim>\<open>workers/confirmation.processor.ts\<close>), \<open>Recovery\<close>
    (expiration, submission recovery, pending recovery), \<open>Leases\<close> (\<^verbatim>\<open>scheduling/*\<close>), \<open>Schedulers\<close> (the
    five schedulers), \<open>Balances\<close> (balance repository, services, drift sweep), \<open>Log_Windows\<close> and
    \<open>Event_Indexer\<close> (\<^verbatim>\<open>evm/log-windows.ts\<close>, \<^verbatim>\<open>evm/indexer-config.ts\<close>, \<^verbatim>\<open>event.listener.ts\<close>,
    \<^verbatim>\<open>event-listener.worker.ts\<close>, \<^verbatim>\<open>transfer-event.service.ts\<close>).
  \<^item> \<open>Identity\<close> (tenants, users, API keys, refresh tokens, JWT, audit log), \<open>Idempotency\<close>,
    \<open>Wallet_Ownership\<close>, \<open>Gatekeeping\<close> (properties of the gates), \<open>Http\<close> (middleware, error handler,
    validators), \<open>Routes\<close> (the 24 routes of \<^verbatim>\<open>api/routes/*.ts\<close>), \<open>Api_Frame\<close>, \<open>Api_Guards\<close>,
    \<open>Tenant_Isolation\<close>.
  \<^item> \<open>Envelope\<close>, \<open>Custody\<close> (\<^verbatim>\<open>crypto/envelope.ts\<close>, \<^verbatim>\<open>scripts/attach-custody-key.mjs\<close>): the envelope
    around custodial keys, and the way of a key from its creation to a signature.
  \<^item> \<open>Worker_Process\<close> (\<^verbatim>\<open>workers/confirmation.queue.runner.ts\<close>, sampler, metrics server),
    \<open>Redelivery\<close> (\<^verbatim>\<open>confirmation.queue.worker.ts\<close>), \<open>Readiness\<close>
    (\<^verbatim>\<open>api/health/*\<close>, \<^verbatim>\<open>health.routes.ts\<close>): the life of the worker process as a state machine, the
    handler of the confirmation queue called any number of times, the probes. \<open>Processes\<close> (\<^verbatim>\<open>config/env.ts\<close>, \<^verbatim>\<open>api/app.ts\<close>, \<^verbatim>\<open>api/server.ts\<close>,
    \<^verbatim>\<open>event-listener.runner.ts\<close>, \<^verbatim>\<open>blockchain/client.ts\<close>): settings, the addresses of the routes, the
    nonce managers, the sampler's timer and the two smaller processes.
  \<^item> \<open>Deploy_Safety\<close> (\<^verbatim>\<open>blockchain/evm/deploy-safety.ts\<close>), \<open>Deploy\<close>
    (\<^verbatim>\<open>scripts/deploy-mini-usdt-live.ts\<close>): the guarded deployment of the contract and the redaction of
    what it prints.
  \<^item> \<open>Ledger_Runs\<close>, \<open>Sample_Ledger\<close>, \<open>Delivery\<close>, \<open>Transfer_Runs\<close>, \<open>Passes\<close>, \<open>Balance_Runs\<close>,
    \<open>Settlement\<close>: what each operation does when nobody interferes, with a concrete ledger for the
    witnesses. \<open>System\<close>: operations, histories, \<open>ledger_frame\<close> and its interpretations.

  \<^bold>\<open>What is shown.\<close>
  For every history of operations, under all faults and interleavings: transactions only move along
  the state machine and keep their terms; ids and hashes are unique and rows well formed; a
  transaction has exactly one confirmation event if and only if it is CONFIRMED; a published event
  has its job; the cursor of a token never passes a transfer that is not stored; balance snapshots
  never go back; a revoked API key is never accepted again. \<open>closed_system\<close> discharges the assumption
  on the other processes by taking them to be the same program. \<open>ledger_refines\<close> says it all at once:
  whatever the program does to its tables is a run of the abstract ledger, in which an entry is opened,
  submitted under a fresh hash, claimed and settled, failed or expired, and a settlement and its
  announcement are one event. For single operations: the outcome on
  every branch (delivery, transfer, recovery, expiration, reconciliation, sweep, scheduler runs,
  leases), equivalence with reference definitions (log scan, balance observations, retries), round
  trips (ownership challenges, API keys, custodial keys), at-most-once execution under an idempotency key, also of
  requests that race (the guard is verified on its own: no route of the program calls it),
  isolation of tenants in what they read (up to the tokens and wallets that a tenant's own transactions name), refusal of unauthorised requests, the settlement of a transfer from the
  request to the announcement, a confirmation job that is delivered more than once, the orderly shutdown of the worker,
  that no contract is deployed by mistake, that what the deployment prints shows no more of a URL than its origin, and that
  observing a confirmation does not change it once its span is started.

  \<^bold>\<open>Bounds and simplifications.\<close>
  \<^item> A Prisma transaction (\<open>db_transaction\<close>) runs its body on the state found at its start and
    commits or rolls back as a whole; statements of other processes are not interleaved with it.
  \<^item> Logs, spans, histograms and the asynchronous context have no effect on the state and are left out of
    the operations; counters and gauges are recorded, and a gauge that holds a time holds whole
    seconds. Theory \<open>Observability\<close> takes the confirmation with them and justifies leaving them out.
    Delays have no effect of their own.
  \<^item> \<^verbatim>\<open>Promise.all\<close> over independent reads is read in order. Foreign keys, column sizes and the
    64-bit range of bigint columns are not modelled; bigints are unbounded as in the language.
  \<^item> Fuel: the sweep over balance snapshots is given more steps than there are snapshots and is shown
    to finish; the listener's loop is given the number of cycles it runs until it is stopped; the JSON
    parser is given the length of its text. The retry loop, the log scan and the pages of a sweep have
    termination proofs. \<^verbatim>\<open>\d+\<close> inside the patterns for provider errors is read up to 77 digits.
  \<^item> Settings read with \<^verbatim>\<open>Number\<close> are whole numbers: those of the worker process, and \<^verbatim>\<open>RPC_MAX_RETRIES\<close> and
    \<^verbatim>\<open>RPC_RETRY_DELAY_MS\<close> of the retry loop, which the theorems take as they are set (by default 3 and 500). With a
    text that is no number the loop has no bound; that is outside the model. A challenge whose payload is no UTF-8 is refused,
    where Node replaces the bad bytes; it is read only behind a valid MAC. Amounts of Bitcoin are counted in units of
    \<open>10\<^sup>-\<^sup>8\<close>, without the rounding of doubles. JSON numbers are integers and characters are those up to U+00FF; \<^verbatim>\<open>page\<close> and \<^verbatim>\<open>limit\<close> of a query
    are given as numbers; the details that zod or Prisma add to their own errors are left out.
  \<^item> Parameters stand for code that is not part of the repository: viem, the Solana library, Bitcoin
    Core, AWS KMS, the functions of \<^verbatim>\<open>node:crypto\<close>, bcrypt, the JWT library and zod's tests for UUIDs,
    e-mail addresses and dates. What a theorem needs of them is a named hypothesis of it (digests are
    hexadecimal, a node answers a range completely), with a witness on a concrete function.

  \<^bold>\<open>Not modelled.\<close>
  The constructors of the database, queue and chain clients (\<^verbatim>\<open>database/*\<close>,
  \<^verbatim>\<open>queues/redis.connection.ts\<close>, \<^verbatim>\<open>solana/connection.ts\<close>), Swagger and the types of Fastify, the text of log
  lines, BullMQ (when and how often it calls a handler; its connection to Redis while the worker serves), helpers without a caller
  (\<^verbatim>\<open>blockchain/check.ts\<close>, \<^verbatim>\<open>token.ts\<close>, \<^verbatim>\<open>transaction.ts\<close>, \<^verbatim>\<open>wallet.ts\<close>, \<^verbatim>\<open>signer.ts\<close>), the Solidity
  contract, the load tests, the settings of the tools and the tests: they configure libraries, print, or
  drive the program from outside, and hold no logic of its own.
\<close>

section \<open>A platform and a disturbed environment\<close>

text \<open>The chain holds one transfer of the sample token.\<close>

definition sample_chain :: "transfer_log list" where
  "sample_chain = [\<lparr> tl_address = ''0xc0ffee'', tl_from = ''0xaa'', tl_to = ''0xbb'', tl_value = 5,
     tl_transactionHash = ''0xfeed'', tl_logIndex = 0, tl_blockNumber = 90 \<rparr>]"

definition sample_platform :: platform where
  "sample_platform = \<lparr> pf_evm = 11155111, pf_evmVar = None, pf_vars = (\<lambda>_. None), pf_evmClient = sample_node (Inr True),
     pf_bitcoinClient = sample_bitcoin (Inr None), pf_solanaClient = sample_solana, pf_kms = sample_kms,
     pf_logClient = \<lparr> lc_getBlockNumber = (\<lambda>n. Inr 95),
       lc_getLogs = (\<lambda>n a f t. Inr (filter (\<lambda>l. f \<le> tl_blockNumber l \<and> tl_blockNumber l \<le> t) sample_chain)) \<rparr>,
     pf_layers = (\<lambda>x. []), pf_publicKey = (\<lambda>a. Inr True), pf_crypto = sample_crypto,
     pf_zod = \<lparr> zl_uuid = (\<lambda>s. length s = 36), zl_email = (\<lambda>s. CHR ''@'' \<in> set s), zl_date = (\<lambda>v. None) \<rparr>,
     pf_lifetimes = \<lparr> JWT_ACCESS_EXPIRES = ''15m'', JWT_REFRESH_EXPIRES = ''7d'' \<rparr>, pf_jwtSecret = ''secret'' \<rparr>"

text \<open>
  While the operation waits for its third call another process registers a lease, and the
  connection breaks after the fifth call has taken effect.
\<close>

definition stormy_env :: env where
  "stormy_env = sample_env\<lparr>env_interfere := (\<lambda>n d. if n = 2 then
       d\<lparr>leases := \<lparr> ls_name = ''other'', ls_ownerId = ''p2'', ls_expiresAt = 99 \<rparr> # leases d\<rparr> else d),
     env_fault := (\<lambda>n. if n = 4 then FailAfter (PlainError ''connection reset'') else NoFault)\<rparr>"

definition sample_history :: "(operation \<times> env) list" where
  "sample_history = [(Transfer \<lparr> rq_tenantId = ''acme'', rq_userId = ''alice'', rq_tokenId = ''musdt'',
       rq_fromWalletId = ''wallet-1'', rq_toWalletId = ''wallet-2'', rq_amount = 5 \<rparr>, sample_env),
     (ConfirmationJob ''tx-1'' ''acme'', stormy_env), (ConfirmationJob ''tx-1'' ''acme'', sample_env),
     (OutboxRelayTick ''p1'' new_scheduler, stormy_env), (ExpirationTick ''p1'' new_scheduler, sample_env)]"

definition sample_history_calm :: "(operation \<times> env) list" where
  "sample_history_calm = [(RegisterToken ''Mini USDT'' ''MUSDT'' (Some ''0xc0ffee'') 6 EVM, sample_env)]"

text \<open>A process that is interrupted by the registration of a token by another one.\<close>

definition shared_env :: env where
  "shared_env = sample_env\<lparr>env_interfere := (\<lambda>n d. if n = 1 then history sample_platform sample_history_calm d else d)\<rparr>"

lemma shared_program_env: "program_env sample_platform shared_env"
proof (rule program_env.others)
  fix n d
  have "program_env sample_platform sample_env" by (simp add: quiet_program_env)
  then show "\<exists>h. (\<forall>x \<in> set h. program_env sample_platform (snd x)) \<and> env_interfere shared_env n d = history sample_platform h d"
    by (intro exI [of _ "if n = 1 then sample_history_calm else []"]) (simp add: sample_history_calm_def shared_env_def sample_env_def calm_def)
qed

lemma stormy_relies:
  "rely lifecycle stormy_env" "rely (kept ledger_ok) stormy_env" "rely (kept outbox_ok) stormy_env" "rely relay_order stormy_env"
  by (auto simp: rely_def stormy_env_def sample_env_def calm_def same_index_def intro!: lc.frame_elsewhere ok.frame_elsewhere
      ob.frame_elsewhere rl.frame_elsewhere)

lemma sample_relies:
  "rely lifecycle sample_env" "rely (kept ledger_ok) sample_env" "rely (kept outbox_ok) sample_env" "rely relay_order sample_env"
  by (simp_all add: rely_def sample_env_def calm_def lc.frame_refl kept.frame_refl rl.frame_refl)

lemma sample_history_relies:
  "\<forall>(op, e) \<in> set sample_history. rely lifecycle e" "\<forall>(op, e) \<in> set sample_history. rely (kept ledger_ok) e"
  "\<forall>(op, e) \<in> set sample_history. rely (kept outbox_ok) e" "\<forall>(op, e) \<in> set sample_history. rely relay_order e"
  by (simp_all add: sample_history_def stormy_relies sample_relies)

section \<open>Properties of every history\<close>

text \<open>
  C1: whatever operations run, in whatever order, with whatever failures, crashes and
  interleavings, no transaction is lost, its tenant, token, wallets, amount and creation time
  never change, its status only moves along the state machine, its hash is fixed once it has
  been submitted, and a terminal row never changes again. The other processes are only assumed
  to do the same.
\<close>

theorem history_lifecycle:
  assumes "\<forall>(op, e) \<in> set h. rely lifecycle e"
  shows "lifecycle d (history p h d)"
  using assms by (rule lcs.history_keeps)

theorem history_lifecycle_witness:
  "lifecycle (sample_store EVM [sample_tx SUBMITTED]) (history sample_platform sample_history (sample_store EVM [sample_tx SUBMITTED]))"
  by (rule history_lifecycle) (rule sample_history_relies)

text \<open>
  C2: in every ledger that grew from the empty one, transaction ids and hashes are unique and
  every row has the columns its status requires: a hash and a submission time from SUBMITTED
  on, a claim time from CONFIRMING on, block number and time when CONFIRMED, reason and time
  when FAILED or EXPIRED, and no hash while PENDING.
\<close>

theorem history_well_formed:
  assumes "\<forall>(op, e) \<in> set h. rely (kept ledger_ok) e"
  shows "ledger_ok (history p h empty_store)"
proof -
  have "ledger_ok empty_store" by (simp add: ledger_ok_def empty_store_def tx_hashes_def)
  then show ?thesis using oks.history_keeps [OF assms, of empty_store p] by (simp add: kept_def)
qed

theorem history_well_formed_witness: "ledger_ok (history sample_platform sample_history empty_store)"
  by (rule history_well_formed) (rule sample_history_relies)

text \<open>
  In every ledger that grew from the empty one, a transaction has exactly one
  \<^verbatim>\<open>transaction.confirmed\<close> event if it is CONFIRMED and none otherwise, at every moment at
  which a process can observe the store.
\<close>

theorem history_one_event:
  assumes "\<forall>(op, e) \<in> set h. rely (kept outbox_ok) e"
  shows "confirmed_events (history p h empty_store) i = (if is_confirmed (history p h empty_store) i then 1 else 0)"
proof -
  have "outbox_ok empty_store" by (simp add: outbox_ok_def empty_store_def confirmed_events_def is_confirmed_def)
  then show ?thesis using obs.history_keeps [OF assms, of empty_store p] by (simp add: kept_def outbox_ok_def)
qed

theorem history_one_event_witness:
  "confirmed_events (history sample_platform sample_history empty_store) ''tx-1'' =
     (if is_confirmed (history sample_platform sample_history empty_store) ''tx-1'' then 1 else 0)"
  by (rule history_one_event) (rule sample_history_relies)

text \<open>
  C3: the relay loses no event. From a store in which it holds, an event that is marked published
  has its job in the queue, no event and no job disappears or is altered, and a published event
  stays published, in every history.
\<close>

theorem history_relay:
  assumes "\<forall>(op, e) \<in> set h. rely relay_order e" and "relay_ok d"
  shows "relay_ok (history p h d) \<and> set (relayQueue d) \<subseteq> set (relayQueue (history p h d)) \<and>
    (\<forall>i ev. row ob_id (outbox d) i = Some ev \<longrightarrow> (\<exists>ev'. row ob_id (outbox (history p h d)) i = Some ev' \<and>
      relay_job_of ev' = relay_job_of ev \<and> (ob_published ev \<longrightarrow> ob_published ev')))"
  using rls.history_keeps [OF assms(1), of d p] assms(2) by (simp add: relay_order_def)

theorem history_relay_witness: "relay_ok (history sample_platform sample_history empty_store)"
  using history_relay [OF sample_history_relies(4), of empty_store sample_platform]
  by (simp add: relay_ok_def empty_store_def)

text \<open>
  C4: the closed system. When everything that happens to the store while an operation waits is
  itself the work of operations of this program, nothing more has to be assumed: every ledger
  that grew from the empty one is well formed, has exactly one confirmation event per CONFIRMED
  transaction, and every event marked published has its job in the queue.
\<close>

theorem closed_system:
  assumes "\<forall>(op, e) \<in> set h. program_env p e"
  shows "ledger_ok (history p h empty_store) \<and> outbox_ok (history p h empty_store) \<and> relay_ok (history p h empty_store) \<and>
    (\<forall>h'. (\<forall>(op, e) \<in> set h'. program_env p e) \<longrightarrow>
      lifecycle (history p h empty_store) (history p (h @ h') empty_store))"
proof -
  have r: "\<forall>(op, e) \<in> set h. rely (kept ledger_ok) e" "\<forall>(op, e) \<in> set h. rely (kept outbox_ok) e"
    "\<forall>(op, e) \<in> set h. rely relay_order e"
    using assms oks.program_env_rely obs.program_env_rely rls.program_env_rely by fastforce+
  have "ledger_ok empty_store" "outbox_ok empty_store" "relay_ok empty_store"
    by (simp_all add: ledger_ok_def empty_store_def tx_hashes_def outbox_ok_def confirmed_events_def is_confirmed_def relay_ok_def)
  moreover have "lifecycle (history p h empty_store) (history p (h @ h') empty_store)"
    if "\<forall>(op, e) \<in> set h'. program_env p e" for h'
  proof -
    have "\<forall>(op, e) \<in> set h'. rely lifecycle e" using that lcs.program_env_rely by fastforce
    then show ?thesis by (simp add: history_append lcs.history_keeps)
  qed
  ultimately show ?thesis
    using oks.history_keeps [OF r(1), of empty_store p] obs.history_keeps [OF r(2), of empty_store p]
      rls.history_keeps [OF r(3), of empty_store p]
    by (simp add: kept_def relay_order_def)
qed

theorem closed_system_witness:
  "ledger_ok (history sample_platform [(ConfirmationJob ''tx-1'' ''acme'', shared_env)] empty_store) \<and>
   env_interfere shared_env 1 = history sample_platform sample_history_calm"
  using closed_system [of "[(ConfirmationJob ''tx-1'' ''acme'', shared_env)]" sample_platform] shared_program_env
  by (simp add: shared_env_def)

text \<open>
  C5: the program refines the abstract ledger. Whatever operations of the program run, in whatever
  order and interleaving, the store moves through a run of the abstract ledger: every entry is
  opened PENDING with its terms, takes a hash that no other entry has when it is submitted, is
  claimed, and ends failed, expired or settled; and the confirmation events that appear for an
  entry are exactly its settlements, each announced in the step that settles it, at most one for
  each entry.
\<close>

theorem ledger_refines:
  assumes "\<forall>(op, e) \<in> set h. program_env p e" and "ledger_ok d"
  shows "\<exists>evs. spec_run (abstract_ledger d) evs (abstract_ledger (history p h d)) \<and>
    (\<forall>i. confirmed_events (history p h d) i = confirmed_events d i + count_list evs (Settled i) \<and> count_list evs (Settled i) \<le> 1)"
proof -
  have "\<forall>(op, e) \<in> set h. rely refines e" using assms(1) rfs.program_env_rely by fastforce
  from rfs.history_keeps [OF this, of d p] assms(2)
  obtain evs where run: "spec_run (abstract_ledger d) evs (abstract_ledger (history p h d))" by (auto simp: refines_def)
  have "confirmed_events (history p h d) i = confirmed_events d i + count_list evs (Settled i)" for i
    using spec_run_announced [OF run, of i] by (simp add: abstract_ledger_def)
  then show ?thesis using run spec_run_settled_once [OF run] by blast
qed

theorem ledger_refines_witness:
  "\<exists>evs. spec_run (abstract_ledger (sample_store EVM [sample_tx SUBMITTED])) evs
     (abstract_ledger (history sample_platform [(ConfirmationJob ''tx-1'' ''acme'', shared_env)] (sample_store EVM [sample_tx SUBMITTED])))"
proof -
  have "ledger_ok (sample_store EVM [sample_tx SUBMITTED])"
    by (simp add: ledger_ok_def sample_store_def sample_tx_def tx_hashes_def tx_wf_def keyed_def)
  then show ?thesis
    using ledger_refines [of "[(ConfirmationJob ''tx-1'' ''acme'', shared_env)]" sample_platform] shared_program_env
    by (fastforce simp del: history.simps)
qed

text \<open>
  C22: the index is sound in the closed system. In every history of operations of this program,
  whose listener asks a node that answers each range with all transfers of the token's contract,
  the cursor of the token never passes a transfer that is not stored, from the configured start
  block on, and no stored transfer is lost.
\<close>

theorem history_index:
  assumes "\<forall>(op, e) \<in> set h. program_env p e"
    and "loadEvmIndexerConfig (pf_vars p) = Inr config" "complete_logs (pf_logClient p) chain ca"
    and "index_ok (ic_startBlock config) chain ca i d"
  shows "(\<forall>c l. row cu_tokenId (cursors (history p h d)) i = Some c \<longrightarrow> l \<in> set chain \<longrightarrow>
      ic_startBlock config \<le> tl_blockNumber l \<longrightarrow> tl_blockNumber l \<le> cu_lastProcessedBlock c \<longrightarrow>
      cu_lastProcessedBlock c \<noteq> 0 \<longrightarrow> stored l (history p h d)) \<and>
    (\<forall>l. stored l d \<longrightarrow> stored l (history p h d))"
proof -
  have f: "ledger_frame (index_order (ic_startBlock config) chain ca i) p" using assms(2,3) by (rule index_ledger_frame)
  have "\<forall>(op, e) \<in> set h. rely (index_order (ic_startBlock config) chain ca i) e"
    using assms(1) ledger_frame.program_env_rely [OF f] by fastforce
  from ledger_frame.history_keeps [OF f this, of d] assms(4) show ?thesis
    by (simp add: index_order_def index_ok_def stored_until_def)
qed

definition indexed_store :: store where
  "indexed_store = (sample_store EVM [])\<lparr>cursors := [\<lparr> cu_tokenId = ''musdt'', cu_lastProcessedBlock = 94, cu_lastProcessedLogIndex = 0,
       cu_lastSuccessfulSync = Some 1, cu_lastFailedSync = None, cu_failureCount = 0 \<rparr>],
     transfers := [\<lparr> tr_id = ''tr-1'', tr_tokenId = ''musdt'', tr_from = ''0xaa'', tr_to = ''0xbb'', tr_amount = 5,
       tr_transactionHash = ''0xfeed'', tr_logIndex = 0, tr_blockNumber = 90, tr_createdAt = 1 \<rparr>],
     balances := [\<lparr> bs_id = ''bs-1'', bs_walletId = ''wallet-2'', bs_tokenId = ''musdt'', bs_balance = 5, bs_blockNumber = 90 \<rparr>]\<rparr>"

theorem history_index_witness:
  "stored (hd sample_chain) (history sample_platform [(IndexerCycle, sample_env), (Transfer \<lparr> rq_tenantId = ''acme'',
     rq_userId = ''alice'', rq_tokenId = ''musdt'', rq_fromWalletId = ''wallet-1'', rq_toWalletId = ''wallet-2'', rq_amount = 5 \<rparr>,
     shared_env)] indexed_store)"
proof -
  have cfg: "loadEvmIndexerConfig (pf_vars sample_platform) =
      Inr \<lparr> ic_startBlock = 0, ic_confirmations = 0, ic_maxBlockRange = 2000, ic_maxWindowsPerRun = 25 \<rparr>"
    by (simp add: sample_platform_def loadEvmIndexerConfig_def parseInteger_def DEFAULT_MAX_BLOCK_RANGE_def
        DEFAULT_MAX_WINDOWS_PER_RUN_def)
  have logs: "complete_logs (pf_logClient sample_platform) sample_chain (Some ''0xc0ffee'')"
    by (simp add: sample_platform_def complete_logs_def)
  have st: "stored (hd sample_chain) indexed_store" by (simp add: stored_def indexed_store_def sample_chain_def)
  have ok: "index_ok 0 sample_chain (Some ''0xc0ffee'') ''musdt'' indexed_store"
    by (simp add: index_ok_def indexed_store_def sample_store_def sample_token_def stored_until_def stored_def sample_chain_def)
  have "\<forall>(op, e) \<in> set [(IndexerCycle, sample_env), (Transfer rq, shared_env)]. program_env sample_platform e" for rq
    using shared_program_env quiet_program_env [of sample_env] by (simp add: sample_env_def)
  from history_index [OF this cfg logs, of "''musdt''" indexed_store] ok st show ?thesis by (simp del: history.simps)
qed

text \<open>
  C23: a balance snapshot never goes back in the closed system. Once a wallet has a snapshot for a
  token it keeps one in every later history, at the same or a higher chain position, and at the
  same position with the same balance.
\<close>

theorem history_balances:
  assumes "\<forall>(op, e) \<in> set h. program_env p e" and "snapshot d wl tk = Some (x, bn)"
  shows "\<exists>x' bn'. snapshot (history p h d) wl tk = Some (x', bn') \<and> (bn < bn' \<or> (x', bn') = (x, bn))"
proof -
  have "\<forall>(op, e) \<in> set h. rely balance_order e" using assms(1) bos.program_env_rely by fastforce
  from bos.history_keeps [OF this, of d] obtain b b' where "row bs_key (balances d) (wl, tk) = Some b"
    "row bs_key (balances (history p h d)) (wl, tk) = Some b'" "b' = b \<or> bs_blockNumber b < bs_blockNumber b'"
    using assms(2) unfolding balance_order_def snapshot_def by fastforce
  then show ?thesis using assms(2) by (auto simp: snapshot_def)
qed

theorem history_balances_witness:
  "\<exists>x bn. snapshot (history sample_platform [(IndexerCycle, shared_env)] indexed_store) ''wallet-2'' ''musdt'' = Some (x, bn) \<and>
     (90 < bn \<or> (x, bn) = (5, 90))"
  using history_balances [of "[(IndexerCycle, shared_env)]" sample_platform indexed_store "''wallet-2''" "''musdt''" 5 90] shared_program_env
  by (simp add: indexed_store_def snapshot_def bs_key_def)

text \<open>
  C29: a revocation is final in the closed system. Once \<^verbatim>\<open>revokeKey\<close> has answered, the raw key
  is refused after every later history, also while other operations run. The digests of the hash
  function are assumed to be hexadecimal.
\<close>

theorem revoked_key_rejected:
  assumes "sha256_hex (pf_crypto p)" "program_env p e" "\<forall>(op, e) \<in> set h. program_env p e" "program_env p e'"
    and "keys_ok (db w)" "row ak_id (apiKeys (db w)) i = Some k" "ak_keyHash k = hashToken (pf_crypto p) raw"
    and "revokeKey tn i e w = (Inr j, w1)" "db w2 = history p h (db w1)"
  shows "\<exists>x w3. verifyKey (pf_crypto p) raw e' w2 = (Inl x, w3)"
proof -
  note f = key_ledger_frame [OF assms(1)]
  have rely: "rely key_order e" "rely key_order e'" "\<forall>(op, e) \<in> set h. rely key_order e"
    using ledger_frame.program_env_rely [OF f] assms(2-4) by fastforce+
  let ?h = "hashToken (pf_crypto p) raw"
  have "key_revoked i ?h (db w1)"
    using revokeKey_revokes [OF assms(1) rely(1) _ assms(8), of ?h] assms(5-7) by (simp add: key_present_def)
  then have "key_revoked i ?h (db w2)"
    using ledger_frame.history_keeps [OF f rely(3), of "db w1"] stable_key_revoked unfolding stable_def assms(9) by blast
  then show ?thesis using revoked_never_verifies [OF assms(1) rely(2)] unfolding key_revoked_def by metis
qed

definition keyed_store :: store where
  "keyed_store = tenant_store\<lparr>apiKeys := [\<lparr> ak_id = ''key-1'', ak_tenantId = ''acme'', ak_keyHash = hashToken sample_crypto ''tenant_00'',
     ak_keyPrefix = ''tenant_0'', ak_name = ''ci'', ak_active = True, ak_scopes = [''*''], ak_lastUsedAt = None, ak_expiresAt = None,
     ak_createdAt = 0, ak_revokedAt = None \<rparr>]\<rparr>"

theorem revoked_key_rejected_witness:
  "\<exists>w1 x w3. revokeKey ''acme'' ''key-1'' sample_env (world_of keyed_store) = (Inr ''key-1'', w1) \<and>
     verifyKey (pf_crypto sample_platform) ''tenant_00'' sample_env (world_of (history sample_platform [(IndexerCycle, shared_env)] (db w1))) = (Inl x, w3)"
proof -
  have crypto: "pf_crypto sample_platform = sample_crypto" by (simp add: sample_platform_def)
  have env: "program_env sample_platform sample_env" by (simp add: quiet_program_env)
  have ok: "keys_ok (db (world_of keyed_store))"
    using sample_sha256 by (simp add: keys_ok_def keyed_store_def sha256_hex_def hashToken_def keyed_def)
  have "\<exists>g. \<forall>x w. audit_record x sample_env w = (Inr (), g x w)"
    by (rule exI [of _ "\<lambda>x w. snd (audit_record x sample_env w)"]) (use audit_quiet [OF quiet_sample] in \<open>metis snd_conv\<close>)
  then obtain g where g: "\<And>x w. audit_record x sample_env w = (Inr (), g x w)" by blast
  have "\<exists>w1. revokeKey ''acme'' ''key-1'' sample_env (world_of keyed_store) = (Inr ''key-1'', w1)"
    by (simp add: revokeKey_def apiKey_findByIdForTenant_def revoke_def eff_simps quiet_simps Let_def keyed_store_def g)
  then obtain w1 where w1: "revokeKey ''acme'' ''key-1'' sample_env (world_of keyed_store) = (Inr ''key-1'', w1)" by blast
  have "\<forall>(op, e) \<in> set [(IndexerCycle, shared_env)]. program_env sample_platform e" using shared_program_env by simp
  from revoked_key_rejected [OF _ env this env ok _ _ w1, where raw = "''tenant_00''"] show ?thesis
    using w1 sample_sha256 unfolding crypto by (simp add: keyed_store_def del: history.simps) 
qed

end
